(* ===== verification/Apierr.thy ===== *)
theory Apierr
  imports Prelude
begin

text \<open>
  Errors: the Go error values the services pass around and \<^verbatim>\<open>pkg/apierr\<close>, the one error
  vocabulary of both transports.

  An \<open>error\<close> is a sentinel compared by identity, an \<open>fmt.Errorf\<close> with \<open>%w\<close> around
  another error, a plain error, a PostgreSQL driver error (\<open>*pq.Error\<close>, with its SQLSTATE),
  or an \<open>*apierr.Error\<close>. A nil \<open>error\<close> is \<^const>\<open>None\<close>.
\<close>

section \<open>Codes and error values\<close>

datatype Code =
    CodeBadRequest | CodeValidation | CodeUnauthenticated | CodeForbidden | CodeNotFound
  | CodeConflict | CodeRateLimited | CodeFeatureRequired | CodeQueryRejected | CodeInternal
  | CodeUnavailable

fun Code_string :: "Code \<Rightarrow> string" where
  "Code_string CodeBadRequest = ''BAD_REQUEST''"
| "Code_string CodeValidation = ''VALIDATION_FAILED''"
| "Code_string CodeUnauthenticated = ''UNAUTHENTICATED''"
| "Code_string CodeForbidden = ''FORBIDDEN''"
| "Code_string CodeNotFound = ''NOT_FOUND''"
| "Code_string CodeConflict = ''CONFLICT''"
| "Code_string CodeRateLimited = ''RATE_LIMITED''"
| "Code_string CodeFeatureRequired = ''FEATURE_NOT_ENTITLED''"
| "Code_string CodeQueryRejected = ''QUERY_REJECTED''"
| "Code_string CodeInternal = ''INTERNAL_ERROR''"
| "Code_string CodeUnavailable = ''SERVICE_UNAVAILABLE''"

text \<open>The values of a \<open>map[string]any\<close> that the sources put in details and metadata.\<close>

datatype dval = DStr string | DInt int | DBool bool | DNull

type_synonym details = "(string \<times> dval) list"

text \<open>The error variables of the packages, compared by identity with \<open>errors.Is\<close>.\<close>

datatype sentinel =
    sql_ErrNoRows | repository_ErrNotFound | repository_ErrConflict
  | ErrInvalidCredentials | ErrEmailTaken | ErrTenantSlugTaken | ErrAccountInactive
  | ErrInvalidRefresh | ErrTenantNotFound | ErrAPIKeyNotFound | ErrAPIKeyInvalid
  | ErrCrossTenant | ErrInvalidToken | io_EOF | exports_ErrObjectNotFound

datatype goerr =
    Sentinel sentinel
  | Errorf string goerr
  | PlainErr string
  | PqErr string string
  | Api Error
and Error =
    mkError (Code: Code) (Message: string) (Status: int) (Details: details) (cause: "goerr option")

type_synonym ('s, 'a) op = "'s \<Rightarrow> (goerr + 'a) \<times> 's"

text \<open>
  Operations on a state with an error result, and the three ways the sources put them
  together: return a value, return an error, and \<open>if err != nil { return ... err }\<close>, with
  or without a change of the error on the way out.
\<close>

definition ret :: "'a \<Rightarrow> ('s, 'a) op" where
  "ret x s = (Inr x, s)"

definition fail :: "goerr \<Rightarrow> ('s, 'a) op" where
  "fail e s = (Inl e, s)"

definition bind_op :: "('s, 'a) op \<Rightarrow> ('a \<Rightarrow> ('s, 'b) op) \<Rightarrow> ('s, 'b) op" where
  "bind_op m f s = (case m s of (Inl e, s1) \<Rightarrow> (Inl e, s1) | (Inr x, s1) \<Rightarrow> f x s1)"

definition map_err :: "(goerr \<Rightarrow> goerr) \<Rightarrow> ('s, 'a) op \<Rightarrow> ('s, 'a) op" where
  "map_err g m s = (case m s of (Inl e, s1) \<Rightarrow> (Inl (g e), s1) | (Inr x, s1) \<Rightarrow> (Inr x, s1))"

definition guard_op :: "goerr option \<Rightarrow> ('s, unit) op" where
  "guard_op e = (case e of None \<Rightarrow> ret () | Some err \<Rightarrow> fail err)"

text \<open>\<open>if c { if err := m; err != nil { return err } }\<close>.\<close>

definition when_op :: "bool \<Rightarrow> ('s, unit) op \<Rightarrow> ('s, unit) op" where
  "when_op c m = (if c then m else ret ())"

text \<open>\<open>_ = m\<close>: the error is dropped.\<close>

definition ignore_err :: "('s, 'a) op \<Rightarrow> ('s, unit) op" where
  "ignore_err m s = (Inr (), snd (m s))"

lemma ret_eq [simp]: "ret x s = (r, s') \<longleftrightarrow> r = Inr x \<and> s' = s"
  by (auto simp: ret_def)

lemma fail_eq [simp]: "fail e s = (r, s') \<longleftrightarrow> r = Inl e \<and> s' = s"
  by (auto simp: fail_def)

lemma bind_op_Inr [simp]:
  "bind_op m f s = (Inr y, s') \<longleftrightarrow> (\<exists>x s1. m s = (Inr x, s1) \<and> f x s1 = (Inr y, s'))"
  by (auto simp: bind_op_def split: prod.splits sum.splits)

lemma bind_op_Inl [simp]:
  "bind_op m f s = (Inl e, s') \<longleftrightarrow>
     m s = (Inl e, s') \<or> (\<exists>x s1. m s = (Inr x, s1) \<and> f x s1 = (Inl e, s'))"
  by (auto simp: bind_op_def split: prod.splits sum.splits)

lemma map_err_Inr [simp]: "map_err g m s = (Inr x, s') \<longleftrightarrow> m s = (Inr x, s')"
  by (auto simp: map_err_def split: prod.splits sum.splits)

lemma map_err_Inl [simp]: "map_err g m s = (Inl e, s') \<longleftrightarrow> (\<exists>e'. m s = (Inl e', s') \<and> e = g e')"
  by (auto simp: map_err_def split: prod.splits sum.splits)

lemma guard_op_Inr [simp]: "guard_op e s = (Inr x, s') \<longleftrightarrow> e = None \<and> s' = s"
  by (auto simp: guard_op_def split: option.splits)

lemma guard_op_Inl [simp]: "guard_op e s = (Inl x, s') \<longleftrightarrow> e = Some x \<and> s' = s"
  by (auto simp: guard_op_def split: option.splits)

lemma when_op_Inr [simp]:
  "when_op c m s = (Inr v, s') \<longleftrightarrow> (c \<longrightarrow> m s = (Inr v, s')) \<and> (\<not> c \<longrightarrow> s' = s)"
  by (simp add: when_op_def)

lemma when_op_Inl [simp]: "when_op c m s = (Inl e, s') \<longleftrightarrow> c \<and> m s = (Inl e, s')"
  by (simp add: when_op_def)

lemma ignore_err_Inr [simp]: "ignore_err m s = (Inr v, s') \<longleftrightarrow> (\<exists>r. m s = (r, s'))"
  by (cases "m s") (auto simp: ignore_err_def)

lemma ignore_err_Inl [simp]: "ignore_err m s \<noteq> (Inl e, s')"
  by (simp add: ignore_err_def)

section \<open>Rendering, wrapping and inspection\<close>

fun sentinel_string :: "sentinel \<Rightarrow> string" where
  "sentinel_string sql_ErrNoRows = ''sql: no rows in result set''"
| "sentinel_string repository_ErrNotFound = ''repository: record not found''"
| "sentinel_string repository_ErrConflict = ''repository: unique constraint conflict''"
| "sentinel_string ErrInvalidCredentials = ''service: invalid email or password''"
| "sentinel_string ErrEmailTaken = ''service: email already registered''"
| "sentinel_string ErrTenantSlugTaken = ''service: tenant slug already taken''"
| "sentinel_string ErrAccountInactive = ''service: account is inactive''"
| "sentinel_string ErrInvalidRefresh = ''service: invalid or expired refresh token''"
| "sentinel_string ErrTenantNotFound = ''service: tenant not found''"
| "sentinel_string ErrAPIKeyNotFound = ''service: api key not found''"
| "sentinel_string ErrAPIKeyInvalid = ''service: api key invalid or revoked''"
| "sentinel_string ErrCrossTenant = ''tenancy: cross-tenant access blocked''"
| "sentinel_string ErrInvalidToken = ''jwt: invalid or expired token''"
| "sentinel_string io_EOF = ''EOF''"
| "sentinel_string exports_ErrObjectNotFound = ''exports: object not found''"

text \<open>The \<open>Error()\<close> method; the cause of an \<open>*apierr.Error\<close> is appended to its text.\<close>

fun Error_string :: "goerr \<Rightarrow> string" where
  "Error_string (Sentinel s) = sentinel_string s"
| "Error_string (Errorf msg e) = msg @ '': '' @ Error_string e"
| "Error_string (PlainErr msg) = msg"
| "Error_string (PqErr code msg) = ''pq: '' @ msg"
| "Error_string (Api (mkError c m s d (Some e))) =
     Code_string c @ '': '' @ m @ '': '' @ Error_string e"
| "Error_string (Api (mkError c m s d None)) = Code_string c @ '': '' @ m"

definition Wrap :: "Error \<Rightarrow> goerr \<Rightarrow> Error" where
  "Wrap e c = mkError (Code e) (Message e) (Status e) (Details e) (Some c)"

definition WithDetails :: "Error \<Rightarrow> details \<Rightarrow> Error" where
  "WithDetails e d = mkError (Code e) (Message e) (Status e) d (cause e)"

definition WithMessage :: "Error \<Rightarrow> string \<Rightarrow> Error" where
  "WithMessage e m = mkError (Code e) m (Status e) (Details e) (cause e)"

definition newf :: "Code \<Rightarrow> int \<Rightarrow> string \<Rightarrow> Error" where
  "newf code status msg = mkError code msg status [] None"

definition BadRequest :: "string \<Rightarrow> Error" where
  "BadRequest msg = newf CodeBadRequest 400 msg"

definition Validation :: "string \<Rightarrow> Error" where
  "Validation msg = newf CodeValidation 422 msg"

definition Unauthenticated :: "string \<Rightarrow> Error" where
  "Unauthenticated msg = newf CodeUnauthenticated 401 msg"

definition Forbidden :: "string \<Rightarrow> Error" where
  "Forbidden msg = newf CodeForbidden 403 msg"

definition NotFound :: "string \<Rightarrow> Error" where
  "NotFound msg = newf CodeNotFound 404 msg"

definition Conflict :: "string \<Rightarrow> Error" where
  "Conflict msg = newf CodeConflict 409 msg"

definition RateLimited :: "string \<Rightarrow> Error" where
  "RateLimited msg = newf CodeRateLimited 429 msg"

definition FeatureRequired :: "string \<Rightarrow> Error" where
  "FeatureRequired featureKey =
     WithDetails (mkError CodeFeatureRequired ''your plan does not include this feature'' 403 [] None)
       [(''feature'', DStr featureKey)]"

definition QueryRejected :: "string \<Rightarrow> Error" where
  "QueryRejected msg = newf CodeQueryRejected 400 msg"

definition Internal :: "string \<Rightarrow> Error" where
  "Internal msg = newf CodeInternal 500 msg"

definition Unavailable :: "string \<Rightarrow> Error" where
  "Unavailable msg = newf CodeUnavailable 503 msg"

lemmas apierr_ctors =
  newf_def BadRequest_def Validation_def Unauthenticated_def Forbidden_def NotFound_def
  Conflict_def RateLimited_def FeatureRequired_def QueryRejected_def Internal_def Unavailable_def
  Wrap_def WithDetails_def WithMessage_def

text \<open>\<open>errors.Is\<close> and \<open>errors.As\<close> along the \<open>Unwrap\<close> chain.\<close>

fun errors_Is :: "goerr \<Rightarrow> sentinel \<Rightarrow> bool" where
  "errors_Is (Sentinel s) t = (s = t)"
| "errors_Is (Errorf msg e) t = errors_Is e t"
| "errors_Is (PlainErr msg) t = False"
| "errors_Is (PqErr code msg) t = False"
| "errors_Is (Api (mkError c m s d (Some e))) t = errors_Is e t"
| "errors_Is (Api (mkError c m s d None)) t = False"

fun errors_As_Error :: "goerr \<Rightarrow> Error option" where
  "errors_As_Error (Api e) = Some e"
| "errors_As_Error (Errorf msg e) = errors_As_Error e"
| "errors_As_Error (Sentinel s) = None"
| "errors_As_Error (PlainErr msg) = None"
| "errors_As_Error (PqErr code msg) = None"

fun errors_As_pq :: "goerr \<Rightarrow> string option" where
  "errors_As_pq (PqErr code msg) = Some code"
| "errors_As_pq (Errorf msg e) = errors_As_pq e"
| "errors_As_pq (Api (mkError c m s d (Some e))) = errors_As_pq e"
| "errors_As_pq (Api (mkError c m s d None)) = None"
| "errors_As_pq (Sentinel s) = None"
| "errors_As_pq (PlainErr msg) = None"

definition From :: "goerr \<Rightarrow> Error" where
  "From err = (case errors_As_Error err of
      Some e \<Rightarrow> e
    | None \<Rightarrow> Wrap (Internal ''an unexpected error occurred'') err)"

definition StatusOf :: "goerr option \<Rightarrow> int" where
  "StatusOf err = (case err of None \<Rightarrow> 200 | Some e \<Rightarrow> Status (From e))"

text \<open>The empty code of a nil error is \<^const>\<open>None\<close>.\<close>

definition CodeOf :: "goerr option \<Rightarrow> Code option" where
  "CodeOf err = (case err of None \<Rightarrow> None | Some e \<Rightarrow> Some (Code (From e)))"

definition apierr_Is :: "goerr option \<Rightarrow> Code \<Rightarrow> bool" where
  "apierr_Is err code = (case err of None \<Rightarrow> False | Some e \<Rightarrow> Code (From e) = code)"

record Extensions_map =
  ext_code :: string
  ext_status :: int
  ext_details :: "details option"

definition Extensions :: "Error \<Rightarrow> Extensions_map" where
  "Extensions e = \<lparr>ext_code = Code_string (Code e), ext_status = Status e,
     ext_details = (if 0 < length (Details e) then Some (Details e) else None)\<rparr>"

section \<open>Lemmas\<close>

lemma Wrap_sel [simp]:
  "Code (Wrap e c) = Code e" "Message (Wrap e c) = Message e" "Status (Wrap e c) = Status e"
  "Details (Wrap e c) = Details e" "cause (Wrap e c) = Some c"
  by (simp_all add: Wrap_def)

lemma WithDetails_sel [simp]:
  "Code (WithDetails e d) = Code e" "Message (WithDetails e d) = Message e"
  "Status (WithDetails e d) = Status e" "Details (WithDetails e d) = d"
  "cause (WithDetails e d) = cause e"
  by (simp_all add: WithDetails_def)

lemma errors_Is_Api:
  "errors_Is (Api e) t = (case cause e of None \<Rightarrow> False | Some c \<Rightarrow> errors_Is c t)"
  by (cases e) (auto split: option.splits)

lemma errors_Is_newf [simp]: "\<not> errors_Is (Api (newf c s m)) t"
  by (simp add: newf_def)

lemma errors_Is_Wrap [simp]: "errors_Is (Api (Wrap e c)) t = errors_Is c t"
  by (simp add: Wrap_def)

lemma errors_As_pq_None_if_Sentinel: "errors_Is e s \<Longrightarrow> errors_As_pq e = None"
  by (induction e s rule: errors_Is.induct) auto

lemma From_Api [simp]: "From (Api e) = e"
  by (simp add: From_def)

lemma From_Sentinel [simp]:
  "From (Sentinel s) = Wrap (Internal ''an unexpected error occurred'') (Sentinel s)"
  by (simp add: From_def)

lemma From_Errorf [simp]:
  "errors_As_Error e = None \<Longrightarrow>
   From (Errorf m e) = Wrap (Internal ''an unexpected error occurred'') (Errorf m e)"
  by (simp add: From_def)

text \<open>
  Everything a caller can be shown of an error: the public part of its normal form.
\<close>

definition public_part :: "goerr \<Rightarrow> Code \<times> string \<times> int \<times> details" where
  "public_part err = (let e = From err in (Code e, Message e, Status e, Details e))"

lemma public_part_opaque:
  "errors_As_Error err = None \<Longrightarrow>
   public_part err = (CodeInternal, ''an unexpected error occurred'', 500, [])"
  by (simp add: public_part_def From_def apierr_ctors)

lemma public_part_Wrap [simp]: "public_part (Api (Wrap e c)) = public_part (Api e)"
  by (simp add: public_part_def)

end
