(* ===== verification/Models.thy ===== *)
theory Models
  imports Apierr
begin

text \<open>
  The domain entities of \<^verbatim>\<open>internal/models\<close>. A \<open>Role\<close>, a \<open>Plan\<close> and an
  \<open>ExportStatus\<close> are Go strings: a value decoded from a token or a request body need not be
  one of the constants, and \<open>Valid\<close> tells. A pointer field is an option, \<open>nil\<close> is
  \<^const>\<open>None\<close>. Field names carry a short prefix, since the structs share them.
\<close>

section \<open>Roles and plans\<close>

type_synonym Role = string

definition RoleAdmin :: Role where
  [const_defs]: "RoleAdmin = ''admin''"

definition RoleDeveloper :: Role where
  [const_defs]: "RoleDeveloper = ''developer''"

definition RoleViewer :: Role where
  [const_defs]: "RoleViewer = ''viewer''"

definition Role_Valid :: "Role \<Rightarrow> bool" where
  "Role_Valid r \<longleftrightarrow> r = RoleAdmin \<or> r = RoleDeveloper \<or> r = RoleViewer"

type_synonym Plan = string

definition PlanFree :: Plan where
  [const_defs]: "PlanFree = ''free''"

definition PlanPro :: Plan where
  [const_defs]: "PlanPro = ''pro''"

definition PlanEnterprise :: Plan where
  [const_defs]: "PlanEnterprise = ''enterprise''"

definition Plan_Valid :: "Plan \<Rightarrow> bool" where
  "Plan_Valid p \<longleftrightarrow> p = PlanFree \<or> p = PlanPro \<or> p = PlanEnterprise"

section \<open>Entities\<close>

record Tenant =
  t_ID :: string
  t_Name :: string
  t_Slug :: string
  t_Plan :: Plan
  t_IsActive :: bool
  t_CreatedAt :: time
  t_UpdatedAt :: time
  t_DeletedAt :: "time option"

record User =
  u_ID :: string
  u_TenantID :: string
  u_Email :: string
  u_PasswordHash :: string
  u_FirstName :: string
  u_LastName :: string
  u_Role :: Role
  u_IsActive :: bool
  u_LastLoginAt :: "time option"
  u_CreatedAt :: time
  u_UpdatedAt :: time
  u_DeletedAt :: "time option"

record Feature =
  f_ID :: string
  f_Key :: string
  f_Name :: string
  f_Description :: string
  f_CreatedAt :: time
  f_UpdatedAt :: time

record TenantFeature =
  tf_ID :: string
  tf_TenantID :: string
  tf_FeatureID :: string
  tf_Enabled :: bool
  tf_CreatedAt :: time
  tf_UpdatedAt :: time

record APIKey =
  k_ID :: string
  k_TenantID :: string
  k_CreatedBy :: "string option"
  k_Name :: string
  k_Prefix :: string
  k_KeyHash :: string
  k_LastFour :: string
  k_IsActive :: bool
  k_LastUsedAt :: "time option"
  k_ExpiresAt :: "time option"
  k_CreatedAt :: time
  k_UpdatedAt :: time
  k_RevokedAt :: "time option"

record RefreshToken =
  rt_ID :: string
  rt_UserID :: string
  rt_TokenHash :: string
  rt_ExpiresAt :: time
  rt_RevokedAt :: "time option"
  rt_CreatedAt :: time

record UsageLog =
  ul_ID :: string
  ul_TenantID :: "string option"
  ul_Endpoint :: string
  ul_Method :: string
  ul_StatusCode :: int
  ul_LatencyMS :: int
  ul_RequestID :: string
  ul_CreatedAt :: time

record AuditLog =
  al_ID :: string
  al_TenantID :: "string option"
  al_ActorID :: "string option"
  al_Event :: string
  al_Metadata :: details
  al_Endpoint :: string
  al_IPAddress :: string
  al_UserAgent :: string
  al_CreatedAt :: time

section \<open>Audit events\<close>

definition EventUserSignup :: string where "EventUserSignup = ''user.signup''"
definition EventUserLogin :: string where "EventUserLogin = ''user.login''"
definition EventUserLoginFailed :: string where "EventUserLoginFailed = ''user.login_failed''"
definition EventUserLogout :: string where "EventUserLogout = ''user.logout''"
definition EventTenantCreated :: string where "EventTenantCreated = ''tenant.created''"
definition EventTenantUpdated :: string where "EventTenantUpdated = ''tenant.updated''"
definition EventTenantDeleted :: string where "EventTenantDeleted = ''tenant.deleted''"
definition EventRoleChanged :: string where "EventRoleChanged = ''user.role_changed''"
definition EventAPIKeyGenerated :: string where "EventAPIKeyGenerated = ''apikey.generated''"
definition EventAPIKeyRotated :: string where "EventAPIKeyRotated = ''apikey.rotated''"
definition EventAPIKeyRevoked :: string where "EventAPIKeyRevoked = ''apikey.revoked''"
definition EventFeatureAccessDenied :: string where
  "EventFeatureAccessDenied = ''feature.access_denied''"
definition EventUnauthorizedRequest :: string where
  "EventUnauthorizedRequest = ''request.unauthorized''"
definition EventExportRequested :: string where "EventExportRequested = ''usage_export.requested''"
definition EventExportDownloaded :: string where
  "EventExportDownloaded = ''usage_export.downloaded''"
definition EventFeatureGranted :: string where "EventFeatureGranted = ''feature.granted''"
definition EventFeatureRevoked :: string where "EventFeatureRevoked = ''feature.revoked''"
definition EventCrossTenantDenied :: string where
  "EventCrossTenantDenied = ''security.cross_tenant_denied''"
definition EventGraphQLRejected :: string where
  "EventGraphQLRejected = ''graphql.query_rejected''"

section \<open>Export jobs\<close>

type_synonym ExportStatus = string

definition ExportStatusQueued :: ExportStatus where
  [const_defs]: "ExportStatusQueued = ''queued''"

definition ExportStatusProcessing :: ExportStatus where
  [const_defs]: "ExportStatusProcessing = ''processing''"

definition ExportStatusCompleted :: ExportStatus where
  [const_defs]: "ExportStatusCompleted = ''completed''"

definition ExportStatusFailed :: ExportStatus where
  [const_defs]: "ExportStatusFailed = ''failed''"

definition ExportStatus_Valid :: "ExportStatus \<Rightarrow> bool" where
  "ExportStatus_Valid s \<longleftrightarrow>
     s = ExportStatusQueued \<or> s = ExportStatusProcessing \<or> s = ExportStatusCompleted
     \<or> s = ExportStatusFailed"

definition ExportStatus_Terminal :: "ExportStatus \<Rightarrow> bool" where
  "ExportStatus_Terminal s \<longleftrightarrow> s = ExportStatusCompleted \<or> s = ExportStatusFailed"

record ExportJob =
  j_ID :: string
  j_TenantID :: string
  j_RequestedBy :: "string option"
  j_Status :: ExportStatus
  j_Endpoint :: string
  j_Method :: string
  j_From :: "time option"
  j_To :: "time option"
  j_ObjectKey :: string
  j_RowCount :: int
  j_SizeBytes :: int
  j_Attempts :: int
  j_Error :: string
  j_StartedAt :: "time option"
  j_FinishedAt :: "time option"
  j_CreatedAt :: time
  j_UpdatedAt :: time

lemma Role_distinct [simp]:
  "RoleAdmin \<noteq> RoleDeveloper" "RoleAdmin \<noteq> RoleViewer" "RoleDeveloper \<noteq> RoleViewer"
  "RoleDeveloper \<noteq> RoleAdmin" "RoleViewer \<noteq> RoleAdmin" "RoleViewer \<noteq> RoleDeveloper"
  by (simp_all add: const_defs)

lemma Role_Valid_consts [simp]:
  "Role_Valid RoleAdmin" "Role_Valid RoleDeveloper" "Role_Valid RoleViewer" "\<not> Role_Valid []"
  by (simp_all add: Role_Valid_def const_defs)

lemma Plan_Valid_consts [simp]:
  "Plan_Valid PlanFree" "Plan_Valid PlanPro" "Plan_Valid PlanEnterprise" "\<not> Plan_Valid []"
  by (simp_all add: Plan_Valid_def const_defs)

lemma ExportStatus_distinct [simp]:
  "ExportStatusQueued \<noteq> ExportStatusProcessing" "ExportStatusQueued \<noteq> ExportStatusCompleted"
  "ExportStatusQueued \<noteq> ExportStatusFailed" "ExportStatusProcessing \<noteq> ExportStatusQueued"
  "ExportStatusProcessing \<noteq> ExportStatusCompleted" "ExportStatusProcessing \<noteq> ExportStatusFailed"
  "ExportStatusCompleted \<noteq> ExportStatusQueued" "ExportStatusCompleted \<noteq> ExportStatusProcessing"
  "ExportStatusCompleted \<noteq> ExportStatusFailed" "ExportStatusFailed \<noteq> ExportStatusQueued"
  "ExportStatusFailed \<noteq> ExportStatusProcessing" "ExportStatusFailed \<noteq> ExportStatusCompleted"
  by (simp_all add: const_defs)

end
