(* ===== verification/Http.thy ===== *)
theory Http
  imports Models
begin

text \<open>
  The HTTP vocabulary: JSON values and the JSON views of the entities (the \<open>json\<close> tags of
  \<^verbatim>\<open>internal/models\<close>), requests, the response writer, \<^verbatim>\<open>pkg/response\<close>, and the request
  helpers of \<^verbatim>\<open>internal/handler/helpers.go\<close>.

  A request body is the sequence of JSON values its bytes hold, and the decoder's complaint about
  what follows them, if any; the bytes themselves are the JSON package's business. The writer
  keeps the headers, the status of the first \<open>WriteHeader\<close>, and what was written.
\<close>

section \<open>JSON\<close>

datatype json =
    JNull | JBool bool | JNum int | JFrac int nat | JStr string | JTime time
  | JArr "json list" | JObj "(string \<times> json) list"

fun dval_json :: "dval \<Rightarrow> json" where
  "dval_json (DStr s) = JStr s"
| "dval_json (DInt n) = JNum n"
| "dval_json (DBool b) = JBool b"
| "dval_json DNull = JNull"

definition details_json :: "details \<Rightarrow> json" where
  "details_json d = JObj (map (\<lambda>(k, v). (k, dval_json v)) d)"

text \<open>\<open>omitempty\<close>.\<close>

definition opt_field :: "string \<Rightarrow> ('a \<Rightarrow> json) \<Rightarrow> 'a option \<Rightarrow> (string \<times> json) list" where
  "opt_field k f x = (case x of None \<Rightarrow> [] | Some v \<Rightarrow> [(k, f v)])"

definition str_field :: "string \<Rightarrow> string \<Rightarrow> (string \<times> json) list" where
  "str_field k s = (if s = '''' then [] else [(k, JStr s)])"

definition Tenant_json :: "Tenant \<Rightarrow> json" where
  "Tenant_json t = JObj ([(''id'', JStr (t_ID t)), (''name'', JStr (t_Name t)),
     (''slug'', JStr (t_Slug t)), (''plan'', JStr (t_Plan t)), (''is_active'', JBool (t_IsActive t)),
     (''created_at'', JTime (t_CreatedAt t)), (''updated_at'', JTime (t_UpdatedAt t))]
     @ opt_field ''deleted_at'' JTime (t_DeletedAt t))"

definition User_json :: "User \<Rightarrow> json" where
  "User_json u = JObj ([(''id'', JStr (u_ID u)), (''tenant_id'', JStr (u_TenantID u)),
     (''email'', JStr (u_Email u)), (''first_name'', JStr (u_FirstName u)),
     (''last_name'', JStr (u_LastName u)), (''role'', JStr (u_Role u)),
     (''is_active'', JBool (u_IsActive u))]
     @ opt_field ''last_login_at'' JTime (u_LastLoginAt u)
     @ [(''created_at'', JTime (u_CreatedAt u)), (''updated_at'', JTime (u_UpdatedAt u))]
     @ opt_field ''deleted_at'' JTime (u_DeletedAt u))"

definition Feature_json :: "Feature \<Rightarrow> json" where
  "Feature_json f = JObj [(''id'', JStr (f_ID f)), (''key'', JStr (f_Key f)),
     (''name'', JStr (f_Name f)), (''description'', JStr (f_Description f)),
     (''created_at'', JTime (f_CreatedAt f)), (''updated_at'', JTime (f_UpdatedAt f))]"

definition APIKey_json :: "APIKey \<Rightarrow> json" where
  "APIKey_json k = JObj ([(''id'', JStr (k_ID k)), (''tenant_id'', JStr (k_TenantID k))]
     @ opt_field ''created_by'' JStr (k_CreatedBy k)
     @ [(''name'', JStr (k_Name k)), (''prefix'', JStr (k_Prefix k)),
        (''last_four'', JStr (k_LastFour k)), (''is_active'', JBool (k_IsActive k))]
     @ opt_field ''last_used_at'' JTime (k_LastUsedAt k)
     @ opt_field ''expires_at'' JTime (k_ExpiresAt k)
     @ [(''created_at'', JTime (k_CreatedAt k)), (''updated_at'', JTime (k_UpdatedAt k))]
     @ opt_field ''revoked_at'' JTime (k_RevokedAt k))"

definition UsageLog_json :: "UsageLog \<Rightarrow> json" where
  "UsageLog_json u = JObj ([(''id'', JStr (ul_ID u))]
     @ opt_field ''tenant_id'' JStr (ul_TenantID u)
     @ [(''endpoint'', JStr (ul_Endpoint u)), (''method'', JStr (ul_Method u)),
        (''status_code'', JNum (ul_StatusCode u)), (''latency_ms'', JNum (ul_LatencyMS u)),
        (''request_id'', JStr (ul_RequestID u)), (''created_at'', JTime (ul_CreatedAt u))])"

definition AuditLog_json :: "AuditLog \<Rightarrow> json" where
  "AuditLog_json a = JObj ([(''id'', JStr (al_ID a))]
     @ opt_field ''tenant_id'' JStr (al_TenantID a)
     @ opt_field ''actor_id'' JStr (al_ActorID a)
     @ [(''event'', JStr (al_Event a)), (''metadata'', details_json (al_Metadata a)),
        (''endpoint'', JStr (al_Endpoint a)), (''ip_address'', JStr (al_IPAddress a)),
        (''user_agent'', JStr (al_UserAgent a)), (''created_at'', JTime (al_CreatedAt a))])"

definition ExportJob_json :: "ExportJob \<Rightarrow> json" where
  "ExportJob_json j = JObj ([(''id'', JStr (j_ID j)), (''tenant_id'', JStr (j_TenantID j))]
     @ opt_field ''requested_by'' JStr (j_RequestedBy j)
     @ [(''status'', JStr (j_Status j))]
     @ str_field ''endpoint'' (j_Endpoint j) @ str_field ''method'' (j_Method j)
     @ opt_field ''from'' JTime (j_From j) @ opt_field ''to'' JTime (j_To j)
     @ str_field ''object_key'' (j_ObjectKey j)
     @ [(''row_count'', JNum (j_RowCount j)), (''size_bytes'', JNum (j_SizeBytes j)),
        (''attempts'', JNum (j_Attempts j))]
     @ str_field ''error'' (j_Error j)
     @ opt_field ''started_at'' JTime (j_StartedAt j)
     @ opt_field ''finished_at'' JTime (j_FinishedAt j)
     @ [(''created_at'', JTime (j_CreatedAt j)), (''updated_at'', JTime (j_UpdatedAt j))])"

section \<open>Requests and the response writer\<close>

record AuthContext =
  ac_UserID :: string
  ac_TenantID :: string
  ac_Role :: Role
  ac_TenantPlan :: Plan
  ac_AuthMethod :: string
  ac_APIKeyID :: string

text \<open>
  \<open>r_Header\<close>, \<open>r_Query\<close> and \<open>r_PathValue\<close> are the \<open>Get\<close> methods: absent is the empty string.
  The last three fields are the values of the request's context.
\<close>

record Request =
  r_Method :: string
  r_Path :: string
  r_Header :: "string \<Rightarrow> string"
  r_Query :: "string \<Rightarrow> string"
  r_PathValue :: "string \<Rightarrow> string"
  r_RemoteAddr :: string
  r_ContentLength :: int
  r_Body :: "json list \<times> string option"
  r_Auth :: "AuthContext option"
  r_RequestID :: string
  r_Platform :: bool

definition UserAgent :: "Request \<Rightarrow> string" where
  "UserAgent r = r_Header r ''User-Agent''"

record ErrorBody =
  eb_Code :: Code
  eb_Message :: string
  eb_Details :: "json option"

record Envelope =
  ev_Success :: bool
  ev_Message :: string
  ev_Data :: "json option"
  ev_Error :: "ErrorBody option"
  ev_RequestID :: string

datatype body = BEnvelope Envelope | BJson json | BRaw string

record RW =
  rw_Header :: "(string \<times> string) list"
  rw_Status :: "int option"
  rw_Body :: "body list"

definition Set_header :: "string \<Rightarrow> string \<Rightarrow> RW \<Rightarrow> RW" where
  "Set_header k v rw = rw\<lparr>rw_Header := (k, v) # filter (\<lambda>p. fst p \<noteq> k) (rw_Header rw)\<rparr>"

definition Add_header :: "string \<Rightarrow> string \<Rightarrow> RW \<Rightarrow> RW" where
  "Add_header k v rw = rw\<lparr>rw_Header := rw_Header rw @ [(k, v)]\<rparr>"

definition WriteHeader :: "int \<Rightarrow> RW \<Rightarrow> RW" where
  "WriteHeader status rw =
     (case rw_Status rw of None \<Rightarrow> rw\<lparr>rw_Status := Some status\<rparr> | Some s \<Rightarrow> rw)"

definition Write :: "body \<Rightarrow> RW \<Rightarrow> RW" where
  "Write b rw = (WriteHeader 200 rw)\<lparr>rw_Body := rw_Body rw @ [b]\<rparr>"

section \<open>The response package\<close>

record Meta =
  m_Page :: int
  m_PageSize :: int
  m_TotalCount :: int
  m_TotalPages :: int
  m_HasNext :: bool

text \<open>The page count; Go's division agrees with \<open>div\<close> on the counts of a table.\<close>

definition page_count :: "int \<Rightarrow> int \<Rightarrow> int" where
  "page_count n pageSize =
     (if 0 < pageSize
      then n div pageSize + (if n mod pageSize \<noteq> 0 then 1 else 0) else 0)"

definition NewMeta :: "int \<Rightarrow> int \<Rightarrow> int \<Rightarrow> Meta" where
  "NewMeta page pageSize totalCount =
     (let pages = page_count totalCount pageSize
      in \<lparr>m_Page = page, m_PageSize = pageSize, m_TotalCount = totalCount, m_TotalPages = pages,
          m_HasNext = (page < pages)\<rparr>)"

definition ListResponse :: "json list \<Rightarrow> Meta \<Rightarrow> json" where
  "ListResponse items m = JObj [(''items'', JArr items), (''meta'', JObj [
     (''page'', JNum (m_Page m)), (''page_size'', JNum (m_PageSize m)),
     (''total_count'', JNum (m_TotalCount m)), (''total_pages'', JNum (m_TotalPages m)),
     (''has_next'', JBool (m_HasNext m))])]"

definition write_envelope :: "int \<Rightarrow> Envelope \<Rightarrow> RW \<Rightarrow> RW" where
  "write_envelope status env rw =
     Write (BEnvelope env)
       (WriteHeader status
         (Set_header ''X-Content-Type-Options'' ''nosniff''
           (Set_header ''Content-Type'' ''application/json; charset=utf-8'' rw)))"

definition response_JSON :: "Request \<Rightarrow> int \<Rightarrow> string \<Rightarrow> json option \<Rightarrow> RW \<Rightarrow> RW" where
  "response_JSON r status message data =
     write_envelope status \<lparr>ev_Success = True, ev_Message = message, ev_Data = data,
       ev_Error = None, ev_RequestID = r_RequestID r\<rparr>"

definition response_plain :: "int \<Rightarrow> string \<Rightarrow> json option \<Rightarrow> RW \<Rightarrow> RW" where
  "response_plain status message data =
     write_envelope status \<lparr>ev_Success = True, ev_Message = message, ev_Data = data,
       ev_Error = None, ev_RequestID = ''''\<rparr>"

definition response_OK :: "string \<Rightarrow> json option \<Rightarrow> RW \<Rightarrow> RW" where
  "response_OK = response_plain 200"

definition response_OKWithRequest :: "Request \<Rightarrow> string \<Rightarrow> json option \<Rightarrow> RW \<Rightarrow> RW" where
  "response_OKWithRequest r = response_JSON r 200"

definition response_Created :: "string \<Rightarrow> json option \<Rightarrow> RW \<Rightarrow> RW" where
  "response_Created = response_plain 201"

definition response_Accepted :: "string \<Rightarrow> json option \<Rightarrow> RW \<Rightarrow> RW" where
  "response_Accepted = response_plain 202"

text \<open>
  \<open>Details\<close> is an interface field: a nil map in it is not a nil interface, so it is rendered, as
  \<open>null\<close>.
\<close>

definition response_Fail :: "Request \<Rightarrow> goerr \<Rightarrow> RW \<Rightarrow> RW" where
  "response_Fail r err =
     (let e = From err in
      write_envelope (Status e) \<lparr>ev_Success = False, ev_Message = Message e, ev_Data = None,
        ev_Error = Some \<lparr>eb_Code = Code e, eb_Message = Message e,
          eb_Details = Some (if Details e = [] then JNull else details_json (Details e))\<rparr>,
        ev_RequestID = r_RequestID r\<rparr>)"

definition codeForStatus :: "int \<Rightarrow> Code" where
  "codeForStatus status =
     (if status = 400 then CodeBadRequest
      else if status = 401 then CodeUnauthenticated
      else if status = 403 then CodeForbidden
      else if status = 404 then CodeNotFound
      else if status = 409 then CodeConflict
      else if status = 422 then CodeValidation
      else if status = 429 then CodeRateLimited
      else if status = 503 then CodeUnavailable
      else if 500 \<le> status then CodeInternal else CodeBadRequest)"

definition response_Err :: "int \<Rightarrow> string \<Rightarrow> json option \<Rightarrow> RW \<Rightarrow> RW" where
  "response_Err status message details =
     write_envelope status \<lparr>ev_Success = False, ev_Message = message, ev_Data = None,
       ev_Error = Some \<lparr>eb_Code = codeForStatus status, eb_Message = message,
         eb_Details = details\<rparr>, ev_RequestID = ''''\<rparr>"

definition response_BadRequest :: "string \<Rightarrow> json option \<Rightarrow> RW \<Rightarrow> RW" where
  "response_BadRequest = response_Err 400"

definition response_Unauthorized :: "string \<Rightarrow> RW \<Rightarrow> RW" where
  "response_Unauthorized message = response_Err 401 message None"

definition response_Forbidden :: "string \<Rightarrow> RW \<Rightarrow> RW" where
  "response_Forbidden message = response_Err 403 message None"

definition response_NotFound :: "string \<Rightarrow> RW \<Rightarrow> RW" where
  "response_NotFound message = response_Err 404 message None"

definition response_Conflict :: "string \<Rightarrow> RW \<Rightarrow> RW" where
  "response_Conflict message = response_Err 409 message None"

definition response_TooManyRequests :: "string \<Rightarrow> RW \<Rightarrow> RW" where
  "response_TooManyRequests message = response_Err 429 message None"

definition response_InternalError :: "string \<Rightarrow> RW \<Rightarrow> RW" where
  "response_InternalError message = response_Err 500 message None"

section \<open>Reading requests\<close>

record pagination =
  defaultPageSize :: int
  maxPageSize :: int

definition ConfigurePagination :: "int \<Rightarrow> int \<Rightarrow> pagination \<Rightarrow> pagination" where
  "ConfigurePagination defaultSize maxSize p =
     (let p1 = (if 0 < defaultSize then p\<lparr>defaultPageSize := defaultSize\<rparr> else p);
          p2 = (if 0 < maxSize then p1\<lparr>maxPageSize := maxSize\<rparr> else p1)
      in if maxPageSize p2 < defaultPageSize p2 then p2\<lparr>defaultPageSize := maxPageSize p2\<rparr> else p2)"

definition initial_pagination :: pagination where
  "initial_pagination = \<lparr>defaultPageSize = 20, maxPageSize = 100\<rparr>"

definition positive_or :: "string \<Rightarrow> int \<Rightarrow> int" where
  "positive_or v d =
     (if v = '''' then d
      else case Atoi v of None \<Rightarrow> d | Some n \<Rightarrow> if 0 < n then n else d)"

definition paginationParams :: "pagination \<Rightarrow> Request \<Rightarrow> int \<times> int" where
  "paginationParams p r =
     (let page = positive_or (r_Query r ''page'') 1;
          sizeRaw = (if r_Query r ''page_size'' = '''' then r_Query r ''pageSize''
                     else r_Query r ''page_size'');
          pageSize = positive_or sizeRaw (defaultPageSize p)
      in (page, if maxPageSize p < pageSize then maxPageSize p else pageSize))"

definition totalPages :: "int \<Rightarrow> int \<Rightarrow> int" where
  "totalPages n pageSize = page_count n pageSize"

definition strPtrOrNil :: "string \<Rightarrow> string option" where
  "strPtrOrNil s = (if s = '''' then None else Some s)"

text \<open>
  A struct's decoder: for each field its setter, which refuses a value of the wrong type; a field
  name is matched in any case, an unknown one is an error, and the first error of all is reported
  once every field has been visited.
\<close>

type_synonym 'a setters = "(string \<times> (json \<Rightarrow> 'a \<Rightarrow> 'a option)) list"

definition decode_field :: "'a setters \<Rightarrow> string \<times> json \<Rightarrow> goerr option \<times> 'a \<Rightarrow> goerr option \<times> 'a"
where
  "decode_field fs kv st =
     (case find (\<lambda>f. ToLower (fst f) = ToLower (fst kv)) fs of
        None \<Rightarrow> (case fst st of None \<Rightarrow> Some (PlainErr (''json: unknown field '' @ dquote (fst kv)))
                | Some e \<Rightarrow> Some e, snd st)
      | Some f \<Rightarrow>
          (case snd f (snd kv) (snd st) of
             None \<Rightarrow> (case fst st of
                 None \<Rightarrow> Some (PlainErr (''json: cannot unmarshal into Go struct field '' @ fst f))
               | Some e \<Rightarrow> Some e, snd st)
           | Some d \<Rightarrow> (fst st, d)))"

fun decode_struct :: "'a setters \<Rightarrow> json \<Rightarrow> 'a \<Rightarrow> goerr option \<times> 'a" where
  "decode_struct fs (JObj kvs) dst = fold (decode_field fs) kvs (None, dst)"
| "decode_struct fs JNull dst = (None, dst)"
| "decode_struct fs v dst = (Some (PlainErr ''json: cannot unmarshal into Go value''), dst)"

text \<open>The decoder as it comes: it ignores the fields it does not know.\<close>

definition decode_known :: "'a setters \<Rightarrow> string \<times> json \<Rightarrow> goerr option \<times> 'a \<Rightarrow> goerr option \<times> 'a" where
  "decode_known fs kv st =
     (if find (\<lambda>f. ToLower (fst f) = ToLower (fst kv)) fs = None then st else decode_field fs kv st)"

definition decode_plain :: "'a setters \<Rightarrow> json \<Rightarrow> 'a \<Rightarrow> goerr option \<times> 'a" where
  "decode_plain fs v dst = (case v of
      JObj kvs \<Rightarrow> fold (decode_known fs) kvs (None, dst)
    | JNull \<Rightarrow> (None, dst)
    | _ \<Rightarrow> (Some (PlainErr ''json: cannot unmarshal into Go value''), dst))"

definition decodeJSON :: "'a setters \<Rightarrow> Request \<Rightarrow> 'a \<Rightarrow> goerr option \<times> 'a" where
  "decodeJSON fs r dst =
     (case r_Body r of
        ([], None) \<Rightarrow> (Some (Sentinel io_EOF), dst)
      | ([], Some msg) \<Rightarrow> (Some (PlainErr msg), dst)
      | (v # rest, tail) \<Rightarrow>
          (case decode_struct fs v dst of
             (Some e, d) \<Rightarrow> (Some e, d)
           | (None, d) \<Rightarrow>
               (if rest = [] \<and> tail = None then (None, d)
                else (Some (PlainErr ''request body must contain exactly one JSON object''), d))))"

definition decodeOptionalJSON :: "'a setters \<Rightarrow> Request \<Rightarrow> 'a \<Rightarrow> goerr option \<times> 'a" where
  "decodeOptionalJSON fs r dst =
     (if r_ContentLength r = 0 then (None, dst)
      else case decodeJSON fs r dst of
          (None, d) \<Rightarrow> (None, d)
        | (Some e, d) \<Rightarrow> (if errors_Is e io_EOF then (None, d) else (Some e, d)))"

definition badBody :: "goerr \<Rightarrow> goerr" where
  "badBody err =
     Api (WithDetails (BadRequest ''the request body could not be parsed'')
            [(''reason'', DStr (Error_string err))])"

text \<open>Setters for the field types the request structs have.\<close>

definition set_string :: "(string \<Rightarrow> 'a \<Rightarrow> 'a) \<Rightarrow> json \<Rightarrow> 'a \<Rightarrow> 'a option" where
  "set_string upd v d = (case v of JStr s \<Rightarrow> Some (upd s d) | JNull \<Rightarrow> Some d | _ \<Rightarrow> None)"

definition set_string_ptr :: "(string option \<Rightarrow> 'a \<Rightarrow> 'a) \<Rightarrow> json \<Rightarrow> 'a \<Rightarrow> 'a option" where
  "set_string_ptr upd v d =
     (case v of JStr s \<Rightarrow> Some (upd (Some s) d) | JNull \<Rightarrow> Some (upd None d) | _ \<Rightarrow> None)"

definition set_bool :: "(bool \<Rightarrow> 'a \<Rightarrow> 'a) \<Rightarrow> json \<Rightarrow> 'a \<Rightarrow> 'a option" where
  "set_bool upd v d = (case v of JBool b \<Rightarrow> Some (upd b d) | JNull \<Rightarrow> Some d | _ \<Rightarrow> None)"

definition set_bool_ptr :: "(bool option \<Rightarrow> 'a \<Rightarrow> 'a) \<Rightarrow> json \<Rightarrow> 'a \<Rightarrow> 'a option" where
  "set_bool_ptr upd v d =
     (case v of JBool b \<Rightarrow> Some (upd (Some b) d) | JNull \<Rightarrow> Some (upd None d) | _ \<Rightarrow> None)"

section \<open>Timestamps\<close>

text \<open>
  \<open>time.Parse(time.RFC3339, s)\<close>: date, time, an optional fraction of a second, and \<open>Z\<close> or an
  offset; the fields in range, the day one of the month. The result counts nanoseconds from 1970.
\<close>

definition take_num :: "nat \<Rightarrow> string \<Rightarrow> (int \<times> string) option" where
  "take_num n s =
     (if n \<le> length s \<and> list_all is_digit (take n s)
      then Some (int (digits_value (take n s)), drop n s) else None)"

definition take_char :: "char \<Rightarrow> string \<Rightarrow> string option" where
  "take_char c s = (case s of [] \<Rightarrow> None | x # xs \<Rightarrow> if x = c then Some xs else None)"

definition leap :: "int \<Rightarrow> bool" where
  "leap y \<longleftrightarrow> y mod 4 = 0 \<and> (y mod 100 \<noteq> 0 \<or> y mod 400 = 0)"

definition days_in_month :: "int \<Rightarrow> int \<Rightarrow> int" where
  "days_in_month y m =
     (if m = 2 then (if leap y then 29 else 28) else if m \<in> {4, 6, 9, 11} then 30 else 31)"

definition days_from_civil :: "int \<Rightarrow> int \<Rightarrow> int \<Rightarrow> int" where
  "days_from_civil y m d =
     (let y1 = (if m \<le> 2 then y - 1 else y);
          doy = (153 * (if 2 < m then m - 3 else m + 9) + 2) div 5 + d - 1
      in (y1 div 400) * 146097
         + ((y1 mod 400) * 365 + (y1 mod 400) div 4 - (y1 mod 400) div 100 + doy) - 719468)"

definition parse_date :: "string \<Rightarrow> (int \<times> string) option" where
  "parse_date s =
     Option.bind (take_num 4 s) (\<lambda>(y, s). Option.bind (take_char CHR ''-'' s) (\<lambda>s.
     Option.bind (take_num 2 s) (\<lambda>(m, s). Option.bind (take_char CHR ''-'' s) (\<lambda>s.
     Option.bind (take_num 2 s) (\<lambda>(d, s).
       if 1 \<le> m \<and> m \<le> 12 \<and> 1 \<le> d \<and> d \<le> days_in_month y m
       then Some (days_from_civil y m d, s) else None)))))"

definition parse_clock :: "string \<Rightarrow> (int \<times> string) option" where
  "parse_clock s =
     Option.bind (take_num 2 s) (\<lambda>(h, s). Option.bind (take_char CHR '':'' s) (\<lambda>s.
     Option.bind (take_num 2 s) (\<lambda>(m, s). Option.bind (take_char CHR '':'' s) (\<lambda>s.
     Option.bind (take_num 2 s) (\<lambda>(sec, s).
       if h < 24 \<and> m < 60 \<and> sec < 60 then Some (h * 3600 + m * 60 + sec, s) else None)))))"

text \<open>The fraction, to nanoseconds; further digits are dropped.\<close>

definition parse_fraction :: "string \<Rightarrow> int \<times> string" where
  "parse_fraction s =
     (case s of
        c # ds \<Rightarrow>
          (let digs = takeWhile is_digit ds in
           if c = CHR ''.'' \<and> digs \<noteq> []
           then (int (digits_value (take 9 (digs @ replicate 9 CHR ''0''))), dropWhile is_digit ds)
           else (0, s))
      | [] \<Rightarrow> (0, s))"

definition parse_zone :: "string \<Rightarrow> int option" where
  "parse_zone s =
     (case s of
        [] \<Rightarrow> None
      | c # cs \<Rightarrow>
          if c = CHR ''Z'' then (if cs = [] then Some 0 else None)
          else if c = CHR ''+'' \<or> c = CHR ''-'' then
            Option.bind (take_num 2 cs) (\<lambda>(h, cs). Option.bind (take_char CHR '':'' cs) (\<lambda>cs.
            Option.bind (take_num 2 cs) (\<lambda>(m, cs).
              if h \<le> 24 \<and> m < 60 \<and> cs = []
              then Some ((if c = CHR ''-'' then - 1 else 1) * (h * 3600 + m * 60)) else None)))
          else None)"

definition parse_RFC3339 :: "string \<Rightarrow> time option" where
  "parse_RFC3339 s =
     Option.bind (parse_date s) (\<lambda>(days, s). Option.bind (take_char CHR ''T'' s) (\<lambda>s.
     Option.bind (parse_clock s) (\<lambda>(secs, s).
       case parse_fraction s of (ns, s) \<Rightarrow>
         map_option (\<lambda>off. (days * 86400 + secs - off) * second + ns) (parse_zone s))))"

definition bad_timestamp :: "string \<Rightarrow> string" where
  "bad_timestamp key = key @ '' must be an RFC3339 timestamp, e.g. 2026-01-31T00:00:00Z''"

definition parseTimeParam :: "Request \<Rightarrow> string \<Rightarrow> goerr + time option" where
  "parseTimeParam r key =
     (let v = TrimSpace (r_Query r key) in
      if v = '''' then Inr None
      else case parse_RFC3339 v of
          None \<Rightarrow> Inl (Api (BadRequest (bad_timestamp key)))
        | Some t \<Rightarrow> Inr (Some t))"

definition timeWindow :: "Request \<Rightarrow> goerr + (time option \<times> time option)" where
  "timeWindow r =
     (case parseTimeParam r ''from'' of
        Inl e \<Rightarrow> Inl e
      | Inr from \<Rightarrow>
          (case parseTimeParam r ''to'' of
             Inl e \<Rightarrow> Inl e
           | Inr to \<Rightarrow>
               (case (from, to) of
                  (Some a, Some b) \<Rightarrow>
                    (if b < a
                     then Inl (Api (BadRequest
                            (squote ''to'' @ '' must not be earlier than '' @ squote ''from'')))
                     else Inr (from, to))
                | _ \<Rightarrow> Inr (from, to))))"

definition parseRFC3339Field :: "string \<Rightarrow> string \<Rightarrow> goerr + time option" where
  "parseRFC3339Field name raw =
     (let v = TrimSpace raw in
      if v = '''' then Inr None
      else case parse_RFC3339 v of
          None \<Rightarrow> Inl (Api (Validation (bad_timestamp name)))
        | Some t \<Rightarrow> Inr (Some t))"

section \<open>Lemmas\<close>

lemma Set_header_status [simp]:
  "rw_Status (Set_header k v rw) = rw_Status rw" "rw_Body (Set_header k v rw) = rw_Body rw"
  by (simp_all add: Set_header_def)

lemma WriteHeader_status [simp]:
  "rw_Status (WriteHeader s rw) = (case rw_Status rw of None \<Rightarrow> Some s | Some t \<Rightarrow> Some t)"
  "rw_Body (WriteHeader s rw) = rw_Body rw"
  by (auto simp: WriteHeader_def split: option.splits)

lemma Write_status [simp]:
  "rw_Status (Write b rw) = (case rw_Status rw of None \<Rightarrow> Some 200 | Some t \<Rightarrow> Some t)"
  "rw_Body (Write b rw) = rw_Body rw @ [b]"
  by (simp_all add: Write_def)

lemma write_envelope_status [simp]:
  "rw_Status (write_envelope s e rw) = (case rw_Status rw of None \<Rightarrow> Some s | Some t \<Rightarrow> Some t)"
  "rw_Body (write_envelope s e rw) = rw_Body rw @ [BEnvelope e]"
  by (auto simp: write_envelope_def split: option.splits)

lemma paginationParams_bounds:
  assumes "0 < defaultPageSize p" "defaultPageSize p \<le> maxPageSize p"
  shows "1 \<le> fst (paginationParams p r)" "1 \<le> snd (paginationParams p r)"
    "snd (paginationParams p r) \<le> maxPageSize p"
  using assms by (auto simp: paginationParams_def positive_or_def Let_def split: option.splits)

lemma ConfigurePagination_ok:
  assumes "0 < defaultPageSize p" "0 < maxPageSize p"
  shows "0 < defaultPageSize (ConfigurePagination d m p)"
    "defaultPageSize (ConfigurePagination d m p) \<le> maxPageSize (ConfigurePagination d m p)"
  using assms by (auto simp: ConfigurePagination_def Let_def)

lemma page_count_ceiling:
  assumes "0 < k" "0 \<le> n"
  shows "n \<le> page_count n k * k" "page_count n k * k < n + k"
proof -
  define q r where "q = k * (n div k)" and "r = n mod k"
  have n: "q + r = n" unfolding q_def r_def by (rule mult_div_mod_eq)
  have m: "0 \<le> r" "r < k" using assms by (simp_all add: r_def)
  have pc: "page_count n k * k = q + (if r \<noteq> 0 then k else 0)"
    using assms by (simp add: page_count_def q_def r_def algebra_simps)
  show "n \<le> page_count n k * k" "page_count n k * k < n + k"
    unfolding pc using n m by auto
qed

end
