(* ===== verification/Crypto.thy ===== *)
theory Crypto
  imports Prelude "HOL-Library.Word"
begin

text \<open>
  The parts of Go's standard library behind the program's secrets: \<open>crypto/sha256\<close> (FIPS 180-4)
  on 32-bit words, \<open>crypto/hmac\<close>, \<open>encoding/hex\<close> and \<open>encoding/base32\<close>, and
  \<^verbatim>\<open>pkg/utils\<close> on top of them. \<open>bcrypt\<close> is a third-party package and a parameter
  (\<open>bcrypt_lib\<close>).
\<close>

unbundle bit_operations_syntax

section \<open>SHA-256\<close>

type_synonym word32 = "32 word"

definition sha_K :: "word32 list" where
  "sha_K = [
   1116352408, 1899447441, 3049323471, 3921009573,
   961987163, 1508970993, 2453635748, 2870763221,
   3624381080, 310598401, 607225278, 1426881987,
   1925078388, 2162078206, 2614888103, 3248222580,
   3835390401, 4022224774, 264347078, 604807628,
   770255983, 1249150122, 1555081692, 1996064986,
   2554220882, 2821834349, 2952996808, 3210313671,
   3336571891, 3584528711, 113926993, 338241895,
   666307205, 773529912, 1294757372, 1396182291,
   1695183700, 1986661051, 2177026350, 2456956037,
   2730485921, 2820302411, 3259730800, 3345764771,
   3516065817, 3600352804, 4094571909, 275423344,
   430227734, 506948616, 659060556, 883997877,
   958139571, 1322822218, 1537002063, 1747873779,
   1955562222, 2024104815, 2227730452, 2361852424,
   2428436474, 2756734187, 3204031479, 3329325298]"

definition sha_H0 :: "word32 list" where
  "sha_H0 = [1779033703, 3144134277, 1013904242, 2773480762,
   1359893119, 2600822924, 528734635, 1541459225]"

definition rotr :: "nat \<Rightarrow> word32 \<Rightarrow> word32" where
  "rotr n x = drop_bit n x OR push_bit (32 - n) x"

definition big_endian :: "nat \<Rightarrow> nat \<Rightarrow> nat list" where
  "big_endian k n = map (\<lambda>i. (n div 256 ^ i) mod 256) (rev [0..<k])"

definition sha_pad :: "nat list \<Rightarrow> nat list" where
  "sha_pad m = m @ [0x80] @ replicate ((119 - length m mod 64) mod 64) 0
                 @ big_endian 8 (8 * length m)"

fun words_of :: "nat list \<Rightarrow> word32 list" where
  "words_of (a # b # c # d # bs) =
     word_of_nat (((a * 256 + b) * 256 + c) * 256 + d) # words_of bs"
| "words_of bs = []"

text \<open>The message schedule, kept newest first.\<close>

definition sha_next :: "word32 list \<Rightarrow> word32" where
  "sha_next w =
     (let w2 = w ! 1; w7 = w ! 6; w15 = w ! 14; w16 = w ! 15;
          s0 = rotr 7 w15 XOR rotr 18 w15 XOR drop_bit 3 w15;
          s1 = rotr 17 w2 XOR rotr 19 w2 XOR drop_bit 10 w2
      in w16 + s0 + w7 + s1)"

fun sha_schedule :: "nat \<Rightarrow> word32 list \<Rightarrow> word32 list" where
  "sha_schedule 0 w = rev w"
| "sha_schedule (Suc n) w = sha_schedule n (sha_next w # w)"

fun sha_round :: "word32 \<times> word32 \<Rightarrow> word32 list \<Rightarrow> word32 list" where
  "sha_round (k, w) [a, b, c, d, e, f, g, h] =
     (let s1 = rotr 6 e XOR rotr 11 e XOR rotr 25 e;
          ch = (e AND f) XOR (NOT e AND g);
          t1 = h + s1 + ch + k + w;
          s0 = rotr 2 a XOR rotr 13 a XOR rotr 22 a;
          maj = (a AND b) XOR (a AND c) XOR (b AND c)
      in [t1 + (s0 + maj), a, b, c, d + t1, e, f, g])"
| "sha_round kw v = v"

definition sha_block :: "word32 list \<Rightarrow> word32 list \<Rightarrow> word32 list" where
  "sha_block h blk =
     map2 (+) h (fold sha_round (zip sha_K (sha_schedule 48 (rev blk))) h)"

fun sha_blocks :: "nat \<Rightarrow> word32 list \<Rightarrow> word32 list \<Rightarrow> word32 list" where
  "sha_blocks 0 h ws = h"
| "sha_blocks (Suc n) h ws = sha_blocks n (sha_block h (take 16 ws)) (drop 16 ws)"

definition sha256 :: "nat list \<Rightarrow> nat list" where
  "sha256 m = (let p = sha_pad m
     in concat (map (\<lambda>x. big_endian 4 (unat x)) (sha_blocks (length p div 64) sha_H0 (words_of p))))"

definition bytes_of :: "string \<Rightarrow> nat list" where
  "bytes_of s = map of_char s"

definition string_of_bytes :: "nat list \<Rightarrow> string" where
  "string_of_bytes bs = map char_of bs"

section \<open>HMAC, hex and base32\<close>

definition hmac_sha256 :: "nat list \<Rightarrow> nat list \<Rightarrow> nat list" where
  "hmac_sha256 key msg =
     (let k = (if 64 < length key then sha256 key else key);
          k64 = k @ replicate (64 - length k) 0;
          pad = (\<lambda>x. map (\<lambda>b. unat (word_of_nat b XOR x :: 8 word)) k64)
      in sha256 (pad 0x5c @ sha256 (pad 0x36 @ msg)))"

definition hex_digit :: "nat \<Rightarrow> char" where
  "hex_digit d = (if d < 10 then char_of (48 + d) else char_of (87 + d))"

definition hex_EncodeToString :: "nat list \<Rightarrow> string" where
  "hex_EncodeToString bs = concat (map (\<lambda>b. [hex_digit (b div 16), hex_digit (b mod 16)]) bs)"

definition base32_digit :: "nat \<Rightarrow> char" where
  "base32_digit d = (if d < 26 then char_of (65 + d) else char_of (24 + d))"

fun bits_value :: "bool list \<Rightarrow> nat" where
  "bits_value [] = 0"
| "bits_value (b # bs) = of_bool b * 2 ^ length bs + bits_value bs"

definition byte_bits :: "nat \<Rightarrow> bool list" where
  "byte_bits b = map (\<lambda>i. odd (b div 2 ^ i)) (rev [0..<8])"

text \<open>Groups of five bits, the last one filled with zeros; no padding.\<close>

fun base32_groups :: "nat \<Rightarrow> bool list \<Rightarrow> string" where
  "base32_groups 0 bs = []"
| "base32_groups (Suc n) bs = (if bs = [] then []
     else base32_digit (bits_value (take 5 bs @ replicate (5 - length bs) False))
            # base32_groups n (drop 5 bs))"

definition base32_EncodeToString :: "nat list \<Rightarrow> string" where
  "base32_EncodeToString bs = base32_groups (8 * length bs) (concat (map byte_bits bs))"

section \<open>Lengths\<close>

lemma length_big_endian [simp]: "length (big_endian k n) = k"
  by (simp add: big_endian_def)

lemma length_sha_round [simp]: "length (sha_round kw v) = length v"
  by (induction kw v rule: sha_round.induct) (simp_all add: Let_def)

lemma length_fold_sha_round [simp]: "length (fold sha_round kws v) = length v"
  by (induction kws arbitrary: v) simp_all

lemma length_sha_blocks: "length (sha_blocks n h ws) = length h"
  by (induction n arbitrary: h ws) (simp_all add: sha_block_def)

text \<open>A digest has 32 bytes, written as 64 digits.\<close>

lemma length_sha256 [simp]: "length (sha256 m) = 32"
proof -
  have "length (concat (map (\<lambda>x. big_endian 4 (unat x)) ws)) = 4 * length ws" for ws :: "word32 list"
    by (induction ws) simp_all
  then show ?thesis by (simp add: sha256_def Let_def length_sha_blocks sha_H0_def)
qed

lemma length_hex [simp]: "length (hex_EncodeToString bs) = 2 * length bs"
  by (induction bs) (simp_all add: hex_EncodeToString_def)

end
