(* ===== verification/Tenancy.thy ===== *)
theory Tenancy
  imports Models
begin

text \<open>
  The tenant-isolation primitives of \<^verbatim>\<open>internal/tenancy\<close>: the scope a request may act in,
  derived from its verified credentials, and the guards a service calls before it acts on a
  resource.
\<close>

record Scope =
  TenantID :: string
  UserID :: string
  s_Role :: string

definition Scope_Valid :: "Scope \<Rightarrow> bool" where
  "Scope_Valid s \<longleftrightarrow> TenantID s \<noteq> ''''"

definition Guard :: "Scope \<Rightarrow> string \<Rightarrow> string \<Rightarrow> goerr option" where
  "Guard scope resourceTenantID resource =
     (if \<not> Scope_Valid scope then Some (Api (Unauthenticated ''authentication is required''))
      else if resourceTenantID = '''' \<or> resourceTenantID \<noteq> TenantID scope
      then Some (Api (Wrap (NotFound (resource @ '' not found'')) (Sentinel ErrCrossTenant)))
      else None)"

definition GuardPtr :: "Scope \<Rightarrow> string option \<Rightarrow> string \<Rightarrow> goerr option" where
  "GuardPtr scope resourceTenantID resource =
     (case resourceTenantID of
        None \<Rightarrow>
          (if \<not> Scope_Valid scope then Some (Api (Unauthenticated ''authentication is required''))
           else Some (Api (Wrap (NotFound (resource @ '' not found'')) (Sentinel ErrCrossTenant))))
      | Some tid \<Rightarrow> Guard scope tid resource)"

definition IsCrossTenant :: "goerr option \<Rightarrow> bool" where
  "IsCrossTenant err = (case err of None \<Rightarrow> False | Some e \<Rightarrow> errors_Is e ErrCrossTenant)"

text \<open>How the services turn a repository error into one for the caller.\<close>

definition hide_missing :: "string \<Rightarrow> string \<Rightarrow> goerr \<Rightarrow> goerr" where
  "hide_missing missing failed err =
     (if errors_Is err repository_ErrNotFound then Api (NotFound missing)
      else Api (Wrap (Internal failed) err))"

definition require_scope :: "Scope \<Rightarrow> ('s, unit) op" where
  "require_scope scope =
     guard_op (if \<not> Scope_Valid scope then Some (Api (Unauthenticated ''authentication is required''))
               else None)"

lemma require_scope_Inr [simp]:
  "require_scope scope s = (Inr v, s') \<longleftrightarrow> Scope_Valid scope \<and> s' = s"
  by (simp add: require_scope_def)

lemma require_scope_Inl [simp]:
  "require_scope scope s = (Inl e, s') \<longleftrightarrow> \<not> Scope_Valid scope \<and> s' = s
     \<and> e = Api (Unauthenticated ''authentication is required'')"
  by (auto simp: require_scope_def)

lemma Guard_None_iff: "Guard scope tid r = None \<longleftrightarrow> Scope_Valid scope \<and> tid = TenantID scope"
  by (auto simp: Guard_def Scope_Valid_def)

lemma GuardPtr_None_iff:
  "GuardPtr scope tid r = None \<longleftrightarrow> Scope_Valid scope \<and> tid = Some (TenantID scope)"
  by (cases tid) (auto simp: GuardPtr_def Guard_None_iff)

lemma IsCrossTenant_Guard:
  "IsCrossTenant (Guard scope tid r) \<longleftrightarrow> Scope_Valid scope \<and> tid \<noteq> TenantID scope"
  by (auto simp: IsCrossTenant_def Guard_def Scope_Valid_def Unauthenticated_def)

lemma Guard_not_oracle:
  "Scope_Valid scope \<Longrightarrow> tid \<noteq> TenantID scope \<Longrightarrow>
   map_option public_part (Guard scope tid r) =
     Some (CodeNotFound, r @ '' not found'', 404, [])"
  by (auto simp: Guard_def public_part_def NotFound_def newf_def)

end
