(* ===== verification/Database.thy ===== *)
theory Database
  imports Tenancy
begin

text \<open>
  The world the program acts on: the PostgreSQL tables of
  \<^verbatim>\<open>internal/database/migrations\<close>, the Redis counters, the clock, the random sources and
  the log, and the SQL primitives the repositories are written with.

  Every statement is one external call. What it answers is decided by the environment's
  \<open>script\<close>: each call takes its next entry, a driver error or none and the time that
  passes; an empty script means no more errors. A statement that fails leaves the tables as
  they were. UUIDs are generated by \<open>uuid_gen\<close> and read by \<open>uuid_in\<close> (the server's
  \<open>uuid\<close> input, which accepts several spellings of one value and rejects the rest);
  both are PostgreSQL's, so they are components of the world and not definitions here.
\<close>

record tables =
  tenants :: "Tenant list"
  users :: "User list"
  features :: "Feature list"
  tenant_features :: "TenantFeature list"
  api_keys :: "APIKey list"
  refresh_tokens :: "RefreshToken list"
  usage_logs :: "UsageLog list"
  audit_logs :: "AuditLog list"
  export_jobs :: "ExportJob list"

record world = tables +
  redis :: "string \<Rightarrow> (int \<times> time option) option"
  clock :: time
  script :: "(goerr option \<times> nat) list"
  next_id :: nat
  uuid_gen :: "nat \<Rightarrow> string"
  uuid_in :: "string \<Rightarrow> string option"
  rand_bytes :: "nat \<Rightarrow> nat \<Rightarrow> string option"
  rand_next :: nat
  log :: "(string \<times> details) list"

section \<open>External calls and statements\<close>

definition ext_call :: "world \<Rightarrow> goerr option \<times> world" where
  "ext_call w = (case script w of
      [] \<Rightarrow> (None, w)
    | (e, dt) # s \<Rightarrow> (e, w\<lparr>script := s, clock := clock w + int dt\<rparr>))"

definition exec :: "(world, 'a) op \<Rightarrow> (world, 'a) op" where
  "exec stmt w = (case ext_call w of
      (Some e, w1) \<Rightarrow> (Inl e, w1)
    | (None, w1) \<Rightarrow> stmt w1)"

definition uuid_param :: "string \<Rightarrow> (string \<Rightarrow> (world, 'a) op) \<Rightarrow> (world, 'a) op" where
  "uuid_param s f w = (case uuid_in w s of
      None \<Rightarrow> (Inl (PqErr ''22P02'' ''invalid input syntax for type uuid''), w)
    | Some u \<Rightarrow> f u w)"

text \<open>A nullable UUID parameter: a nil pointer is \<open>NULL\<close>.\<close>

definition uuid_opt_param ::
  "string option \<Rightarrow> (string option \<Rightarrow> (world, 'a) op) \<Rightarrow> (world, 'a) op" where
  "uuid_opt_param s f = (case s of
      None \<Rightarrow> f None
    | Some x \<Rightarrow> uuid_param x (\<lambda>u. f (Some u)))"

text \<open>\<open>QueryRow(...).Scan\<close>: the first row, or \<open>sql.ErrNoRows\<close>.\<close>

definition query_row :: "(world \<Rightarrow> 'a list) \<Rightarrow> (world, 'a) op" where
  "query_row rows w = (case rows w of
      [] \<Rightarrow> (Inl (Sentinel sql_ErrNoRows), w)
    | r # _ \<Rightarrow> (Inr r, w))"

definition query_rows :: "(world \<Rightarrow> 'a list) \<Rightarrow> (world, 'a list) op" where
  "query_rows rows w = (Inr (rows w), w)"

text \<open>\<open>LIMIT\<close> and \<open>OFFSET\<close>: a negative value is an error of the server.\<close>

definition limit_offset :: "int \<Rightarrow> int \<Rightarrow> (world \<Rightarrow> 'a list) \<Rightarrow> (world, 'a list) op" where
  "limit_offset lim off rows w =
     (if lim < 0 then (Inl (PqErr ''2201W'' ''LIMIT must not be negative''), w)
      else if off < 0 then (Inl (PqErr ''2201X'' ''OFFSET must not be negative''), w)
      else (Inr (take (nat lim) (drop (nat off) (rows w))), w))"

definition order_desc :: "('a \<Rightarrow> time) \<Rightarrow> 'a list \<Rightarrow> 'a list" where
  "order_desc key rows = sort_key (\<lambda>r. - key r) rows"

definition order_asc :: "('a \<Rightarrow> time) \<Rightarrow> 'a list \<Rightarrow> 'a list" where
  "order_asc key rows = sort_key key rows"

definition update_rows :: "('a \<Rightarrow> bool) \<Rightarrow> ('a \<Rightarrow> 'a) \<Rightarrow> 'a list \<Rightarrow> 'a list" where
  "update_rows P f rows = map (\<lambda>r. if P r then f r else r) rows"

definition rows_affected :: "('a \<Rightarrow> bool) \<Rightarrow> 'a list \<Rightarrow> int" where
  "rows_affected P rows = int (length (filter P rows))"

text \<open>\<open>LIKE\<close> with PostgreSQL's pattern characters, \<open>%\<close>, \<open>_\<close> and the escape, and
  \<open>field ILIKE '%' || s || '%'\<close>.\<close>

fun like_match :: "string \<Rightarrow> string \<Rightarrow> bool" where
  "like_match [] s = (s = [])"
| "like_match (p # ps) s =
     (if p = CHR ''%'' then
        like_match ps s \<or> (case s of [] \<Rightarrow> False | c # cs \<Rightarrow> like_match (p # ps) cs)
      else if p = CHR 0x5C then
        (case ps of [] \<Rightarrow> False
         | q # qs \<Rightarrow> (case s of [] \<Rightarrow> False | c # cs \<Rightarrow> q = c \<and> like_match qs cs))
      else (case s of [] \<Rightarrow> False
            | c # cs \<Rightarrow> (p = CHR ''_'' \<or> p = c) \<and> like_match ps cs))"

declare like_match.simps(2) [simp del]

definition ilike_contains :: "string \<Rightarrow> string \<Rightarrow> bool" where
  "ilike_contains field s \<longleftrightarrow> like_match (''%'' @ ToLower s @ ''%'') (ToLower field)"

definition fresh_id :: "world \<Rightarrow> string" where
  "fresh_id w = uuid_gen w (next_id w)"

definition varchar_error :: goerr where
  "varchar_error = PqErr ''22001'' ''value too long for type character varying''"

definition check_error :: goerr where
  "check_error = PqErr ''23514'' ''violates check constraint''"

definition unique_error :: goerr where
  "unique_error = PqErr ''23505'' ''duplicate key value violates unique constraint''"

definition fk_error :: goerr where
  "fk_error = PqErr ''23503'' ''violates foreign key constraint''"

definition tenant_exists :: "world \<Rightarrow> string \<Rightarrow> bool" where
  "tenant_exists w u \<longleftrightarrow> u \<in> set (map t_ID (tenants w))"

definition user_exists :: "world \<Rightarrow> string \<Rightarrow> bool" where
  "user_exists w u \<longleftrightarrow> u \<in> set (map u_ID (users w))"

definition feature_exists :: "world \<Rightarrow> string \<Rightarrow> bool" where
  "feature_exists w u \<longleftrightarrow> u \<in> set (map f_ID (features w))"

definition opt_ok :: "('a \<Rightarrow> bool) \<Rightarrow> 'a option \<Rightarrow> bool" where
  "opt_ok P x = (case x of None \<Rightarrow> True | Some y \<Rightarrow> P y)"

section \<open>What external calls leave alone\<close>

text \<open>The tables of a world, and what no statement changes of its environment.\<close>

definition tabs :: "world \<Rightarrow> tables" where
  "tabs w = tables.truncate w"

lemma tabs_sel [simp]:
  "tenants (tabs w) = tenants w" "users (tabs w) = users w" "features (tabs w) = features w"
  "tenant_features (tabs w) = tenant_features w" "api_keys (tabs w) = api_keys w"
  "refresh_tokens (tabs w) = refresh_tokens w" "usage_logs (tabs w) = usage_logs w"
  "audit_logs (tabs w) = audit_logs w" "export_jobs (tabs w) = export_jobs w"
  by (simp_all add: tabs_def tables.truncate_def)

lemma tabs_upd [simp]:
  "tabs (w\<lparr>tenants := a\<rparr>) = (tabs w)\<lparr>tenants := a\<rparr>"
  "tabs (w\<lparr>users := b\<rparr>) = (tabs w)\<lparr>users := b\<rparr>"
  "tabs (w\<lparr>features := c\<rparr>) = (tabs w)\<lparr>features := c\<rparr>"
  "tabs (w\<lparr>tenant_features := d\<rparr>) = (tabs w)\<lparr>tenant_features := d\<rparr>"
  "tabs (w\<lparr>api_keys := e\<rparr>) = (tabs w)\<lparr>api_keys := e\<rparr>"
  "tabs (w\<lparr>refresh_tokens := f\<rparr>) = (tabs w)\<lparr>refresh_tokens := f\<rparr>"
  "tabs (w\<lparr>usage_logs := g\<rparr>) = (tabs w)\<lparr>usage_logs := g\<rparr>"
  "tabs (w\<lparr>audit_logs := h\<rparr>) = (tabs w)\<lparr>audit_logs := h\<rparr>"
  "tabs (w\<lparr>export_jobs := i\<rparr>) = (tabs w)\<lparr>export_jobs := i\<rparr>"
  by (simp_all add: tabs_def tables.truncate_def)

lemma tabs_other [simp]:
  "tabs (w\<lparr>redis := r\<rparr>) = tabs w" "tabs (w\<lparr>clock := t\<rparr>) = tabs w"
  "tabs (w\<lparr>script := s\<rparr>) = tabs w" "tabs (w\<lparr>next_id := n\<rparr>) = tabs w"
  "tabs (w\<lparr>rand_next := m\<rparr>) = tabs w" "tabs (w\<lparr>log := l\<rparr>) = tabs w"
  by (simp_all add: tabs_def tables.truncate_def)

lemma tabs_eqD:
  assumes "tabs w' = tabs w"
  shows "tenants w' = tenants w" "users w' = users w" "features w' = features w"
    "tenant_features w' = tenant_features w" "api_keys w' = api_keys w"
    "refresh_tokens w' = refresh_tokens w" "usage_logs w' = usage_logs w"
    "audit_logs w' = audit_logs w" "export_jobs w' = export_jobs w"
  using arg_cong [OF assms, of tenants] arg_cong [OF assms, of users]
    arg_cong [OF assms, of features] arg_cong [OF assms, of tenant_features]
    arg_cong [OF assms, of api_keys] arg_cong [OF assms, of refresh_tokens]
    arg_cong [OF assms, of usage_logs] arg_cong [OF assms, of audit_logs]
    arg_cong [OF assms, of export_jobs]
  by simp_all

text \<open>A change of one table, read off the world.\<close>

lemma tabs_updD:
  "tabs w' = (tabs w)\<lparr>tenants := t0\<rparr> \<Longrightarrow> tenants w' = t0"
  "tabs w' = (tabs w)\<lparr>users := t1\<rparr> \<Longrightarrow> users w' = t1"
  "tabs w' = (tabs w)\<lparr>features := t2\<rparr> \<Longrightarrow> features w' = t2"
  "tabs w' = (tabs w)\<lparr>tenant_features := t3\<rparr> \<Longrightarrow> tenant_features w' = t3"
  "tabs w' = (tabs w)\<lparr>api_keys := t4\<rparr> \<Longrightarrow> api_keys w' = t4"
  "tabs w' = (tabs w)\<lparr>refresh_tokens := t5\<rparr> \<Longrightarrow> refresh_tokens w' = t5"
  "tabs w' = (tabs w)\<lparr>usage_logs := t6\<rparr> \<Longrightarrow> usage_logs w' = t6"
  "tabs w' = (tabs w)\<lparr>audit_logs := t7\<rparr> \<Longrightarrow> audit_logs w' = t7"
  "tabs w' = (tabs w)\<lparr>export_jobs := t8\<rparr> \<Longrightarrow> export_jobs w' = t8"
  by (drule arg_cong [of _ _ tenants] arg_cong [of _ _ users] arg_cong [of _ _ features]
        arg_cong [of _ _ tenant_features] arg_cong [of _ _ api_keys]
        arg_cong [of _ _ refresh_tokens] arg_cong [of _ _ usage_logs]
        arg_cong [of _ _ audit_logs] arg_cong [of _ _ export_jobs]; simp; fail)+

text \<open>The external calls of an operation take their answers off the front of the script.\<close>

definition calls_made :: "world \<Rightarrow> world \<Rightarrow> bool" where
  "calls_made w w' \<longleftrightarrow> (\<exists>n. script w' = drop n (script w))"

lemma calls_made_refl [simp]: "calls_made w w"
  by (auto simp: calls_made_def intro: exI [of _ 0])

lemma calls_made_trans: "calls_made w w1 \<Longrightarrow> calls_made w1 w2 \<Longrightarrow> calls_made w w2"
  by (auto simp: calls_made_def)

lemma calls_made_upd [simp]:
  "calls_made w (w1\<lparr>tenants := a\<rparr>) = calls_made w w1"
  "calls_made w (w1\<lparr>users := b\<rparr>) = calls_made w w1"
  "calls_made w (w1\<lparr>features := c\<rparr>) = calls_made w w1"
  "calls_made w (w1\<lparr>tenant_features := d\<rparr>) = calls_made w w1"
  "calls_made w (w1\<lparr>api_keys := e\<rparr>) = calls_made w w1"
  "calls_made w (w1\<lparr>refresh_tokens := f\<rparr>) = calls_made w w1"
  "calls_made w (w1\<lparr>usage_logs := g\<rparr>) = calls_made w w1"
  "calls_made w (w1\<lparr>audit_logs := h\<rparr>) = calls_made w w1"
  "calls_made w (w1\<lparr>export_jobs := i\<rparr>) = calls_made w w1"
  "calls_made w (w1\<lparr>redis := r\<rparr>) = calls_made w w1"
  "calls_made w (w1\<lparr>rand_next := m\<rparr>) = calls_made w w1"
  "calls_made w (w1\<lparr>next_id := n\<rparr>) = calls_made w w1"
  "calls_made w (w1\<lparr>log := l\<rparr>) = calls_made w w1"
  by (simp_all add: calls_made_def)

lemma calls_made_nil: "calls_made w w' \<Longrightarrow> script w = [] \<Longrightarrow> script w' = []"
  by (auto simp: calls_made_def)

definition same_env :: "world \<Rightarrow> world \<Rightarrow> bool" where
  "same_env w w' \<longleftrightarrow> uuid_gen w' = uuid_gen w \<and> uuid_in w' = uuid_in w
     \<and> rand_bytes w' = rand_bytes w \<and> clock w \<le> clock w' \<and> next_id w \<le> next_id w'
     \<and> calls_made w w'"

lemma same_env_refl [simp]: "same_env w w"
  by (simp add: same_env_def)

lemma same_env_trans [trans]: "same_env w w1 \<Longrightarrow> same_env w1 w2 \<Longrightarrow> same_env w w2"
  by (auto simp: same_env_def intro: calls_made_trans)

lemma same_env_upd [simp]:
  "same_env w (w1\<lparr>tenants := a\<rparr>) = same_env w w1"
  "same_env w (w1\<lparr>users := b\<rparr>) = same_env w w1"
  "same_env w (w1\<lparr>features := c\<rparr>) = same_env w w1"
  "same_env w (w1\<lparr>tenant_features := d\<rparr>) = same_env w w1"
  "same_env w (w1\<lparr>api_keys := e\<rparr>) = same_env w w1"
  "same_env w (w1\<lparr>refresh_tokens := f\<rparr>) = same_env w w1"
  "same_env w (w1\<lparr>usage_logs := g\<rparr>) = same_env w w1"
  "same_env w (w1\<lparr>audit_logs := h\<rparr>) = same_env w w1"
  "same_env w (w1\<lparr>export_jobs := i\<rparr>) = same_env w w1"
  "same_env w (w1\<lparr>redis := r\<rparr>) = same_env w w1"
  "same_env w (w1\<lparr>rand_next := m\<rparr>) = same_env w w1"
  "same_env w (w1\<lparr>log := l\<rparr>) = same_env w w1"
  by (simp_all add: same_env_def)

lemma same_env_next_id: "same_env w w1 \<Longrightarrow> same_env w (w1\<lparr>next_id := Suc (next_id w1)\<rparr>)"
  by (simp add: same_env_def)

lemma ext_call_same:
  "ext_call w = (e, w1) \<Longrightarrow> tabs w1 = tabs w \<and> same_env w w1 \<and> next_id w1 = next_id w"
  by (auto simp: ext_call_def same_env_def calls_made_def split: list.splits
      intro: exI [of _ "Suc 0"])

lemma ext_call_no_script [simp]: "script w = [] \<Longrightarrow> ext_call w = (None, w)"
  by (simp add: ext_call_def)

lemma exec_no_script [simp]: "script w = [] \<Longrightarrow> exec stmt w = stmt w"
  by (simp add: exec_def)

text \<open>
  The one rule of every statement: either the call failed and nothing but the call's own
  bookkeeping happened, or the statement ran on the same tables.
\<close>

lemma exec_cases:
  assumes "exec stmt w = (r, w')"
  obtains (failed) e where "r = Inl e" "tabs w' = tabs w" "same_env w w'" "next_id w' = next_id w"
    | (ran) w1 where "stmt w1 = (r, w')" "tabs w1 = tabs w" "same_env w w1"
        "next_id w1 = next_id w"
  using assms by (auto simp: exec_def split: prod.splits option.splits dest!: ext_call_same)

lemma exec_Inr:
  assumes "exec stmt w = (Inr x, w')"
  obtains w1 where "stmt w1 = (Inr x, w')" "tabs w1 = tabs w" "same_env w w1"
    "next_id w1 = next_id w"
  using assms by (rule exec_cases) auto

lemma uuid_param_Inr:
  "uuid_param s f w = (Inr x, w') \<longleftrightarrow> (\<exists>u. uuid_in w s = Some u \<and> f u w = (Inr x, w'))"
  by (auto simp: uuid_param_def split: option.splits)

lemma query_row_Inr:
  "query_row rows w = (Inr x, w') \<longleftrightarrow> w' = w \<and> (\<exists>xs. rows w = x # xs)"
  by (auto simp: query_row_def split: list.splits)

lemma query_row_Inr_mem: "query_row rows w = (Inr x, w') \<Longrightarrow> x \<in> set (rows w)"
  by (auto simp: query_row_Inr)

text \<open>Operations that read: the tables and the identifiers handed out stay as they are.\<close>

definition read_only :: "(world, 'a) op \<Rightarrow> bool" where
  "read_only f \<longleftrightarrow> (\<forall>w r w'. f w = (r, w') \<longrightarrow>
     tabs w' = tabs w \<and> same_env w w' \<and> next_id w' = next_id w)"

lemma read_onlyD:
  assumes "read_only f" "f w = (r, w')"
  shows "tabs w' = tabs w" "same_env w w'" "next_id w' = next_id w"
  using assms by (auto simp: read_only_def)

text \<open>What stays of a world with the same tables in the same environment.\<close>

lemma same_keeps:
  assumes "tabs w' = tabs w" "same_env w w'"
  shows "tenants w' = tenants w" "users w' = users w" "features w' = features w"
    "tenant_features w' = tenant_features w" "api_keys w' = api_keys w"
    "refresh_tokens w' = refresh_tokens w" "usage_logs w' = usage_logs w"
    "audit_logs w' = audit_logs w" "export_jobs w' = export_jobs w" "uuid_in w' = uuid_in w"
    "uuid_gen w' = uuid_gen w"
  using tabs_eqD [OF assms(1)] assms(2) by (simp_all add: same_env_def)

lemma read_only_keeps:
  assumes "read_only f" "f w = (r, w')"
  shows "tenants w' = tenants w" "users w' = users w" "features w' = features w"
    "tenant_features w' = tenant_features w" "api_keys w' = api_keys w"
    "refresh_tokens w' = refresh_tokens w" "usage_logs w' = usage_logs w"
    "audit_logs w' = audit_logs w" "export_jobs w' = export_jobs w" "uuid_in w' = uuid_in w"
    "uuid_gen w' = uuid_gen w"
  by (rule same_keeps [OF read_onlyD(1,2) [OF assms]])+

lemma read_only_ret [frame_rules]: "read_only (ret x)"
  by (simp add: read_only_def)

lemma read_only_fail [frame_rules]: "read_only (fail e)"
  by (simp add: read_only_def)

lemma read_only_guard [frame_rules]: "read_only (guard_op e)"
  by (cases e) (simp_all add: guard_op_def read_only_ret read_only_fail)

lemma read_only_exec [frame_rules]: "read_only stmt \<Longrightarrow> read_only (exec stmt)"
  unfolding read_only_def
proof (intro allI impI)
  fix w r w'
  assume stmt: "\<forall>w r w'. stmt w = (r, w') \<longrightarrow>
      tabs w' = tabs w \<and> same_env w w' \<and> next_id w' = next_id w"
    and run: "exec stmt w = (r, w')"
  from run show "tabs w' = tabs w \<and> same_env w w' \<and> next_id w' = next_id w"
  proof (cases rule: exec_cases)
    case (ran w1)
    with stmt [rule_format, OF ran(1)] show ?thesis
      by (auto intro: same_env_trans)
  qed simp
qed

lemma read_only_uuid_param [frame_rules]:
  assumes "\<And>u. read_only (f u)"
  shows "read_only (uuid_param s f)"
  unfolding read_only_def uuid_param_def
  by (simp split: option.split) (blast dest: read_onlyD [OF assms])

lemma read_only_query [frame_rules]:
  "read_only (query_row rows)" "read_only (query_rows rows')"
  "read_only (limit_offset l off rows'')"
  by (auto simp: read_only_def query_row_def query_rows_def limit_offset_def
      split: list.splits if_splits)

lemma read_only_bind [frame_rules]:
  assumes "read_only m" and "\<And>x. read_only (f x)"
  shows "read_only (bind_op m f)"
  unfolding read_only_def
proof (intro allI impI)
  fix w r w'
  assume run: "bind_op m f w = (r, w')"
  obtain a w1 where m: "m w = (a, w1)" by (cases "m w")
  note first = read_onlyD [OF assms(1) m]
  show "tabs w' = tabs w \<and> same_env w w' \<and> next_id w' = next_id w"
  proof (cases a)
    case (Inl e)
    with run m have "w' = w1" by (simp add: bind_op_def)
    with first show ?thesis by simp
  next
    case (Inr x)
    with run m have "f x w1 = (r, w')" by (simp add: bind_op_def)
    note second = read_onlyD [OF assms(2) this]
    from first second show ?thesis by (auto intro: same_env_trans)
  qed
qed

lemma read_only_map_err [frame_rules]: "read_only m \<Longrightarrow> read_only (map_err g m)"
  by (fastforce simp: read_only_def map_err_def split: prod.splits sum.splits)

lemma read_only_when [frame_rules]: "read_only m \<Longrightarrow> read_only (when_op c m)"
  by (cases c) (simp_all add: when_op_def read_only_ret)

lemma read_only_if [frame_rules]:
  "read_only a \<Longrightarrow> read_only b \<Longrightarrow> read_only (if c then a else b)"
  by simp

text \<open>
  Operations that may change the tables, but only by the relation \<open>R\<close>, which also sees how
  the server reads UUIDs: on an error they have changed nothing.
\<close>

type_synonym 'a effect = "(string \<Rightarrow> string option) \<Rightarrow> tables \<Rightarrow> 'a \<Rightarrow> tables \<Rightarrow> bool"

definition writes :: "'a effect \<Rightarrow> (world, 'a) op \<Rightarrow> bool" where
  "writes R f \<longleftrightarrow> (\<forall>w r w'. f w = (r, w') \<longrightarrow> same_env w w' \<and>
     (case r of Inl e \<Rightarrow> tabs w' = tabs w | Inr x \<Rightarrow> R (uuid_in w) (tabs w) x (tabs w')))"

lemma writesI:
  assumes "\<And>w r w'. f w = (r, w') \<Longrightarrow> same_env w w'"
    and "\<And>w e w'. f w = (Inl e, w') \<Longrightarrow> tabs w' = tabs w"
    and "\<And>w x w'. f w = (Inr x, w') \<Longrightarrow> R (uuid_in w) (tabs w) x (tabs w')"
  shows "writes R f"
  using assms unfolding writes_def by (auto split: sum.split)

lemma writesD:
  assumes "writes R f"
  shows "f w = (Inr x, w') \<Longrightarrow> R (uuid_in w) (tabs w) x (tabs w')"
    and "f w = (Inl e, w') \<Longrightarrow> tabs w' = tabs w"
    and "f w = (r, w') \<Longrightarrow> same_env w w'"
  using assms unfolding writes_def by fastforce+

lemma writes_fail_keeps:
  assumes "writes R f" "f w = (Inl e, w')"
  shows "tenants w' = tenants w" "users w' = users w" "features w' = features w"
    "tenant_features w' = tenant_features w" "api_keys w' = api_keys w"
    "refresh_tokens w' = refresh_tokens w" "usage_logs w' = usage_logs w"
    "audit_logs w' = audit_logs w" "export_jobs w' = export_jobs w" "uuid_in w' = uuid_in w"
    "uuid_gen w' = uuid_gen w"
  by (rule same_keeps [OF writesD(2) [OF assms] writesD(3) [OF assms]])+

lemma writes_env:
  "writes R f \<Longrightarrow> f w = (r, w') \<Longrightarrow> uuid_in w' = uuid_in w \<and> uuid_gen w' = uuid_gen w"
  by (drule (1) writesD(3)) (simp add: same_env_def)

lemma same_env_nil: "same_env w w' \<Longrightarrow> script w = [] \<Longrightarrow> script w' = []"
  by (auto simp: same_env_def dest: calls_made_nil)

lemma writes_exec: "writes R stmt \<Longrightarrow> writes R (exec stmt)"
proof (rule writesI)
  assume w: "writes R stmt"
  fix w r w'
  assume "exec stmt w = (r, w')"
  then show "same_env w w'"
    by (cases rule: exec_cases) (auto intro: same_env_trans dest: writesD(3) [OF w])
next
  assume w: "writes R stmt"
  fix w e w'
  assume "exec stmt w = (Inl e, w')"
  then show "tabs w' = tabs w"
    by (cases rule: exec_cases) (auto dest: writesD(2) [OF w])
next
  assume w: "writes R stmt"
  fix w x w'
  assume "exec stmt w = (Inr x, w')"
  then obtain w1 where "stmt w1 = (Inr x, w')" "tabs w1 = tabs w" "same_env w w1"
    by (rule exec_Inr)
  then show "R (uuid_in w) (tabs w) x (tabs w')"
    using writesD(1) [OF w] by (fastforce simp: same_env_def)
qed

lemma writes_uuid_param:
  assumes "\<And>u. writes (R u) (f u)"
  shows "writes (\<lambda>env a x b. \<exists>u. env s = Some u \<and> R u env a x b) (uuid_param s f)"
proof (rule writesI)
  fix w r w'
  assume "uuid_param s f w = (r, w')"
  then show "same_env w w'"
    by (auto simp: uuid_param_def split: option.splits dest: writesD(3) [OF assms])
next
  fix w e w'
  assume "uuid_param s f w = (Inl e, w')"
  then show "tabs w' = tabs w"
    by (auto simp: uuid_param_def split: option.splits dest: writesD(2) [OF assms])
next
  fix w x w'
  assume "uuid_param s f w = (Inr x, w')"
  then show "\<exists>u. uuid_in w s = Some u \<and> R u (uuid_in w) (tabs w) x (tabs w')"
    by (auto simp: uuid_param_Inr dest: writesD(1) [OF assms])
qed

lemma writes_uuid_opt_param:
  assumes "\<And>u. writes R (f u)"
  shows "writes R (uuid_opt_param s f)"
  using assms unfolding writes_def uuid_opt_param_def uuid_param_def
  by (simp split: option.split)

lemma writes_map_err: "writes R m \<Longrightarrow> writes R (map_err g m)"
  by (rule writesI) (auto simp: map_err_def split: prod.splits sum.splits dest: writesD)

lemma writes_mono:
  assumes "writes R f" and "\<And>env a x b. R env a x b \<Longrightarrow> S env a x b"
  shows "writes S f"
  using assms(1) by (auto intro!: writesI assms(2) dest: writesD)

lemma set_order [simp]: "set (order_desc k xs) = set xs" "set (order_asc k xs) = set xs"
  by (simp_all add: order_desc_def order_asc_def)

lemma length_order [simp]:
  "length (order_desc k xs) = length xs" "length (order_asc k xs) = length xs"
  by (simp_all add: order_desc_def order_asc_def)

lemma update_rows_unchanged: "filter P xs = [] \<Longrightarrow> update_rows P f xs = xs"
  by (induction xs) (auto simp: update_rows_def split: if_splits)

lemma rows_affected_0 [simp]: "rows_affected P xs = 0 \<longleftrightarrow> (\<forall>x \<in> set xs. \<not> P x)"
  by (simp add: rows_affected_def filter_empty_conv)

lemma update_rows_map:
  "(\<And>x. g (f x) = g x) \<Longrightarrow> map g (update_rows P f xs) = map g xs"
  by (simp add: update_rows_def)

lemma update_rows_filter:
  "(\<And>x. Q (f x) = Q x) \<Longrightarrow> filter Q (update_rows P f xs) = update_rows P f (filter Q xs)"
  by (induction xs) (auto simp: update_rows_def)

lemma update_rows_disjoint:
  "(\<And>x. x \<in> set xs \<Longrightarrow> P x \<Longrightarrow> \<not> Q x \<and> \<not> Q (f x)) \<Longrightarrow>
   filter Q (update_rows P f xs) = filter Q xs"
  by (simp add: update_rows_def filter_map_if)

lemma set_update_rows:
  "set (update_rows P f xs) = f ` {x \<in> set xs. P x} \<union> {x \<in> set xs. \<not> P x}"
  by (induction xs) (auto simp: update_rows_def)

lemma ball_update_rows:
  "(\<forall>y \<in> set (update_rows P f xs). Q y) \<longleftrightarrow> (\<forall>x \<in> set xs. if P x then Q (f x) else Q x)"
  by (induction xs) (simp_all add: update_rows_def)

lemma length_update_rows [simp]: "length (update_rows P f xs) = length xs"
  by (simp add: update_rows_def)

end
