(* ===== verification/Utils.thy ===== *)
theory Utils
  imports Crypto Database
begin

text \<open>
  \<^verbatim>\<open>pkg/utils\<close> (password and token hashing, generated secrets) and \<^verbatim>\<open>pkg/jwt\<close> (the
  program's claims and token rules). \<open>bcrypt\<close> and \<open>golang-jwt\<close> are third-party packages:
  the records \<open>bcrypt_lib\<close> and \<open>jwt_lib\<close> hold the functions the sources call, and
  \<open>jwt_library\<close> states what the sources rely on of the second.
\<close>

section \<open>Passwords and tokens\<close>

text \<open>\<open>GenerateFromPassword\<close> draws a salt; it is told which draw it is.\<close>

record bcrypt_lib =
  GenerateFromPassword :: "nat \<Rightarrow> string \<Rightarrow> int \<Rightarrow> goerr + string"
  CompareHashAndPassword :: "string \<Rightarrow> string \<Rightarrow> goerr option"

definition HashPassword :: "bcrypt_lib \<Rightarrow> string \<Rightarrow> (world, string) op" where
  "HashPassword lib plaintext w =
     (case GenerateFromPassword lib (rand_next w) plaintext 12 of
        Inl err \<Rightarrow> (Inl (Errorf ''utils: hash password'' err), w\<lparr>rand_next := Suc (rand_next w)\<rparr>)
      | Inr h \<Rightarrow> (Inr h, w\<lparr>rand_next := Suc (rand_next w)\<rparr>))"

definition CheckPassword :: "bcrypt_lib \<Rightarrow> string \<Rightarrow> string \<Rightarrow> bool" where
  "CheckPassword lib hash plaintext \<longleftrightarrow> CompareHashAndPassword lib hash plaintext = None"

definition HashToken :: "string \<Rightarrow> string" where
  "HashToken token = hex_EncodeToString (sha256 (bytes_of token))"

text \<open>The constant-time comparison has the value of the plain one.\<close>

definition CheckToken :: "string \<Rightarrow> string \<Rightarrow> bool" where
  "CheckToken hash token \<longleftrightarrow> hash = hex_EncodeToString (sha256 (bytes_of token))"

definition GenerateSecret :: "nat \<Rightarrow> (world, string) op" where
  "GenerateSecret numBytes w =
     (let w1 = w\<lparr>rand_next := Suc (rand_next w)\<rparr>
      in case rand_bytes w (rand_next w) numBytes of
           None \<Rightarrow> (Inl (Errorf ''utils: generate secret'' (PlainErr ''rand'')), w1)
         | Some buf \<Rightarrow> (Inr (ToLower (base32_EncodeToString (bytes_of buf))), w1))"

definition GenerateAPIKey :: "string \<Rightarrow> (world, string \<times> string) op" where
  "GenerateAPIKey prefix =
     bind_op (GenerateSecret 24) (\<lambda>secret.
       let fullKey = prefix @ secret;
           lastFour = (if 4 \<le> length fullKey then drop (length fullKey - 4) fullKey else fullKey)
       in ret (fullKey, lastFour))"

lemma length_HashToken [simp]: "length (HashToken t) = 64"
  by (simp add: HashToken_def)

lemma CheckToken_HashToken: "CheckToken h t \<longleftrightarrow> h = HashToken t"
  by (simp add: CheckToken_def HashToken_def)

section \<open>JSON web tokens\<close>

record Claims =
  c_UserID :: string
  c_TenantID :: string
  c_Role :: string
  c_TokenUse :: string
  c_Issuer :: string
  c_Subject :: string
  c_ID :: string
  c_IssuedAt :: time
  c_ExpiresAt :: time
  c_NotBefore :: time

text \<open>
  \<open>SignedString claims secret\<close>, and \<open>ParseWithClaims token keyfunc issuer now\<close>: the key
  function is given whether the token's method is an HMAC one; the result is the claims and the
  token's \<open>Valid\<close> flag.
\<close>

record jwt_lib =
  SignedString :: "Claims \<Rightarrow> string \<Rightarrow> goerr + string"
  ParseWithClaims :: "string \<Rightarrow> (bool \<Rightarrow> goerr + string) \<Rightarrow> string \<Rightarrow> time
    \<Rightarrow> goerr + (Claims \<times> bool)"

record Manager =
  accessSecret :: string
  refreshSecret :: string
  accessTTL :: duration
  refreshTTL :: duration
  issuer :: string

text \<open>\<open>NewNumericDate\<close> drops the fractions of a second.\<close>

definition NewNumericDate :: "time \<Rightarrow> time" where
  "NewNumericDate t = t - t mod second"

definition Manager_issue :: "jwt_lib \<Rightarrow> Manager \<Rightarrow> string \<Rightarrow> string \<Rightarrow> string \<Rightarrow> string \<Rightarrow> string
  \<Rightarrow> duration \<Rightarrow> (world, string \<times> time) op" where
  "Manager_issue lib m userID tenantID role use secret ttl w =
     (let now = clock w; expiresAt = now + ttl;
          claims = \<lparr>c_UserID = userID, c_TenantID = tenantID, c_Role = role, c_TokenUse = use,
            c_Issuer = issuer m, c_Subject = userID, c_ID = fresh_id w,
            c_IssuedAt = NewNumericDate now, c_ExpiresAt = NewNumericDate expiresAt,
            c_NotBefore = NewNumericDate now\<rparr>;
          w1 = w\<lparr>next_id := Suc (next_id w)\<rparr>
      in case SignedString lib claims secret of
           Inl err \<Rightarrow> (Inl err, w1)
         | Inr tok \<Rightarrow> (Inr (tok, expiresAt), w1))"

definition IssueAccessToken ::
  "jwt_lib \<Rightarrow> Manager \<Rightarrow> string \<Rightarrow> string \<Rightarrow> string \<Rightarrow> (world, string \<times> time) op" where
  "IssueAccessToken lib m userID tenantID role =
     Manager_issue lib m userID tenantID role ''access'' (accessSecret m) (accessTTL m)"

definition IssueRefreshToken ::
  "jwt_lib \<Rightarrow> Manager \<Rightarrow> string \<Rightarrow> string \<Rightarrow> string \<Rightarrow> (world, string \<times> time) op" where
  "IssueRefreshToken lib m userID tenantID role =
     Manager_issue lib m userID tenantID role ''refresh'' (refreshSecret m) (refreshTTL m)"

definition Manager_verify ::
  "jwt_lib \<Rightarrow> Manager \<Rightarrow> string \<Rightarrow> string \<Rightarrow> string \<Rightarrow> time \<Rightarrow> goerr + Claims" where
  "Manager_verify lib m tokenStr secret expectedUse now =
     (case ParseWithClaims lib tokenStr
             (\<lambda>hmac. if \<not> hmac then Inl (Sentinel ErrInvalidToken) else Inr secret) (issuer m) now of
        Inl err \<Rightarrow> Inl (Sentinel ErrInvalidToken)
      | Inr (claims, valid) \<Rightarrow>
          (if \<not> valid then Inl (Sentinel ErrInvalidToken)
           else if c_TokenUse claims \<noteq> expectedUse then Inl (Sentinel ErrInvalidToken)
           else Inr claims))"

definition VerifyAccessToken :: "jwt_lib \<Rightarrow> Manager \<Rightarrow> string \<Rightarrow> time \<Rightarrow> goerr + Claims" where
  "VerifyAccessToken lib m tokenStr = Manager_verify lib m tokenStr (accessSecret m) ''access''"

definition VerifyRefreshToken :: "jwt_lib \<Rightarrow> Manager \<Rightarrow> string \<Rightarrow> time \<Rightarrow> goerr + Claims" where
  "VerifyRefreshToken lib m tokenStr = Manager_verify lib m tokenStr (refreshSecret m) ''refresh''"

text \<open>
  What the package promises: a token it signed parses back under the same key, issuer and within
  its dates; what parses was signed with the key the key function gave; and a token carries its
  claims, so that two equal tokens have equal claims.
\<close>

definition jwt_signed_parses :: "jwt_lib \<Rightarrow> bool" where
  "jwt_signed_parses lib \<longleftrightarrow> (\<forall>c k tok kf now. SignedString lib c k = Inr tok \<longrightarrow> kf True = Inr k
     \<longrightarrow> c_NotBefore c \<le> now \<longrightarrow> now < c_ExpiresAt c
     \<longrightarrow> ParseWithClaims lib tok kf (c_Issuer c) now = Inr (c, True))"

definition jwt_parsed_signed :: "jwt_lib \<Rightarrow> bool" where
  "jwt_parsed_signed lib \<longleftrightarrow> (\<forall>tok kf iss now c. ParseWithClaims lib tok kf iss now = Inr (c, True)
     \<longrightarrow> (\<exists>k. kf True = Inr k \<and> SignedString lib c k = Inr tok)
       \<and> c_Issuer c = iss \<and> c_NotBefore c \<le> now \<and> now < c_ExpiresAt c)"

definition jwt_carries_claims :: "jwt_lib \<Rightarrow> bool" where
  "jwt_carries_claims lib \<longleftrightarrow> (\<forall>c k c' k' tok. SignedString lib c k = Inr tok
     \<longrightarrow> SignedString lib c' k' = Inr tok \<longrightarrow> c = c')"

definition jwt_library :: "jwt_lib \<Rightarrow> bool" where
  "jwt_library lib \<longleftrightarrow> jwt_signed_parses lib \<and> jwt_parsed_signed lib \<and> jwt_carries_claims lib"

lemma Manager_verify_Inr:
  assumes "jwt_library lib" "Manager_verify lib m tok secret use now = Inr c"
  shows "SignedString lib c secret = Inr tok" "c_TokenUse c = use" "c_Issuer c = issuer m"
    "c_NotBefore c \<le> now" "now < c_ExpiresAt c"
proof -
  from assms(2) have p: "ParseWithClaims lib tok
      (\<lambda>hmac. if \<not> hmac then Inl (Sentinel ErrInvalidToken) else Inr secret) (issuer m) now
        = Inr (c, True)" and use: "c_TokenUse c = use"
    by (auto simp: Manager_verify_def split: sum.splits if_splits)
  from assms(1) have "jwt_parsed_signed lib" by (simp add: jwt_library_def)
  from this [unfolded jwt_parsed_signed_def, rule_format, OF p]
  show "SignedString lib c secret = Inr tok" "c_Issuer c = issuer m"
    "c_NotBefore c \<le> now" "now < c_ExpiresAt c" by auto
  show "c_TokenUse c = use" by (rule use)
qed

lemma Manager_issue_Inr:
  assumes "Manager_issue lib m u t r use secret ttl w = (Inr (tok, ex), w')"
  shows "SignedString lib \<lparr>c_UserID = u, c_TenantID = t, c_Role = r, c_TokenUse = use,
            c_Issuer = issuer m, c_Subject = u, c_ID = fresh_id w,
            c_IssuedAt = NewNumericDate (clock w), c_ExpiresAt = NewNumericDate (clock w + ttl),
            c_NotBefore = NewNumericDate (clock w)\<rparr> secret = Inr tok"
    "ex = clock w + ttl" "w' = w\<lparr>next_id := Suc (next_id w)\<rparr>"
  using assms by (auto simp: Manager_issue_def Let_def split: sum.splits)

lemma Manager_issue_keeps:
  "Manager_issue lib m u t r use secret ttl w = (q, w') \<Longrightarrow>
     w' = w\<lparr>next_id := Suc (next_id w)\<rparr>"
  by (auto simp: Manager_issue_def Let_def split: sum.splits)

lemma Manager_issue_verify:
  assumes "jwt_library lib" "Manager_issue lib m u t r use secret ttl w = (Inr (tok, ex), w')"
    and "NewNumericDate (clock w) \<le> now" "now < NewNumericDate (clock w + ttl)"
  shows "\<exists>c. Manager_verify lib m tok secret use' now
       = (if use' = use then Inr c else Inl (Sentinel ErrInvalidToken))
     \<and> c_UserID c = u \<and> c_TenantID c = t \<and> c_Role c = r \<and> c_TokenUse c = use"
proof -
  let ?c = "\<lparr>c_UserID = u, c_TenantID = t, c_Role = r, c_TokenUse = use,
            c_Issuer = issuer m, c_Subject = u, c_ID = fresh_id w,
            c_IssuedAt = NewNumericDate (clock w), c_ExpiresAt = NewNumericDate (clock w + ttl),
            c_NotBefore = NewNumericDate (clock w)\<rparr>"
  from assms(1) have sp: "jwt_signed_parses lib" by (simp add: jwt_library_def)
  have "ParseWithClaims lib tok
      (\<lambda>hmac. if \<not> hmac then Inl (Sentinel ErrInvalidToken) else Inr secret) (c_Issuer ?c) now
        = Inr (?c, True)"
    by (rule sp [unfolded jwt_signed_parses_def, rule_format,
          OF Manager_issue_Inr(1) [OF assms(2)]]) (use assms(3,4) in simp_all)
  then show ?thesis
    by (intro exI [of _ ?c]) (auto simp: Manager_verify_def)
qed

lemma GenerateSecret_keeps:
  "GenerateSecret n w = (r, w') \<Longrightarrow> w' = w\<lparr>rand_next := Suc (rand_next w)\<rparr>"
  by (auto simp: GenerateSecret_def Let_def split: option.splits)

lemma GenerateAPIKey_keeps:
  "GenerateAPIKey p w = (r, w') \<Longrightarrow> w' = w\<lparr>rand_next := Suc (rand_next w)\<rparr>"
  by (cases r) (auto simp: GenerateAPIKey_def Let_def dest: GenerateSecret_keeps)

lemma HashPassword_keeps:
  "HashPassword lib p w = (r, w') \<Longrightarrow> w' = w\<lparr>rand_next := Suc (rand_next w)\<rparr>"
  by (auto simp: HashPassword_def split: sum.splits)

end
