(* ===== verification/Tenant_Repository.thy ===== *)
theory Tenant_Repository
  imports Database
begin

text \<open>
  \<^verbatim>\<open>internal/repository/tenant_repository.go\<close>: the statements on the \<open>tenants\<close> table.
  Rows are soft-deleted; reads see live rows only, while the unique constraint on the slug
  covers every row.
\<close>

section \<open>Driver errors\<close>

definition isUniqueViolation :: "goerr \<Rightarrow> bool" where
  "isUniqueViolation err = (case errors_As_pq err of Some code \<Rightarrow> code = ''23505'' | None \<Rightarrow> False)"

definition isForeignKeyViolation :: "goerr \<Rightarrow> bool" where
  "isForeignKeyViolation err =
     (case errors_As_pq err of Some code \<Rightarrow> code = ''23503'' | None \<Rightarrow> False)"

definition not_found_if_no_rows :: "goerr \<Rightarrow> goerr" where
  "not_found_if_no_rows err =
     (if errors_Is err sql_ErrNoRows then Sentinel repository_ErrNotFound else err)"

section \<open>Statements\<close>

definition t_live :: "Tenant \<Rightarrow> bool" where
  "t_live t \<longleftrightarrow> t_DeletedAt t = None"

definition insert_tenant :: "Tenant \<Rightarrow> (world, Tenant) op" where
  "insert_tenant t w =
     (let row = t\<lparr>t_ID := fresh_id w, t_CreatedAt := clock w, t_UpdatedAt := clock w,
                  t_DeletedAt := None\<rparr>
      in if 255 < length (t_Name t) \<or> 255 < length (t_Slug t) \<or> 50 < length (t_Plan t)
         then (Inl varchar_error, w)
         else if \<not> Plan_Valid (t_Plan t) then (Inl check_error, w)
         else if t_Slug t \<in> set (map t_Slug (tenants w)) then (Inl unique_error, w)
         else (Inr row, w\<lparr>tenants := tenants w @ [row], next_id := Suc (next_id w)\<rparr>))"

definition TenantRepository_Create :: "Tenant \<Rightarrow> (world, Tenant) op" where
  "TenantRepository_Create t =
     map_err (\<lambda>err. if isUniqueViolation err then Sentinel repository_ErrConflict else err)
       (exec (insert_tenant t))"

definition TenantRepository_GetByID :: "string \<Rightarrow> (world, Tenant) op" where
  "TenantRepository_GetByID i =
     map_err not_found_if_no_rows
       (exec (uuid_param i (\<lambda>u. query_row (\<lambda>w. filter (\<lambda>t. t_ID t = u \<and> t_live t) (tenants w)))))"

definition TenantRepository_GetBySlug :: "string \<Rightarrow> (world, Tenant) op" where
  "TenantRepository_GetBySlug slug =
     map_err not_found_if_no_rows
       (exec (query_row (\<lambda>w. filter (\<lambda>t. t_Slug t = slug \<and> t_live t) (tenants w))))"

definition tenant_search :: "string \<Rightarrow> world \<Rightarrow> Tenant list" where
  "tenant_search search w =
     filter (\<lambda>t. t_live t \<and> (search = '''' \<or> ilike_contains (t_Name t) search
                            \<or> ilike_contains (t_Slug t) search)) (tenants w)"

definition TenantRepository_List :: "string \<Rightarrow> int \<Rightarrow> int \<Rightarrow> (world, Tenant list \<times> int) op" where
  "TenantRepository_List search page pageSize =
     (let offset = wrap64 ((page - 1) * pageSize)
      in bind_op (exec (query_row (\<lambda>w. [int (length (tenant_search search w))]))) (\<lambda>total.
         bind_op (exec (limit_offset pageSize offset
                    (\<lambda>w. order_desc t_CreatedAt (tenant_search search w)))) (\<lambda>ts.
         ret (ts, total))))"

definition update_tenant :: "Tenant \<Rightarrow> string \<Rightarrow> (world, Tenant) op" where
  "update_tenant t u w =
     (let P = (\<lambda>r. t_ID r = u \<and> t_live r);
          f = (\<lambda>r. r\<lparr>t_Name := t_Name t, t_Plan := t_Plan t, t_IsActive := t_IsActive t,
                      t_UpdatedAt := clock w\<rparr>)
      in if rows_affected P (tenants w) = 0 then (Inl (Sentinel sql_ErrNoRows), w)
         else if 255 < length (t_Name t) \<or> 50 < length (t_Plan t) then (Inl varchar_error, w)
         else if \<not> Plan_Valid (t_Plan t) then (Inl check_error, w)
         else (Inr (t\<lparr>t_UpdatedAt := clock w\<rparr>), w\<lparr>tenants := update_rows P f (tenants w)\<rparr>))"

definition TenantRepository_Update :: "Tenant \<Rightarrow> (world, Tenant) op" where
  "TenantRepository_Update t =
     map_err not_found_if_no_rows (exec (uuid_param (t_ID t) (update_tenant t)))"

definition soft_delete_tenant :: "string \<Rightarrow> (world, unit) op" where
  "soft_delete_tenant u w =
     (let P = (\<lambda>r. t_ID r = u \<and> t_live r)
      in if rows_affected P (tenants w) = 0 then (Inl (Sentinel repository_ErrNotFound), w)
         else (Inr (), w\<lparr>tenants := update_rows P (\<lambda>r. r\<lparr>t_DeletedAt := Some (clock w)\<rparr>)
                                      (tenants w)\<rparr>))"

definition TenantRepository_SoftDelete :: "string \<Rightarrow> (world, unit) op" where
  "TenantRepository_SoftDelete i = exec (uuid_param i soft_delete_tenant)"

text \<open>\<open>id = ANY($1)\<close>: each element of the array is read as a UUID.\<close>

fun uuid_array :: "world \<Rightarrow> string list \<Rightarrow> string list option" where
  "uuid_array w [] = Some []"
| "uuid_array w (i # is) =
     (case uuid_in w i of None \<Rightarrow> None | Some u \<Rightarrow> map_option (\<lambda>us. u # us) (uuid_array w is))"

definition TenantRepository_ListByIDs :: "string list \<Rightarrow> (world, Tenant list) op" where
  "TenantRepository_ListByIDs ids =
     (if length ids = 0 then ret []
      else exec (\<lambda>w. case uuid_array w ids of
          None \<Rightarrow> (Inl (PqErr ''22P02'' ''invalid input syntax for type uuid''), w)
        | Some us \<Rightarrow> query_rows (\<lambda>w. filter (\<lambda>t. t_ID t \<in> set us \<and> t_live t) (tenants w)) w))"

section \<open>What the statements return and change\<close>

lemma read_only_tenant_repo [frame_rules]:
  "read_only (TenantRepository_GetByID i)" "read_only (TenantRepository_GetBySlug s)"
  "read_only (TenantRepository_List q p n)"
  unfolding TenantRepository_GetByID_def TenantRepository_GetBySlug_def
    TenantRepository_List_def Let_def
  by (intro frame_rules)+

lemma read_only_ListByIDs [frame_rules]: "read_only (TenantRepository_ListByIDs ids)"
proof -
  have "read_only (\<lambda>w. case uuid_array w ids of
          None \<Rightarrow> (Inl (PqErr ''22P02'' ''invalid input syntax for type uuid''), w)
        | Some us \<Rightarrow> query_rows (\<lambda>w. filter (\<lambda>t. t_ID t \<in> set us \<and> t_live t) (tenants w)) w)"
    by (auto simp: read_only_def query_rows_def split: option.splits)
  then show ?thesis
    by (simp add: TenantRepository_ListByIDs_def frame_rules)
qed

lemma not_found_if_no_rows_NotFound [simp]:
  "not_found_if_no_rows (Sentinel sql_ErrNoRows) = Sentinel repository_ErrNotFound"
  by (simp add: not_found_if_no_rows_def)

lemma TenantRepository_GetByID_Inr:
  assumes "TenantRepository_GetByID i w = (Inr t, w')"
  shows "t \<in> set (tenants w)" "t_live t" "uuid_in w i = Some (t_ID t)"
proof -
  from assms obtain w1 where w1: "tabs w1 = tabs w" "same_env w w1"
    and q: "uuid_param i (\<lambda>u. query_row (\<lambda>w. filter (\<lambda>t. t_ID t = u \<and> t_live t) (tenants w))) w1
              = (Inr t, w')"
    by (auto simp: TenantRepository_GetByID_def elim: exec_Inr)
  from q obtain u where u: "uuid_in w1 i = Some u"
    and r: "query_row (\<lambda>w. filter (\<lambda>t. t_ID t = u \<and> t_live t) (tenants w)) w1 = (Inr t, w')"
    by (auto simp: uuid_param_Inr)
  from query_row_Inr_mem [OF r] show "t \<in> set (tenants w)" "t_live t" "uuid_in w i = Some (t_ID t)"
    using u w1(2) by (auto simp: tabs_eqD [OF w1(1)] same_env_def)
qed

lemma TenantRepository_GetBySlug_Inr:
  assumes "TenantRepository_GetBySlug slug w = (Inr t, w')"
  shows "t \<in> set (tenants w)" "t_live t" "t_Slug t = slug"
proof -
  from assms obtain w1 where w1: "tabs w1 = tabs w"
    and q: "query_row (\<lambda>w. filter (\<lambda>t. t_Slug t = slug \<and> t_live t) (tenants w)) w1 = (Inr t, w')"
    by (auto simp: TenantRepository_GetBySlug_def elim: exec_Inr)
  from query_row_Inr_mem [OF q] show "t \<in> set (tenants w)" "t_live t" "t_Slug t = slug"
    by (auto simp: tabs_eqD [OF w1])
qed

text \<open>The table after an insert: the new row is the argument with its generated columns.\<close>

definition tenant_inserted :: "Tenant \<Rightarrow> tables \<Rightarrow> Tenant \<Rightarrow> tables \<Rightarrow> bool" where
  "tenant_inserted t a t' b \<longleftrightarrow> b = a\<lparr>tenants := tenants a @ [t']\<rparr>
     \<and> t_Name t' = t_Name t \<and> t_Slug t' = t_Slug t \<and> t_Plan t' = t_Plan t
     \<and> t_IsActive t' = t_IsActive t \<and> t_DeletedAt t' = None
     \<and> Plan_Valid (t_Plan t) \<and> t_Slug t \<notin> set (map t_Slug (tenants a))"

lemma TenantRepository_Create_writes:
  "writes (\<lambda>env. tenant_inserted t) (TenantRepository_Create t)"
  unfolding TenantRepository_Create_def
  by (intro writes_map_err writes_exec)
    (auto simp: writes_def insert_tenant_def tenant_inserted_def Let_def same_env_def
      split: sum.splits if_splits)

definition tenant_updated :: "Tenant \<Rightarrow> string \<Rightarrow> tables \<Rightarrow> Tenant \<Rightarrow> tables \<Rightarrow> bool" where
  "tenant_updated t u a t' b \<longleftrightarrow> (\<exists>now. b = a\<lparr>tenants :=
        update_rows (\<lambda>r. t_ID r = u \<and> t_live r)
          (\<lambda>r. r\<lparr>t_Name := t_Name t, t_Plan := t_Plan t, t_IsActive := t_IsActive t,
                 t_UpdatedAt := now\<rparr>) (tenants a)\<rparr>
     \<and> (\<exists>r \<in> set (tenants a). t_ID r = u \<and> t_live r)
     \<and> t' = t\<lparr>t_UpdatedAt := now\<rparr> \<and> Plan_Valid (t_Plan t))"

lemma TenantRepository_Update_writes:
  "writes (\<lambda>env a t' b. \<exists>u. env (t_ID t) = Some u \<and> tenant_updated t u a t' b)
     (TenantRepository_Update t)"
  unfolding TenantRepository_Update_def
  by (intro writes_map_err writes_exec writes_uuid_param)
    (fastforce simp: writes_def update_tenant_def tenant_updated_def Let_def
      split: sum.splits if_splits)

definition tenant_deleted :: "string \<Rightarrow> tables \<Rightarrow> unit \<Rightarrow> tables \<Rightarrow> bool" where
  "tenant_deleted u a x b \<longleftrightarrow> (\<exists>now. b = a\<lparr>tenants :=
        update_rows (\<lambda>r. t_ID r = u \<and> t_live r) (\<lambda>r. r\<lparr>t_DeletedAt := Some now\<rparr>) (tenants a)\<rparr>
     \<and> (\<exists>r \<in> set (tenants a). t_ID r = u \<and> t_live r))"

lemma TenantRepository_SoftDelete_writes:
  "writes (\<lambda>env a x b. \<exists>u. env i = Some u \<and> tenant_deleted u a x b)
     (TenantRepository_SoftDelete i)"
  unfolding TenantRepository_SoftDelete_def
  by (intro writes_exec writes_uuid_param)
    (fastforce simp: writes_def soft_delete_tenant_def tenant_deleted_def Let_def
      split: sum.splits if_splits)

end
