(* ===== verification/User_Repository.thy ===== *)
theory User_Repository
  imports Tenant_Repository
begin

text \<open>
  \<^verbatim>\<open>internal/repository/user_repository.go\<close>: the statements on the \<open>users\<close> table. The
  methods ending in \<open>InTenant\<close> carry the tenant predicate in the statement itself.
\<close>

definition u_live :: "User \<Rightarrow> bool" where
  "u_live u \<longleftrightarrow> u_DeletedAt u = None"

definition active_admin :: "string \<Rightarrow> User \<Rightarrow> bool" where
  "active_admin tid u \<longleftrightarrow> u_TenantID u = tid \<and> u_Role u = RoleAdmin \<and> u_IsActive u \<and> u_live u"

definition insert_user :: "User \<Rightarrow> string \<Rightarrow> (world, User) op" where
  "insert_user u tid w =
     (let row = u\<lparr>u_ID := fresh_id w, u_TenantID := tid, u_LastLoginAt := None,
                  u_CreatedAt := clock w, u_UpdatedAt := clock w, u_DeletedAt := None\<rparr>
      in if 255 < length (u_Email u) \<or> 255 < length (u_PasswordHash u)
            \<or> 120 < length (u_FirstName u) \<or> 120 < length (u_LastName u) \<or> 50 < length (u_Role u)
         then (Inl varchar_error, w)
         else if \<not> Role_Valid (u_Role u) then (Inl check_error, w)
         else if u_Email u \<in> set (map u_Email (filter u_live (users w))) then (Inl unique_error, w)
         else if \<not> tenant_exists w tid then (Inl fk_error, w)
         else (Inr (u\<lparr>u_ID := fresh_id w, u_CreatedAt := clock w, u_UpdatedAt := clock w\<rparr>),
               w\<lparr>users := users w @ [row], next_id := Suc (next_id w)\<rparr>))"

definition UserRepository_Create :: "User \<Rightarrow> (world, User) op" where
  "UserRepository_Create u =
     map_err (\<lambda>err. if isUniqueViolation err then Sentinel repository_ErrConflict else err)
       (exec (uuid_param (u_TenantID u) (insert_user u)))"

definition UserRepository_GetByID :: "string \<Rightarrow> (world, User) op" where
  "UserRepository_GetByID i =
     map_err not_found_if_no_rows
       (exec (uuid_param i (\<lambda>x. query_row (\<lambda>w. filter (\<lambda>u. u_ID u = x \<and> u_live u) (users w)))))"

definition UserRepository_GetByEmail :: "string \<Rightarrow> (world, User) op" where
  "UserRepository_GetByEmail email =
     map_err not_found_if_no_rows
       (exec (query_row (\<lambda>w. filter (\<lambda>u. u_Email u = email \<and> u_live u) (users w))))"

definition UserRepository_ListByTenant ::
  "string \<Rightarrow> int \<Rightarrow> int \<Rightarrow> (world, User list \<times> int) op" where
  "UserRepository_ListByTenant tenantID page pageSize =
     (let offset = wrap64 ((page - 1) * pageSize);
          rows = (\<lambda>tid w. filter (\<lambda>u. u_TenantID u = tid \<and> u_live u) (users w))
      in bind_op (exec (uuid_param tenantID (\<lambda>tid. query_row (\<lambda>w. [int (length (rows tid w))]))))
           (\<lambda>total.
         bind_op (exec (uuid_param tenantID (\<lambda>tid.
             limit_offset pageSize offset (\<lambda>w. order_desc u_CreatedAt (rows tid w)))))
           (\<lambda>us. ret (us, total))))"

definition update_users :: "(User \<Rightarrow> bool) \<Rightarrow> (time \<Rightarrow> User \<Rightarrow> User) \<Rightarrow> (world, unit) op" where
  "update_users P f w =
     (if rows_affected P (users w) = 0 then (Inl (Sentinel repository_ErrNotFound), w)
      else (Inr (), w\<lparr>users := update_rows P (f (clock w)) (users w)\<rparr>))"

text \<open>The \<open>CHECK\<close> on the role fires only when the statement has a row to change.\<close>

definition set_role :: "(User \<Rightarrow> bool) \<Rightarrow> Role \<Rightarrow> (world, unit) op" where
  "set_role P role w =
     (if rows_affected P (users w) \<noteq> 0 \<and> \<not> Role_Valid role then (Inl check_error, w)
      else update_users P (\<lambda>now u. u\<lparr>u_Role := role, u_UpdatedAt := now\<rparr>) w)"

definition UserRepository_UpdateRole :: "string \<Rightarrow> Role \<Rightarrow> (world, unit) op" where
  "UserRepository_UpdateRole i role =
     exec (uuid_param i (\<lambda>x. set_role (\<lambda>u. u_ID u = x \<and> u_live u) role))"

definition UserRepository_UpdateLastLogin :: "string \<Rightarrow> (world, unit) op" where
  "UserRepository_UpdateLastLogin i =
     exec (uuid_param i (\<lambda>x w.
       (Inr (), w\<lparr>users := update_rows (\<lambda>u. u_ID u = x)
                              (\<lambda>u. u\<lparr>u_LastLoginAt := Some (clock w)\<rparr>) (users w)\<rparr>)))"

definition UserRepository_GetByIDInTenant :: "string \<Rightarrow> string \<Rightarrow> (world, User) op" where
  "UserRepository_GetByIDInTenant tenantID i =
     map_err not_found_if_no_rows
       (exec (uuid_param i (\<lambda>x. uuid_param tenantID (\<lambda>tid.
          query_row (\<lambda>w. filter (\<lambda>u. u_ID u = x \<and> u_TenantID u = tid \<and> u_live u) (users w))))))"

definition UserRepository_UpdateRoleInTenant ::
  "string \<Rightarrow> string \<Rightarrow> Role \<Rightarrow> (world, unit) op" where
  "UserRepository_UpdateRoleInTenant tenantID i role =
     exec (uuid_param i (\<lambda>x. uuid_param tenantID (\<lambda>tid.
       set_role (\<lambda>u. u_ID u = x \<and> u_TenantID u = tid \<and> u_live u) role)))"

definition UserRepository_CountAdminsInTenant :: "string \<Rightarrow> (world, int) op" where
  "UserRepository_CountAdminsInTenant tenantID =
     exec (uuid_param tenantID (\<lambda>tid.
       query_row (\<lambda>w. [int (length (filter (active_admin tid) (users w)))])))"

definition UserRepository_SetActiveInTenant ::
  "string \<Rightarrow> string \<Rightarrow> bool \<Rightarrow> (world, unit) op" where
  "UserRepository_SetActiveInTenant tenantID i active =
     exec (uuid_param i (\<lambda>x. uuid_param tenantID (\<lambda>tid.
       update_users (\<lambda>u. u_ID u = x \<and> u_TenantID u = tid \<and> u_live u)
         (\<lambda>now u. u\<lparr>u_IsActive := active, u_UpdatedAt := now\<rparr>))))"

section \<open>What the statements return and change\<close>

lemma read_only_user_repo [frame_rules]:
  "read_only (UserRepository_GetByID i)" "read_only (UserRepository_GetByEmail e)"
  "read_only (UserRepository_ListByTenant t p n)" "read_only (UserRepository_GetByIDInTenant t i)"
  "read_only (UserRepository_CountAdminsInTenant t)"
  unfolding UserRepository_GetByID_def UserRepository_GetByEmail_def
    UserRepository_ListByTenant_def UserRepository_GetByIDInTenant_def
    UserRepository_CountAdminsInTenant_def Let_def
  by (intro frame_rules)+

lemma UserRepository_GetByIDInTenant_Inr:
  assumes "UserRepository_GetByIDInTenant t i w = (Inr u, w')"
  shows "u \<in> set (users w)" "u_live u" "uuid_in w i = Some (u_ID u)"
    "uuid_in w t = Some (u_TenantID u)"
proof -
  from assms obtain w1 where w1: "tabs w1 = tabs w" "same_env w w1"
    and q: "uuid_param i (\<lambda>x. uuid_param t (\<lambda>tid. query_row (\<lambda>w.
              filter (\<lambda>u. u_ID u = x \<and> u_TenantID u = tid \<and> u_live u) (users w)))) w1 = (Inr u, w')"
    by (auto simp: UserRepository_GetByIDInTenant_def elim: exec_Inr)
  from q obtain x tid where ids: "uuid_in w1 i = Some x" "uuid_in w1 t = Some tid"
    and r: "query_row (\<lambda>w. filter (\<lambda>u. u_ID u = x \<and> u_TenantID u = tid \<and> u_live u) (users w)) w1
              = (Inr u, w')"
    by (auto simp: uuid_param_Inr)
  from query_row_Inr_mem [OF r] ids w1(2)
  show "u \<in> set (users w)" "u_live u" "uuid_in w i = Some (u_ID u)"
    "uuid_in w t = Some (u_TenantID u)"
    by (auto simp: tabs_eqD [OF w1(1)] same_env_def)
qed

lemma UserRepository_GetByEmail_Inr:
  assumes "UserRepository_GetByEmail e w = (Inr u, w')"
  shows "u \<in> set (users w)" "u_live u" "u_Email u = e"
proof -
  from assms obtain w1 where w1: "tabs w1 = tabs w"
    and q: "query_row (\<lambda>w. filter (\<lambda>u. u_Email u = e \<and> u_live u) (users w)) w1 = (Inr u, w')"
    by (auto simp: UserRepository_GetByEmail_def elim: exec_Inr)
  from query_row_Inr_mem [OF q] show "u \<in> set (users w)" "u_live u" "u_Email u = e"
    by (auto simp: tabs_eqD [OF w1])
qed

lemma UserRepository_GetByID_Inr:
  assumes "UserRepository_GetByID i w = (Inr u, w')"
  shows "u \<in> set (users w)" "u_live u" "uuid_in w i = Some (u_ID u)"
proof -
  from assms obtain w1 where w1: "tabs w1 = tabs w" "same_env w w1"
    and q: "uuid_param i (\<lambda>x. query_row (\<lambda>w. filter (\<lambda>u. u_ID u = x \<and> u_live u) (users w))) w1
              = (Inr u, w')"
    by (auto simp: UserRepository_GetByID_def elim: exec_Inr)
  from q obtain x where ids: "uuid_in w1 i = Some x"
    and r: "query_row (\<lambda>w. filter (\<lambda>u. u_ID u = x \<and> u_live u) (users w)) w1 = (Inr u, w')"
    by (auto simp: uuid_param_Inr)
  from query_row_Inr_mem [OF r] ids w1(2)
  show "u \<in> set (users w)" "u_live u" "uuid_in w i = Some (u_ID u)"
    by (auto simp: tabs_eqD [OF w1(1)] same_env_def)
qed

lemma UserRepository_CountAdminsInTenant_Inr:
  assumes "UserRepository_CountAdminsInTenant t w = (Inr n, w')"
  shows "\<exists>tid. uuid_in w t = Some tid \<and> n = int (length (filter (active_admin tid) (users w)))"
proof -
  from assms obtain w1 where w1: "tabs w1 = tabs w" "same_env w w1"
    and q: "uuid_param t (\<lambda>tid. query_row (\<lambda>w. [int (length (filter (active_admin tid) (users w)))]))
              w1 = (Inr n, w')"
    by (auto simp: UserRepository_CountAdminsInTenant_def elim: exec_Inr)
  then show ?thesis
    by (auto simp: uuid_param_Inr query_row_Inr tabs_eqD [OF w1(1)] same_env_def)
qed

text \<open>The rows a tenant-scoped update touches, and what it leaves of them.\<close>

definition user_row :: "string \<Rightarrow> string \<Rightarrow> User \<Rightarrow> bool" where
  "user_row tid x u \<longleftrightarrow> u_ID u = x \<and> u_TenantID u = tid \<and> u_live u"

definition users_set ::
  "string \<Rightarrow> string \<Rightarrow> (time \<Rightarrow> User \<Rightarrow> User) \<Rightarrow> tables \<Rightarrow> unit \<Rightarrow> tables \<Rightarrow> bool" where
  "users_set tid x f a r b \<longleftrightarrow>
     (\<exists>now. b = a\<lparr>users := update_rows (user_row tid x) (f now) (users a)\<rparr>)
     \<and> (\<exists>u \<in> set (users a). user_row tid x u)"

lemma update_users_writes:
  "writes (\<lambda>env. users_set tid x f)
     (update_users (\<lambda>u. u_ID u = x \<and> u_TenantID u = tid \<and> u_live u) f)"
  by (auto simp: writes_def update_users_def users_set_def user_row_def [abs_def]
      split: sum.splits if_splits)

abbreviation put_role :: "Role \<Rightarrow> time \<Rightarrow> User \<Rightarrow> User" where
  "put_role role \<equiv> \<lambda>now u. u\<lparr>u_Role := role, u_UpdatedAt := now\<rparr>"

abbreviation put_active :: "bool \<Rightarrow> time \<Rightarrow> User \<Rightarrow> User" where
  "put_active active \<equiv> \<lambda>now u. u\<lparr>u_IsActive := active, u_UpdatedAt := now\<rparr>"

lemma set_role_writes:
  "writes (\<lambda>env a r b. users_set tid x (put_role role) a r b \<and> Role_Valid role)
     (set_role (\<lambda>u. u_ID u = x \<and> u_TenantID u = tid \<and> u_live u) role)"
  by (auto simp: writes_def set_role_def update_users_def users_set_def user_row_def [abs_def]
      split: sum.splits if_splits)

lemma UserRepository_UpdateRoleInTenant_writes:
  "writes (\<lambda>env a r b. \<exists>x. env i = Some x \<and> (\<exists>tid. env t = Some tid
       \<and> users_set tid x (put_role role) a r b \<and> Role_Valid role))
     (UserRepository_UpdateRoleInTenant t i role)"
  unfolding UserRepository_UpdateRoleInTenant_def
  by (intro writes_exec writes_uuid_param set_role_writes)

lemma UserRepository_SetActiveInTenant_writes:
  "writes (\<lambda>env a r b. \<exists>x. env i = Some x \<and> (\<exists>tid. env t = Some tid
       \<and> users_set tid x (put_active active) a r b))
     (UserRepository_SetActiveInTenant t i active)"
  unfolding UserRepository_SetActiveInTenant_def
  by (intro writes_exec writes_uuid_param update_users_writes)

lemma UserRepository_UpdateLastLogin_writes:
  "writes (\<lambda>env a r b. \<exists>x. env i = Some x \<and> (\<exists>now. b = a\<lparr>users :=
       update_rows (\<lambda>u. u_ID u = x) (\<lambda>u. u\<lparr>u_LastLoginAt := Some now\<rparr>) (users a)\<rparr>))
     (UserRepository_UpdateLastLogin i)"
  unfolding UserRepository_UpdateLastLogin_def
  by (intro writes_exec writes_uuid_param) (auto simp: writes_def)

definition user_inserted :: "User \<Rightarrow> string \<Rightarrow> tables \<Rightarrow> User \<Rightarrow> tables \<Rightarrow> bool" where
  "user_inserted u tid a u' b \<longleftrightarrow> (\<exists>row. b = a\<lparr>users := users a @ [row]\<rparr>
     \<and> u_ID row = u_ID u' \<and> u_TenantID row = tid \<and> u_Email row = u_Email u
     \<and> u_PasswordHash row = u_PasswordHash u \<and> u_FirstName row = u_FirstName u
     \<and> u_LastName row = u_LastName u \<and> u_Role row = u_Role u \<and> u_IsActive row = u_IsActive u
     \<and> u_live row \<and> u_LastLoginAt row = None)
     \<and> u_TenantID u' = u_TenantID u \<and> u_Email u' = u_Email u \<and> u_Role u' = u_Role u
     \<and> u_IsActive u' = u_IsActive u \<and> u_PasswordHash u' = u_PasswordHash u
     \<and> Role_Valid (u_Role u) \<and> tid \<in> set (map t_ID (tenants a))
     \<and> u_Email u \<notin> set (map u_Email (filter u_live (users a)))"

lemma UserRepository_Create_writes:
  "writes (\<lambda>env a u' b. \<exists>tid. env (u_TenantID u) = Some tid \<and> user_inserted u tid a u' b)
     (UserRepository_Create u)"
  unfolding UserRepository_Create_def
  by (intro writes_map_err writes_exec writes_uuid_param)
    (auto simp: writes_def insert_user_def user_inserted_def Let_def same_env_def u_live_def
      tenant_exists_def split: sum.splits if_splits)

end
