(* ===== verification/Token_Repository.thy ===== *)
theory Token_Repository
  imports User_Repository
begin

text \<open>
  The credential tables: \<^verbatim>\<open>internal/repository/refresh_token_repository.go\<close> and
  \<^verbatim>\<open>internal/repository/apikey_repository.go\<close>. Both store the hash of a secret, never
  the secret, and both revoke a row by setting \<open>revoked_at\<close> once.
\<close>

section \<open>Refresh tokens\<close>

definition insert_refresh_token :: "RefreshToken \<Rightarrow> string \<Rightarrow> (world, RefreshToken) op" where
  "insert_refresh_token t uid w =
     (let row = t\<lparr>rt_ID := fresh_id w, rt_UserID := uid, rt_RevokedAt := None,
                  rt_CreatedAt := clock w\<rparr>
      in if 255 < length (rt_TokenHash t) then (Inl varchar_error, w)
         else if \<not> user_exists w uid then (Inl fk_error, w)
         else (Inr (t\<lparr>rt_ID := fresh_id w, rt_CreatedAt := clock w\<rparr>),
               w\<lparr>refresh_tokens := refresh_tokens w @ [row], next_id := Suc (next_id w)\<rparr>))"

definition RefreshTokenRepository_Create :: "RefreshToken \<Rightarrow> (world, RefreshToken) op" where
  "RefreshTokenRepository_Create t = exec (uuid_param (rt_UserID t) (insert_refresh_token t))"

definition rt_active :: "string \<Rightarrow> time \<Rightarrow> RefreshToken \<Rightarrow> bool" where
  "rt_active uid now t \<longleftrightarrow> rt_UserID t = uid \<and> rt_RevokedAt t = None \<and> now < rt_ExpiresAt t"

text \<open>The time is the caller's \<open>time.Now()\<close>, a parameter of the statement.\<close>

definition RefreshTokenRepository_ListActiveByUser ::
  "string \<Rightarrow> (world, RefreshToken list) op" where
  "RefreshTokenRepository_ListActiveByUser userID w =
     (let now = clock w in
      exec (uuid_param userID (\<lambda>uid.
        query_rows (\<lambda>w. order_desc rt_CreatedAt (filter (rt_active uid now) (refresh_tokens w))))) w)"

definition RefreshTokenRepository_Revoke :: "string \<Rightarrow> (world, unit) op" where
  "RefreshTokenRepository_Revoke i =
     exec (uuid_param i (\<lambda>x w.
       let P = (\<lambda>t. rt_ID t = x \<and> rt_RevokedAt t = None)
       in if rows_affected P (refresh_tokens w) = 0 then (Inl (Sentinel repository_ErrNotFound), w)
          else (Inr (), w\<lparr>refresh_tokens :=
                  update_rows P (\<lambda>t. t\<lparr>rt_RevokedAt := Some (clock w)\<rparr>) (refresh_tokens w)\<rparr>)))"

definition RefreshTokenRepository_RevokeAllForUser :: "string \<Rightarrow> (world, unit) op" where
  "RefreshTokenRepository_RevokeAllForUser userID =
     exec (uuid_param userID (\<lambda>uid w.
       (Inr (), w\<lparr>refresh_tokens :=
          update_rows (\<lambda>t. rt_UserID t = uid \<and> rt_RevokedAt t = None)
            (\<lambda>t. t\<lparr>rt_RevokedAt := Some (clock w)\<rparr>) (refresh_tokens w)\<rparr>)))"

lemma read_only_ListActiveByUser [frame_rules]:
  "read_only (RefreshTokenRepository_ListActiveByUser uid)"
  unfolding read_only_def
proof (intro allI impI)
  fix w r w'
  assume "RefreshTokenRepository_ListActiveByUser uid w = (r, w')"
  then have run: "exec (uuid_param uid (\<lambda>u. query_rows (\<lambda>v. order_desc rt_CreatedAt
      (filter (rt_active u (clock w)) (refresh_tokens v))))) w = (r, w')"
    by (simp add: RefreshTokenRepository_ListActiveByUser_def Let_def)
  have "read_only (exec (uuid_param uid (\<lambda>u. query_rows (\<lambda>v. order_desc rt_CreatedAt
      (filter (rt_active u (clock w)) (refresh_tokens v))))))"
    by (intro frame_rules)
  from read_onlyD [OF this run]
  show "tabs w' = tabs w \<and> same_env w w' \<and> next_id w' = next_id w" by simp
qed

definition refresh_inserted :: "RefreshToken \<Rightarrow> string \<Rightarrow> tables \<Rightarrow> RefreshToken \<Rightarrow> tables \<Rightarrow> bool"
where
  "refresh_inserted t uid a t' b \<longleftrightarrow> (\<exists>row. b = a\<lparr>refresh_tokens := refresh_tokens a @ [row]\<rparr>
     \<and> rt_ID row = rt_ID t' \<and> rt_UserID row = uid \<and> rt_TokenHash row = rt_TokenHash t
     \<and> rt_ExpiresAt row = rt_ExpiresAt t \<and> rt_RevokedAt row = None)
     \<and> uid \<in> set (map u_ID (users a))"

lemma RefreshTokenRepository_Create_writes:
  "writes (\<lambda>env a t' b. \<exists>uid. env (rt_UserID t) = Some uid \<and> refresh_inserted t uid a t' b)
     (RefreshTokenRepository_Create t)"
  unfolding RefreshTokenRepository_Create_def
  by (intro writes_exec writes_uuid_param)
    (auto simp: writes_def insert_refresh_token_def refresh_inserted_def Let_def same_env_def
      user_exists_def split: sum.splits if_splits)

text \<open>The rows for which \<open>P\<close> holds are revoked, the others stay.\<close>

definition refresh_revoked :: "(RefreshToken \<Rightarrow> bool) \<Rightarrow> tables \<Rightarrow> tables \<Rightarrow> bool" where
  "refresh_revoked P a b \<longleftrightarrow> (\<exists>now. b = a\<lparr>refresh_tokens :=
     update_rows (\<lambda>t. P t \<and> rt_RevokedAt t = None) (\<lambda>t. t\<lparr>rt_RevokedAt := Some now\<rparr>)
       (refresh_tokens a)\<rparr>)"

lemma RefreshTokenRepository_Revoke_writes:
  "writes (\<lambda>env a y b. \<exists>x. env i = Some x \<and> refresh_revoked (\<lambda>t. rt_ID t = x) a b)
     (RefreshTokenRepository_Revoke i)"
  unfolding RefreshTokenRepository_Revoke_def
  by (intro writes_exec writes_uuid_param)
    (auto simp: writes_def refresh_revoked_def Let_def split: sum.splits if_splits)

lemma RefreshTokenRepository_RevokeAllForUser_writes:
  "writes (\<lambda>env a y b. \<exists>uid. env userID = Some uid
       \<and> refresh_revoked (\<lambda>t. rt_UserID t = uid) a b)
     (RefreshTokenRepository_RevokeAllForUser userID)"
  unfolding RefreshTokenRepository_RevokeAllForUser_def
  by (intro writes_exec writes_uuid_param)
    (auto simp: writes_def refresh_revoked_def split: sum.splits if_splits)

lemma refresh_revoked_none_active:
  assumes "refresh_revoked (\<lambda>t. rt_UserID t = uid) a b"
  shows "filter (rt_active uid now) (refresh_tokens b) = []"
proof -
  from assms obtain m where b: "refresh_tokens b =
      update_rows (\<lambda>t. rt_UserID t = uid \<and> rt_RevokedAt t = None)
        (\<lambda>t. t\<lparr>rt_RevokedAt := Some m\<rparr>) (refresh_tokens a)"
    by (auto simp: refresh_revoked_def)
  show ?thesis
    by (simp add: b filter_empty_conv ball_update_rows rt_active_def)
qed

section \<open>API keys\<close>

definition k_live :: "APIKey \<Rightarrow> bool" where
  "k_live k \<longleftrightarrow> k_IsActive k \<and> k_RevokedAt k = None"

definition insert_api_key :: "APIKey \<Rightarrow> string \<Rightarrow> string option \<Rightarrow> (world, APIKey) op" where
  "insert_api_key k tid cb w =
     (let row = k\<lparr>k_ID := fresh_id w, k_TenantID := tid, k_CreatedBy := cb, k_LastUsedAt := None,
                  k_CreatedAt := clock w, k_UpdatedAt := clock w, k_RevokedAt := None\<rparr>
      in if 255 < length (k_Name k) \<or> 20 < length (k_Prefix k) \<or> 255 < length (k_KeyHash k)
            \<or> 4 < length (k_LastFour k)
         then (Inl varchar_error, w)
         else if \<not> tenant_exists w tid \<or> \<not> opt_ok (user_exists w) cb then (Inl fk_error, w)
         else (Inr (k\<lparr>k_ID := fresh_id w, k_CreatedAt := clock w, k_UpdatedAt := clock w\<rparr>),
               w\<lparr>api_keys := api_keys w @ [row], next_id := Suc (next_id w)\<rparr>))"

definition APIKeyRepository_Create :: "APIKey \<Rightarrow> (world, APIKey) op" where
  "APIKeyRepository_Create k =
     exec (uuid_param (k_TenantID k) (\<lambda>tid. uuid_opt_param (k_CreatedBy k) (insert_api_key k tid)))"

definition key_candidate :: "string \<Rightarrow> time \<Rightarrow> APIKey \<Rightarrow> bool" where
  "key_candidate prefix now k \<longleftrightarrow> k_Prefix k = prefix \<and> k_live k
     \<and> (case k_ExpiresAt k of None \<Rightarrow> True | Some e \<Rightarrow> now < e)"

definition APIKeyRepository_ListActiveByPrefix :: "string \<Rightarrow> (world, APIKey list) op" where
  "APIKeyRepository_ListActiveByPrefix prefix =
     exec (query_rows (\<lambda>w. filter (key_candidate prefix (clock w)) (api_keys w)))"

definition APIKeyRepository_ListByTenant :: "string \<Rightarrow> (world, APIKey list) op" where
  "APIKeyRepository_ListByTenant tenantID =
     exec (uuid_param tenantID (\<lambda>tid.
       query_rows (\<lambda>w. order_desc k_CreatedAt (filter (\<lambda>k. k_TenantID k = tid) (api_keys w)))))"

definition APIKeyRepository_GetByID :: "string \<Rightarrow> (world, APIKey) op" where
  "APIKeyRepository_GetByID i =
     map_err not_found_if_no_rows
       (exec (uuid_param i (\<lambda>x. query_row (\<lambda>w. filter (\<lambda>k. k_ID k = x) (api_keys w)))))"

definition APIKeyRepository_TouchLastUsed :: "string \<Rightarrow> (world, unit) op" where
  "APIKeyRepository_TouchLastUsed i =
     exec (uuid_param i (\<lambda>x w.
       (Inr (), w\<lparr>api_keys := update_rows (\<lambda>k. k_ID k = x)
                    (\<lambda>k. k\<lparr>k_LastUsedAt := Some (clock w)\<rparr>) (api_keys w)\<rparr>)))"

definition revoke_keys :: "(APIKey \<Rightarrow> bool) \<Rightarrow> (time \<Rightarrow> APIKey \<Rightarrow> APIKey) \<Rightarrow> (world, unit) op" where
  "revoke_keys P f w =
     (if rows_affected P (api_keys w) = 0 then (Inl (Sentinel repository_ErrNotFound), w)
      else (Inr (), w\<lparr>api_keys := update_rows P (f (clock w)) (api_keys w)\<rparr>))"

definition APIKeyRepository_Deactivate :: "string \<Rightarrow> (world, unit) op" where
  "APIKeyRepository_Deactivate i =
     exec (uuid_param i (\<lambda>x.
       revoke_keys (\<lambda>k. k_ID k = x \<and> k_RevokedAt k = None)
         (\<lambda>now k. k\<lparr>k_IsActive := False, k_RevokedAt := Some now\<rparr>)))"

definition APIKeyRepository_GetByIDInTenant :: "string \<Rightarrow> string \<Rightarrow> (world, APIKey) op" where
  "APIKeyRepository_GetByIDInTenant tenantID i =
     map_err not_found_if_no_rows
       (exec (uuid_param i (\<lambda>x. uuid_param tenantID (\<lambda>tid.
          query_row (\<lambda>w. filter (\<lambda>k. k_ID k = x \<and> k_TenantID k = tid) (api_keys w))))))"

definition APIKeyRepository_DeactivateInTenant :: "string \<Rightarrow> string \<Rightarrow> (world, unit) op" where
  "APIKeyRepository_DeactivateInTenant tenantID i =
     exec (uuid_param i (\<lambda>x. uuid_param tenantID (\<lambda>tid.
       revoke_keys (\<lambda>k. k_ID k = x \<and> k_TenantID k = tid \<and> k_RevokedAt k = None)
         (\<lambda>now k. k\<lparr>k_IsActive := False, k_RevokedAt := Some now, k_UpdatedAt := now\<rparr>))))"

definition APIKeyRepository_CountActiveByTenant :: "string \<Rightarrow> (world, int) op" where
  "APIKeyRepository_CountActiveByTenant tenantID =
     exec (uuid_param tenantID (\<lambda>tid.
       query_row (\<lambda>w. [int (length (filter (\<lambda>k. k_TenantID k = tid \<and> k_live k) (api_keys w)))])))"

lemma read_only_key_repo [frame_rules]:
  "read_only (APIKeyRepository_ListActiveByPrefix p)" "read_only (APIKeyRepository_ListByTenant t)"
  "read_only (APIKeyRepository_GetByID i)" "read_only (APIKeyRepository_GetByIDInTenant t i)"
  "read_only (APIKeyRepository_CountActiveByTenant t)"
  unfolding APIKeyRepository_ListActiveByPrefix_def APIKeyRepository_ListByTenant_def
    APIKeyRepository_GetByID_def APIKeyRepository_GetByIDInTenant_def
    APIKeyRepository_CountActiveByTenant_def
  by (intro frame_rules)+

lemma APIKeyRepository_GetByID_Inr:
  assumes "APIKeyRepository_GetByID i w = (Inr k, w')"
  shows "k \<in> set (api_keys w)" "uuid_in w i = Some (k_ID k)"
proof -
  from assms obtain w1 where w1: "tabs w1 = tabs w" "same_env w w1"
    and q: "uuid_param i (\<lambda>x. query_row (\<lambda>w. filter (\<lambda>k. k_ID k = x) (api_keys w))) w1 = (Inr k, w')"
    by (auto simp: APIKeyRepository_GetByID_def elim: exec_Inr)
  from q obtain x where ids: "uuid_in w1 i = Some x"
    and r: "query_row (\<lambda>w. filter (\<lambda>k. k_ID k = x) (api_keys w)) w1 = (Inr k, w')"
    by (auto simp: uuid_param_Inr)
  from query_row_Inr_mem [OF r] ids w1(2)
  show "k \<in> set (api_keys w)" "uuid_in w i = Some (k_ID k)"
    by (auto simp: tabs_eqD [OF w1(1)] same_env_def)
qed

lemma APIKeyRepository_ListActiveByPrefix_Inr:
  assumes "APIKeyRepository_ListActiveByPrefix p w = (Inr ks, w')"
  shows "ks = filter (key_candidate p (clock w')) (api_keys w)"
proof -
  from assms obtain w1 where w1: "tabs w1 = tabs w"
    and q: "query_rows (\<lambda>w. filter (key_candidate p (clock w)) (api_keys w)) w1 = (Inr ks, w')"
    by (auto simp: APIKeyRepository_ListActiveByPrefix_def elim: exec_Inr)
  then show ?thesis by (auto simp: query_rows_def tabs_eqD [OF w1])
qed

definition key_inserted ::
  "APIKey \<Rightarrow> string \<Rightarrow> tables \<Rightarrow> APIKey \<Rightarrow> tables \<Rightarrow> bool" where
  "key_inserted k tid a k' b \<longleftrightarrow> (\<exists>row. b = a\<lparr>api_keys := api_keys a @ [row]\<rparr>
     \<and> k_ID row = k_ID k' \<and> k_TenantID row = tid \<and> k_Name row = k_Name k
     \<and> k_Prefix row = k_Prefix k \<and> k_KeyHash row = k_KeyHash k \<and> k_LastFour row = k_LastFour k
     \<and> k_IsActive row = k_IsActive k \<and> k_ExpiresAt row = k_ExpiresAt k \<and> k_RevokedAt row = None)
     \<and> k_KeyHash k' = k_KeyHash k \<and> k_Name k' = k_Name k \<and> k_TenantID k' = k_TenantID k
     \<and> tid \<in> set (map t_ID (tenants a))"

lemma APIKeyRepository_Create_writes:
  "writes (\<lambda>env a k' b. \<exists>tid. env (k_TenantID k) = Some tid \<and> key_inserted k tid a k' b)
     (APIKeyRepository_Create k)"
  unfolding APIKeyRepository_Create_def
  by (intro writes_exec writes_uuid_param writes_uuid_opt_param)
    (auto simp: writes_def insert_api_key_def key_inserted_def Let_def same_env_def
      tenant_exists_def split: sum.splits if_splits)

definition key_revoked :: "(APIKey \<Rightarrow> bool) \<Rightarrow> tables \<Rightarrow> tables \<Rightarrow> bool" where
  "key_revoked P a b \<longleftrightarrow> (\<exists>now. b = a\<lparr>api_keys :=
     update_rows (\<lambda>k. P k \<and> k_RevokedAt k = None)
       (\<lambda>k. k\<lparr>k_IsActive := False, k_RevokedAt := Some now\<rparr>) (api_keys a)\<rparr>)"

lemma APIKeyRepository_Deactivate_writes:
  "writes (\<lambda>env a y b. \<exists>x. env i = Some x \<and> key_revoked (\<lambda>k. k_ID k = x) a b)
     (APIKeyRepository_Deactivate i)"
  unfolding APIKeyRepository_Deactivate_def
  by (intro writes_exec writes_uuid_param)
    (auto simp: writes_def revoke_keys_def key_revoked_def split: sum.splits if_splits)

lemma APIKeyRepository_TouchLastUsed_writes:
  "writes (\<lambda>env a y b. \<exists>x. env i = Some x \<and> (\<exists>now. b = a\<lparr>api_keys :=
       update_rows (\<lambda>k. k_ID k = x) (\<lambda>k. k\<lparr>k_LastUsedAt := Some now\<rparr>) (api_keys a)\<rparr>))
     (APIKeyRepository_TouchLastUsed i)"
  unfolding APIKeyRepository_TouchLastUsed_def
  by (intro writes_exec writes_uuid_param) (auto simp: writes_def)

lemma key_revoked_not_candidate:
  assumes "key_revoked (\<lambda>k. k_ID k = x) a b" and "k \<in> set (api_keys b)" and "k_ID k = x"
  shows "\<not> key_candidate p now k"
proof -
  from assms(1) obtain m where b: "api_keys b =
      update_rows (\<lambda>k. k_ID k = x \<and> k_RevokedAt k = None)
        (\<lambda>k. k\<lparr>k_IsActive := False, k_RevokedAt := Some m\<rparr>) (api_keys a)"
    by (auto simp: key_revoked_def)
  have "\<forall>k \<in> set (api_keys b). k_ID k = x \<longrightarrow> \<not> k_live k"
    by (simp add: b ball_update_rows k_live_def)
  with assms(2,3) show ?thesis by (simp add: key_candidate_def)
qed

end
