(* ===== verification/AuthService.thy ===== *)
theory AuthService
  imports Utils Token_Repository
begin

text \<open>
  \<^verbatim>\<open>internal/service/auth_service.go\<close>: signup, login, refresh with rotation, logout. The
  three stores are interfaces; the contract of the refresh-token store the session lemmas rest on
  is the locale \<open>session_store\<close>, and \<open>sql_auth\<close> wires the SQL repositories in.
\<close>

section \<open>The stores and the service\<close>

record 's UserStore =
  us_Create :: "User \<Rightarrow> ('s, User) op"
  us_GetByID :: "string \<Rightarrow> ('s, User) op"
  us_GetByEmail :: "string \<Rightarrow> ('s, User) op"
  us_UpdateLastLogin :: "string \<Rightarrow> ('s, unit) op"

record 's TenantStore =
  tn_Create :: "Tenant \<Rightarrow> ('s, Tenant) op"
  tn_GetBySlug :: "string \<Rightarrow> ('s, Tenant) op"

record 's RefreshTokenStore =
  rs_Create :: "RefreshToken \<Rightarrow> ('s, RefreshToken) op"
  rs_ListActiveByUser :: "string \<Rightarrow> ('s, RefreshToken list) op"
  rs_Revoke :: "string \<Rightarrow> ('s, unit) op"
  rs_RevokeAllForUser :: "string \<Rightarrow> ('s, unit) op"

record AuthService =
  as_users :: "world UserStore"
  as_tenants :: "world TenantStore"
  as_refreshTokens :: "world RefreshTokenStore"
  as_jwtManager :: Manager
  as_jwt :: jwt_lib
  as_bcrypt :: bcrypt_lib

definition sql_auth :: "Manager \<Rightarrow> jwt_lib \<Rightarrow> bcrypt_lib \<Rightarrow> AuthService" where
  "sql_auth m lib bc = \<lparr>
     as_users = \<lparr>us_Create = UserRepository_Create, us_GetByID = UserRepository_GetByID,
       us_GetByEmail = UserRepository_GetByEmail,
       us_UpdateLastLogin = UserRepository_UpdateLastLogin\<rparr>,
     as_tenants = \<lparr>tn_Create = TenantRepository_Create, tn_GetBySlug = TenantRepository_GetBySlug\<rparr>,
     as_refreshTokens = \<lparr>rs_Create = RefreshTokenRepository_Create,
       rs_ListActiveByUser = RefreshTokenRepository_ListActiveByUser,
       rs_Revoke = RefreshTokenRepository_Revoke,
       rs_RevokeAllForUser = RefreshTokenRepository_RevokeAllForUser\<rparr>,
     as_jwtManager = m, as_jwt = lib, as_bcrypt = bc\<rparr>"

record SignupInput =
  si_TenantName :: string
  si_TenantSlug :: string
  si_Email :: string
  si_Password :: string
  si_FirstName :: string
  si_LastName :: string

record TokenPair =
  tp_AccessToken :: string
  tp_AccessTokenExpiresAt :: time
  tp_RefreshToken :: string
  tp_RefreshTokenExpiresAt :: time

definition issueTokenPair :: "AuthService \<Rightarrow> User \<Rightarrow> (world, TokenPair) op" where
  "issueTokenPair s user =
     bind_op (map_err (Errorf ''auth: issue access token'')
       (IssueAccessToken (as_jwt s) (as_jwtManager s) (u_ID user) (u_TenantID user) (u_Role user)))
       (\<lambda>(accessToken, accessExpiry).
     bind_op (map_err (Errorf ''auth: issue refresh token'')
       (IssueRefreshToken (as_jwt s) (as_jwtManager s) (u_ID user) (u_TenantID user) (u_Role user)))
       (\<lambda>(refreshToken, refreshExpiry).
     bind_op (map_err (Errorf ''auth: persist refresh token'')
       (rs_Create (as_refreshTokens s) \<lparr>rt_ID = '''', rt_UserID = u_ID user,
          rt_TokenHash = HashToken refreshToken, rt_ExpiresAt = refreshExpiry,
          rt_RevokedAt = None, rt_CreatedAt = 0\<rparr>)) (\<lambda>_.
     ret \<lparr>tp_AccessToken = accessToken, tp_AccessTokenExpiresAt = accessExpiry,
          tp_RefreshToken = refreshToken, tp_RefreshTokenExpiresAt = refreshExpiry\<rparr>)))"

text \<open>
  \<open>if _, err := lookup(); err == nil { return taken } else if !errors.Is(err, ErrNotFound)\<close>: the
  lookup must find nothing.
\<close>

definition require_absent :: "goerr \<Rightarrow> string \<Rightarrow> (world, 'a) op \<Rightarrow> (world, unit) op" where
  "require_absent taken msg lookup w =
     (case lookup w of
        (Inr x, w1) \<Rightarrow> (Inl taken, w1)
      | (Inl err, w1) \<Rightarrow>
          (if \<not> errors_Is err repository_ErrNotFound then (Inl (Errorf msg err), w1)
           else (Inr (), w1)))"

definition AuthService_Signup ::
  "AuthService \<Rightarrow> SignupInput \<Rightarrow> (world, User \<times> Tenant \<times> TokenPair) op" where
  "AuthService_Signup s inp =
     bind_op (require_absent (Sentinel ErrTenantSlugTaken) ''auth: check tenant slug''
                (tn_GetBySlug (as_tenants s) (si_TenantSlug inp))) (\<lambda>_.
     bind_op (require_absent (Sentinel ErrEmailTaken) ''auth: check email''
                (us_GetByEmail (as_users s) (si_Email inp))) (\<lambda>_.
     bind_op (map_err (Errorf ''auth: create tenant'')
                (tn_Create (as_tenants s) \<lparr>t_ID = '''', t_Name = si_TenantName inp,
                   t_Slug = si_TenantSlug inp, t_Plan = PlanFree, t_IsActive = True,
                   t_CreatedAt = 0, t_UpdatedAt = 0, t_DeletedAt = None\<rparr>)) (\<lambda>tenant.
     bind_op (map_err (Errorf ''auth: hash password'') (HashPassword (as_bcrypt s) (si_Password inp)))
       (\<lambda>hash.
     bind_op (map_err (Errorf ''auth: create user'')
                (us_Create (as_users s) \<lparr>u_ID = '''', u_TenantID = t_ID tenant,
                   u_Email = si_Email inp, u_PasswordHash = hash, u_FirstName = si_FirstName inp,
                   u_LastName = si_LastName inp, u_Role = RoleAdmin, u_IsActive = True,
                   u_LastLoginAt = None, u_CreatedAt = 0, u_UpdatedAt = 0, u_DeletedAt = None\<rparr>))
       (\<lambda>user.
     bind_op (issueTokenPair s user) (\<lambda>pair. ret (user, tenant, pair)))))))"

definition AuthService_Login ::
  "AuthService \<Rightarrow> string \<Rightarrow> string \<Rightarrow> (world, User \<times> TokenPair) op" where
  "AuthService_Login s email password =
     bind_op (map_err (\<lambda>err. if errors_Is err repository_ErrNotFound
                             then Sentinel ErrInvalidCredentials
                             else Errorf ''auth: lookup user'' err)
                (us_GetByEmail (as_users s) email)) (\<lambda>user.
       if \<not> CheckPassword (as_bcrypt s) (u_PasswordHash user) password
       then fail (Sentinel ErrInvalidCredentials)
       else if \<not> u_IsActive user then fail (Sentinel ErrAccountInactive)
       else
         bind_op (ignore_err (us_UpdateLastLogin (as_users s) (u_ID user))) (\<lambda>_.
         bind_op (issueTokenPair s user) (\<lambda>pair. ret (user, pair))))"

text \<open>\<open>jwtManager.VerifyRefreshToken\<close> reads the clock.\<close>

definition AuthService_Refresh :: "AuthService \<Rightarrow> string \<Rightarrow> (world, TokenPair) op" where
  "AuthService_Refresh s refreshToken w =
     (case VerifyRefreshToken (as_jwt s) (as_jwtManager s) refreshToken (clock w) of
        Inl err \<Rightarrow> (Inl (Sentinel ErrInvalidRefresh), w)
      | Inr claims \<Rightarrow>
          bind_op (map_err (Errorf ''auth: list refresh tokens'')
                     (rs_ListActiveByUser (as_refreshTokens s) (c_UserID claims))) (\<lambda>candidates.
            case find (\<lambda>c. CheckToken (rt_TokenHash c) refreshToken) candidates of
              None \<Rightarrow> fail (Sentinel ErrInvalidRefresh)
            | Some matched \<Rightarrow>
                bind_op (map_err (\<lambda>_. Sentinel ErrInvalidRefresh)
                           (us_GetByID (as_users s) (c_UserID claims))) (\<lambda>user.
                  if \<not> u_IsActive user then fail (Sentinel ErrAccountInactive)
                  else
                    bind_op (ignore_err (rs_Revoke (as_refreshTokens s) (rt_ID matched))) (\<lambda>_.
                    issueTokenPair s user))) w)"

definition AuthService_Logout :: "AuthService \<Rightarrow> string \<Rightarrow> (world, unit) op" where
  "AuthService_Logout s userID = rs_RevokeAllForUser (as_refreshTokens s) userID"

definition AuthService_CurrentUser :: "AuthService \<Rightarrow> string \<Rightarrow> (world, User) op" where
  "AuthService_CurrentUser s userID = us_GetByID (as_users s) userID"

section \<open>Sessions\<close>

text \<open>No unrevoked row holds the hash of a token: it is worthless from now on.\<close>

definition spent :: "string \<Rightarrow> RefreshToken list \<Rightarrow> bool" where
  "spent tok ts \<longleftrightarrow> (\<forall>t \<in> set ts. rt_TokenHash t = HashToken tok \<longrightarrow> rt_RevokedAt t \<noteq> None)"

locale session_store =
  fixes svc :: AuthService
    and rows :: "world \<Rightarrow> RefreshToken list"
  assumes list_frame: "rs_ListActiveByUser (as_refreshTokens svc) uid w = (r, w') \<Longrightarrow>
      rows w' = rows w \<and> uuid_in w' = uuid_in w \<and> (script w = [] \<longrightarrow> script w' = [])"
    and list_active: "rs_ListActiveByUser (as_refreshTokens svc) uid w = (Inr ts, w') \<Longrightarrow>
      \<exists>x. uuid_in w uid = Some x \<and> set ts = {t \<in> set (rows w). rt_active x (clock w) t}"
    and user_frame: "us_GetByID (as_users svc) i w = (q, w') \<Longrightarrow>
      rows w' = rows w \<and> uuid_in w' = uuid_in w \<and> (script w = [] \<longrightarrow> script w' = [])"
    and revoke_live: "script w = [] \<Longrightarrow> row \<in> set (rows w) \<Longrightarrow> rt_RevokedAt row = None \<Longrightarrow>
      uuid_in w (rt_ID row) = Some (rt_ID row) \<Longrightarrow>
      \<exists>w'. rs_Revoke (as_refreshTokens svc) (rt_ID row) w = (Inr (), w')"
    and revoke_row: "rs_Revoke (as_refreshTokens svc) i w = (Inr v, w') \<Longrightarrow> uuid_in w' = uuid_in w
      \<and> (\<exists>x now. uuid_in w i = Some x
           \<and> rows w' = update_rows (\<lambda>t. rt_ID t = x \<and> rt_RevokedAt t = None)
                          (\<lambda>t. t\<lparr>rt_RevokedAt := Some now\<rparr>) (rows w))"
    and revoke_all: "rs_RevokeAllForUser (as_refreshTokens svc) uid w = (Inr v, w') \<Longrightarrow>
      uuid_in w' = uuid_in w \<and> (\<exists>x now. uuid_in w uid = Some x
           \<and> rows w' = update_rows (\<lambda>t. rt_UserID t = x \<and> rt_RevokedAt t = None)
                          (\<lambda>t. t\<lparr>rt_RevokedAt := Some now\<rparr>) (rows w))"
    and create_row: "rs_Create (as_refreshTokens svc) t w = (Inr t', w') \<Longrightarrow>
      \<exists>row. rows w' = rows w @ [row] \<and> rt_TokenHash row = rt_TokenHash t
         \<and> rt_RevokedAt row = None \<and> uuid_in w (rt_UserID t) = Some (rt_UserID row)"
    and token_frame: "rows (w\<lparr>next_id := n\<rparr>) = rows w"
begin

text \<open>A pair comes with one new live row, of the user, for the refresh token of the pair.\<close>

lemma issueTokenPair_row:
  assumes "issueTokenPair svc user w = (Inr pair, w')"
  shows "\<exists>row. rows w' = rows w @ [row] \<and> rt_TokenHash row = HashToken (tp_RefreshToken pair)
    \<and> rt_RevokedAt row = None \<and> uuid_in w (u_ID user) = Some (rt_UserID row)"
proof -
  from assms obtain a ea w1 b eb w2 t' where
    a: "IssueAccessToken (as_jwt svc) (as_jwtManager svc) (u_ID user) (u_TenantID user)
          (u_Role user) w = (Inr (a, ea), w1)"
    and b: "IssueRefreshToken (as_jwt svc) (as_jwtManager svc) (u_ID user) (u_TenantID user)
          (u_Role user) w1 = (Inr (b, eb), w2)"
    and c: "rs_Create (as_refreshTokens svc) \<lparr>rt_ID = '''', rt_UserID = u_ID user,
          rt_TokenHash = HashToken b, rt_ExpiresAt = eb, rt_RevokedAt = None, rt_CreatedAt = 0\<rparr> w2
          = (Inr t', w')"
    and p: "tp_RefreshToken pair = b"
    by (auto simp: issueTokenPair_def)
  have "rows w2 = rows w" "uuid_in w2 = uuid_in w"
    using Manager_issue_keeps [OF a [unfolded IssueAccessToken_def]]
      Manager_issue_keeps [OF b [unfolded IssueRefreshToken_def]] by (simp_all add: token_frame)
  with create_row [OF c] p show ?thesis by auto
qed

text \<open>What a refresh needs: a live row of the claimed user with the token's hash.\<close>

lemma Refresh_Inr:
  assumes "AuthService_Refresh svc tok w = (Inr pair, w')"
  obtains claims x row user w1 w2 w3 where
    "VerifyRefreshToken (as_jwt svc) (as_jwtManager svc) tok (clock w) = Inr claims"
    "uuid_in w (c_UserID claims) = Some x"
    "row \<in> set (rows w)" "rt_active x (clock w) row" "rt_TokenHash row = HashToken tok"
    "us_GetByID (as_users svc) (c_UserID claims) w1 = (Inr user, w2)" "u_IsActive user"
    "rows w2 = rows w" "uuid_in w2 = uuid_in w" "script w = [] \<longrightarrow> script w2 = []"
    "w3 = snd (rs_Revoke (as_refreshTokens svc) (rt_ID row) w2)"
    "issueTokenPair svc user w3 = (Inr pair, w')"
proof -
  from assms obtain claims ts w1 row user w2 where
    v: "VerifyRefreshToken (as_jwt svc) (as_jwtManager svc) tok (clock w) = Inr claims"
    and l: "rs_ListActiveByUser (as_refreshTokens svc) (c_UserID claims) w = (Inr ts, w1)"
    and f: "find (\<lambda>c. CheckToken (rt_TokenHash c) tok) ts = Some row"
    and u: "us_GetByID (as_users svc) (c_UserID claims) w1 = (Inr user, w2)" "u_IsActive user"
    and i: "issueTokenPair svc user (snd (rs_Revoke (as_refreshTokens svc) (rt_ID row) w2))
              = (Inr pair, w')"
    by (auto simp: AuthService_Refresh_def split: sum.splits option.splits if_splits)
  from f have row: "row \<in> set ts" "rt_TokenHash row = HashToken tok"
    by (auto simp: find_Some_iff CheckToken_HashToken)
  from list_active [OF l] obtain x where x: "uuid_in w (c_UserID claims) = Some x"
    and ts: "set ts = {t \<in> set (rows w). rt_active x (clock w) t}" by auto
  from list_frame [OF l] user_frame [OF u(1)] have "rows w2 = rows w" "uuid_in w2 = uuid_in w"
    "script w = [] \<longrightarrow> script w2 = []"
    by simp_all
  with v x ts row u i show thesis by (intro that) auto
qed

lemma spent_no_refresh:
  assumes "spent tok (rows w)"
  shows "\<exists>e w'. AuthService_Refresh svc tok w = (Inl e, w')"
proof (rule ccontr)
  assume "\<not> ?thesis"
  then obtain pair w' where "AuthService_Refresh svc tok w = (Inr pair, w')"
    by (cases "AuthService_Refresh svc tok w"; cases "fst (AuthService_Refresh svc tok w)") auto
  then obtain row x where "row \<in> set (rows w)" "rt_active x (clock w) row"
    "rt_TokenHash row = HashToken tok"
    by (rule Refresh_Inr) blast
  with assms show False by (auto simp: spent_def rt_active_def)
qed

text \<open>
  Rotation: when the revocation goes through, the presented token is spent, provided no other row
  holds its hash and the new token has another one.
\<close>

lemma Refresh_rotates:
  assumes run: "AuthService_Refresh svc tok w = (Inr pair, w')"
    and calm: "script w = []"
    and one: "\<And>a b. a \<in> set (rows w) \<Longrightarrow> b \<in> set (rows w) \<Longrightarrow> rt_TokenHash a = HashToken tok
        \<Longrightarrow> rt_TokenHash b = HashToken tok \<Longrightarrow> a = b"
    and canon: "\<And>t. t \<in> set (rows w) \<Longrightarrow> uuid_in w (rt_ID t) = Some (rt_ID t)"
    and new: "HashToken (tp_RefreshToken pair) \<noteq> HashToken tok"
  shows "spent tok (rows w')"
proof -
  obtain row user w2 w3 x where row: "row \<in> set (rows w)" "rt_TokenHash row = HashToken tok"
      "rt_active x (clock w) row"
    and w2: "rows w2 = rows w" "uuid_in w2 = uuid_in w" "script w2 = []"
    and w3: "w3 = snd (rs_Revoke (as_refreshTokens svc) (rt_ID row) w2)"
    and i: "issueTokenPair svc user w3 = (Inr pair, w')"
    using Refresh_Inr [OF run] calm by metis
  from revoke_live [of w2 row] row(1,3) w2 canon [OF row(1)] w3 have "rs_Revoke (as_refreshTokens svc) (rt_ID row) w2 = (Inr (), w3)"
    by (auto simp: rt_active_def)
  from revoke_row [OF this] w2 canon [OF row(1)] obtain now where
    w3r: "rows w3 = update_rows (\<lambda>t. rt_ID t = rt_ID row \<and> rt_RevokedAt t = None)
                          (\<lambda>t. t\<lparr>rt_RevokedAt := Some now\<rparr>) (rows w)" by auto
  have "spent tok (rows w3)"
    unfolding spent_def w3r by (simp add: ball_update_rows) (use one row in auto)
  with issueTokenPair_row [OF i] new show ?thesis by (auto simp: spent_def)
qed

lemma Logout_ends:
  assumes "AuthService_Logout svc uid w = (Inr v, w')"
    and "VerifyRefreshToken (as_jwt svc) (as_jwtManager svc) tok (clock w') = Inr claims"
    and "uuid_in w (c_UserID claims) = uuid_in w uid"
  shows "\<exists>e w''. AuthService_Refresh svc tok w' = (Inl e, w'')"
proof (rule ccontr)
  assume "\<not> ?thesis"
  then obtain pair w'' where run: "AuthService_Refresh svc tok w' = (Inr pair, w'')"
    by (cases "AuthService_Refresh svc tok w'"; cases "fst (AuthService_Refresh svc tok w')") auto
  from revoke_all [OF assms(1) [unfolded AuthService_Logout_def]] obtain x now where
    x: "uuid_in w uid = Some x" "uuid_in w' = uuid_in w"
    and w': "rows w' = update_rows (\<lambda>t. rt_UserID t = x \<and> rt_RevokedAt t = None)
                          (\<lambda>t. t\<lparr>rt_RevokedAt := Some now\<rparr>) (rows w)" by auto
  from run obtain row y where row: "row \<in> set (rows w')" "rt_active y (clock w') row"
    "uuid_in w' (c_UserID claims) = Some y"
    by (rule Refresh_Inr) (use assms(2) in auto)
  from row(3) x assms(3) have "y = x" by simp
  moreover have "\<forall>t \<in> set (rows w'). \<not> rt_active x now' t" for now'
    by (simp add: w' ball_update_rows rt_active_def)
  ultimately show False using row by blast
qed

end

text \<open>The SQL repositories are such a store.\<close>

lemma sql_auth_sel [simp]:
  "us_Create (as_users (sql_auth m lib bc)) = UserRepository_Create"
  "us_GetByID (as_users (sql_auth m lib bc)) = UserRepository_GetByID"
  "us_GetByEmail (as_users (sql_auth m lib bc)) = UserRepository_GetByEmail"
  "us_UpdateLastLogin (as_users (sql_auth m lib bc)) = UserRepository_UpdateLastLogin"
  "tn_Create (as_tenants (sql_auth m lib bc)) = TenantRepository_Create"
  "tn_GetBySlug (as_tenants (sql_auth m lib bc)) = TenantRepository_GetBySlug"
  "rs_Create (as_refreshTokens (sql_auth m lib bc)) = RefreshTokenRepository_Create"
  "rs_ListActiveByUser (as_refreshTokens (sql_auth m lib bc)) =
     RefreshTokenRepository_ListActiveByUser"
  "rs_Revoke (as_refreshTokens (sql_auth m lib bc)) = RefreshTokenRepository_Revoke"
  "rs_RevokeAllForUser (as_refreshTokens (sql_auth m lib bc)) =
     RefreshTokenRepository_RevokeAllForUser"
  "as_jwtManager (sql_auth m lib bc) = m" "as_jwt (sql_auth m lib bc) = lib"
  "as_bcrypt (sql_auth m lib bc) = bc"
  by (simp_all add: sql_auth_def)

lemma ListActiveByUser_Inr:
  assumes "RefreshTokenRepository_ListActiveByUser uid w = (Inr ts, w')"
  shows "\<exists>x. uuid_in w uid = Some x \<and> set ts = {t \<in> set (refresh_tokens w). rt_active x (clock w) t}"
proof -
  from assms have run: "exec (uuid_param uid (\<lambda>u. query_rows (\<lambda>v. order_desc rt_CreatedAt
      (filter (rt_active u (clock w)) (refresh_tokens v))))) w = (Inr ts, w')"
    by (simp add: RefreshTokenRepository_ListActiveByUser_def Let_def)
  then obtain w1 where w1: "tabs w1 = tabs w" "same_env w w1"
    and q: "uuid_param uid (\<lambda>u. query_rows (\<lambda>v. order_desc rt_CreatedAt
      (filter (rt_active u (clock w)) (refresh_tokens v)))) w1 = (Inr ts, w')"
    by (rule exec_Inr)
  from q w1(2) show ?thesis
    by (auto simp: uuid_param_Inr query_rows_def same_env_def tabs_eqD [OF w1(1)])
qed

lemma Revoke_live_Inr:
  assumes "script w = []" "t \<in> set (refresh_tokens w)" "rt_RevokedAt t = None"
    "uuid_in w (rt_ID t) = Some (rt_ID t)"
  shows "\<exists>w'. RefreshTokenRepository_Revoke (rt_ID t) w = (Inr (), w')"
proof -
  have "rows_affected (\<lambda>r. rt_ID r = rt_ID t \<and> rt_RevokedAt r = None) (refresh_tokens w) \<noteq> 0"
    using assms(2,3) by auto
  with assms(1,4) show ?thesis
    by (simp add: RefreshTokenRepository_Revoke_def uuid_param_def Let_def)
qed

lemma refresh_revokedD:
  assumes "refresh_revoked P a b"
  shows "\<exists>now. refresh_tokens b = update_rows (\<lambda>t. P t \<and> rt_RevokedAt t = None)
     (\<lambda>t. t\<lparr>rt_RevokedAt := Some now\<rparr>) (refresh_tokens a)"
  using assms by (auto simp: refresh_revoked_def)

interpretation ses: session_store "sql_auth m lib bc" refresh_tokens for m lib bc
proof
  fix uid :: string and w w' :: world and r
  assume "rs_ListActiveByUser (as_refreshTokens (sql_auth m lib bc)) uid w = (r, w')"
  then have run: "RefreshTokenRepository_ListActiveByUser uid w = (r, w')" by simp
  show "refresh_tokens w' = refresh_tokens w \<and> uuid_in w' = uuid_in w
      \<and> (script w = [] \<longrightarrow> script w' = [])"
    using read_only_keeps [OF read_only_ListActiveByUser run]
      same_env_nil [OF read_onlyD(2) [OF read_only_ListActiveByUser run]] by simp
next
  fix uid :: string and w w' :: world and ts
  show "rs_ListActiveByUser (as_refreshTokens (sql_auth m lib bc)) uid w = (Inr ts, w') \<Longrightarrow>
      \<exists>x. uuid_in w uid = Some x \<and> set ts = {t \<in> set (refresh_tokens w). rt_active x (clock w) t}"
    by (auto dest: ListActiveByUser_Inr)
next
  fix i :: string and w w' :: world and q
  assume "us_GetByID (as_users (sql_auth m lib bc)) i w = (q, w')"
  then have run: "UserRepository_GetByID i w = (q, w')" by simp
  show "refresh_tokens w' = refresh_tokens w \<and> uuid_in w' = uuid_in w
      \<and> (script w = [] \<longrightarrow> script w' = [])"
    using read_only_keeps [OF read_only_user_repo(1) run]
      same_env_nil [OF read_onlyD(2) [OF read_only_user_repo(1) run]] by simp
next
  fix w :: world and row
  show "script w = [] \<Longrightarrow> row \<in> set (refresh_tokens w) \<Longrightarrow> rt_RevokedAt row = None \<Longrightarrow>
      uuid_in w (rt_ID row) = Some (rt_ID row) \<Longrightarrow>
      \<exists>w'. rs_Revoke (as_refreshTokens (sql_auth m lib bc)) (rt_ID row) w = (Inr (), w')"
    by (simp add: Revoke_live_Inr)
next
  fix i :: string and w w' :: world and v
  assume "rs_Revoke (as_refreshTokens (sql_auth m lib bc)) i w = (Inr v, w')"
  then have run: "RefreshTokenRepository_Revoke i w = (Inr v, w')" by simp
  from writesD(1) [OF RefreshTokenRepository_Revoke_writes run]
    writes_env [OF RefreshTokenRepository_Revoke_writes run]
  show "uuid_in w' = uuid_in w \<and> (\<exists>x now. uuid_in w i = Some x
      \<and> refresh_tokens w' = update_rows (\<lambda>t. rt_ID t = x \<and> rt_RevokedAt t = None)
          (\<lambda>t. t\<lparr>rt_RevokedAt := Some now\<rparr>) (refresh_tokens w))"
    by (auto dest!: refresh_revokedD)
next
  fix uid :: string and w w' :: world and v
  assume "rs_RevokeAllForUser (as_refreshTokens (sql_auth m lib bc)) uid w = (Inr v, w')"
  then have run: "RefreshTokenRepository_RevokeAllForUser uid w = (Inr v, w')" by simp
  from writesD(1) [OF RefreshTokenRepository_RevokeAllForUser_writes run]
    writes_env [OF RefreshTokenRepository_RevokeAllForUser_writes run]
  show "uuid_in w' = uuid_in w \<and> (\<exists>x now. uuid_in w uid = Some x
      \<and> refresh_tokens w' = update_rows (\<lambda>t. rt_UserID t = x \<and> rt_RevokedAt t = None)
          (\<lambda>t. t\<lparr>rt_RevokedAt := Some now\<rparr>) (refresh_tokens w))"
    by (auto dest!: refresh_revokedD)
next
  fix t t' and w w' :: world
  assume "rs_Create (as_refreshTokens (sql_auth m lib bc)) t w = (Inr t', w')"
  then have run: "RefreshTokenRepository_Create t w = (Inr t', w')" by simp
  from writesD(1) [OF RefreshTokenRepository_Create_writes run] obtain uid row where
    "uuid_in w (rt_UserID t) = Some uid" "rt_UserID row = uid" "rt_TokenHash row = rt_TokenHash t"
    "rt_RevokedAt row = None"
    and b: "tabs w' = (tabs w)\<lparr>refresh_tokens := refresh_tokens w @ [row]\<rparr>"
    by (auto simp: refresh_inserted_def)
  with tabs_updD(6) [OF b]
  show "\<exists>row. refresh_tokens w' = refresh_tokens w @ [row] \<and> rt_TokenHash row = rt_TokenHash t
         \<and> rt_RevokedAt row = None \<and> uuid_in w (rt_UserID t) = Some (rt_UserID row)"
    by auto
qed simp

section \<open>Signup and login\<close>

lemma require_absent_Inr [simp]:
  "require_absent taken msg lookup w = (Inr v, w') \<longleftrightarrow>
     (\<exists>err. lookup w = (Inl err, w') \<and> errors_Is err repository_ErrNotFound)"
  by (auto simp: require_absent_def split: prod.splits sum.splits if_splits)

lemma issueTokenPair_tables:
  assumes "issueTokenPair (sql_auth m lib bc) user w = (r, w')"
  shows "\<exists>ts. tabs w' = (tabs w)\<lparr>refresh_tokens := ts\<rparr>"
    and "uuid_in w' = uuid_in w" "uuid_gen w' = uuid_gen w"
proof -
  let ?acc = "IssueAccessToken lib m (u_ID user) (u_TenantID user) (u_Role user)"
  let ?ref = "IssueRefreshToken lib m (u_ID user) (u_TenantID user) (u_Role user)"
  have a: "tabs w1 = tabs v \<and> uuid_in w1 = uuid_in v \<and> uuid_gen w1 = uuid_gen v"
    if "?acc v = (q, w1)" for q v w1
    using Manager_issue_keeps [OF that [unfolded IssueAccessToken_def]] by simp
  have b: "tabs w1 = tabs v \<and> uuid_in w1 = uuid_in v \<and> uuid_gen w1 = uuid_gen v"
    if "?ref v = (q, w1)" for q v w1
    using Manager_issue_keeps [OF that [unfolded IssueRefreshToken_def]] by simp
  have c: "(\<exists>ts. tabs w1 = (tabs v)\<lparr>refresh_tokens := ts\<rparr>) \<and> uuid_in w1 = uuid_in v
      \<and> uuid_gen w1 = uuid_gen v"
    if "RefreshTokenRepository_Create t v = (q, w1)" for t q v w1
  proof (cases q)
    case (Inl e)
    have "tabs v = (tabs v)\<lparr>refresh_tokens := refresh_tokens (tabs v)\<rparr>" by (rule tables.surjective [THEN trans]) simp
    with writesD(2) [OF RefreshTokenRepository_Create_writes that [unfolded Inl]]
      writes_env [OF RefreshTokenRepository_Create_writes that]
    show ?thesis by metis
  next
    case (Inr t')
    from writesD(1) [OF RefreshTokenRepository_Create_writes that [unfolded Inr]]
      writes_env [OF RefreshTokenRepository_Create_writes that]
    show ?thesis by (auto simp: refresh_inserted_def)
  qed
  have triv: "\<exists>ts. tabs v = (tabs v)\<lparr>refresh_tokens := ts\<rparr>" for v :: world
    by (intro exI [of _ "refresh_tokens (tabs v)"]) simp
  have "(\<exists>ts. tabs w' = (tabs w)\<lparr>refresh_tokens := ts\<rparr>) \<and> uuid_in w' = uuid_in w
      \<and> uuid_gen w' = uuid_gen w"
    using assms triv
    by (cases r) (fastforce simp: issueTokenPair_def dest!: a b c)+
  then show "\<exists>ts. tabs w' = (tabs w)\<lparr>refresh_tokens := ts\<rparr>" "uuid_in w' = uuid_in w"
    "uuid_gen w' = uuid_gen w" by auto
qed

lemma TenantRepository_Create_ID:
  assumes "TenantRepository_Create t w = (Inr t', w')"
  shows "t_ID t' = uuid_gen w (next_id w)"
proof -
  from assms obtain w1 where "insert_tenant t w1 = (Inr t', w')" "same_env w w1"
    "next_id w1 = next_id w"
    by (auto simp: TenantRepository_Create_def elim: exec_Inr)
  then show ?thesis
    by (auto simp: insert_tenant_def Let_def fresh_id_def same_env_def split: if_splits)
qed

text \<open>What a signup leaves behind: one tenant on the free plan and its first user, an admin.\<close>

definition signed_up :: "SignupInput \<Rightarrow> User \<Rightarrow> Tenant \<Rightarrow> tables \<Rightarrow> tables \<Rightarrow> bool" where
  "signed_up inp u t a b \<longleftrightarrow>
     (\<exists>urow ts. b = a\<lparr>tenants := tenants a @ [t], users := users a @ [urow], refresh_tokens := ts\<rparr>
        \<and> t_Slug t = si_TenantSlug inp \<and> t_Name t = si_TenantName inp \<and> t_Plan t = PlanFree
        \<and> t_IsActive t \<and> t_live t
        \<and> u_ID urow = u_ID u \<and> u_TenantID urow = t_ID t \<and> u_Email urow = si_Email inp
        \<and> active_admin (t_ID t) urow)
     \<and> si_TenantSlug inp \<notin> set (map t_Slug (tenants a))
     \<and> si_Email inp \<notin> set (map u_Email (filter u_live (users a)))"

lemma Signup_Inr:
  assumes run: "AuthService_Signup (sql_auth m lib bc) inp w = (Inr (u, t, p), w')"
    and canon: "\<forall>n. uuid_in w (uuid_gen w n) = Some (uuid_gen w n)"
  shows "signed_up inp u t (tabs w) (tabs w')"
proof -
  let ?t = "\<lparr>t_ID = '''', t_Name = si_TenantName inp, t_Slug = si_TenantSlug inp,
     t_Plan = PlanFree, t_IsActive = True, t_CreatedAt = 0, t_UpdatedAt = 0, t_DeletedAt = None\<rparr>"
  let ?u = "\<lambda>hash. \<lparr>u_ID = '''', u_TenantID = t_ID t, u_Email = si_Email inp,
     u_PasswordHash = hash, u_FirstName = si_FirstName inp, u_LastName = si_LastName inp,
     u_Role = RoleAdmin, u_IsActive = True, u_LastLoginAt = None, u_CreatedAt = 0,
     u_UpdatedAt = 0, u_DeletedAt = None\<rparr>"
  from run obtain e1 w1 e2 w2 w3 hash w4 w5 where
    slug: "TenantRepository_GetBySlug (si_TenantSlug inp) w = (Inl e1, w1)"
    and mail: "UserRepository_GetByEmail (si_Email inp) w1 = (Inl e2, w2)"
    and ct: "TenantRepository_Create ?t w2 = (Inr t, w3)"
    and hp: "HashPassword bc (si_Password inp) w3 = (Inr hash, w4)"
    and cu: "UserRepository_Create (?u hash) w4 = (Inr u, w5)"
    and it: "issueTokenPair (sql_auth m lib bc) u w5 = (Inr p, w')"
    by (auto simp: AuthService_Signup_def)
  have w2: "tabs w2 = tabs w" "uuid_in w2 = uuid_in w" "uuid_gen w2 = uuid_gen w"
    using read_onlyD [OF read_only_tenant_repo(2) slug] read_onlyD [OF read_only_user_repo(2) mail]
    by (simp_all add: same_env_def)
  have w3: "tabs w3 = (tabs w)\<lparr>tenants := tenants w @ [t]\<rparr>" "uuid_in w3 = uuid_in w"
    "t_Name t = si_TenantName inp" "t_Slug t = si_TenantSlug inp" "t_Plan t = PlanFree"
    "t_IsActive t" "t_DeletedAt t = None" "si_TenantSlug inp \<notin> set (map t_Slug (tenants w))"
    using writesD(1) [OF TenantRepository_Create_writes ct]
      writes_env [OF TenantRepository_Create_writes ct] w2
    by (auto simp: tenant_inserted_def tabs_eqD [OF w2(1)])
  have w4: "tabs w4 = tabs w3" "uuid_in w4 = uuid_in w3"
    using HashPassword_keeps [OF hp] by simp_all
  have canon_t: "uuid_in w (t_ID t) = Some (t_ID t)"
    using TenantRepository_Create_ID [OF ct] w2 canon by simp
  from writesD(1) [OF UserRepository_Create_writes cu] w4 w3(2) canon_t
  have ins: "user_inserted (?u hash) (t_ID t) (tabs w3) u (tabs w5)" by simp
  then obtain urow where w5: "tabs w5 = (tabs w3)\<lparr>users := users (tabs w3) @ [urow]\<rparr>"
    and urow: "u_ID urow = u_ID u" "u_TenantID urow = t_ID t" "u_Email urow = si_Email inp"
      "u_Role urow = RoleAdmin" "u_IsActive urow" "u_live urow"
    by (auto simp: user_inserted_def)
  have us: "users (tabs w3) = users w"
    unfolding w3(1) by simp
  from ins have fresh: "si_Email inp \<notin> set (map u_Email (filter u_live (users w)))"
    by (simp add: user_inserted_def us [simplified])
  from issueTokenPair_tables(1) [OF it] obtain ts where
    "tabs w' = (tabs w5)\<lparr>refresh_tokens := ts\<rparr>" by blast
  with w5 w3(1) us have "tabs w' = (tabs w)\<lparr>tenants := tenants (tabs w) @ [t],
      users := users (tabs w) @ [urow], refresh_tokens := ts\<rparr>" by simp
  with w3(3-) urow fresh show ?thesis
    by (auto simp: signed_up_def active_admin_def t_live_def)
qed

lemma Login_Inr:
  assumes run: "AuthService_Login (sql_auth m lib bc) email password w = (Inr (u, p), w')"
  shows "u \<in> set (users w)" "u_live u" "u_Email u = email" "u_IsActive u"
    "CheckPassword bc (u_PasswordHash u) password"
proof -
  from run obtain w1 where "UserRepository_GetByEmail email w = (Inr u, w1)" "u_IsActive u"
    "CheckPassword bc (u_PasswordHash u) password"
    by (auto simp: AuthService_Login_def split: if_splits)
  then show "u \<in> set (users w)" "u_live u" "u_Email u = email" "u_IsActive u"
    "CheckPassword bc (u_PasswordHash u) password"
    by (auto dest: UserRepository_GetByEmail_Inr)
qed

text \<open>
  Without driver errors, a login that is refused for an unknown address and one that is refused
  for a wrong password answer with the same error.
\<close>

lemma Login_refused:
  assumes "script w = []"
    and "\<forall>u \<in> set (users w). u_live u \<longrightarrow> u_Email u = email \<longrightarrow>
           \<not> CheckPassword bc (u_PasswordHash u) password"
  shows "AuthService_Login (sql_auth m lib bc) email password w
           = (Inl (Sentinel ErrInvalidCredentials), w)"
proof (cases "filter (\<lambda>u. u_Email u = email \<and> u_live u) (users w)")
  case Nil
  with assms(1) show ?thesis
    by (simp add: AuthService_Login_def UserRepository_GetByEmail_def bind_op_def map_err_def
        query_row_def)
next
  case (Cons u us)
  then have "u \<in> set (filter (\<lambda>u. u_Email u = email \<and> u_live u) (users w))" by simp
  then have "u \<in> set (users w)" "u_live u" "u_Email u = email" by simp_all
  with assms Cons show ?thesis
    by (auto simp: AuthService_Login_def UserRepository_GetByEmail_def bind_op_def map_err_def
        query_row_def fail_def)
qed

end
