(* ===== verification/APIKeyService.thy ===== *)
theory APIKeyService
  imports Utils Token_Repository
begin

text \<open>
  \<^verbatim>\<open>internal/service/apikey_service.go\<close>: generation, rotation, deactivation and
  authentication of a tenant's API keys. The service holds the concrete repository; its only
  other state is the configured key prefix.
\<close>

definition APIKeyService_Generate ::
  "string \<Rightarrow> string \<Rightarrow> string option \<Rightarrow> string \<Rightarrow> (world, string \<times> APIKey) op" where
  "APIKeyService_Generate prefix tenantID createdBy name =
     bind_op (map_err (Errorf ''apikey: generate secret'') (GenerateAPIKey prefix))
       (\<lambda>(fullKey, lastFour).
       let record0 = \<lparr>k_ID = '''', k_TenantID = tenantID, k_CreatedBy = createdBy,
             k_Name = (if name = '''' then ''default'' else name), k_Prefix = prefix,
             k_KeyHash = HashToken fullKey, k_LastFour = lastFour, k_IsActive = True,
             k_LastUsedAt = None, k_ExpiresAt = None, k_CreatedAt = 0, k_UpdatedAt = 0,
             k_RevokedAt = None\<rparr>
       in bind_op (map_err (Errorf ''apikey: persist key'') (APIKeyRepository_Create record0))
            (\<lambda>key. ret (fullKey, key)))"

definition key_missing :: "goerr \<Rightarrow> goerr" where
  "key_missing err = (if errors_Is err repository_ErrNotFound then Sentinel ErrAPIKeyNotFound else err)"

text \<open>\<open>if err := m; err != nil && !errors.Is(err, ErrNotFound)\<close>: a missing row is no error.\<close>

definition tolerate_missing :: "string \<Rightarrow> (world, unit) op \<Rightarrow> (world, unit) op" where
  "tolerate_missing msg m w =
     (case m w of
        (Inl err, w1) \<Rightarrow>
          (if errors_Is err repository_ErrNotFound then (Inr (), w1) else (Inl (Errorf msg err), w1))
      | (Inr v, w1) \<Rightarrow> (Inr (), w1))"

definition APIKeyService_Rotate ::
  "string \<Rightarrow> string \<Rightarrow> string \<Rightarrow> string option \<Rightarrow> (world, string \<times> APIKey) op" where
  "APIKeyService_Rotate prefix tenantID keyID createdBy =
     bind_op (map_err key_missing (APIKeyRepository_GetByID keyID)) (\<lambda>existing.
       if k_TenantID existing \<noteq> tenantID then fail (Sentinel ErrAPIKeyNotFound)
       else
         bind_op (tolerate_missing ''apikey: deactivate old key''
                    (APIKeyRepository_Deactivate keyID)) (\<lambda>_.
         APIKeyService_Generate prefix tenantID createdBy (k_Name existing)))"

definition APIKeyService_Deactivate :: "string \<Rightarrow> string \<Rightarrow> (world, unit) op" where
  "APIKeyService_Deactivate tenantID keyID =
     bind_op (map_err key_missing (APIKeyRepository_GetByID keyID)) (\<lambda>existing.
       if k_TenantID existing \<noteq> tenantID then fail (Sentinel ErrAPIKeyNotFound)
       else APIKeyRepository_Deactivate keyID)"

definition APIKeyService_ListByTenant :: "string \<Rightarrow> (world, APIKey list) op" where
  "APIKeyService_ListByTenant tenantID = APIKeyRepository_ListByTenant tenantID"

definition APIKeyService_Authenticate :: "string \<Rightarrow> string \<Rightarrow> (world, APIKey) op" where
  "APIKeyService_Authenticate prefix plaintext =
     (if length plaintext \<le> length prefix \<or> take (length prefix) plaintext \<noteq> prefix
      then fail (Sentinel ErrAPIKeyInvalid)
      else
        bind_op (map_err (Errorf ''apikey: list candidates'')
                   (APIKeyRepository_ListActiveByPrefix prefix)) (\<lambda>candidates.
          case find (\<lambda>c. CheckToken (k_KeyHash c) plaintext) candidates of
            None \<Rightarrow> fail (Sentinel ErrAPIKeyInvalid)
          | Some c \<Rightarrow> bind_op (ignore_err (APIKeyRepository_TouchLastUsed (k_ID c))) (\<lambda>_. ret c)))"

section \<open>Lemmas\<close>

lemma tolerate_missing_Inr [simp]:
  "tolerate_missing msg m w = (Inr v, w') \<longleftrightarrow>
     m w = (Inr (), w') \<or> (\<exists>e. m w = (Inl e, w') \<and> errors_Is e repository_ErrNotFound)"
  by (auto simp: tolerate_missing_def split: prod.splits sum.splits if_splits)

text \<open>A key is only accepted while its row is live: active, not revoked, not expired.\<close>

lemma Authenticate_Inr:
  assumes "APIKeyService_Authenticate prefix plaintext w = (Inr k, w')"
  shows "k \<in> set (api_keys w)" "k_KeyHash k = HashToken plaintext" "k_live k" "k_Prefix k = prefix"
    "\<exists>now. key_candidate prefix now k \<and> clock w \<le> now \<and> now \<le> clock w'"
proof -
  from assms obtain ks w1 r where
    l: "APIKeyRepository_ListActiveByPrefix prefix w = (Inr ks, w1)"
    and f: "find (\<lambda>c. CheckToken (k_KeyHash c) plaintext) ks = Some k"
    and t: "APIKeyRepository_TouchLastUsed (k_ID k) w1 = (r, w')"
    by (auto simp: APIKeyService_Authenticate_def split: if_splits option.splits)
  from f have k: "k \<in> set ks" "k_KeyHash k = HashToken plaintext"
    by (auto simp: find_Some_iff CheckToken_HashToken)
  from APIKeyRepository_ListActiveByPrefix_Inr [OF l] k(1)
  have c: "k \<in> set (api_keys w)" "key_candidate prefix (clock w1) k" by auto
  have "clock w \<le> clock w1" using read_onlyD(2) [OF read_only_key_repo(1) l]
    by (simp add: same_env_def)
  moreover have "clock w1 \<le> clock w'" using writesD(3) [OF APIKeyRepository_TouchLastUsed_writes t]
    by (simp add: same_env_def)
  ultimately show "\<exists>now. key_candidate prefix now k \<and> clock w \<le> now \<and> now \<le> clock w'"
    using c(2) by blast
  show "k \<in> set (api_keys w)" by (rule c(1))
  show "k_KeyHash k = HashToken plaintext" by (rule k(2))
  show "k_live k" "k_Prefix k = prefix" using c(2) by (simp_all add: key_candidate_def)
qed

text \<open>A secret none of whose rows is live authenticates nobody.\<close>

definition key_dead :: "string \<Rightarrow> APIKey list \<Rightarrow> bool" where
  "key_dead plaintext ks \<longleftrightarrow> (\<forall>k \<in> set ks. k_KeyHash k = HashToken plaintext \<longrightarrow> \<not> k_live k)"

lemma key_dead_rejected:
  assumes "key_dead plaintext (api_keys w)"
  shows "\<exists>e w'. APIKeyService_Authenticate prefix plaintext w = (Inl e, w')"
proof (rule ccontr)
  assume "\<not> ?thesis"
  then obtain k w' where "APIKeyService_Authenticate prefix plaintext w = (Inr k, w')"
    by (cases "APIKeyService_Authenticate prefix plaintext w";
        cases "fst (APIKeyService_Authenticate prefix plaintext w)") auto
  with assms show False by (auto simp: key_dead_def dest: Authenticate_Inr)
qed

lemma key_revoked_dead:
  assumes "key_revoked (\<lambda>k. k_ID k = x) a b"
    and "\<forall>k \<in> set (api_keys a). k_KeyHash k = HashToken plaintext \<longrightarrow> k_ID k = x"
  shows "key_dead plaintext (api_keys b)"
proof -
  from assms(1) obtain m where b: "api_keys b =
      update_rows (\<lambda>k. k_ID k = x \<and> k_RevokedAt k = None)
        (\<lambda>k. k\<lparr>k_IsActive := False, k_RevokedAt := Some m\<rparr>) (api_keys a)"
    by (auto simp: key_revoked_def)
  show ?thesis
    unfolding key_dead_def b by (simp add: ball_update_rows k_live_def) (use assms(2) in auto)
qed

text \<open>Revocation acts on a key of the given tenant only.\<close>

lemma Deactivate_Inr:
  assumes "APIKeyService_Deactivate tid i w = (Inr v, w')"
  shows "\<exists>k. k \<in> set (api_keys w) \<and> k_TenantID k = tid \<and> uuid_in w i = Some (k_ID k)
     \<and> key_revoked (\<lambda>r. k_ID r = k_ID k) (tabs w) (tabs w')"
proof -
  from assms obtain k w1 where g: "APIKeyRepository_GetByID i w = (Inr k, w1)"
    and tid: "k_TenantID k = tid" and d: "APIKeyRepository_Deactivate i w1 = (Inr (), w')"
    by (auto simp: APIKeyService_Deactivate_def split: if_splits)
  from APIKeyRepository_GetByID_Inr [OF g] have k: "k \<in> set (api_keys w)"
    "uuid_in w i = Some (k_ID k)" by auto
  from read_onlyD [OF read_only_key_repo(3) g] have w1: "tabs w1 = tabs w" "uuid_in w1 = uuid_in w"
    by (simp_all add: same_env_def)
  from writesD(1) [OF APIKeyRepository_Deactivate_writes d] w1 k(2)
  have "key_revoked (\<lambda>r. k_ID r = k_ID k) (tabs w) (tabs w')" by auto
  with k tid show ?thesis by auto
qed

lemma Generate_Inr:
  assumes "APIKeyService_Generate prefix tid cb name w = (Inr (fullKey, k), w')"
  shows "\<exists>u. uuid_in w tid = Some u \<and> (\<exists>row. tabs w' = (tabs w)\<lparr>api_keys := api_keys w @ [row]\<rparr>
     \<and> k_TenantID row = u \<and> k_KeyHash row = HashToken fullKey \<and> k_live row
     \<and> k_ID row = k_ID k \<and> k_Prefix row = prefix \<and> k_ExpiresAt row = None)"
    "take (length prefix) fullKey = prefix"
    "k_LastFour k = drop (length fullKey - 4) fullKey"
proof -
  obtain lastFour w1 r0 where g: "GenerateAPIKey prefix w = (Inr (fullKey, lastFour), w1)"
    and c: "APIKeyRepository_Create r0 w1 = (Inr k, w')"
    and r0: "k_TenantID r0 = tid" "k_KeyHash r0 = HashToken fullKey" "k_IsActive r0"
      "k_Prefix r0 = prefix" "k_ExpiresAt r0 = None" "k_LastFour r0 = lastFour"
    using assms by (fastforce simp: APIKeyService_Generate_def Let_def)
  from GenerateAPIKey_keeps [OF g] have w1: "tabs w1 = tabs w" "uuid_in w1 = uuid_in w" by simp_all
  from writesD(1) [OF APIKeyRepository_Create_writes c] w1 r0
  show "\<exists>u. uuid_in w tid = Some u \<and> (\<exists>row. tabs w' = (tabs w)\<lparr>api_keys := api_keys w @ [row]\<rparr>
     \<and> k_TenantID row = u \<and> k_KeyHash row = HashToken fullKey \<and> k_live row
     \<and> k_ID row = k_ID k \<and> k_Prefix row = prefix \<and> k_ExpiresAt row = None)"
    by (auto simp: key_inserted_def k_live_def tabs_eqD [OF w1(1)])
  from g show "take (length prefix) fullKey = prefix"
    by (auto simp: GenerateAPIKey_def Let_def)
  from g have l4: "lastFour = drop (length fullKey - 4) fullKey"
    by (auto simp: GenerateAPIKey_def Let_def)
  have "k_LastFour k = k_LastFour r0"
    using c by (auto simp: APIKeyRepository_Create_def uuid_param_Inr uuid_opt_param_def
        insert_api_key_def Let_def elim!: exec_Inr split: option.splits if_splits)
  with r0 l4 show "k_LastFour k = drop (length fullKey - 4) fullKey" by simp
qed

end
