(* ===== verification/Entitlement_Repository.thy ===== *)
theory Entitlement_Repository
  imports Tenant_Repository "HOL-Library.Char_ord" "HOL-Library.List_Lexorder"
begin

text \<open>
  \<^verbatim>\<open>internal/repository/entitlement_repository.go\<close>: the feature catalog and the per-tenant
  grants. \<open>ORDER BY key\<close> is the order of bytes.
\<close>

definition EntitlementRepository_CreateFeature :: "Feature \<Rightarrow> (world, Feature) op" where
  "EntitlementRepository_CreateFeature f =
     exec (\<lambda>w.
       if 100 < length (f_Key f) \<or> 255 < length (f_Name f) then (Inl varchar_error, w)
       else case filter (\<lambda>r. f_Key r = f_Key f) (features w) of
           r # _ \<Rightarrow>
             (Inr (f\<lparr>f_ID := f_ID r, f_CreatedAt := f_CreatedAt r, f_UpdatedAt := clock w\<rparr>),
              w\<lparr>features := update_rows (\<lambda>r. f_Key r = f_Key f)
                  (\<lambda>r. r\<lparr>f_Name := f_Name f, f_Description := f_Description f,
                         f_UpdatedAt := clock w\<rparr>) (features w)\<rparr>)
         | [] \<Rightarrow>
             (let row = f\<lparr>f_ID := fresh_id w, f_CreatedAt := clock w, f_UpdatedAt := clock w\<rparr>
              in (Inr row, w\<lparr>features := features w @ [row], next_id := Suc (next_id w)\<rparr>)))"

definition EntitlementRepository_GetFeatureByKey :: "string \<Rightarrow> (world, Feature) op" where
  "EntitlementRepository_GetFeatureByKey key =
     map_err not_found_if_no_rows
       (exec (query_row (\<lambda>w. filter (\<lambda>f. f_Key f = key) (features w))))"

definition EntitlementRepository_ListFeatures :: "(world, Feature list) op" where
  "EntitlementRepository_ListFeatures = exec (query_rows (\<lambda>w. sort_key f_Key (features w)))"

definition upsert_grant :: "string \<Rightarrow> string \<Rightarrow> bool \<Rightarrow> (world, unit) op" where
  "upsert_grant tid fid enabled w =
     (let P = (\<lambda>g. tf_TenantID g = tid \<and> tf_FeatureID g = fid)
      in if filter P (tenant_features w) \<noteq> [] then
           (Inr (), w\<lparr>tenant_features := update_rows P
              (\<lambda>g. g\<lparr>tf_Enabled := enabled, tf_UpdatedAt := clock w\<rparr>) (tenant_features w)\<rparr>)
         else if \<not> tenant_exists w tid \<or> \<not> feature_exists w fid then (Inl fk_error, w)
         else (Inr (), w\<lparr>tenant_features := tenant_features w @
                  [\<lparr>tf_ID = fresh_id w, tf_TenantID = tid, tf_FeatureID = fid, tf_Enabled = enabled,
                    tf_CreatedAt = clock w, tf_UpdatedAt = clock w\<rparr>],
                  next_id := Suc (next_id w)\<rparr>))"

definition EntitlementRepository_GrantFeature ::
  "string \<Rightarrow> string \<Rightarrow> bool \<Rightarrow> (world, unit) op" where
  "EntitlementRepository_GrantFeature tenantID featureID enabled =
     exec (uuid_param tenantID (\<lambda>tid. uuid_param featureID (\<lambda>fid. upsert_grant tid fid enabled)))"

text \<open>The join \<open>tenant_features tf JOIN features f ON f.id = tf.feature_id\<close>.\<close>

definition grants_of :: "string \<Rightarrow> tables \<Rightarrow> (string \<times> bool) list" where
  "grants_of tid w = concat (map (\<lambda>g.
     map (\<lambda>f. (f_Key f, tf_Enabled g)) (filter (\<lambda>f. f_ID f = tf_FeatureID g) (features w)))
     (filter (\<lambda>g. tf_TenantID g = tid) (tenant_features w)))"

definition EntitlementRepository_TenantHasFeature :: "string \<Rightarrow> string \<Rightarrow> (world, bool) op" where
  "EntitlementRepository_TenantHasFeature tenantID featureKey w =
     (case exec (uuid_param tenantID (\<lambda>tid. query_row (\<lambda>w.
         map snd (filter (\<lambda>g. fst g = featureKey) (grants_of tid (tabs w)))))) w of
        (Inl e, w1) \<Rightarrow> (if errors_Is e sql_ErrNoRows then Inr False else Inl e, w1)
      | (Inr enabled, w1) \<Rightarrow> (Inr enabled, w1))"

definition EntitlementRepository_ListTenantFeatures :: "string \<Rightarrow> (world, string list) op" where
  "EntitlementRepository_ListTenantFeatures tenantID =
     exec (uuid_param tenantID (\<lambda>tid. query_rows (\<lambda>w.
       sort (map fst (filter snd (grants_of tid (tabs w)))))))"

definition EntitlementRepository_RevokeFeature :: "string \<Rightarrow> string \<Rightarrow> (world, unit) op" where
  "EntitlementRepository_RevokeFeature tenantID featureID =
     exec (uuid_param tenantID (\<lambda>tid. uuid_param featureID (\<lambda>fid w.
       (Inr (), w\<lparr>tenant_features := filter (\<lambda>g. \<not> (tf_TenantID g = tid \<and> tf_FeatureID g = fid))
                    (tenant_features w)\<rparr>))))"

definition EntitlementRepository_ListTenantOverrides :: "string \<Rightarrow> (world, string \<rightharpoonup> bool) op" where
  "EntitlementRepository_ListTenantOverrides tenantID =
     exec (uuid_param tenantID (\<lambda>tid w.
       (Inr (foldl (\<lambda>m (k, e). m(k \<mapsto> e)) Map.empty (grants_of tid (tabs w))), w)))"

section \<open>What the statements return and change\<close>

lemma read_only_TenantHasFeature [frame_rules]:
  "read_only (EntitlementRepository_TenantHasFeature t k)"
proof -
  let ?q = "exec (uuid_param t (\<lambda>tid. query_row (\<lambda>w.
         map snd (filter (\<lambda>g. fst g = k) (grants_of tid (tabs w))))))"
  have ro: "read_only ?q" by (intro frame_rules)
  show ?thesis
    unfolding read_only_def
  proof (intro allI impI)
    fix w r w'
    assume run: "EntitlementRepository_TenantHasFeature t k w = (r, w')"
    obtain q where "?q w = (q, w')"
      using run by (cases "?q w")
        (auto simp: EntitlementRepository_TenantHasFeature_def split: sum.splits)
    from read_onlyD [OF ro this]
    show "tabs w' = tabs w \<and> same_env w w' \<and> next_id w' = next_id w" by simp
  qed
qed

lemma read_only_entitlement_repo [frame_rules]:
  "read_only (EntitlementRepository_GetFeatureByKey k)"
  "read_only EntitlementRepository_ListFeatures"
  "read_only (EntitlementRepository_ListTenantFeatures t)"
  unfolding EntitlementRepository_GetFeatureByKey_def EntitlementRepository_ListFeatures_def
    EntitlementRepository_ListTenantFeatures_def
  by (intro frame_rules)+

definition grant_set :: "string \<Rightarrow> string \<Rightarrow> bool \<Rightarrow> tables \<Rightarrow> unit \<Rightarrow> tables \<Rightarrow> bool" where
  "grant_set tid fid enabled a r b \<longleftrightarrow>
     (\<exists>now. b = a\<lparr>tenant_features :=
        update_rows (\<lambda>g. tf_TenantID g = tid \<and> tf_FeatureID g = fid)
          (\<lambda>g. g\<lparr>tf_Enabled := enabled, tf_UpdatedAt := now\<rparr>) (tenant_features a)\<rparr>)
     \<or> (\<exists>row. b = a\<lparr>tenant_features := tenant_features a @ [row]\<rparr>
         \<and> tf_TenantID row = tid \<and> tf_FeatureID row = fid \<and> tf_Enabled row = enabled)"

lemma EntitlementRepository_GrantFeature_writes:
  "writes (\<lambda>env a r b. \<exists>tid. env t = Some tid \<and> (\<exists>fid. env f = Some fid
       \<and> grant_set tid fid enabled a r b))
     (EntitlementRepository_GrantFeature t f enabled)"
  unfolding EntitlementRepository_GrantFeature_def
  by (intro writes_exec writes_uuid_param)
    (fastforce simp: writes_def upsert_grant_def grant_set_def Let_def same_env_def
      split: sum.splits if_splits)

lemma EntitlementRepository_ListTenantFeatures_Inr:
  assumes "EntitlementRepository_ListTenantFeatures t w = (Inr ks, w')"
  shows "\<exists>tid. uuid_in w t = Some tid
           \<and> ks = sort (map fst (filter snd (grants_of tid (tabs w))))"
proof -
  from assms obtain w1 where w1: "tabs w1 = tabs w" "same_env w w1"
    and q: "uuid_param t (\<lambda>tid. query_rows (\<lambda>w. sort (map fst (filter snd (grants_of tid (tabs w))))))
              w1 = (Inr ks, w')"
    by (auto simp: EntitlementRepository_ListTenantFeatures_def elim: exec_Inr)
  then show ?thesis
    by (auto simp: uuid_param_Inr query_rows_def same_env_def)
qed

text \<open>
  A grant row decides: the first enabled flag for the key, \<open>false\<close> when there is none. The
  unique constraints leave at most one.
\<close>

lemma EntitlementRepository_TenantHasFeature_Inr:
  assumes "EntitlementRepository_TenantHasFeature t k w = (Inr b, w')"
  obtains (row) tid where "uuid_in w t = Some tid" "(k, b) \<in> set (grants_of tid (tabs w))"
    "\<exists>rest. filter (\<lambda>g. fst g = k) (grants_of tid (tabs w)) = (k, b) # rest"
    | (no_row) "\<not> b" "\<forall>tid. uuid_in w t = Some tid \<longrightarrow> k \<notin> fst ` set (grants_of tid (tabs w))"
    | (odd_error) "\<not> b" "\<exists>e. errors_Is e sql_ErrNoRows \<and> ext_call w = (Some e, w')"
proof -
  let ?rows = "\<lambda>tid w. map snd (filter (\<lambda>g. fst g = k) (grants_of tid (tabs w)))"
  let ?q = "uuid_param t (\<lambda>tid. query_row (?rows tid))"
  from assms consider (hit) "exec ?q w = (Inr b, w')"
    | (miss) e where "exec ?q w = (Inl e, w')" "errors_Is e sql_ErrNoRows" "\<not> b"
    by (auto simp: EntitlementRepository_TenantHasFeature_def
        split: prod.splits sum.splits if_splits)
  then show thesis
  proof cases
    case hit
    then obtain w1 where w1: "tabs w1 = tabs w" "same_env w w1" and q: "?q w1 = (Inr b, w')"
      by (auto elim: exec_Inr)
    from q w1(2) obtain tid xs where tid: "uuid_in w t = Some tid"
      and xs: "?rows tid w = b # xs"
      by (auto simp: uuid_param_Inr query_row_Inr same_env_def w1(1))
    then obtain rest where rest: "filter (\<lambda>g. fst g = k) (grants_of tid (tabs w)) = (k, b) # rest"
      by (auto simp: map_eq_Cons_conv filter_eq_Cons_iff)
    then have "(k, b) \<in> set (filter (\<lambda>g. fst g = k) (grants_of tid (tabs w)))" by simp
    then have "(k, b) \<in> set (grants_of tid (tabs w))" by (simp only: set_filter mem_Collect_eq)
    with tid rest show thesis by (intro row) auto
  next
    case miss
    show thesis
    proof (cases "ext_call w")
      case (Pair x w1)
      show thesis
      proof (cases x)
        case None
        with Pair miss(1) have q: "?q w1 = (Inl e, w')" by (simp add: exec_def)
        from ext_call_same [OF Pair] have w1: "tabs w1 = tabs w" "same_env w w1" by auto
        have "k \<notin> fst ` set (grants_of tid (tabs w))" if "uuid_in w t = Some tid" for tid
          using q miss(2) that w1
          by (auto simp: uuid_param_def query_row_def same_env_def filter_empty_conv
              split: list.splits)
        with miss(3) show thesis by (intro no_row) auto
      next
        case (Some e')
        with Pair miss(1) have "ext_call w = (Some e, w')" by (simp add: exec_def)
        with miss(2,3) show thesis by (intro odd_error) auto
      qed
    qed
  qed
qed

end
