(* ===== verification/EntitlementService.thy ===== *)
theory EntitlementService
  imports Entitlement_Repository
begin

text \<open>
  \<^verbatim>\<open>internal/service/entitlement_service.go\<close>: which features a tenant may use, its plan's
  defaults together with the individual grants.
\<close>

definition PlanFeatureDefaults :: "Plan \<Rightarrow> string list" where
  "PlanFeatureDefaults p =
     (if p = PlanFree then [''usage.basic_dashboard'']
      else if p = PlanPro then
        [''usage.basic_dashboard'', ''usage.export'', ''apikeys.multiple'', ''audit.retention_30d'']
      else if p = PlanEnterprise then
        [''usage.basic_dashboard'', ''usage.export'', ''apikeys.multiple'', ''audit.retention_90d'',
         ''audit.export'', ''sso.saml'', ''support.priority'']
      else [])"

definition EntitlementService_HasFeature ::
  "string \<Rightarrow> Plan \<Rightarrow> string \<Rightarrow> (world, bool) op" where
  "EntitlementService_HasFeature tenantID tenantPlan featureKey =
     bind_op (EntitlementRepository_TenantHasFeature tenantID featureKey) (\<lambda>granted.
       if granted then ret True
       else ret (list_ex (\<lambda>k. k = featureKey) (PlanFeatureDefaults tenantPlan)))"

text \<open>One pass of the loop: keep a key that has not been seen.\<close>

definition add_unseen :: "string \<Rightarrow> string set \<times> string list \<Rightarrow> string set \<times> string list" where
  "add_unseen k st = (case st of (seen, result) \<Rightarrow>
     if k \<notin> seen then (insert k seen, result @ [k]) else (seen, result))"

definition EntitlementService_ListEnabledFeatures ::
  "string \<Rightarrow> Plan \<Rightarrow> (world, string list) op" where
  "EntitlementService_ListEnabledFeatures tenantID tenantPlan =
     bind_op (EntitlementRepository_ListTenantFeatures tenantID) (\<lambda>granted.
       ret (snd (fold add_unseen granted (fold add_unseen (PlanFeatureDefaults tenantPlan) ({}, [])))))"

definition EntitlementService_ListFeatureCatalog :: "(world, Feature list) op" where
  "EntitlementService_ListFeatureCatalog = EntitlementRepository_ListFeatures"

definition EntitlementService_GrantFeature :: "string \<Rightarrow> string \<Rightarrow> bool \<Rightarrow> (world, unit) op" where
  "EntitlementService_GrantFeature tenantID featureKey enabled =
     bind_op (EntitlementRepository_GetFeatureByKey featureKey) (\<lambda>feature.
       EntitlementRepository_GrantFeature tenantID (f_ID feature) enabled)"

section \<open>Lemmas\<close>

lemma add_unseen_inv:
  assumes "distinct (snd st)" "fst st = set (snd st)"
  shows "distinct (snd (fold add_unseen ks st))" "set (snd (fold add_unseen ks st)) = set (snd st) \<union> set ks"
    "fst (fold add_unseen ks st) = set (snd (fold add_unseen ks st))"
proof -
  have "distinct (snd (fold add_unseen ks st)) \<and>
      set (snd (fold add_unseen ks st)) = set (snd st) \<union> set ks \<and>
      fst (fold add_unseen ks st) = set (snd (fold add_unseen ks st))"
    using assms
  proof (induction ks arbitrary: st)
    case (Cons k ks)
    have "distinct (snd (add_unseen k st))" "fst (add_unseen k st) = set (snd (add_unseen k st))"
      "set (snd (add_unseen k st)) = insert k (set (snd st))"
      using Cons.prems by (auto simp: add_unseen_def split: prod.splits)
    with Cons.IH [of "add_unseen k st"] show ?case by simp
  qed simp
  then show "distinct (snd (fold add_unseen ks st))"
    "set (snd (fold add_unseen ks st)) = set (snd st) \<union> set ks"
    "fst (fold add_unseen ks st) = set (snd (fold add_unseen ks st))" by auto
qed

lemma ListEnabledFeatures_Inr:
  assumes "EntitlementService_ListEnabledFeatures t plan w = (Inr ks, w')"
  shows "distinct ks" "\<exists>tid. uuid_in w t = Some tid
     \<and> set ks = set (PlanFeatureDefaults plan) \<union> {k. (k, True) \<in> set (grants_of tid (tabs w))}"
proof -
  from assms obtain gs where g: "EntitlementRepository_ListTenantFeatures t w = (Inr gs, w')"
    and ks: "ks = snd (fold add_unseen gs (fold add_unseen (PlanFeatureDefaults plan) ({}, [])))"
    by (auto simp: EntitlementService_ListEnabledFeatures_def)
  note A = add_unseen_inv [of "({}, [])" "PlanFeatureDefaults plan", simplified]
  note B = add_unseen_inv [OF A(1,3), of gs]
  show "distinct ks" using B(1) ks by simp
  from EntitlementRepository_ListTenantFeatures_Inr [OF g] obtain tid where
    tid: "uuid_in w t = Some tid" and gs: "gs = sort (map fst (filter snd (grants_of tid (tabs w))))"
    by auto
  have "set gs = {k. (k, True) \<in> set (grants_of tid (tabs w))}"
    by (force simp: gs)
  with B(2) A(2) ks tid show "\<exists>tid. uuid_in w t = Some tid
     \<and> set ks = set (PlanFeatureDefaults plan) \<union> {k. (k, True) \<in> set (grants_of tid (tabs w))}"
    by auto
qed

text \<open>A feature key has one grant row per tenant when the two unique constraints hold.\<close>

definition grants_unique :: "string \<Rightarrow> tables \<Rightarrow> bool" where
  "grants_unique tid a \<longleftrightarrow> distinct (map fst (grants_of tid a))"

lemma HasFeature_Inr:
  assumes "EntitlementService_HasFeature t plan k w = (Inr b, w')" and "script w = []"
    and "uuid_in w t = Some tid" and "grants_unique tid (tabs w)"
  shows "b \<longleftrightarrow> k \<in> set (PlanFeatureDefaults plan) \<or> (k, True) \<in> set (grants_of tid (tabs w))"
proof -
  from assms(1) obtain g where g: "EntitlementRepository_TenantHasFeature t k w = (Inr g, w')"
    and b: "b \<longleftrightarrow> g \<or> k \<in> set (PlanFeatureDefaults plan)"
    by (auto simp: EntitlementService_HasFeature_def list_ex_iff split: if_splits)
  from g have "g \<longleftrightarrow> (k, True) \<in> set (grants_of tid (tabs w))"
  proof (cases rule: EntitlementRepository_TenantHasFeature_Inr)
    case (row tid')
    with assms(3) have "(k, g) \<in> set (grants_of tid (tabs w))" by simp
    with assms(4) show ?thesis
      by (cases g) (auto simp: grants_unique_def dest: eq_key_imp_eq_value)
  next
    case no_row
    with assms(3) show ?thesis by force
  next
    case odd_error
    with assms(2) show ?thesis by simp
  qed
  with b show ?thesis by auto
qed

text \<open>
  An explicit refusal does not override the plan: with a disabled row for a feature of the plan,
  the answer is still yes.
\<close>

lemma HasFeature_plan:
  assumes "EntitlementService_HasFeature t plan k w = (Inr b, w')"
    and "k \<in> set (PlanFeatureDefaults plan)"
  shows "b"
  using assms by (auto simp: EntitlementService_HasFeature_def list_ex_iff split: if_splits)

end
