(* ===== verification/Activity_Repository.thy ===== *)
theory Activity_Repository
  imports User_Repository "HOL-Library.Multiset"
begin

text \<open>
  The append-only tables: \<^verbatim>\<open>internal/repository/usage_repository.go\<close> (metered requests) and
  \<^verbatim>\<open>internal/repository/audit_repository.go\<close> (the audit trail). Nothing in the program
  updates or deletes their rows. Rows of no tenant (\<open>NULL\<close>) match no tenant predicate.
\<close>

section \<open>Usage logs\<close>

definition UsageRepository_Create :: "UsageLog \<Rightarrow> (world, UsageLog) op" where
  "UsageRepository_Create u =
     exec (uuid_opt_param (ul_TenantID u) (\<lambda>tid w.
       if 255 < length (ul_Endpoint u) \<or> 10 < length (ul_Method u) \<or> 64 < length (ul_RequestID u)
       then (Inl varchar_error, w)
       else if \<not> opt_ok (tenant_exists w) tid then (Inl fk_error, w)
       else (Inr (u\<lparr>ul_ID := fresh_id w, ul_CreatedAt := clock w\<rparr>),
             w\<lparr>usage_logs := usage_logs w @
                 [u\<lparr>ul_ID := fresh_id w, ul_TenantID := tid, ul_CreatedAt := clock w\<rparr>],
               next_id := Suc (next_id w)\<rparr>)))"

definition in_window :: "time option \<Rightarrow> time option \<Rightarrow> time \<Rightarrow> bool" where
  "in_window from to t \<longleftrightarrow>
     (case from of None \<Rightarrow> True | Some a \<Rightarrow> a \<le> t) \<and> (case to of None \<Rightarrow> True | Some b \<Rightarrow> t \<le> b)"

definition usage_filter ::
  "string \<Rightarrow> string \<Rightarrow> string \<Rightarrow> time option \<Rightarrow> time option \<Rightarrow> UsageLog \<Rightarrow> bool" where
  "usage_filter tid endpointFilter methodFilter from to u \<longleftrightarrow>
     ul_TenantID u = Some tid
     \<and> (endpointFilter = '''' \<or> ilike_contains (ul_Endpoint u) endpointFilter)
     \<and> (methodFilter = '''' \<or> ul_Method u = methodFilter)
     \<and> in_window from to (ul_CreatedAt u)"

definition UsageRepository_ListByTenant ::
  "string \<Rightarrow> string \<Rightarrow> string \<Rightarrow> time option \<Rightarrow> time option \<Rightarrow> int \<Rightarrow> int
   \<Rightarrow> (world, UsageLog list \<times> int) op" where
  "UsageRepository_ListByTenant tenantID endpointFilter methodFilter from to page pageSize =
     (let offset = wrap64 ((page - 1) * pageSize);
          rows = (\<lambda>tid w. filter (usage_filter tid endpointFilter methodFilter from to)
                            (usage_logs w))
      in bind_op (exec (uuid_param tenantID (\<lambda>tid. query_row (\<lambda>w. [int (length (rows tid w))]))))
           (\<lambda>total.
         bind_op (exec (uuid_param tenantID (\<lambda>tid.
             limit_offset pageSize offset (\<lambda>w. order_desc ul_CreatedAt (rows tid w)))))
           (\<lambda>ls. ret (ls, total))))"

record EndpointSummary =
  es_Endpoint :: string
  es_Method :: string
  es_RequestCount :: int
  es_ErrorCount :: int
  es_AvgLatencyMS :: "int \<times> nat"

text \<open>
  \<open>GROUP BY endpoint, method\<close> and the aggregates of one group; an average is kept as its
  numerator and denominator.
\<close>

definition usage_group :: "UsageLog \<Rightarrow> string \<times> string" where
  "usage_group u = (ul_Endpoint u, ul_Method u)"

definition summarize :: "UsageLog list \<Rightarrow> string \<times> string \<Rightarrow> EndpointSummary" where
  "summarize rows g =
     (let grp = filter (\<lambda>u. usage_group u = g) rows
      in \<lparr>es_Endpoint = fst g, es_Method = snd g,
          es_RequestCount = int (length grp),
          es_ErrorCount = int (length (filter (\<lambda>u. 400 \<le> ul_StatusCode u) grp)),
          es_AvgLatencyMS = (sum_list (map ul_LatencyMS grp), length grp)\<rparr>)"

definition usage_summary :: "UsageLog list \<Rightarrow> EndpointSummary list" where
  "usage_summary rows =
     sort_key (\<lambda>s. - es_RequestCount s) (map (summarize rows) (remdups (map usage_group rows)))"

definition UsageRepository_SummaryByTenant ::
  "string \<Rightarrow> time option \<Rightarrow> time option \<Rightarrow> (world, EndpointSummary list) op" where
  "UsageRepository_SummaryByTenant tenantID from to =
     exec (uuid_param tenantID (\<lambda>tid. query_rows (\<lambda>w.
       usage_summary (filter (usage_filter tid '''' '''' from to) (usage_logs w)))))"

text \<open>
  \<open>EachForExport\<close> hands the rows to a callback one at a time, until the callback fails; the
  callback has a state of its own (the CSV writer). It returns the number of rows handed over
  even when it fails.
\<close>

fun each_row :: "(UsageLog \<Rightarrow> 'c \<Rightarrow> goerr option \<times> 'c) \<Rightarrow> UsageLog list \<Rightarrow> int \<Rightarrow> 'c
  \<Rightarrow> int \<times> goerr option \<times> 'c" where
  "each_row fn [] n c = (n, None, c)"
| "each_row fn (u # us) n c =
     (case fn u c of
        (Some e, c1) \<Rightarrow> (n, Some e, c1)
      | (None, c1) \<Rightarrow> each_row fn us (n + 1) c1)"

definition UsageRepository_EachForExport ::
  "string \<Rightarrow> string \<Rightarrow> string \<Rightarrow> time option \<Rightarrow> time option \<Rightarrow> int
   \<Rightarrow> (UsageLog \<Rightarrow> 'c \<Rightarrow> goerr option \<times> 'c) \<Rightarrow> 'c \<Rightarrow> world \<Rightarrow> (int \<times> goerr option \<times> 'c) \<times> world" where
  "UsageRepository_EachForExport tenantID endpointFilter methodFilter from to lim fn c w =
     (case exec (uuid_param tenantID (\<lambda>tid.
             limit_offset lim 0 (\<lambda>w. order_asc ul_CreatedAt
               (filter (usage_filter tid endpointFilter methodFilter from to) (usage_logs w))))) w of
        (Inl e, w1) \<Rightarrow> ((0, Some e, c), w1)
      | (Inr rows, w1) \<Rightarrow>
          (case each_row fn rows 0 c of
             (n, Some e, c1) \<Rightarrow> ((n, Some e, c1), w1)
           | (n, None, c1) \<Rightarrow> (case ext_call w1 of (err, w2) \<Rightarrow> ((n, err, c1), w2))))"

section \<open>Audit logs\<close>

definition audit_fits :: "AuditLog \<Rightarrow> bool" where
  "audit_fits a \<longleftrightarrow> length (al_Event a) \<le> 100 \<and> length (al_Endpoint a) \<le> 255
     \<and> length (al_IPAddress a) \<le> 64 \<and> length (al_UserAgent a) \<le> 512"

definition AuditRepository_Create :: "AuditLog \<Rightarrow> (world, AuditLog) op" where
  "AuditRepository_Create a =
     exec (uuid_opt_param (al_TenantID a) (\<lambda>tid. uuid_opt_param (al_ActorID a) (\<lambda>aid w.
       if \<not> audit_fits a then (Inl varchar_error, w)
       else if \<not> opt_ok (tenant_exists w) tid \<or> \<not> opt_ok (user_exists w) aid
       then (Inl fk_error, w)
       else (Inr (a\<lparr>al_ID := fresh_id w, al_CreatedAt := clock w\<rparr>),
             w\<lparr>audit_logs := audit_logs w @
                 [a\<lparr>al_ID := fresh_id w, al_TenantID := tid, al_ActorID := aid,
                    al_CreatedAt := clock w\<rparr>],
               next_id := Suc (next_id w)\<rparr>))))"

definition AuditRepository_GetByID :: "string \<Rightarrow> (world, AuditLog) op" where
  "AuditRepository_GetByID i =
     map_err not_found_if_no_rows
       (exec (uuid_param i (\<lambda>x. query_row (\<lambda>w. filter (\<lambda>a. al_ID a = x) (audit_logs w)))))"

definition audit_filter :: "string \<Rightarrow> string \<Rightarrow> AuditLog \<Rightarrow> bool" where
  "audit_filter tid eventFilter a \<longleftrightarrow>
     al_TenantID a = Some tid \<and> (eventFilter = '''' \<or> al_Event a = eventFilter)"

definition AuditRepository_ListByTenant ::
  "string \<Rightarrow> string \<Rightarrow> int \<Rightarrow> int \<Rightarrow> (world, AuditLog list \<times> int) op" where
  "AuditRepository_ListByTenant tenantID eventFilter page pageSize =
     (let offset = wrap64 ((page - 1) * pageSize);
          rows = (\<lambda>tid w. filter (audit_filter tid eventFilter) (audit_logs w))
      in bind_op (exec (uuid_param tenantID (\<lambda>tid. query_row (\<lambda>w. [int (length (rows tid w))]))))
           (\<lambda>total.
         bind_op (exec (uuid_param tenantID (\<lambda>tid.
             limit_offset pageSize offset (\<lambda>w. order_desc al_CreatedAt (rows tid w)))))
           (\<lambda>ls. ret (ls, total))))"

definition AuditRepository_GetByIDInTenant :: "string \<Rightarrow> string \<Rightarrow> (world, AuditLog) op" where
  "AuditRepository_GetByIDInTenant tenantID i =
     map_err not_found_if_no_rows
       (exec (uuid_param i (\<lambda>x. uuid_param tenantID (\<lambda>tid. query_row (\<lambda>w.
          filter (\<lambda>a. al_ID a = x \<and> al_TenantID a = Some tid) (audit_logs w))))))"

section \<open>What the statements return and change\<close>

lemma read_only_activity [frame_rules]:
  "read_only (UsageRepository_ListByTenant t ep m f u p n)"
  "read_only (UsageRepository_SummaryByTenant t f u)"
  "read_only (AuditRepository_GetByID i)" "read_only (AuditRepository_ListByTenant t ev p n)"
  "read_only (AuditRepository_GetByIDInTenant t i)"
  unfolding UsageRepository_ListByTenant_def UsageRepository_SummaryByTenant_def
    AuditRepository_GetByID_def AuditRepository_ListByTenant_def
    AuditRepository_GetByIDInTenant_def Let_def
  by (intro frame_rules)+

definition usage_appended :: "string option \<Rightarrow> tables \<Rightarrow> tables \<Rightarrow> bool" where
  "usage_appended tid a b \<longleftrightarrow>
     (\<exists>row. b = a\<lparr>usage_logs := usage_logs a @ [row]\<rparr> \<and> ul_TenantID row = tid)"

lemma UsageRepository_Create_writes:
  "writes (\<lambda>env a u' b. \<exists>tid. (case ul_TenantID u of None \<Rightarrow> tid = None
             | Some t \<Rightarrow> \<exists>x. env t = Some x \<and> tid = Some x) \<and> usage_appended tid a b)
     (UsageRepository_Create u)"
proof -
  have ins: "writes (\<lambda>env a u' b. usage_appended tid a b) (\<lambda>w.
       if 255 < length (ul_Endpoint u) \<or> 10 < length (ul_Method u) \<or> 64 < length (ul_RequestID u)
       then (Inl varchar_error, w)
       else if \<not> opt_ok (tenant_exists w) tid then (Inl fk_error, w)
       else (Inr (u\<lparr>ul_ID := fresh_id w, ul_CreatedAt := clock w\<rparr>),
             w\<lparr>usage_logs := usage_logs w @
                 [u\<lparr>ul_ID := fresh_id w, ul_TenantID := tid, ul_CreatedAt := clock w\<rparr>],
               next_id := Suc (next_id w)\<rparr>))" for tid
    by (auto simp: writes_def usage_appended_def same_env_def split: sum.splits if_splits)
  show ?thesis
  proof (cases "ul_TenantID u")
    case None
    then show ?thesis
      unfolding UsageRepository_Create_def uuid_opt_param_def
      by (simp, intro writes_exec writes_mono [OF ins]) auto
  next
    case (Some t)
    then show ?thesis
      unfolding UsageRepository_Create_def uuid_opt_param_def
      by (simp, intro writes_exec writes_mono [OF writes_uuid_param [OF ins]]) auto
  qed
qed

definition audit_appended :: "AuditLog \<Rightarrow> string option \<Rightarrow> tables \<Rightarrow> tables \<Rightarrow> bool" where
  "audit_appended e tid a b \<longleftrightarrow>
     (\<exists>row. b = a\<lparr>audit_logs := audit_logs a @ [row]\<rparr>
        \<and> al_TenantID row = tid \<and> al_Event row = al_Event e \<and> al_Metadata row = al_Metadata e)"

lemma AuditRepository_Create_writes:
  "writes (\<lambda>env a e' b. \<exists>tid. (case al_TenantID e of None \<Rightarrow> tid = None
             | Some t \<Rightarrow> \<exists>x. env t = Some x \<and> tid = Some x) \<and> audit_appended e tid a b)
     (AuditRepository_Create e)"
proof -
  have ins: "writes (\<lambda>env a e' b. audit_appended e tid a b)
     (uuid_opt_param (al_ActorID e) (\<lambda>aid w.
       if \<not> audit_fits e then (Inl varchar_error, w)
       else if \<not> opt_ok (tenant_exists w) tid \<or> \<not> opt_ok (user_exists w) aid
       then (Inl fk_error, w)
       else (Inr (e\<lparr>al_ID := fresh_id w, al_CreatedAt := clock w\<rparr>),
             w\<lparr>audit_logs := audit_logs w @
                 [e\<lparr>al_ID := fresh_id w, al_TenantID := tid, al_ActorID := aid,
                    al_CreatedAt := clock w\<rparr>],
               next_id := Suc (next_id w)\<rparr>)))" for tid
    by (rule writes_uuid_opt_param)
      (auto simp: writes_def audit_appended_def same_env_def split: sum.splits if_splits)
  show ?thesis
  proof (cases "al_TenantID e")
    case None
    then show ?thesis
      unfolding AuditRepository_Create_def uuid_opt_param_def [of "al_TenantID e"]
      by (simp, intro writes_exec writes_mono [OF ins]) auto
  next
    case (Some t)
    then show ?thesis
      unfolding AuditRepository_Create_def uuid_opt_param_def [of "al_TenantID e"]
      by (simp, intro writes_exec writes_mono [OF writes_uuid_param [OF ins]]) auto
  qed
qed

text \<open>The summary counts every row once: the request counts of the groups add up.\<close>

lemma sum_list_group_counts:
  fixes rows :: "UsageLog list"
  assumes "distinct gs" "usage_group ` set rows \<subseteq> set gs"
  shows "sum_list (map (\<lambda>g. length (filter (\<lambda>u. usage_group u = g) rows)) gs) = length rows"
  using assms(2)
proof (induction rows)
  case (Cons u us)
  have "sum_list (map (\<lambda>g. length (filter (\<lambda>v. usage_group v = g) (u # us))) gs)
      = sum_list (map (\<lambda>g. (if usage_group u = g then 1 else 0)
          + length (filter (\<lambda>v. usage_group v = g) us)) gs)"
    by (rule arg_cong [of _ _ sum_list], rule map_cong) auto
  also have "\<dots> = sum_list (map (\<lambda>g. if usage_group u = g then 1 else 0) gs)
      + sum_list (map (\<lambda>g. length (filter (\<lambda>v. usage_group v = g) us)) gs)"
    by (rule sum_list_addf)
  also have "sum_list (map (\<lambda>g. if usage_group u = g then 1 else 0) gs) = (1::nat)"
    using assms(1) Cons.prems by (simp add: sum_list_distinct_conv_sum_set sum.delta')
  also have "sum_list (map (\<lambda>g. length (filter (\<lambda>v. usage_group v = g) us)) gs) = length us"
    using Cons by simp
  finally show ?case by simp
qed simp

lemma int_sum_list: "sum_list (map int xs) = int (sum_list xs)"
  by (induction xs) simp_all

lemma usage_summary_total:
  "sum_list (map es_RequestCount (usage_summary rows)) = int (length rows)"
proof -
  have perm: "sum_list (map es_RequestCount (sort_key k xs)) = sum_list (map es_RequestCount xs)"
    for k :: "EndpointSummary \<Rightarrow> int" and xs
  proof -
    have "mset (map es_RequestCount (sort_key k xs)) = mset (map es_RequestCount xs)"
      by simp
    then show ?thesis by (metis sum_mset_sum_list)
  qed
  have "map es_RequestCount (map (summarize rows) gs)
      = map int (map (\<lambda>g. length (filter (\<lambda>u. usage_group u = g) rows)) gs)" for gs
    by (simp add: summarize_def Let_def)
  then show ?thesis
    unfolding usage_summary_def perm
    by (simp only: int_sum_list set_remdups set_map order.refl
        sum_list_group_counts [OF distinct_remdups])
qed

lemma each_row_count:
  "each_row fn rows n c = (m, e, c') \<Longrightarrow> n \<le> m \<and> m \<le> n + int (length rows)"
  by (induction fn rows n c rule: each_row.induct) (fastforce split: prod.splits option.splits)+

end
