(* ===== verification/ActivityService.thy ===== *)
theory ActivityService
  imports Activity_Repository
begin

text \<open>
  \<^verbatim>\<open>internal/service/usage_service.go\<close> and \<^verbatim>\<open>internal/service/audit_service.go\<close>: the thin
  services over the append-only tables. A failed audit write is logged, never returned.
\<close>

section \<open>Usage\<close>

record 's UsageStore =
  ug_Create :: "UsageLog \<Rightarrow> ('s, UsageLog) op"
  ug_ListByTenant :: "string \<Rightarrow> string \<Rightarrow> string \<Rightarrow> time option \<Rightarrow> time option \<Rightarrow> int \<Rightarrow> int
    \<Rightarrow> ('s, UsageLog list \<times> int) op"
  ug_SummaryByTenant :: "string \<Rightarrow> time option \<Rightarrow> time option \<Rightarrow> ('s, EndpointSummary list) op"

definition usage_repo :: "world UsageStore" where
  "usage_repo = \<lparr>
     ug_Create = UsageRepository_Create,
     ug_ListByTenant = UsageRepository_ListByTenant,
     ug_SummaryByTenant = UsageRepository_SummaryByTenant\<rparr>"

record RecordUsageInput =
  ri_TenantID :: "string option"
  ri_Endpoint :: string
  ri_Method :: string
  ri_StatusCode :: int
  ri_LatencyMS :: int
  ri_RequestID :: string

definition UsageService_Record :: "'s UsageStore \<Rightarrow> RecordUsageInput \<Rightarrow> ('s, unit) op" where
  "UsageService_Record repo inp =
     bind_op (ug_Create repo \<lparr>ul_ID = '''', ul_TenantID = ri_TenantID inp,
        ul_Endpoint = ri_Endpoint inp, ul_Method = ri_Method inp, ul_StatusCode = ri_StatusCode inp,
        ul_LatencyMS = ri_LatencyMS inp, ul_RequestID = ri_RequestID inp, ul_CreatedAt = 0\<rparr>)
       (\<lambda>_. ret ())"

definition UsageService_List ::
  "'s UsageStore \<Rightarrow> string \<Rightarrow> string \<Rightarrow> string \<Rightarrow> time option \<Rightarrow> time option \<Rightarrow> int \<Rightarrow> int
   \<Rightarrow> ('s, UsageLog list \<times> int) op" where
  "UsageService_List repo tenantID endpoint method from to page pageSize =
     ug_ListByTenant repo tenantID endpoint method from to page pageSize"

definition UsageService_Summary ::
  "'s UsageStore \<Rightarrow> string \<Rightarrow> time option \<Rightarrow> time option \<Rightarrow> ('s, EndpointSummary list) op" where
  "UsageService_Summary repo tenantID from to = ug_SummaryByTenant repo tenantID from to"

section \<open>Audit\<close>

record RecordInput =
  ai_TenantID :: "string option"
  ai_ActorID :: "string option"
  ai_Event :: string
  ai_Metadata :: details
  ai_Endpoint :: string
  ai_IPAddress :: string
  ai_UserAgent :: string

definition AuditService_Record :: "RecordInput \<Rightarrow> world \<Rightarrow> world" where
  "AuditService_Record inp w =
     (case AuditRepository_Create \<lparr>al_ID = '''', al_TenantID = ai_TenantID inp,
             al_ActorID = ai_ActorID inp, al_Event = ai_Event inp, al_Metadata = ai_Metadata inp,
             al_Endpoint = ai_Endpoint inp, al_IPAddress = ai_IPAddress inp,
             al_UserAgent = ai_UserAgent inp, al_CreatedAt = 0\<rparr> w of
        (Inl err, w1) \<Rightarrow> w1\<lparr>log := log w1 @ [(''failed to write audit log'',
            [(''error'', DStr (Error_string err)), (''event'', DStr (ai_Event inp))])]\<rparr>
      | (Inr a, w1) \<Rightarrow> w1)"

definition AuditService_Get :: "string \<Rightarrow> (world, AuditLog) op" where
  "AuditService_Get i = AuditRepository_GetByID i"

definition AuditService_List :: "string \<Rightarrow> string \<Rightarrow> int \<Rightarrow> int \<Rightarrow> (world, AuditLog list \<times> int) op"
where
  "AuditService_List tenantID eventFilter page pageSize =
     AuditRepository_ListByTenant tenantID eventFilter page pageSize"

definition AuditService_GetForTenant :: "string \<Rightarrow> string \<Rightarrow> (world, AuditLog) op" where
  "AuditService_GetForTenant tenantID i = AuditRepository_GetByIDInTenant tenantID i"

section \<open>What they change\<close>

lemma usage_repo_sel [simp]:
  "ug_Create usage_repo = UsageRepository_Create"
  "ug_ListByTenant usage_repo = UsageRepository_ListByTenant"
  "ug_SummaryByTenant usage_repo = UsageRepository_SummaryByTenant"
  by (simp_all add: usage_repo_def)

text \<open>Recording leaves every table but its own as it was, and only appends to that.\<close>

definition audit_grown :: "tables \<Rightarrow> tables \<Rightarrow> bool" where
  "audit_grown a b \<longleftrightarrow> (\<exists>rows. b = a\<lparr>audit_logs := audit_logs a @ rows\<rparr>)"

lemma audit_grown_refl [simp]: "audit_grown a a"
  by (auto simp: audit_grown_def intro!: exI [of _ "[]"])

lemma AuditService_Record_grown:
  "audit_grown (tabs w) (tabs (AuditService_Record inp w))"
  "same_env w (AuditService_Record inp w)"
proof -
  let ?a = "\<lparr>al_ID = '''', al_TenantID = ai_TenantID inp,
             al_ActorID = ai_ActorID inp, al_Event = ai_Event inp, al_Metadata = ai_Metadata inp,
             al_Endpoint = ai_Endpoint inp, al_IPAddress = ai_IPAddress inp,
             al_UserAgent = ai_UserAgent inp, al_CreatedAt = 0\<rparr>"
  obtain r w1 where run: "AuditRepository_Create ?a w = (r, w1)"
    by (cases "AuditRepository_Create ?a w")
  have rec: "tabs (AuditService_Record inp w) = tabs w1"
    "same_env w (AuditService_Record inp w) = same_env w w1"
    using run by (auto simp: AuditService_Record_def split: sum.splits)
  show "same_env w (AuditService_Record inp w)"
    using writesD(3) [OF AuditRepository_Create_writes run] rec by simp
  show "audit_grown (tabs w) (tabs (AuditService_Record inp w))"
  proof (cases r)
    case (Inl e)
    with writesD(2) [OF AuditRepository_Create_writes run [unfolded Inl]] rec show ?thesis by simp
  next
    case (Inr a)
    from writesD(1) [OF AuditRepository_Create_writes run [unfolded Inr]] rec show ?thesis
      by (auto simp: audit_appended_def audit_grown_def)
  qed
qed

end
