(* ===== verification/TenantService.thy ===== *)
theory TenantService
  imports Tenant_Repository
begin

text \<open>
  \<^verbatim>\<open>internal/service/tenant_service.go\<close>: tenant management. The platform operations
  (\<open>Create\<close>, \<open>Get\<close>, \<open>List\<close>, \<open>Update\<close>, \<open>Delete\<close>) act on any tenant, the scoped ones
  on the caller's own. The store is an interface; its contract is the locale \<open>tenant_store\<close>.
\<close>

section \<open>The store interface\<close>

record 's TenantStoreFull =
  ts_Create :: "Tenant \<Rightarrow> ('s, Tenant) op"
  ts_GetByID :: "string \<Rightarrow> ('s, Tenant) op"
  ts_GetBySlug :: "string \<Rightarrow> ('s, Tenant) op"
  ts_List :: "string \<Rightarrow> int \<Rightarrow> int \<Rightarrow> ('s, Tenant list \<times> int) op"
  ts_Update :: "Tenant \<Rightarrow> ('s, Tenant) op"
  ts_SoftDelete :: "string \<Rightarrow> ('s, unit) op"

definition tenant_repo :: "world TenantStoreFull" where
  "tenant_repo = \<lparr>
     ts_Create = TenantRepository_Create,
     ts_GetByID = TenantRepository_GetByID,
     ts_GetBySlug = TenantRepository_GetBySlug,
     ts_List = TenantRepository_List,
     ts_Update = TenantRepository_Update,
     ts_SoftDelete = TenantRepository_SoftDelete\<rparr>"

section \<open>Validation\<close>

definition maxTenantNameLength :: nat where [const_defs]: "maxTenantNameLength = 255"
definition minSlugLength :: nat where [const_defs]: "minSlugLength = 3"
definition maxSlugLength :: nat where [const_defs]: "maxSlugLength = 63"

definition validateTenantName :: "string \<Rightarrow> goerr option" where
  "validateTenantName name =
     (if name = '''' then Some (Api (Validation ''tenant name is required''))
      else if maxTenantNameLength < length name
      then Some (Api (Validation
             (''tenant name must be at most '' @ Itoa (int maxTenantNameLength) @ '' characters'')))
      else None)"

text \<open>\<open>slugPattern\<close>, \<open>^[a-z0-9]+(-[a-z0-9]+)*$\<close>: non-empty runs between single hyphens.\<close>

definition slug_char :: "char \<Rightarrow> bool" where
  "slug_char c \<longleftrightarrow> is_lower c \<or> is_digit c"

definition slugPattern_match :: "string \<Rightarrow> bool" where
  "slugPattern_match s \<longleftrightarrow> list_all (\<lambda>run. run \<noteq> [] \<and> list_all slug_char run) (Split CHR ''-'' s)"

definition validateSlug :: "string \<Rightarrow> goerr option" where
  "validateSlug slug =
     (if length slug < minSlugLength \<or> maxSlugLength < length slug
      then Some (Api (Validation (''tenant slug must be between '' @ Itoa (int minSlugLength)
             @ '' and '' @ Itoa (int maxSlugLength) @ '' characters'')))
      else if \<not> slugPattern_match slug
      then Some (Api (Validation
             ''tenant slug may contain only lowercase letters, digits and single hyphens''))
      else None)"

section \<open>Platform operations\<close>

record CreateTenantInput =
  ct_Name :: string
  ct_Slug :: string
  ct_Plan :: Plan

definition invalid_plan :: "Plan \<Rightarrow> goerr" where
  "invalid_plan p = PlainErr (''service: invalid plan '' @ dquote p)"

definition TenantService_Create :: "'s TenantStoreFull \<Rightarrow> CreateTenantInput \<Rightarrow> ('s, Tenant) op" where
  "TenantService_Create repo inp =
     (let name = TrimSpace (ct_Name inp);
          slug = ToLower (TrimSpace (ct_Slug inp));
          plan = (if ct_Plan inp = '''' then PlanFree else ct_Plan inp)
      in bind_op (guard_op (validateTenantName name)) (\<lambda>_.
         bind_op (guard_op (validateSlug slug)) (\<lambda>_.
         if \<not> Plan_Valid plan then fail (invalid_plan plan)
         else map_err (\<lambda>err. if errors_Is err repository_ErrConflict then Sentinel ErrTenantSlugTaken
                             else Errorf ''service: create tenant'' err)
                (ts_Create repo \<lparr>t_ID = '''', t_Name = name, t_Slug = slug, t_Plan = plan,
                   t_IsActive = True, t_CreatedAt = 0, t_UpdatedAt = 0, t_DeletedAt = None\<rparr>))))"

definition tenant_missing :: "goerr \<Rightarrow> goerr" where
  "tenant_missing err =
     (if errors_Is err repository_ErrNotFound then Sentinel ErrTenantNotFound else err)"

definition TenantService_Get :: "'s TenantStoreFull \<Rightarrow> string \<Rightarrow> ('s, Tenant) op" where
  "TenantService_Get repo i = map_err tenant_missing (ts_GetByID repo i)"

definition TenantService_List ::
  "'s TenantStoreFull \<Rightarrow> string \<Rightarrow> int \<Rightarrow> int \<Rightarrow> ('s, Tenant list \<times> int) op" where
  "TenantService_List repo search page pageSize = ts_List repo search page pageSize"

record UpdateTenantInput =
  ut_Name :: "string option"
  ut_Plan :: "Plan option"
  ut_IsActive :: "bool option"

definition TenantService_Update ::
  "'s TenantStoreFull \<Rightarrow> string \<Rightarrow> UpdateTenantInput \<Rightarrow> ('s, Tenant) op" where
  "TenantService_Update repo i inp =
     bind_op (TenantService_Get repo i) (\<lambda>t.
     bind_op (case ut_Name inp of None \<Rightarrow> ret t
              | Some n \<Rightarrow> (let name = TrimSpace n in
                  bind_op (guard_op (validateTenantName name)) (\<lambda>_. ret (t\<lparr>t_Name := name\<rparr>))))
       (\<lambda>t1.
     bind_op (case ut_Plan inp of None \<Rightarrow> ret t1
              | Some p \<Rightarrow> if \<not> Plan_Valid p then fail (invalid_plan p) else ret (t1\<lparr>t_Plan := p\<rparr>))
       (\<lambda>t2.
     map_err (\<lambda>err. if errors_Is err repository_ErrNotFound then Sentinel ErrTenantNotFound
                    else Errorf ''service: update tenant'' err)
       (ts_Update repo (case ut_IsActive inp of None \<Rightarrow> t2 | Some b \<Rightarrow> t2\<lparr>t_IsActive := b\<rparr>)))))"

definition TenantService_Delete :: "'s TenantStoreFull \<Rightarrow> string \<Rightarrow> ('s, unit) op" where
  "TenantService_Delete repo i = map_err tenant_missing (ts_SoftDelete repo i)"

section \<open>Tenant-scoped operations\<close>

definition TenantService_Current :: "'s TenantStoreFull \<Rightarrow> Scope \<Rightarrow> ('s, Tenant) op" where
  "TenantService_Current repo scope =
     bind_op (require_scope scope) (\<lambda>_.
       map_err (hide_missing ''tenant not found'' ''failed to load tenant'')
         (ts_GetByID repo (TenantID scope)))"

definition TenantService_GetForScope :: "'s TenantStoreFull \<Rightarrow> Scope \<Rightarrow> string \<Rightarrow> ('s, Tenant) op"
where
  "TenantService_GetForScope repo scope i =
     bind_op (guard_op (Guard scope i ''tenant'')) (\<lambda>_. TenantService_Current repo scope)"

record UpdateTenantSelfInput =
  us_Name :: "string option"

definition TenantService_UpdateForScope ::
  "'s TenantStoreFull \<Rightarrow> Scope \<Rightarrow> string \<Rightarrow> UpdateTenantSelfInput \<Rightarrow> ('s, Tenant) op" where
  "TenantService_UpdateForScope repo scope i inp =
     bind_op (guard_op (Guard scope i ''tenant'')) (\<lambda>_.
       if s_Role scope \<noteq> RoleAdmin
       then fail (Api (Forbidden ''only a tenant admin may update the tenant profile''))
       else
         bind_op (TenantService_Current repo scope) (\<lambda>t.
         bind_op (case us_Name inp of None \<Rightarrow> ret t
                  | Some n \<Rightarrow> (let name = TrimSpace n in
                      bind_op (guard_op (validateTenantName name)) (\<lambda>_. ret (t\<lparr>t_Name := name\<rparr>))))
           (\<lambda>t1.
         map_err (hide_missing ''tenant not found'' ''failed to update tenant'')
           (ts_Update repo t1))))"

definition TenantService_ListForScope ::
  "'s TenantStoreFull \<Rightarrow> Scope \<Rightarrow> ('s, Tenant list \<times> int) op" where
  "TenantService_ListForScope repo scope =
     bind_op (TenantService_Current repo scope) (\<lambda>t. ret ([t], 1))"

section \<open>What the service relies on\<close>

text \<open>The columns a tenant cannot change about itself.\<close>

definition t_fixed :: "Tenant \<Rightarrow> string \<times> string \<times> Plan \<times> bool \<times> time option" where
  "t_fixed t = (t_ID t, t_Slug t, t_Plan t, t_IsActive t, t_DeletedAt t)"

abbreviation put_tenant :: "Tenant \<Rightarrow> time \<Rightarrow> Tenant \<Rightarrow> Tenant" where
  "put_tenant t \<equiv> \<lambda>now r. r\<lparr>t_Name := t_Name t, t_Plan := t_Plan t, t_IsActive := t_IsActive t,
     t_UpdatedAt := now\<rparr>"

locale tenant_store =
  fixes repo :: "'s TenantStoreFull"
    and rows :: "'s \<Rightarrow> Tenant list"
    and uuid :: "'s \<Rightarrow> string \<Rightarrow> string option"
  assumes get_frame: "ts_GetByID repo i s = (r, s') \<Longrightarrow> rows s' = rows s \<and> uuid s' = uuid s"
    and get_row: "ts_GetByID repo i s = (Inr t, s') \<Longrightarrow>
      t \<in> set (rows s) \<and> t_live t \<and> uuid s i = Some (t_ID t)"
    and update_fail: "ts_Update repo t s = (Inl e, s') \<Longrightarrow> rows s' = rows s \<and> uuid s' = uuid s"
    and update_row: "ts_Update repo t s = (Inr t', s') \<Longrightarrow> uuid s' = uuid s
      \<and> Plan_Valid (t_Plan t) \<and> t_fixed t' = t_fixed t \<and> t_Name t' = t_Name t
      \<and> (\<exists>u now. uuid s (t_ID t) = Some u
           \<and> rows s' = update_rows (\<lambda>r. t_ID r = u \<and> t_live r) (put_tenant t now) (rows s))"
begin

lemma Current_frame:
  "TenantService_Current repo scope s = (r, s') \<Longrightarrow> rows s' = rows s \<and> uuid s' = uuid s"
  by (cases r) (auto simp: TenantService_Current_def require_scope_def dest: get_frame)

lemma Current_row:
  "TenantService_Current repo scope s = (Inr t, s') \<Longrightarrow>
     Scope_Valid scope \<and> t \<in> set (rows s) \<and> t_live t \<and> uuid s (TenantID scope) = Some (t_ID t)"
  by (auto simp: TenantService_Current_def require_scope_def dest: get_row split: if_splits)

lemma GetForScope_row:
  "TenantService_GetForScope repo scope i s = (Inr t, s') \<Longrightarrow>
     i = TenantID scope \<and> t \<in> set (rows s) \<and> t_live t \<and> uuid s i = Some (t_ID t)"
  by (auto simp: TenantService_GetForScope_def Guard_None_iff dest: Current_row)

lemma UpdateForScope_Inl:
  "TenantService_UpdateForScope repo scope i inp s = (Inl e, s') \<Longrightarrow>
     rows s' = rows s \<and> uuid s' = uuid s"
  by (fastforce simp: TenantService_UpdateForScope_def Let_def split: if_splits option.splits
      dest: Current_frame update_fail)

lemma UpdateForScope_Inr:
  assumes "TenantService_UpdateForScope repo scope i inp s = (Inr t', s')"
  shows "i = TenantID scope" "Scope_Valid scope" "s_Role scope = RoleAdmin" "uuid s' = uuid s"
    "\<exists>t u now t1. t \<in> set (rows s) \<and> t_live t \<and> uuid s (TenantID scope) = Some (t_ID t)
       \<and> uuid s (t_ID t) = Some u \<and> t_fixed t1 = t_fixed t \<and> t_fixed t' = t_fixed t
       \<and> rows s' = update_rows (\<lambda>r. t_ID r = u \<and> t_live r) (put_tenant t1 now) (rows s)"
proof -
  from assms show "i = TenantID scope" "Scope_Valid scope" "s_Role scope = RoleAdmin"
    by (auto simp: TenantService_UpdateForScope_def Guard_None_iff split: if_splits)
  from assms obtain t s1 t1 where cur: "TenantService_Current repo scope s = (Inr t, s1)"
    and upd: "ts_Update repo t1 s1 = (Inr t', s')" and t1: "t_fixed t1 = t_fixed t"
    by (fastforce simp: TenantService_UpdateForScope_def t_fixed_def Let_def
        split: if_splits option.splits)
  from t1 have "t_ID t1 = t_ID t" by (simp add: t_fixed_def)
  with Current_frame [OF cur] Current_row [OF cur] update_row [OF upd] t1
  show "uuid s' = uuid s"
    "\<exists>t u now t1. t \<in> set (rows s) \<and> t_live t \<and> uuid s (TenantID scope) = Some (t_ID t)
       \<and> uuid s (t_ID t) = Some u \<and> t_fixed t1 = t_fixed t \<and> t_fixed t' = t_fixed t
       \<and> rows s' = update_rows (\<lambda>r. t_ID r = u \<and> t_live r) (put_tenant t1 now) (rows s)"
    by auto
qed

text \<open>A tenant's own update leaves the plan, and everything of the other rows, as it was.\<close>

lemma UpdateForScope_fixed:
  assumes run: "TenantService_UpdateForScope repo scope i inp s = (r, s')"
    and ids: "distinct (map t_ID (rows s))"
    and canon: "\<forall>t \<in> set (rows s). uuid s (t_ID t) = Some (t_ID t)"
  shows "map t_fixed (rows s') = map t_fixed (rows s)"
    and "filter (\<lambda>t. uuid s (TenantID scope) \<noteq> Some (t_ID t)) (rows s')
       = filter (\<lambda>t. uuid s (TenantID scope) \<noteq> Some (t_ID t)) (rows s)"
proof -
  have "map t_fixed (rows s') = map t_fixed (rows s)
     \<and> filter (\<lambda>t. uuid s (TenantID scope) \<noteq> Some (t_ID t)) (rows s')
       = filter (\<lambda>t. uuid s (TenantID scope) \<noteq> Some (t_ID t)) (rows s)"
  proof (cases r)
    case (Inl e)
    with run show ?thesis by (auto dest: UpdateForScope_Inl)
  next
    case (Inr t')
    obtain t u now t1 where t: "t \<in> set (rows s)" "uuid s (TenantID scope) = Some (t_ID t)"
      and u: "uuid s (t_ID t) = Some u" and t1: "t_fixed t1 = t_fixed t"
      and s': "rows s' = update_rows (\<lambda>r. t_ID r = u \<and> t_live r) (put_tenant t1 now) (rows s)"
      using UpdateForScope_Inr(5) [OF run [unfolded Inr]] by blast
    from canon t(1) u have [simp]: "u = t_ID t" by auto
    have only: "r = t" if "r \<in> set (rows s)" "t_ID r = t_ID t" for r
      using that t(1) ids by (auto simp: distinct_map dest: inj_onD)
    have "map t_fixed (rows s') = map t_fixed (rows s)"
      unfolding s' update_rows_def map_map
      by (rule map_cong [OF refl]) (use t1 in \<open>auto simp: t_fixed_def dest!: only\<close>)
    moreover have "filter (\<lambda>t. uuid s (TenantID scope) \<noteq> Some (t_ID t)) (rows s')
       = filter (\<lambda>t. uuid s (TenantID scope) \<noteq> Some (t_ID t)) (rows s)"
      unfolding s' by (rule update_rows_disjoint) (use t(2) in auto)
    ultimately show ?thesis by simp
  qed
  then show "map t_fixed (rows s') = map t_fixed (rows s)"
    "filter (\<lambda>t. uuid s (TenantID scope) \<noteq> Some (t_ID t)) (rows s')
       = filter (\<lambda>t. uuid s (TenantID scope) \<noteq> Some (t_ID t)) (rows s)" by auto
qed

end

lemma tenant_repo_sel [simp]:
  "ts_Create tenant_repo = TenantRepository_Create"
  "ts_GetByID tenant_repo = TenantRepository_GetByID"
  "ts_GetBySlug tenant_repo = TenantRepository_GetBySlug"
  "ts_List tenant_repo = TenantRepository_List"
  "ts_Update tenant_repo = TenantRepository_Update"
  "ts_SoftDelete tenant_repo = TenantRepository_SoftDelete"
  by (simp_all add: tenant_repo_def)

interpretation tr: tenant_store tenant_repo tenants uuid_in
proof
  fix i :: string and s s' :: world and r
  show "ts_GetByID tenant_repo i s = (r, s') \<Longrightarrow> tenants s' = tenants s \<and> uuid_in s' = uuid_in s"
    by (auto dest: read_only_keeps [OF read_only_tenant_repo(1)])
next
  fix i :: string and s s' :: world and t
  show "ts_GetByID tenant_repo i s = (Inr t, s') \<Longrightarrow>
      t \<in> set (tenants s) \<and> t_live t \<and> uuid_in s i = Some (t_ID t)"
    by (auto dest: TenantRepository_GetByID_Inr)
next
  fix t and s s' :: world and e
  show "ts_Update tenant_repo t s = (Inl e, s') \<Longrightarrow>
      tenants s' = tenants s \<and> uuid_in s' = uuid_in s"
    by (auto dest: writes_fail_keeps [OF TenantRepository_Update_writes])
next
  fix t t' and s s' :: world
  assume run: "ts_Update tenant_repo t s = (Inr t', s')"
  from writesD(1) [OF TenantRepository_Update_writes run [simplified]]
  obtain u now where u: "uuid_in s (t_ID t) = Some u" "t' = t\<lparr>t_UpdatedAt := now\<rparr>"
    "Plan_Valid (t_Plan t)"
    and b: "tabs s' = (tabs s)\<lparr>tenants :=
       update_rows (\<lambda>r. t_ID r = u \<and> t_live r) (put_tenant t now) (tenants s)\<rparr>"
    by (auto simp: tenant_updated_def)
  from tabs_updD(1) [OF b] u writes_env [OF TenantRepository_Update_writes run [simplified]]
  show "uuid_in s' = uuid_in s \<and> Plan_Valid (t_Plan t) \<and> t_fixed t' = t_fixed t
      \<and> t_Name t' = t_Name t \<and> (\<exists>u now. uuid_in s (t_ID t) = Some u
           \<and> tenants s' = update_rows (\<lambda>r. t_ID r = u \<and> t_live r) (put_tenant t now) (tenants s))"
    by (auto simp: t_fixed_def)
qed

end
