(* ===== verification/Middleware.thy ===== *)
theory Middleware
  imports Http AuthService APIKeyService EntitlementService ActivityService TenantService
begin

text \<open>
  \<^verbatim>\<open>internal/middleware\<close>: the chain around every handler. A handler takes the request, the
  response writer and the world; its first result tells whether it panicked. The interfaces the
  middlewares use (\<open>TenantLookup\<close>, \<open>EntitlementChecker\<close>, \<open>UsageRecorder\<close>) are function
  arguments.
\<close>

type_synonym handler = "Request \<Rightarrow> RW \<Rightarrow> world \<Rightarrow> string option \<times> RW \<times> world"

type_synonym middleware = "handler \<Rightarrow> handler"

section \<open>Chain and context\<close>

definition Chain :: "middleware list \<Rightarrow> middleware" where
  "Chain mws final = foldr (\<lambda>mw h. mw h) mws final"

definition WithRequestID :: "Request \<Rightarrow> string \<Rightarrow> Request" where
  "WithRequestID r i = r\<lparr>r_RequestID := i\<rparr>"

definition withAuth :: "Request \<Rightarrow> AuthContext \<Rightarrow> Request" where
  "withAuth r ac = r\<lparr>r_Auth := Some ac\<rparr>"

definition AuthFromContext :: "Request \<Rightarrow> AuthContext option" where
  "AuthFromContext r =
     (case r_Auth r of None \<Rightarrow> None | Some ac \<Rightarrow> if ac_TenantID ac = '''' then None else Some ac)"

definition ScopeFromContext :: "Request \<Rightarrow> Scope" where
  "ScopeFromContext r =
     (case AuthFromContext r of
        None \<Rightarrow> \<lparr>TenantID = '''', UserID = '''', s_Role = ''''\<rparr>
      | Some ac \<Rightarrow> \<lparr>TenantID = ac_TenantID ac, UserID = ac_UserID ac, s_Role = ac_Role ac\<rparr>)"

definition withPlatform :: "Request \<Rightarrow> Request" where
  "withPlatform r = r\<lparr>r_Platform := True\<rparr>"

definition PlatformFromContext :: "Request \<Rightarrow> bool" where
  "PlatformFromContext r = r_Platform r"

section \<open>Request identity and address\<close>

definition maxRequestIDLength :: nat where
  "maxRequestIDLength = 64"

definition safe_char :: "char \<Rightarrow> bool" where
  "safe_char c \<longleftrightarrow> is_lower c \<or> is_upper c \<or> is_digit c \<or> c = CHR ''-'' \<or> c = CHR ''_''
     \<or> c = CHR ''.''"

definition sanitizeRequestID :: "string \<Rightarrow> string" where
  "sanitizeRequestID raw =
     (if raw = '''' then ''''
      else filter safe_char
             (if maxRequestIDLength < length raw then take maxRequestIDLength raw else raw))"

definition RequestID :: middleware where
  "RequestID next r rw w =
     (let id0 = sanitizeRequestID (r_Header r ''X-Request-ID'') in
      if id0 = ''''
      then (let i = fresh_id w in
            next (WithRequestID r i) (Set_header ''X-Request-ID'' i rw)
              (w\<lparr>next_id := Suc (next_id w)\<rparr>))
      else next (WithRequestID r id0) (Set_header ''X-Request-ID'' id0 rw) w)"

definition clientIP :: "Request \<Rightarrow> string" where
  "clientIP r =
     (let fwd = r_Header r ''X-Forwarded-For''; realIP = r_Header r ''X-Real-IP'' in
      if fwd \<noteq> '''' then
        (case Index fwd '','' of
           Some idx \<Rightarrow> if 0 < idx then TrimSpace (take idx fwd) else TrimSpace fwd
         | None \<Rightarrow> TrimSpace fwd)
      else if realIP \<noteq> '''' then TrimSpace realIP
      else r_RemoteAddr r)"

definition ptrOrNil :: "string \<Rightarrow> string option" where
  "ptrOrNil s = (if s = '''' then None else Some s)"

section \<open>Recovery, logging, CORS and security headers\<close>

definition Recovery :: middleware where
  "Recovery next r rw w =
     (case next r rw w of
        (None, rw1, w1) \<Rightarrow> (None, rw1, w1)
      | (Some err, rw1, w1) \<Rightarrow>
          (None,
           Write (BRaw (concat [''{'', dquote ''success'', '':false,'', dquote ''message'', '':'',
                    dquote ''internal server error'', '','', dquote ''error'', '':{'', dquote ''code'',
                    '':'', dquote ''INTERNAL_ERROR'', '','', dquote ''message'', '':'',
                    dquote ''internal server error'', ''},'', dquote ''request_id'', '':'',
                    dquote (r_RequestID r), ''}'']))
             (WriteHeader 500
               (Set_header ''Content-Type'' ''application/json; charset=utf-8'' rw1)),
           w1\<lparr>log := log w1 @ [(''panic recovered'', [(''error'', DStr err),
                (''request_id'', DStr (r_RequestID r)), (''method'', DStr (r_Method r)),
                (''path'', DStr (r_Path r))])]\<rparr>))"

text \<open>The status a \<open>responseRecorder\<close> ends with: the first one written, 200 when there is none.\<close>

definition recorded_status :: "RW \<Rightarrow> int" where
  "recorded_status rw = (case rw_Status rw of None \<Rightarrow> 200 | Some s \<Rightarrow> s)"

definition milliseconds :: "duration \<Rightarrow> int" where
  "milliseconds d = d div 1000000"

definition Logging_fields :: "Request \<Rightarrow> int \<Rightarrow> duration \<Rightarrow> details" where
  "Logging_fields r status latency =
     [(''request_id'', DStr (r_RequestID r)), (''method'', DStr (r_Method r)),
      (''route'', DStr (r_Path r)), (''status_code'', DInt status),
      (''latency_ms'', DInt (milliseconds latency)), (''remote_ip'', DStr (clientIP r)),
      (''user_agent'', DStr (UserAgent r))]
     @ (case AuthFromContext r of
          None \<Rightarrow> []
        | Some ac \<Rightarrow>
            [(''tenant_id'', DStr (ac_TenantID ac)), (''auth_method'', DStr (ac_AuthMethod ac)),
             (''role'', DStr (ac_Role ac))]
            @ (if ac_UserID ac \<noteq> '''' then [(''user_id'', DStr (ac_UserID ac))] else []))"

definition Logging :: middleware where
  "Logging next r rw w =
     (case next r rw w of
        (Some err, rw1, w1) \<Rightarrow> (Some err, rw1, w1)
      | (None, rw1, w1) \<Rightarrow>
          (None, rw1,
           w1\<lparr>log := log w1 @ [(''request completed'',
                Logging_fields r (recorded_status rw1) (clock w1 - clock w))]\<rparr>))"

record CORSConfig =
  AllowedOrigins :: "string list"
  AllowedMethods :: "string list"
  AllowedHeaders :: "string list"
  MaxAge :: duration

definition CORS_allowed :: "CORSConfig \<Rightarrow> string list" where
  "CORS_allowed cfg = map (\<lambda>o'. ToLower (TrimSpace o')) (AllowedOrigins cfg)"

definition CORS_origin :: "CORSConfig \<Rightarrow> string \<Rightarrow> RW \<Rightarrow> RW" where
  "CORS_origin cfg origin rw =
     (if origin = '''' then rw
      else if ''*'' \<in> set (CORS_allowed cfg) then Set_header ''Access-Control-Allow-Origin'' ''*'' rw
      else if ToLower origin \<in> set (CORS_allowed cfg) then
        Add_header ''Vary'' ''Origin''
          (Set_header ''Access-Control-Allow-Credentials'' ''true''
            (Set_header ''Access-Control-Allow-Origin'' origin rw))
      else rw)"

definition CORS :: "CORSConfig \<Rightarrow> middleware" where
  "CORS cfg next r rw w =
     (let rw1 = Set_header ''Access-Control-Max-Age'' (Itoa (MaxAge cfg div second))
           (Set_header ''Access-Control-Expose-Headers''
             ''X-Request-ID, X-RateLimit-Limit, X-RateLimit-Remaining''
             (Set_header ''Access-Control-Allow-Headers'' (Join (AllowedHeaders cfg) '', '')
               (Set_header ''Access-Control-Allow-Methods'' (Join (AllowedMethods cfg) '', '')
                 (CORS_origin cfg (r_Header r ''Origin'') rw))))
      in if r_Method r = ''OPTIONS'' then (None, WriteHeader 204 rw1, w) else next r rw1 w)"

definition SecurityHeaders :: middleware where
  "SecurityHeaders next r rw w =
     next r
       (Set_header ''Cross-Origin-Resource-Policy'' ''same-origin''
         (Set_header ''Referrer-Policy'' ''no-referrer''
           (Set_header ''X-Frame-Options'' ''DENY''
             (Set_header ''X-Content-Type-Options'' ''nosniff'' rw)))) w"

section \<open>Authentication\<close>

type_synonym TenantLookup = "string \<Rightarrow> (world, Tenant) op"

record auth_deps =
  ad_jwtManager :: Manager
  ad_jwt :: jwt_lib
  ad_prefix :: string
  ad_tenants :: TenantLookup

definition unauthorized_event :: "Request \<Rightarrow> string \<Rightarrow> RecordInput" where
  "unauthorized_event r reason =
     \<lparr>ai_TenantID = None, ai_ActorID = None, ai_Event = EventUnauthorizedRequest,
      ai_Metadata = [(''reason'', DStr reason)], ai_Endpoint = r_Path r,
      ai_IPAddress = clientIP r, ai_UserAgent = UserAgent r\<rparr>"

text \<open>The identity a request proves, or the error it is answered with.\<close>

definition resolve_api_key :: "auth_deps \<Rightarrow> Request \<Rightarrow> string \<Rightarrow> (world, AuthContext) op" where
  "resolve_api_key d r apiKey w =
     (case APIKeyService_Authenticate (ad_prefix d) apiKey w of
        (Inl err, w1) \<Rightarrow>
          (Inl (Api (Unauthenticated ''invalid or revoked API key'')),
           AuditService_Record (unauthorized_event r ''invalid_api_key'') w1)
      | (Inr key, w1) \<Rightarrow>
          (case ad_tenants d (k_TenantID key) w1 of
             (Inl err, w2) \<Rightarrow>
               (Inl (Api (Wrap (Internal ''failed to resolve tenant'') err)),
                w2\<lparr>log := log w2 @ [(''failed to resolve tenant for API key'',
                  [(''error'', DStr (Error_string err)), (''tenant_id'', DStr (k_TenantID key))])]\<rparr>)
           | (Inr tenant, w2) \<Rightarrow>
               (if \<not> t_IsActive tenant
                then (Inl (Api (Forbidden ''tenant account is inactive'')), w2)
                else (Inr \<lparr>ac_UserID = '''', ac_TenantID = k_TenantID key, ac_Role = RoleDeveloper,
                        ac_TenantPlan = t_Plan tenant, ac_AuthMethod = ''api_key'',
                        ac_APIKeyID = k_ID key\<rparr>, w2))))"

definition resolve_bearer :: "auth_deps \<Rightarrow> string \<Rightarrow> (world, AuthContext) op" where
  "resolve_bearer d authHeader w =
     (if \<not> HasPrefix authHeader ''Bearer ''
      then (Inl (Api (Unauthenticated ''a bearer token or API key is required'')), w)
      else
        let token = TrimSpace (TrimPrefix authHeader ''Bearer '') in
        case VerifyAccessToken (ad_jwt d) (ad_jwtManager d) token (clock w) of
          Inl err \<Rightarrow> (Inl (Api (Unauthenticated ''invalid or expired access token'')), w)
        | Inr claims \<Rightarrow>
            (case ad_tenants d (c_TenantID claims) w of
               (Inl err, w1) \<Rightarrow>
                 (Inl (Api (Unauthenticated ''the tenant for this token no longer exists'')), w1)
             | (Inr tenant, w1) \<Rightarrow>
                 (if \<not> t_IsActive tenant
                  then (Inl (Api (Forbidden ''tenant account is inactive'')), w1)
                  else if \<not> Role_Valid (c_Role claims)
                  then (Inl (Api (Unauthenticated ''this token carries an unrecognised role'')), w1)
                  else (Inr \<lparr>ac_UserID = c_UserID claims, ac_TenantID = c_TenantID claims,
                          ac_Role = c_Role claims, ac_TenantPlan = t_Plan tenant,
                          ac_AuthMethod = ''jwt'', ac_APIKeyID = ''''\<rparr>, w1))))"

definition Auth_resolve :: "auth_deps \<Rightarrow> Request \<Rightarrow> (world, AuthContext) op" where
  "Auth_resolve d r =
     (if r_Header r ''X-API-Key'' \<noteq> '''' then resolve_api_key d r (r_Header r ''X-API-Key'')
      else resolve_bearer d (r_Header r ''Authorization''))"

definition Auth :: "auth_deps \<Rightarrow> middleware" where
  "Auth d next r rw w =
     (case Auth_resolve d r w of
        (Inl err, w1) \<Rightarrow> (None, response_Fail r err rw, w1)
      | (Inr ac, w1) \<Rightarrow> next (withAuth r ac) rw w1)"

definition RequirePlatformToken :: "string \<Rightarrow> middleware" where
  "RequirePlatformToken expected next r rw w =
     (if length expected = 0 \<or> r_Header r ''X-Platform-Token'' \<noteq> expected
      then (None, response_Fail r (Api (NotFound ''not found'')) rw,
            AuditService_Record (unauthorized_event r ''invalid_platform_token'') w)
      else next (withPlatform r) rw w)"

section \<open>Roles and features\<close>

definition roleRank :: "Role \<Rightarrow> int" where
  "roleRank role = (if role = RoleViewer then 1 else if role = RoleDeveloper then 2
     else if role = RoleAdmin then 3 else 0)"

definition RoleAtLeast :: "Role \<Rightarrow> Role \<Rightarrow> bool" where
  "RoleAtLeast role minRole \<longleftrightarrow> roleRank minRole \<le> roleRank role"

definition denied_event :: "Request \<Rightarrow> AuthContext \<Rightarrow> details \<Rightarrow> RecordInput" where
  "denied_event r ac meta =
     \<lparr>ai_TenantID = Some (ac_TenantID ac), ai_ActorID = ptrOrNil (ac_UserID ac),
      ai_Event = EventFeatureAccessDenied, ai_Metadata = meta, ai_Endpoint = r_Path r,
      ai_IPAddress = clientIP r, ai_UserAgent = UserAgent r\<rparr>"

definition RequireRole :: "Role \<Rightarrow> middleware" where
  "RequireRole minRole next r rw w =
     (case AuthFromContext r of
        None \<Rightarrow> (None, response_Fail r (Api (Unauthenticated ''authentication is required'')) rw, w)
      | Some ac \<Rightarrow>
          (if \<not> RoleAtLeast (ac_Role ac) minRole
           then (None,
                 response_Fail r
                   (Api (Forbidden (''this operation requires the '' @ minRole @ '' role''))) rw,
                 AuditService_Record (denied_event r ac
                   [(''reason'', DStr ''insufficient_role''), (''required'', DStr minRole),
                    (''actual'', DStr (ac_Role ac))]) w)
           else next r rw w))"

type_synonym EntitlementChecker = "string \<Rightarrow> Plan \<Rightarrow> string \<Rightarrow> (world, bool) op"

definition RequireFeature :: "EntitlementChecker \<Rightarrow> string \<Rightarrow> middleware" where
  "RequireFeature entitlements featureKey next r rw w =
     (case AuthFromContext r of
        None \<Rightarrow> (None, response_Fail r (Api (Unauthenticated ''authentication is required'')) rw, w)
      | Some ac \<Rightarrow>
          (case entitlements (ac_TenantID ac) (ac_TenantPlan ac) featureKey w of
             (Inl err, w1) \<Rightarrow>
               (None, response_Fail r
                  (Api (Wrap (Internal ''failed to resolve feature entitlement'') err)) rw, w1)
           | (Inr has, w1) \<Rightarrow>
               (if \<not> has
                then (None, response_Fail r (Api (FeatureRequired featureKey)) rw,
                      AuditService_Record (denied_event r ac
                        [(''feature'', DStr featureKey), (''plan'', DStr (ac_TenantPlan ac))]) w1)
                else next r rw w1)))"

section \<open>Rate limiting and metering\<close>

text \<open>
  Redis' \<open>INCR\<close> and \<open>EXPIRE\<close>: an absent or expired key counts from 0, and incrementing keeps a
  key's expiry. Like every external call, \<open>INCR\<close> may fail.
\<close>

definition redis_value :: "world \<Rightarrow> string \<Rightarrow> int \<times> time option" where
  "redis_value w key =
     (case redis w key of
        None \<Rightarrow> (0, None)
      | Some (n, None) \<Rightarrow> (n, None)
      | Some (n, Some t) \<Rightarrow> if clock w < t then (n, Some t) else (0, None))"

definition redis_Incr :: "string \<Rightarrow> (world, int) op" where
  "redis_Incr key = exec (\<lambda>w. case redis_value w key of (n, ex) \<Rightarrow>
     (Inr (n + 1), w\<lparr>redis := (redis w)(key \<mapsto> (n + 1, ex))\<rparr>))"

definition redis_Expire :: "string \<Rightarrow> duration \<Rightarrow> (world, unit) op" where
  "redis_Expire key ttl = exec (\<lambda>w. case redis w key of
       None \<Rightarrow> (Inr (), w)
     | Some (n, ex) \<Rightarrow> (Inr (), w\<lparr>redis := (redis w)(key \<mapsto> (n, Some (clock w + ttl)))\<rparr>))"

definition rate_key :: "Request \<Rightarrow> time \<Rightarrow> string" where
  "rate_key r now =
     ''ratelimit:'' @ (case AuthFromContext r of None \<Rightarrow> clientIP r
                       | Some ac \<Rightarrow> ''tenant:'' @ ac_TenantID ac)
     @ '':'' @ Itoa (now div second div 60)"

text \<open>The decision and the headers it sets; the call fails open.\<close>

definition RateLimit_decide :: "int \<Rightarrow> Request \<Rightarrow> RW \<Rightarrow> world \<Rightarrow> bool \<times> RW \<times> world" where
  "RateLimit_decide requestsPerMinute r rw w =
     (let key = rate_key r (clock w) in
      case redis_Incr key w of
        (Inl err, w1) \<Rightarrow> (True, rw, w1)
      | (Inr n, w1) \<Rightarrow>
          (let w2 = (if n = 1 then snd (redis_Expire key (90 * second) w1) else w1);
               remaining = (if requestsPerMinute - n < 0 then 0 else requestsPerMinute - n);
               rw1 = Set_header ''X-RateLimit-Remaining'' (Itoa remaining)
                       (Set_header ''X-RateLimit-Limit'' (Itoa requestsPerMinute) rw)
           in (n \<le> requestsPerMinute, rw1, w2)))"

definition RateLimit :: "int \<Rightarrow> middleware" where
  "RateLimit requestsPerMinute next r rw w =
     (case RateLimit_decide requestsPerMinute r rw w of (admit, rw1, w1) \<Rightarrow>
        if \<not> admit
        then (None, response_TooManyRequests ''rate limit exceeded, please slow down'' rw1, w1)
        else next r rw1 w1)"

type_synonym UsageRecorder = "RecordUsageInput \<Rightarrow> (world, unit) op"

text \<open>The recording goroutine, run to its end once the response is complete.\<close>

definition UsageMetering :: "UsageRecorder \<Rightarrow> middleware" where
  "UsageMetering usage next r rw w =
     (case next r rw w of
        (Some err, rw1, w1) \<Rightarrow> (Some err, rw1, w1)
      | (None, rw1, w1) \<Rightarrow>
          (case usage \<lparr>ri_TenantID = map_option ac_TenantID (AuthFromContext r),
                   ri_Endpoint = r_Path r, ri_Method = r_Method r,
                   ri_StatusCode = recorded_status rw1,
                   ri_LatencyMS = milliseconds (clock w1 - clock w),
                   ri_RequestID = r_RequestID r\<rparr> w1 of
             (Inl err, w2) \<Rightarrow>
               (None, rw1, w2\<lparr>log := log w2 @ [(''failed to record usage log'',
                  [(''error'', DStr (Error_string err)),
                   (''request_id'', DStr (r_RequestID r))])]\<rparr>)
           | (Inr v, w2) \<Rightarrow> (None, rw1, w2)))"

section \<open>Lemmas\<close>

lemma Chain_Nil [simp]: "Chain [] h = h"
  by (simp add: Chain_def)

lemma Chain_Cons [simp]: "Chain (m # ms) h = m (Chain ms h)"
  by (simp add: Chain_def)

lemma Chain_append: "Chain (ms @ ns) h = Chain ms (Chain ns h)"
  by (simp add: Chain_def)

lemma sanitize_safe: "list_all safe_char (sanitizeRequestID raw)"
  by (simp add: sanitizeRequestID_def list_all_iff)

lemma sanitize_length: "length (sanitizeRequestID raw) \<le> maxRequestIDLength"
  by (auto simp: sanitizeRequestID_def intro: le_trans [OF length_filter_le])

lemma sanitize_id:
  "list_all safe_char raw \<Longrightarrow> length raw \<le> maxRequestIDLength \<Longrightarrow> sanitizeRequestID raw = raw"
  by (auto simp: sanitizeRequestID_def list_all_iff filter_id_conv)

lemma RoleAtLeast_refl [simp]: "RoleAtLeast r r"
  by (simp add: RoleAtLeast_def)

lemma RoleAtLeast_trans: "RoleAtLeast a b \<Longrightarrow> RoleAtLeast b c \<Longrightarrow> RoleAtLeast a c"
  by (simp add: RoleAtLeast_def)

lemma RoleAtLeast_admin: "RoleAtLeast r RoleAdmin \<longleftrightarrow> r = RoleAdmin"
  by (simp add: RoleAtLeast_def roleRank_def)

lemma RoleAtLeast_developer: "RoleAtLeast r RoleDeveloper \<longleftrightarrow> r = RoleAdmin \<or> r = RoleDeveloper"
  by (auto simp: RoleAtLeast_def roleRank_def)

lemma RoleAtLeast_viewer: "RoleAtLeast r RoleViewer \<longleftrightarrow> Role_Valid r"
  by (auto simp: RoleAtLeast_def roleRank_def Role_Valid_def)

lemma AuthFromContext_withAuth [simp]:
  "AuthFromContext (withAuth r ac) = (if ac_TenantID ac = '''' then None else Some ac)"
  by (simp add: AuthFromContext_def withAuth_def)

lemma ScopeFromContext_Valid: "Scope_Valid (ScopeFromContext r) \<longleftrightarrow> AuthFromContext r \<noteq> None"
  by (auto simp: ScopeFromContext_def Scope_Valid_def AuthFromContext_def split: option.splits)

text \<open>
  Who gets through \<open>Auth\<close>: the holder of the secret of a live API key, as a developer of the key's
  tenant, or of a token that verifies, with the identity and role it carries; in both cases the
  tenant is looked up now, must be active, and gives the plan.
\<close>

definition authenticated_by ::
  "auth_deps \<Rightarrow> Request \<Rightarrow> world \<Rightarrow> AuthContext \<Rightarrow> bool" where
  "authenticated_by d r w ac \<longleftrightarrow>
     (\<exists>t w1 w2. ad_tenants d (ac_TenantID ac) w1 = (Inr t, w2) \<and> t_IsActive t
        \<and> ac_TenantPlan ac = t_Plan t)
     \<and> (if r_Header r ''X-API-Key'' \<noteq> ''''
        then (\<exists>k \<in> set (api_keys w). k_KeyHash k = HashToken (r_Header r ''X-API-Key'') \<and> k_live k
                \<and> ac_TenantID ac = k_TenantID k \<and> ac_Role ac = RoleDeveloper \<and> ac_UserID ac = '''')
        else (\<exists>tok claims. VerifyAccessToken (ad_jwt d) (ad_jwtManager d) tok (clock w) = Inr claims
                \<and> r_Header r ''Authorization'' = ''Bearer '' @ drop 7 (r_Header r ''Authorization'')
                \<and> tok = TrimSpace (drop 7 (r_Header r ''Authorization''))
                \<and> ac_TenantID ac = c_TenantID claims \<and> ac_UserID ac = c_UserID claims
                \<and> ac_Role ac = c_Role claims \<and> Role_Valid (ac_Role ac)))"

lemma Auth_resolve_Inr:
  assumes "Auth_resolve d r w = (Inr ac, w')"
  shows "authenticated_by d r w ac"
proof (cases "r_Header r ''X-API-Key'' = ''''")
  case False
  with assms obtain k t w1 where
    k: "APIKeyService_Authenticate (ad_prefix d) (r_Header r ''X-API-Key'') w = (Inr k, w1)"
    and t: "ad_tenants d (k_TenantID k) w1 = (Inr t, w')" "t_IsActive t"
    and ac: "ac = \<lparr>ac_UserID = '''', ac_TenantID = k_TenantID k, ac_Role = RoleDeveloper,
                ac_TenantPlan = t_Plan t, ac_AuthMethod = ''api_key'', ac_APIKeyID = k_ID k\<rparr>"
    by (auto simp: Auth_resolve_def resolve_api_key_def split: prod.splits sum.splits if_splits)
  from Authenticate_Inr(1-3) [OF k] t ac False show ?thesis
    by (auto simp: authenticated_by_def)
next
  case True
  let ?h = "r_Header r ''Authorization''"
  from assms True have pre: "HasPrefix ?h ''Bearer ''"
    by (auto simp: Auth_resolve_def resolve_bearer_def split: if_splits)
  then have h: "?h = ''Bearer '' @ drop 7 ?h" "TrimPrefix ?h ''Bearer '' = drop 7 ?h"
    by (auto simp: HasPrefix_iff TrimPrefix_def)
  from assms True pre obtain claims t where
    c: "VerifyAccessToken (ad_jwt d) (ad_jwtManager d) (TrimSpace (drop 7 ?h)) (clock w) = Inr claims"
    and t: "ad_tenants d (c_TenantID claims) w = (Inr t, w')" "t_IsActive t"
    and ac: "Role_Valid (c_Role claims)"
      "ac = \<lparr>ac_UserID = c_UserID claims, ac_TenantID = c_TenantID claims, ac_Role = c_Role claims,
             ac_TenantPlan = t_Plan t, ac_AuthMethod = ''jwt'', ac_APIKeyID = ''''\<rparr>"
    unfolding Auth_resolve_def resolve_bearer_def h(2) Let_def
    by (auto split: prod.splits sum.splits if_splits)
  from c t ac True h(1) show ?thesis by (auto simp: authenticated_by_def)
qed

text \<open>Requests in one window: the counter of their key after each of them.\<close>

lemma redis_value_upd:
  "redis_value (w\<lparr>redis := (redis w)(key \<mapsto> (n, ex))\<rparr>) key =
     (case ex of None \<Rightarrow> (n, None) | Some t \<Rightarrow> if clock w < t then (n, Some t) else (0, None))"
  by (auto simp: redis_value_def split: option.splits)

lemma RateLimit_decide_calm:
  assumes "script w = []" "RateLimit_decide lim' r rw w = (admit, rw', w')"
  shows "admit \<longleftrightarrow> fst (redis_value w (rate_key r (clock w))) + 1 \<le> lim'"
    "script w' = []" "clock w' = clock w"
    "fst (redis_value w' (rate_key r (clock w))) = fst (redis_value w (rate_key r (clock w))) + 1"
proof -
  let ?k = "rate_key r (clock w)"
  obtain n ex where v: "redis_value w ?k = (n, ex)" by (cases "redis_value w ?k")
  have ex: "\<And>t. ex = Some t \<Longrightarrow> clock w < t"
    using v by (auto simp: redis_value_def split: option.splits if_splits)
  let ?w1 = "w\<lparr>redis := (redis w)(?k \<mapsto> (n + 1, ex))\<rparr>"
  have inc: "redis_Incr ?k w = (Inr (n + 1), ?w1)"
    using assms(1) v by (simp add: redis_Incr_def)
  have exp: "snd (redis_Expire ?k (90 * second) ?w1)
      = ?w1\<lparr>redis := (redis ?w1)(?k \<mapsto> (n + 1, Some (clock w + 90 * second)))\<rparr>"
    using assms(1) by (simp add: redis_Expire_def)
  from assms(2) have admit: "admit \<longleftrightarrow> n + 1 \<le> lim'"
    and w': "w' = (if n + 1 = 1 then snd (redis_Expire ?k (90 * second) ?w1) else ?w1)"
    by (auto simp: RateLimit_decide_def Let_def inc)
  show "admit \<longleftrightarrow> fst (redis_value w ?k) + 1 \<le> lim'" using admit v by simp
  show "script w' = []" "clock w' = clock w" unfolding w' exp using assms(1) by auto
  show "fst (redis_value w' ?k) = fst (redis_value w ?k) + 1"
    unfolding w' exp v using ex by (auto simp: redis_value_def second_def split: option.splits)
qed

end
