(* ===== verification/UserService.thy ===== *)
theory UserService
  imports User_Repository
begin

text \<open>
  \<^verbatim>\<open>internal/service/user_service.go\<close>: user management and the role rules. The service
  depends on the interface \<open>UserStoreFull\<close>, here the record of its methods, and what it needs
  of an implementation is the locale \<open>user_store\<close>; \<open>user_repo\<close> is the SQL repository as
  such a record.
\<close>

section \<open>The store interface\<close>

record 's UserStoreFull =
  uf_GetByID :: "string \<Rightarrow> ('s, User) op"
  uf_GetByIDInTenant :: "string \<Rightarrow> string \<Rightarrow> ('s, User) op"
  uf_ListByTenant :: "string \<Rightarrow> int \<Rightarrow> int \<Rightarrow> ('s, User list \<times> int) op"
  uf_UpdateRoleInTenant :: "string \<Rightarrow> string \<Rightarrow> Role \<Rightarrow> ('s, unit) op"
  uf_SetActiveInTenant :: "string \<Rightarrow> string \<Rightarrow> bool \<Rightarrow> ('s, unit) op"
  uf_CountAdminsInTenant :: "string \<Rightarrow> ('s, int) op"

definition user_repo :: "world UserStoreFull" where
  "user_repo = \<lparr>
     uf_GetByID = UserRepository_GetByID,
     uf_GetByIDInTenant = UserRepository_GetByIDInTenant,
     uf_ListByTenant = UserRepository_ListByTenant,
     uf_UpdateRoleInTenant = UserRepository_UpdateRoleInTenant,
     uf_SetActiveInTenant = UserRepository_SetActiveInTenant,
     uf_CountAdminsInTenant = UserRepository_CountAdminsInTenant\<rparr>"

section \<open>The service\<close>

definition UserService_Get :: "'s UserStoreFull \<Rightarrow> Scope \<Rightarrow> string \<Rightarrow> ('s, User) op" where
  "UserService_Get repo scope i =
     bind_op (require_scope scope) (\<lambda>_.
       if TrimSpace i = '''' then fail (Api (BadRequest ''a user id is required''))
       else map_err (hide_missing ''user not found'' ''failed to load user'')
              (uf_GetByIDInTenant repo (TenantID scope) i))"

definition UserService_Me :: "'s UserStoreFull \<Rightarrow> Scope \<Rightarrow> ('s, User) op" where
  "UserService_Me repo scope =
     bind_op (require_scope scope) (\<lambda>_.
       if UserID scope = ''''
       then fail (Api (Forbidden ''this endpoint requires a user credential, not an API key''))
       else UserService_Get repo scope (UserID scope))"

definition UserService_List ::
  "'s UserStoreFull \<Rightarrow> Scope \<Rightarrow> int \<Rightarrow> int \<Rightarrow> ('s, User list \<times> int) op" where
  "UserService_List repo scope page pageSize =
     bind_op (require_scope scope) (\<lambda>_.
       map_err (\<lambda>err. Api (Wrap (Internal ''failed to list users'') err))
         (uf_ListByTenant repo (TenantID scope) page pageSize))"

record UpdateRoleResult =
  ur_User :: User
  ur_PreviousRole :: Role
  ur_NewRole :: Role

text \<open>The last-admin rule, shared by the two operations that can break it.\<close>

definition require_other_admin ::
  "'s UserStoreFull \<Rightarrow> Scope \<Rightarrow> string \<Rightarrow> ('s, unit) op" where
  "require_other_admin repo scope refusal =
     bind_op (map_err (\<lambda>err. Api (Wrap (Internal ''failed to verify remaining tenant admins'') err))
                (uf_CountAdminsInTenant repo (TenantID scope)))
       (\<lambda>admins. if admins \<le> 1 then fail (Api (Conflict refusal)) else ret ())"

definition UserService_UpdateRole ::
  "'s UserStoreFull \<Rightarrow> Scope \<Rightarrow> string \<Rightarrow> Role \<Rightarrow> ('s, UpdateRoleResult) op" where
  "UserService_UpdateRole repo scope targetID role =
     (if \<not> Role_Valid role
      then fail (Api (Validation ''role must be one of admin, developer, viewer''))
      else if s_Role scope \<noteq> RoleAdmin
      then fail (Api (Forbidden ''only a tenant admin may change user roles''))
      else if UserID scope \<noteq> '''' \<and> UserID scope = targetID
      then fail (Api (Forbidden ''you cannot change your own role''))
      else bind_op (UserService_Get repo scope targetID) (\<lambda>target.
        let previous = u_Role target in
        if u_Role target = role
        then ret \<lparr>ur_User = target, ur_PreviousRole = role, ur_NewRole = role\<rparr>
        else
          bind_op (when_op (u_Role target = RoleAdmin \<and> role \<noteq> RoleAdmin)
                     (require_other_admin repo scope
                       ''this tenant would be left without an admin; promote another user first''))
            (\<lambda>_.
          bind_op (map_err (hide_missing ''user not found'' ''failed to update user role'')
                     (uf_UpdateRoleInTenant repo (TenantID scope) targetID role)) (\<lambda>_.
          ret \<lparr>ur_User = target\<lparr>u_Role := role\<rparr>, ur_PreviousRole = previous,
               ur_NewRole = role\<rparr>))))"

definition UserService_SetActive ::
  "'s UserStoreFull \<Rightarrow> Scope \<Rightarrow> string \<Rightarrow> bool \<Rightarrow> ('s, User) op" where
  "UserService_SetActive repo scope targetID active =
     (if s_Role scope \<noteq> RoleAdmin
      then fail (Api (Forbidden ''only a tenant admin may activate or deactivate users''))
      else if UserID scope \<noteq> '''' \<and> UserID scope = targetID
      then fail (Api (Forbidden ''you cannot change your own account status''))
      else bind_op (UserService_Get repo scope targetID) (\<lambda>target.
        bind_op (when_op (\<not> active \<and> u_Role target = RoleAdmin)
                   (require_other_admin repo scope
                     ''this tenant would be left without an active admin'')) (\<lambda>_.
        bind_op (map_err (hide_missing ''user not found'' ''failed to update user status'')
                   (uf_SetActiveInTenant repo (TenantID scope) targetID active)) (\<lambda>_.
        ret (target\<lparr>u_IsActive := active\<rparr>)))))"

section \<open>Counting the admins of a tenant\<close>

definition has_admin :: "string \<Rightarrow> User list \<Rightarrow> bool" where
  "has_admin tid us \<longleftrightarrow> (\<exists>u \<in> set us. active_admin tid u)"

lemma has_admin_filter: "has_admin tid us \<longleftrightarrow> filter (active_admin tid) us \<noteq> []"
  by (auto simp: has_admin_def filter_empty_conv)

text \<open>
  Identifiers being unique, changing one row takes at most one active admin away: of two, one
  is left.
\<close>

lemma other_admin:
  assumes "distinct (map u_ID us)" and "1 < length (filter (active_admin tid) us)"
  shows "\<exists>u \<in> set us. active_admin tid u \<and> u_ID u \<noteq> x"
proof (rule ccontr)
  assume "\<not> ?thesis"
  then have same: "u_ID u = x" if "u \<in> set (filter (active_admin tid) us)" for u
    using that by auto
  have "distinct (map u_ID (filter (active_admin tid) us))"
    using assms(1) by (rule distinct_map_filter)
  moreover have "set (map u_ID (filter (active_admin tid) us)) \<subseteq> {x}"
    using same by auto
  ultimately have "length (filter (active_admin tid) us) \<le> card {x}"
    by (metis card_mono distinct_card finite.emptyI finite_insert length_map)
  with assms(2) show False by simp
qed

lemma has_admin_update_other:
  assumes "\<exists>u \<in> set us. active_admin tid u \<and> u_ID u \<noteq> x"
  shows "has_admin tid (update_rows (user_row t x) f us)"
proof -
  from assms obtain u where "u \<in> set us" "active_admin tid u" "u_ID u \<noteq> x" by auto
  moreover from this have "u \<in> set (update_rows (user_row t x) f us)"
    by (auto simp: set_update_rows user_row_def)
  ultimately show ?thesis by (auto simp: has_admin_def)
qed

lemma has_admin_update_keep:
  assumes "has_admin tid us" and "\<And>u. u \<in> set us \<Longrightarrow> P u \<Longrightarrow> active_admin tid u \<Longrightarrow> active_admin tid (f u)"
  shows "has_admin tid (update_rows P f us)"
proof -
  from assms(1) obtain u where u: "u \<in> set us" "active_admin tid u" by (auto simp: has_admin_def)
  then have "(if P u then f u else u) \<in> set (update_rows P f us)"
    by (auto simp: update_rows_def)
  with u assms(2) show ?thesis by (auto simp: has_admin_def split: if_splits)
qed

definition rows_of :: "string \<Rightarrow> User list \<Rightarrow> User list" where
  "rows_of tid us = filter (\<lambda>u. u_TenantID u = tid) us"

lemma rows_of_put:
  assumes "B \<noteq> tid"
  shows "rows_of B (update_rows (user_row tid x) (put_role r now) us) = rows_of B us"
    "rows_of B (update_rows (user_row tid x) (put_active a now) us) = rows_of B us"
  using assms by (auto simp: rows_of_def user_row_def intro!: update_rows_disjoint)

section \<open>What the service relies on\<close>

locale user_store =
  fixes repo :: "'s UserStoreFull"
    and rows :: "'s \<Rightarrow> User list"
    and uuid :: "'s \<Rightarrow> string \<Rightarrow> string option"
  assumes get_frame:
      "uf_GetByIDInTenant repo t i s = (r, s') \<Longrightarrow> rows s' = rows s \<and> uuid s' = uuid s"
    and get_row: "uf_GetByIDInTenant repo t i s = (Inr u, s') \<Longrightarrow> u \<in> set (rows s)
      \<and> uuid s i = Some (u_ID u) \<and> uuid s t = Some (u_TenantID u) \<and> u_live u"
    and count_frame:
      "uf_CountAdminsInTenant repo t s = (q, s') \<Longrightarrow> rows s' = rows s \<and> uuid s' = uuid s"
    and count_admins: "uf_CountAdminsInTenant repo t s = (Inr n, s') \<Longrightarrow>
      \<exists>tid. uuid s t = Some tid \<and> n = int (length (filter (active_admin tid) (rows s)))"
    and role_fail: "uf_UpdateRoleInTenant repo t i role s = (Inl e, s') \<Longrightarrow>
      rows s' = rows s \<and> uuid s' = uuid s"
    and role_set: "uf_UpdateRoleInTenant repo t i role s = (Inr v, s') \<Longrightarrow> uuid s' = uuid s
      \<and> (\<exists>x tid now. uuid s i = Some x \<and> uuid s t = Some tid
           \<and> rows s' = update_rows (user_row tid x) (put_role role now) (rows s))"
    and active_fail: "uf_SetActiveInTenant repo t i active s = (Inl e, s') \<Longrightarrow>
      rows s' = rows s \<and> uuid s' = uuid s"
    and active_set: "uf_SetActiveInTenant repo t i active s = (Inr v, s') \<Longrightarrow> uuid s' = uuid s
      \<and> (\<exists>x tid now. uuid s i = Some x \<and> uuid s t = Some tid
           \<and> rows s' = update_rows (user_row tid x) (put_active active now) (rows s))"
begin

lemma Get_frame:
  "UserService_Get repo scope i s = (r, s') \<Longrightarrow> rows s' = rows s \<and> uuid s' = uuid s"
  by (cases r)
    (auto simp: UserService_Get_def require_scope_def dest: get_frame split: if_splits)

lemma Get_row:
  "UserService_Get repo scope i s = (Inr u, s') \<Longrightarrow> Scope_Valid scope \<and> u \<in> set (rows s)
    \<and> uuid s i = Some (u_ID u) \<and> uuid s (TenantID scope) = Some (u_TenantID u) \<and> u_live u"
  by (auto simp: UserService_Get_def require_scope_def dest: get_row split: if_splits)

lemma require_other_admin_frame:
  "require_other_admin repo scope m s = (r, s') \<Longrightarrow> rows s' = rows s \<and> uuid s' = uuid s"
  by (cases r) (auto simp: require_other_admin_def dest: count_frame split: if_splits)

lemma require_other_admin_Inr:
  "require_other_admin repo scope m s = (Inr v, s') \<Longrightarrow>
    \<exists>tid. uuid s (TenantID scope) = Some tid \<and> 1 < length (filter (active_admin tid) (rows s))"
  by (auto simp: require_other_admin_def dest!: count_admins split: if_splits)

text \<open>
  A role change: nothing on an error; otherwise the rows of the caller's tenant with the target's
  identifier get the role, and where that takes an admin away there was another.
\<close>

lemma UpdateRole_Inl:
  "UserService_UpdateRole repo scope i role s = (Inl e, s') \<Longrightarrow>
    rows s' = rows s \<and> uuid s' = uuid s"
  by (fastforce simp: UserService_UpdateRole_def Let_def split: if_splits
      dest: Get_frame require_other_admin_frame role_fail)

lemma UpdateRole_Inr:
  assumes "UserService_UpdateRole repo scope i role s = (Inr res, s')"
  shows "s_Role scope = RoleAdmin" "Role_Valid role" "UserID scope = '''' \<or> UserID scope \<noteq> i"
    "uuid s' = uuid s"
    "\<exists>tid x target. uuid s (TenantID scope) = Some tid \<and> uuid s i = Some x
       \<and> target \<in> set (rows s) \<and> user_row tid x target \<and> ur_PreviousRole res = u_Role target
       \<and> ur_NewRole res = role \<and> ur_User res = target\<lparr>u_Role := role\<rparr>
       \<and> (rows s' = rows s \<and> u_Role target = role
          \<or> (\<exists>now. rows s' = update_rows (user_row tid x) (put_role role now) (rows s))
            \<and> (u_Role target = RoleAdmin \<longrightarrow> 1 < length (filter (active_admin tid) (rows s))))"
proof -
  from assms show "s_Role scope = RoleAdmin" "Role_Valid role"
    "UserID scope = '''' \<or> UserID scope \<noteq> i"
    by (auto simp: UserService_UpdateRole_def split: if_splits)
  from assms obtain target s1 where g: "UserService_Get repo scope i s = (Inr target, s1)"
    and rest: "u_Role target = role \<and> s' = s1 \<and> res = \<lparr>ur_User = target, ur_PreviousRole = role,
         ur_NewRole = role\<rparr>
      \<or> (\<exists>s2 m. (u_Role target = RoleAdmin \<longrightarrow> require_other_admin repo scope m s1 = (Inr (), s2))
         \<and> (u_Role target \<noteq> RoleAdmin \<longrightarrow> s2 = s1)
         \<and> uf_UpdateRoleInTenant repo (TenantID scope) i role s2 = (Inr (), s')
         \<and> res = \<lparr>ur_User = target\<lparr>u_Role := role\<rparr>, ur_PreviousRole = u_Role target,
                  ur_NewRole = role\<rparr>)"
    by (fastforce simp: UserService_UpdateRole_def Let_def split: if_splits)
  note G = Get_frame [OF g] Get_row [OF g]
  obtain tid x where ids: "uuid s (TenantID scope) = Some tid" "uuid s i = Some x"
    "user_row tid x target" "target \<in> set (rows s)"
    using G(2) by (auto simp: user_row_def)
  from rest have "uuid s' = uuid s \<and> ur_PreviousRole res = u_Role target
     \<and> ur_NewRole res = role \<and> ur_User res = target\<lparr>u_Role := role\<rparr>
     \<and> (rows s' = rows s \<and> u_Role target = role
        \<or> (\<exists>now. rows s' = update_rows (user_row tid x) (put_role role now) (rows s))
          \<and> (u_Role target = RoleAdmin \<longrightarrow> 1 < length (filter (active_admin tid) (rows s))))"
  proof (elim disjE exE conjE)
    fix s2 m
    assume adm: "u_Role target = RoleAdmin \<longrightarrow> require_other_admin repo scope m s1 = (Inr (), s2)"
        "u_Role target \<noteq> RoleAdmin \<longrightarrow> s2 = s1"
      and upd: "uf_UpdateRoleInTenant repo (TenantID scope) i role s2 = (Inr (), s')"
      and res: "res = \<lparr>ur_User = target\<lparr>u_Role := role\<rparr>, ur_PreviousRole = u_Role target,
                  ur_NewRole = role\<rparr>"
    from adm G(1) ids(1) have "rows s2 = rows s \<and> uuid s2 = uuid s
        \<and> (u_Role target = RoleAdmin \<longrightarrow> 1 < length (filter (active_admin tid) (rows s)))"
      by (cases "u_Role target = RoleAdmin")
        (fastforce dest: require_other_admin_frame require_other_admin_Inr)+
    with role_set [OF upd] ids(1,2) res show ?thesis by auto
  qed (use G(1) in auto)
  with ids show "uuid s' = uuid s"
    "\<exists>tid x target. uuid s (TenantID scope) = Some tid \<and> uuid s i = Some x
       \<and> target \<in> set (rows s) \<and> user_row tid x target \<and> ur_PreviousRole res = u_Role target
       \<and> ur_NewRole res = role \<and> ur_User res = target\<lparr>u_Role := role\<rparr>
       \<and> (rows s' = rows s \<and> u_Role target = role
          \<or> (\<exists>now. rows s' = update_rows (user_row tid x) (put_role role now) (rows s))
            \<and> (u_Role target = RoleAdmin \<longrightarrow> 1 < length (filter (active_admin tid) (rows s))))"
    by auto
qed

lemma SetActive_Inl:
  "UserService_SetActive repo scope i active s = (Inl e, s') \<Longrightarrow>
    rows s' = rows s \<and> uuid s' = uuid s"
  by (fastforce simp: UserService_SetActive_def split: if_splits
      dest: Get_frame require_other_admin_frame active_fail)

lemma SetActive_Inr:
  assumes "UserService_SetActive repo scope i active s = (Inr u, s')"
  shows "s_Role scope = RoleAdmin" "UserID scope = '''' \<or> UserID scope \<noteq> i"
    "uuid s' = uuid s"
    "\<exists>tid x target now. uuid s (TenantID scope) = Some tid \<and> uuid s i = Some x
       \<and> target \<in> set (rows s) \<and> user_row tid x target \<and> u = target\<lparr>u_IsActive := active\<rparr>
       \<and> rows s' = update_rows (user_row tid x) (put_active active now) (rows s)
       \<and> (\<not> active \<and> u_Role target = RoleAdmin
            \<longrightarrow> 1 < length (filter (active_admin tid) (rows s)))"
proof -
  from assms show "s_Role scope = RoleAdmin" "UserID scope = '''' \<or> UserID scope \<noteq> i"
    by (auto simp: UserService_SetActive_def split: if_splits)
  from assms obtain target s1 s2 where g: "UserService_Get repo scope i s = (Inr target, s1)"
    and adm: "\<not> active \<and> u_Role target = RoleAdmin \<longrightarrow>
        (\<exists>m. require_other_admin repo scope m s1 = (Inr (), s2))"
      "\<not> (\<not> active \<and> u_Role target = RoleAdmin) \<longrightarrow> s2 = s1"
    and upd: "uf_SetActiveInTenant repo (TenantID scope) i active s2 = (Inr (), s')"
    and u: "u = target\<lparr>u_IsActive := active\<rparr>"
    by (fastforce simp: UserService_SetActive_def split: if_splits)
  note G = Get_frame [OF g] Get_row [OF g]
  obtain tid x where ids: "uuid s (TenantID scope) = Some tid" "uuid s i = Some x"
    "user_row tid x target" "target \<in> set (rows s)"
    using G(2) by (auto simp: user_row_def)
  from adm G(1) ids(1) have s2: "rows s2 = rows s \<and> uuid s2 = uuid s
      \<and> (\<not> active \<and> u_Role target = RoleAdmin \<longrightarrow>
           1 < length (filter (active_admin tid) (rows s)))"
    by (cases "\<not> active \<and> u_Role target = RoleAdmin")
      (fastforce dest: require_other_admin_frame require_other_admin_Inr)+
  with active_set [OF upd] s2 ids u show "uuid s' = uuid s"
    "\<exists>tid x target now. uuid s (TenantID scope) = Some tid \<and> uuid s i = Some x
       \<and> target \<in> set (rows s) \<and> user_row tid x target \<and> u = target\<lparr>u_IsActive := active\<rparr>
       \<and> rows s' = update_rows (user_row tid x) (put_active active now) (rows s)
       \<and> (\<not> active \<and> u_Role target = RoleAdmin
            \<longrightarrow> 1 < length (filter (active_admin tid) (rows s)))"
    by auto
qed

text \<open>The consequences the properties rest on: a tenant keeps an admin, the others keep their rows.\<close>

lemma UpdateRole_keeps_admin:
  assumes run: "UserService_UpdateRole repo scope i role s = (r, s')"
    and ids: "distinct (map u_ID (rows s))" and T: "has_admin T (rows s)"
  shows "has_admin T (rows s')"
proof (cases r)
  case (Inl e)
  with run T show ?thesis by (auto dest: UpdateRole_Inl)
next
  case (Inr res)
  obtain tid x target where target: "target \<in> set (rows s)" "user_row tid x target"
    and upd: "rows s' = rows s \<and> u_Role target = role
        \<or> (\<exists>now. rows s' = update_rows (user_row tid x) (put_role role now) (rows s))
          \<and> (u_Role target = RoleAdmin \<longrightarrow> 1 < length (filter (active_admin tid) (rows s)))"
    using UpdateRole_Inr(5) [OF run [unfolded Inr]] by blast
  have only: "u = target" if "u \<in> set (rows s)" "user_row tid x u" for u
    using that target ids by (auto simp: user_row_def distinct_map dest: inj_onD)
  from upd show ?thesis
  proof (elim disjE conjE exE)
    fix now
    assume s': "rows s' = update_rows (user_row tid x) (put_role role now) (rows s)"
      and more: "u_Role target = RoleAdmin \<longrightarrow> 1 < length (filter (active_admin tid) (rows s))"
    show ?thesis
    proof (cases "T = tid \<and> u_Role target = RoleAdmin")
      case True
      with more other_admin [OF ids, of T x] show ?thesis
        unfolding s' by (intro has_admin_update_other) simp
    next
      case False
      then show ?thesis
        unfolding s' by (intro has_admin_update_keep [OF T])
          (drule only, assumption, auto simp: active_admin_def user_row_def u_live_def)
    qed
  qed (use T in simp)
qed

lemma SetActive_keeps_admin:
  assumes run: "UserService_SetActive repo scope i active s = (r, s')"
    and ids: "distinct (map u_ID (rows s))" and T: "has_admin T (rows s)"
  shows "has_admin T (rows s')"
proof (cases r)
  case (Inl e)
  with run T show ?thesis by (auto dest: SetActive_Inl)
next
  case (Inr u)
  obtain tid x target now where target: "target \<in> set (rows s)" "user_row tid x target"
    and s': "rows s' = update_rows (user_row tid x) (put_active active now) (rows s)"
    and more: "\<not> active \<and> u_Role target = RoleAdmin
        \<longrightarrow> 1 < length (filter (active_admin tid) (rows s))"
    using SetActive_Inr(4) [OF run [unfolded Inr]] by blast
  have only: "v = target" if "v \<in> set (rows s)" "user_row tid x v" for v
    using that target ids by (auto simp: user_row_def distinct_map dest: inj_onD)
  show ?thesis
  proof (cases "T = tid \<and> u_Role target = RoleAdmin \<and> \<not> active")
    case True
    with more other_admin [OF ids, of T x] show ?thesis
      unfolding s' by (intro has_admin_update_other) simp
  next
    case False
    then show ?thesis
      unfolding s' by (intro has_admin_update_keep [OF T])
        (drule only, assumption, auto simp: active_admin_def user_row_def u_live_def)
  qed
qed

lemma UpdateRole_other_rows:
  assumes "UserService_UpdateRole repo scope i role s = (r, s')"
    and "uuid s (TenantID scope) \<noteq> Some B"
  shows "rows_of B (rows s') = rows_of B (rows s)"
proof (cases r)
  case (Inl e)
  with assms(1) show ?thesis by (auto dest: UpdateRole_Inl)
next
  case (Inr res)
  from UpdateRole_Inr(5) [OF assms(1) [unfolded Inr]] assms(2) show ?thesis
    by (metis rows_of_put(1))
qed

lemma SetActive_other_rows:
  assumes "UserService_SetActive repo scope i active s = (r, s')"
    and "uuid s (TenantID scope) \<noteq> Some B"
  shows "rows_of B (rows s') = rows_of B (rows s)"
proof (cases r)
  case (Inl e)
  with assms(1) show ?thesis by (auto dest: SetActive_Inl)
next
  case (Inr u)
  from SetActive_Inr(4) [OF assms(1) [unfolded Inr]] assms(2) show ?thesis
    by (metis rows_of_put(2))
qed

lemma UpdateRole_keeps_ids:
  assumes "UserService_UpdateRole repo scope i role s = (r, s')"
  shows "map u_ID (rows s') = map u_ID (rows s)" "uuid s' = uuid s"
proof -
  have "map u_ID (rows s') = map u_ID (rows s) \<and> uuid s' = uuid s"
  proof (cases r)
    case (Inl e)
    with assms show ?thesis by (auto dest: UpdateRole_Inl)
  next
    case (Inr res)
    from UpdateRole_Inr(4,5) [OF assms [unfolded Inr]] show ?thesis
      by (auto simp: update_rows_map)
  qed
  then show "map u_ID (rows s') = map u_ID (rows s)" "uuid s' = uuid s" by auto
qed

lemma SetActive_keeps_ids:
  assumes "UserService_SetActive repo scope i active s = (r, s')"
  shows "map u_ID (rows s') = map u_ID (rows s)" "uuid s' = uuid s"
proof -
  have "map u_ID (rows s') = map u_ID (rows s) \<and> uuid s' = uuid s"
  proof (cases r)
    case (Inl e)
    with assms show ?thesis by (auto dest: SetActive_Inl)
  next
    case (Inr u)
    from SetActive_Inr(3,4) [OF assms [unfolded Inr]] show ?thesis
      by (auto simp: update_rows_map)
  qed
  then show "map u_ID (rows s') = map u_ID (rows s)" "uuid s' = uuid s" by auto
qed

end

text \<open>The SQL repository provides what the service relies on.\<close>

lemma user_repo_sel [simp]:
  "uf_GetByID user_repo = UserRepository_GetByID"
  "uf_GetByIDInTenant user_repo = UserRepository_GetByIDInTenant"
  "uf_ListByTenant user_repo = UserRepository_ListByTenant"
  "uf_UpdateRoleInTenant user_repo = UserRepository_UpdateRoleInTenant"
  "uf_SetActiveInTenant user_repo = UserRepository_SetActiveInTenant"
  "uf_CountAdminsInTenant user_repo = UserRepository_CountAdminsInTenant"
  by (simp_all add: user_repo_def)

interpretation uf: user_store user_repo users uuid_in
proof
  fix t i :: string and s s' :: world and r
  show "uf_GetByIDInTenant user_repo t i s = (r, s') \<Longrightarrow> users s' = users s \<and> uuid_in s' = uuid_in s"
    by (auto dest: read_only_keeps [OF read_only_user_repo(4)])
next
  fix t i :: string and s s' :: world and u
  show "uf_GetByIDInTenant user_repo t i s = (Inr u, s') \<Longrightarrow> u \<in> set (users s)
      \<and> uuid_in s i = Some (u_ID u) \<and> uuid_in s t = Some (u_TenantID u) \<and> u_live u"
    by (auto dest: UserRepository_GetByIDInTenant_Inr)
next
  fix t :: string and s s' :: world and q
  show "uf_CountAdminsInTenant user_repo t s = (q, s') \<Longrightarrow>
      users s' = users s \<and> uuid_in s' = uuid_in s"
    by (auto dest: read_only_keeps [OF read_only_user_repo(5)])
next
  fix t :: string and s s' :: world and n
  show "uf_CountAdminsInTenant user_repo t s = (Inr n, s') \<Longrightarrow>
      \<exists>tid. uuid_in s t = Some tid \<and> n = int (length (filter (active_admin tid) (users s)))"
    by (auto dest: UserRepository_CountAdminsInTenant_Inr)
next
  fix t i role :: string and s s' :: world and e
  show "uf_UpdateRoleInTenant user_repo t i role s = (Inl e, s') \<Longrightarrow>
      users s' = users s \<and> uuid_in s' = uuid_in s"
    by (auto dest: writes_fail_keeps [OF UserRepository_UpdateRoleInTenant_writes])
next
  fix t i role :: string and s s' :: world and v
  assume run: "uf_UpdateRoleInTenant user_repo t i role s = (Inr v, s')"
  from writesD(1) [OF UserRepository_UpdateRoleInTenant_writes run [simplified]]
  obtain x tid now where "uuid_in s i = Some x" "uuid_in s t = Some tid"
    and "tabs s' = (tabs s)\<lparr>users := update_rows (user_row tid x) (put_role role now) (users s)\<rparr>"
    by (auto simp: users_set_def)
  moreover from this(3)
  have "users s' = update_rows (user_row tid x) (put_role role now) (users s)"
    by (rule tabs_updD(2))
  moreover from writesD(3) [OF UserRepository_UpdateRoleInTenant_writes run [simplified]]
  have "uuid_in s' = uuid_in s" by (simp add: same_env_def)
  ultimately show "uuid_in s' = uuid_in s \<and> (\<exists>x tid now. uuid_in s i = Some x
      \<and> uuid_in s t = Some tid
      \<and> users s' = update_rows (user_row tid x) (put_role role now) (users s))"
    by auto
next
  fix t i :: string and active :: bool and s s' :: world and e
  show "uf_SetActiveInTenant user_repo t i active s = (Inl e, s') \<Longrightarrow>
      users s' = users s \<and> uuid_in s' = uuid_in s"
    by (auto dest: writes_fail_keeps [OF UserRepository_SetActiveInTenant_writes])
next
  fix t i :: string and active :: bool and s s' :: world and v
  assume run: "uf_SetActiveInTenant user_repo t i active s = (Inr v, s')"
  from writesD(1) [OF UserRepository_SetActiveInTenant_writes run [simplified]]
  obtain x tid now where "uuid_in s i = Some x" "uuid_in s t = Some tid"
    and "tabs s' = (tabs s)\<lparr>users := update_rows (user_row tid x) (put_active active now) (users s)\<rparr>"
    by (auto simp: users_set_def)
  moreover from this(3)
  have "users s' = update_rows (user_row tid x) (put_active active now) (users s)"
    by (rule tabs_updD(2))
  moreover from writesD(3) [OF UserRepository_SetActiveInTenant_writes run [simplified]]
  have "uuid_in s' = uuid_in s" by (simp add: same_env_def)
  ultimately show "uuid_in s' = uuid_in s \<and> (\<exists>x tid now. uuid_in s i = Some x
      \<and> uuid_in s t = Some tid
      \<and> users s' = update_rows (user_row tid x) (put_active active now) (users s))"
    by auto
qed

end
