(* ===== verification/Export_Repository.thy ===== *)
theory Export_Repository
  imports User_Repository
begin

text \<open>
  \<^verbatim>\<open>internal/repository/export_repository.go\<close>: the durable queue of export jobs. A worker
  claims queued jobs, reports each one completed, failed or to be retried, and jobs of a dead
  worker are released after a timeout.
\<close>

definition truncate :: "string \<Rightarrow> nat \<Rightarrow> string" where
  "truncate s m = (if length s \<le> m then s else take m s)"

definition insert_job :: "ExportJob \<Rightarrow> string \<Rightarrow> string option \<Rightarrow> (world, ExportJob) op" where
  "insert_job j tid rb w =
     (let row = \<lparr>j_ID = fresh_id w, j_TenantID = tid, j_RequestedBy = rb,
                 j_Status = ExportStatusQueued, j_Endpoint = j_Endpoint j, j_Method = j_Method j,
                 j_From = j_From j, j_To = j_To j, j_ObjectKey = '''', j_RowCount = 0,
                 j_SizeBytes = 0, j_Attempts = 0, j_Error = '''', j_StartedAt = None,
                 j_FinishedAt = None, j_CreatedAt = clock w, j_UpdatedAt = clock w\<rparr>
      in if 255 < length (j_Endpoint j) \<or> 10 < length (j_Method j) then (Inl varchar_error, w)
         else if \<not> tenant_exists w tid \<or> \<not> opt_ok (user_exists w) rb then (Inl fk_error, w)
         else (Inr (j\<lparr>j_ID := j_ID row, j_Status := j_Status row, j_Attempts := j_Attempts row,
                      j_CreatedAt := j_CreatedAt row, j_UpdatedAt := j_UpdatedAt row\<rparr>),
               w\<lparr>export_jobs := export_jobs w @ [row], next_id := Suc (next_id w)\<rparr>))"

definition ExportRepository_Create :: "ExportJob \<Rightarrow> (world, ExportJob) op" where
  "ExportRepository_Create j =
     map_err (\<lambda>err. if isForeignKeyViolation err then Sentinel repository_ErrNotFound else err)
       (exec (uuid_param (j_TenantID j) (\<lambda>tid.
          uuid_opt_param (j_RequestedBy j) (insert_job j tid))))"

definition ExportRepository_GetByIDInTenant :: "string \<Rightarrow> string \<Rightarrow> (world, ExportJob) op" where
  "ExportRepository_GetByIDInTenant tenantID i =
     map_err not_found_if_no_rows
       (exec (uuid_param i (\<lambda>x. uuid_param tenantID (\<lambda>tid. query_row (\<lambda>w.
          filter (\<lambda>j. j_ID j = x \<and> j_TenantID j = tid) (export_jobs w))))))"

definition ExportRepository_GetByID :: "string \<Rightarrow> (world, ExportJob) op" where
  "ExportRepository_GetByID i =
     map_err not_found_if_no_rows
       (exec (uuid_param i (\<lambda>x. query_row (\<lambda>w. filter (\<lambda>j. j_ID j = x) (export_jobs w)))))"

definition ExportRepository_ListByTenant ::
  "string \<Rightarrow> int \<Rightarrow> int \<Rightarrow> (world, ExportJob list \<times> int) op" where
  "ExportRepository_ListByTenant tenantID page pageSize =
     (let offset = wrap64 ((page - 1) * pageSize);
          rows = (\<lambda>tid w. filter (\<lambda>j. j_TenantID j = tid) (export_jobs w))
      in bind_op (exec (uuid_param tenantID (\<lambda>tid. query_row (\<lambda>w. [int (length (rows tid w))]))))
           (\<lambda>total.
         bind_op (exec (uuid_param tenantID (\<lambda>tid.
             limit_offset pageSize offset (\<lambda>w. order_desc j_CreatedAt (rows tid w)))))
           (\<lambda>js. ret (js, total))))"

definition job_queued :: "ExportJob \<Rightarrow> bool" where
  "job_queued j \<longleftrightarrow> j_Status j = ExportStatusQueued"

definition claim_job :: "time \<Rightarrow> ExportJob \<Rightarrow> ExportJob" where
  "claim_job now j = j\<lparr>j_Status := ExportStatusProcessing, j_Attempts := j_Attempts j + 1,
     j_StartedAt := Some now, j_UpdatedAt := now\<rparr>"

text \<open>
  The claim: the oldest \<open>lim\<close> queued rows that no other transaction has locked. \<open>locked\<close>
  names the rows other workers hold while the statement runs, which \<open>SKIP LOCKED\<close> passes over.
\<close>

definition claimable :: "string set \<Rightarrow> int \<Rightarrow> ExportJob list \<Rightarrow> string list" where
  "claimable locked lim jobs =
     map j_ID (take (nat lim)
       (order_asc j_CreatedAt (filter (\<lambda>j. job_queued j \<and> j_ID j \<notin> locked) jobs)))"

definition claim_queued :: "string set \<Rightarrow> int \<Rightarrow> (world, ExportJob list) op" where
  "claim_queued locked lim w =
     (let ids = claimable locked lim (export_jobs w);
          jobs = update_rows (\<lambda>j. j_ID j \<in> set ids) (claim_job (clock w)) (export_jobs w)
      in (Inr (filter (\<lambda>j. j_ID j \<in> set ids) jobs), w\<lparr>export_jobs := jobs\<rparr>))"

definition ExportRepository_ClaimQueued :: "string set \<Rightarrow> int \<Rightarrow> (world, ExportJob list) op" where
  "ExportRepository_ClaimQueued locked lim =
     (if lim \<le> 0 then ret [] else exec (claim_queued locked lim))"

definition mark_jobs :: "string \<Rightarrow> (time \<Rightarrow> ExportJob \<Rightarrow> ExportJob) \<Rightarrow> (world, unit) op" where
  "mark_jobs x f w =
     (let P = (\<lambda>j. j_ID j = x)
      in if rows_affected P (export_jobs w) = 0 then (Inl (Sentinel repository_ErrNotFound), w)
         else (Inr (), w\<lparr>export_jobs := update_rows P (f (clock w)) (export_jobs w)\<rparr>))"

definition complete_job :: "string \<Rightarrow> int \<Rightarrow> int \<Rightarrow> time \<Rightarrow> ExportJob \<Rightarrow> ExportJob" where
  "complete_job objectKey rowCount sizeBytes now j =
     j\<lparr>j_Status := ExportStatusCompleted, j_ObjectKey := objectKey, j_RowCount := rowCount,
       j_SizeBytes := sizeBytes, j_Error := '''', j_FinishedAt := Some now, j_UpdatedAt := now\<rparr>"

definition ExportRepository_MarkCompleted ::
  "string \<Rightarrow> string \<Rightarrow> int \<Rightarrow> int \<Rightarrow> (world, unit) op" where
  "ExportRepository_MarkCompleted i objectKey rowCount sizeBytes =
     exec (uuid_param i (\<lambda>x. mark_jobs x (complete_job objectKey rowCount sizeBytes)))"

definition fail_job :: "string \<Rightarrow> time \<Rightarrow> ExportJob \<Rightarrow> ExportJob" where
  "fail_job reason now j =
     j\<lparr>j_Status := ExportStatusFailed, j_Error := truncate reason 2000,
       j_FinishedAt := Some now, j_UpdatedAt := now\<rparr>"

definition ExportRepository_MarkFailed :: "string \<Rightarrow> string \<Rightarrow> (world, unit) op" where
  "ExportRepository_MarkFailed i reason = exec (uuid_param i (\<lambda>x. mark_jobs x (fail_job reason)))"

definition requeue_job :: "string \<Rightarrow> time \<Rightarrow> ExportJob \<Rightarrow> ExportJob" where
  "requeue_job reason now j =
     j\<lparr>j_Status := ExportStatusQueued, j_Error := truncate reason 2000,
       j_StartedAt := None, j_UpdatedAt := now\<rparr>"

definition ExportRepository_Requeue :: "string \<Rightarrow> string \<Rightarrow> (world, unit) op" where
  "ExportRepository_Requeue i reason = exec (uuid_param i (\<lambda>x. mark_jobs x (requeue_job reason)))"

definition job_stale :: "time \<Rightarrow> ExportJob \<Rightarrow> bool" where
  "job_stale cutoff j \<longleftrightarrow> j_Status j = ExportStatusProcessing
     \<and> (case j_StartedAt j of None \<Rightarrow> False | Some t \<Rightarrow> t < cutoff)"

definition release_job :: "int \<Rightarrow> time \<Rightarrow> ExportJob \<Rightarrow> ExportJob" where
  "release_job maxAttempts now j =
     j\<lparr>j_Status := (if maxAttempts \<le> j_Attempts j then ExportStatusFailed else ExportStatusQueued),
       j_Error := ''worker did not finish the job before the visibility timeout expired'',
       j_FinishedAt := (if maxAttempts \<le> j_Attempts j then Some now else None),
       j_StartedAt := None, j_UpdatedAt := now\<rparr>"

definition ExportRepository_ReleaseStale :: "duration \<Rightarrow> int \<Rightarrow> (world, int) op" where
  "ExportRepository_ReleaseStale olderThan maxAttempts w =
     (let cutoff = clock w - olderThan in
      exec (\<lambda>w. (Inr (rows_affected (job_stale cutoff) (export_jobs w)),
                 w\<lparr>export_jobs := update_rows (job_stale cutoff)
                     (release_job maxAttempts (clock w)) (export_jobs w)\<rparr>)) w)"

definition ExportRepository_CountQueued :: "(world, int) op" where
  "ExportRepository_CountQueued =
     exec (query_row (\<lambda>w. [int (length (filter job_queued (export_jobs w)))]))"

section \<open>What the statements return and change\<close>

lemma read_only_export_repo [frame_rules]:
  "read_only (ExportRepository_GetByIDInTenant t i)" "read_only (ExportRepository_GetByID i)"
  "read_only (ExportRepository_ListByTenant t p n)" "read_only ExportRepository_CountQueued"
  unfolding ExportRepository_GetByIDInTenant_def ExportRepository_GetByID_def
    ExportRepository_ListByTenant_def ExportRepository_CountQueued_def Let_def
  by (intro frame_rules)+

lemma ExportRepository_GetByIDInTenant_Inr:
  assumes "ExportRepository_GetByIDInTenant t i w = (Inr j, w')"
  shows "j \<in> set (export_jobs w)" "uuid_in w i = Some (j_ID j)" "uuid_in w t = Some (j_TenantID j)"
proof -
  from assms obtain w1 where w1: "tabs w1 = tabs w" "same_env w w1"
    and q: "uuid_param i (\<lambda>x. uuid_param t (\<lambda>tid. query_row (\<lambda>w.
              filter (\<lambda>j. j_ID j = x \<and> j_TenantID j = tid) (export_jobs w)))) w1 = (Inr j, w')"
    by (auto simp: ExportRepository_GetByIDInTenant_def elim: exec_Inr)
  from q obtain x tid where ids: "uuid_in w1 i = Some x" "uuid_in w1 t = Some tid"
    and r: "query_row (\<lambda>w. filter (\<lambda>j. j_ID j = x \<and> j_TenantID j = tid) (export_jobs w)) w1
              = (Inr j, w')"
    by (auto simp: uuid_param_Inr)
  from query_row_Inr_mem [OF r] ids w1(2)
  show "j \<in> set (export_jobs w)" "uuid_in w i = Some (j_ID j)" "uuid_in w t = Some (j_TenantID j)"
    by (auto simp: tabs_eqD [OF w1(1)] same_env_def)
qed

definition job_inserted :: "ExportJob \<Rightarrow> string \<Rightarrow> tables \<Rightarrow> ExportJob \<Rightarrow> tables \<Rightarrow> bool" where
  "job_inserted j tid a j' b \<longleftrightarrow> (\<exists>row. b = a\<lparr>export_jobs := export_jobs a @ [row]\<rparr>
     \<and> j_ID row = j_ID j' \<and> j_TenantID row = tid \<and> j_Status row = ExportStatusQueued
     \<and> j_Endpoint row = j_Endpoint j \<and> j_Method row = j_Method j \<and> j_From row = j_From j
     \<and> j_To row = j_To j \<and> j_Attempts row = 0)
     \<and> j_TenantID j' = j_TenantID j \<and> j_Status j' = ExportStatusQueued
     \<and> tid \<in> set (map t_ID (tenants a))"

lemma ExportRepository_Create_writes:
  "writes (\<lambda>env a j' b. \<exists>tid. env (j_TenantID j) = Some tid \<and> job_inserted j tid a j' b)
     (ExportRepository_Create j)"
  unfolding ExportRepository_Create_def
  by (intro writes_map_err writes_exec writes_uuid_param writes_uuid_opt_param)
    (auto simp: writes_def insert_job_def job_inserted_def Let_def same_env_def
      tenant_exists_def split: sum.splits if_splits)

definition job_marked :: "string \<Rightarrow> (time \<Rightarrow> ExportJob \<Rightarrow> ExportJob) \<Rightarrow> tables \<Rightarrow> tables \<Rightarrow> bool"
where
  "job_marked x f a b \<longleftrightarrow>
     (\<exists>now. b = a\<lparr>export_jobs := update_rows (\<lambda>j. j_ID j = x) (f now) (export_jobs a)\<rparr>)
     \<and> x \<in> set (map j_ID (export_jobs a))"

lemma mark_jobs_writes: "writes (\<lambda>env a r b. job_marked x f a b) (mark_jobs x f)"
  by (auto simp: writes_def mark_jobs_def job_marked_def Let_def split: sum.splits if_splits)

lemma ExportRepository_mark_writes:
  "writes (\<lambda>env a r b. \<exists>x. env i = Some x \<and> job_marked x (complete_job k n s) a b)
     (ExportRepository_MarkCompleted i k n s)"
  "writes (\<lambda>env a r b. \<exists>x. env i = Some x \<and> job_marked x (fail_job m) a b)
     (ExportRepository_MarkFailed i m)"
  "writes (\<lambda>env a r b. \<exists>x. env i = Some x \<and> job_marked x (requeue_job m) a b)
     (ExportRepository_Requeue i m)"
  unfolding ExportRepository_MarkCompleted_def ExportRepository_MarkFailed_def
    ExportRepository_Requeue_def
  by (intro writes_exec writes_uuid_param mark_jobs_writes)+

definition jobs_claimed :: "string set \<Rightarrow> int \<Rightarrow> tables \<Rightarrow> ExportJob list \<Rightarrow> tables \<Rightarrow> bool" where
  "jobs_claimed locked lim a js b \<longleftrightarrow>
     (\<exists>now. let ids = claimable locked lim (export_jobs a);
               jobs = update_rows (\<lambda>j. j_ID j \<in> set ids) (claim_job now) (export_jobs a)
           in b = a\<lparr>export_jobs := jobs\<rparr> \<and> js = filter (\<lambda>j. j_ID j \<in> set ids) jobs)"

lemma claim_queued_writes: "writes (\<lambda>env. jobs_claimed locked lim) (claim_queued locked lim)"
  by (auto simp: writes_def claim_queued_def jobs_claimed_def Let_def split: sum.splits)

lemma claimable_set:
  "set (claimable locked lim jobs) \<subseteq> {j_ID j | j. j \<in> set jobs \<and> job_queued j \<and> j_ID j \<notin> locked}"
  by (auto simp: claimable_def dest!: in_set_takeD)

lemma claimable_length: "length (claimable locked lim jobs) \<le> nat lim"
  by (simp add: claimable_def)

lemma take_sort_key_le:
  assumes "x \<in> set (take n (sort_key k xs))" "y \<in> set xs" "y \<notin> set (take n (sort_key k xs))"
  shows "k x \<le> (k y :: 'b :: linorder)"
proof -
  let ?s = "sort_key k xs"
  have "sorted (map k (take n ?s @ drop n ?s))" by simp
  then have "\<forall>a \<in> set (take n ?s). \<forall>b \<in> set (drop n ?s). k a \<le> k b"
    by (simp add: sorted_append del: append_take_drop_id)
  moreover have "y \<in> set (drop n ?s)"
    using assms(2,3) append_take_drop_id [of n ?s] by (metis Un_iff set_append set_sort)
  ultimately show ?thesis using assms(1) by blast
qed

text \<open>
  What a claim takes: rows that were queued and not locked, the oldest of them, at most the number
  asked for; each is now being processed, in one more attempt. The other rows stay.
\<close>

lemma jobs_claimed_rows:
  assumes "jobs_claimed locked lim a js b" and ids: "distinct (map j_ID (export_jobs a))"
  shows "length js \<le> nat lim"
    and "\<forall>j \<in> set js. \<exists>j0 \<in> set (export_jobs a). \<exists>now. j = claim_job now j0 \<and> job_queued j0
           \<and> j_ID j0 \<notin> locked \<and> j \<in> set (export_jobs b)"
    and "\<forall>j \<in> set js. \<forall>q \<in> set (export_jobs a). job_queued q \<longrightarrow> j_ID q \<notin> locked \<longrightarrow>
           j_ID q \<notin> j_ID ` set js \<longrightarrow> j_CreatedAt j \<le> j_CreatedAt q"
    and "filter (\<lambda>j. j_ID j \<notin> j_ID ` set js) (export_jobs b)
       = filter (\<lambda>j. j_ID j \<notin> j_ID ` set js) (export_jobs a)"
    and "map j_ID (export_jobs b) = map j_ID (export_jobs a)"
proof -
  let ?P = "\<lambda>j. job_queued j \<and> j_ID j \<notin> locked"
  let ?top = "take (nat lim) (order_asc j_CreatedAt (filter ?P (export_jobs a)))"
  define ids' where "ids' = set (map j_ID ?top)"
  from assms(1) obtain now where
    b: "export_jobs b = update_rows (\<lambda>j. j_ID j \<in> ids') (claim_job now) (export_jobs a)"
    and js: "js = filter (\<lambda>j. j_ID j \<in> ids') (export_jobs b)"
    by (auto simp: jobs_claimed_def claimable_def Let_def ids'_def)
  have top: "set ?top \<subseteq> {j \<in> set (export_jobs a). ?P j}"
    by (auto dest!: in_set_takeD simp: order_asc_def)
  have id [simp]: "j_ID (claim_job now j) = j_ID j" "j_CreatedAt (claim_job now j) = j_CreatedAt j" for j
    by (simp_all add: claim_job_def)
  have only: "j \<in> set ?top" if j: "j \<in> set (export_jobs a)" "j_ID j \<in> ids'" for j
  proof -
    from j(2) obtain t where t: "t \<in> set ?top" "j_ID t = j_ID j" by (auto simp: ids'_def)
    with top j(1) ids have "t = j" by (auto simp: distinct_map dest: inj_onD)
    with t show ?thesis by simp
  qed
  show same: "map j_ID (export_jobs b) = map j_ID (export_jobs a)"
    unfolding b by (rule update_rows_map) simp
  have mem: "j \<in> set js \<longleftrightarrow> (\<exists>j0 \<in> set ?top. j = claim_job now j0)" for j
  proof
    assume "j \<in> set js"
    then show "\<exists>j0 \<in> set ?top. j = claim_job now j0"
      by (auto simp: js b set_update_rows dest: only)
  next
    assume "\<exists>j0 \<in> set ?top. j = claim_job now j0"
    with top show "j \<in> set js" by (force simp: js b set_update_rows ids'_def)
  qed
  have ids_js: "j_ID ` set js = ids'"
  proof -
    have "set js = claim_job now ` set ?top" using mem by (simp only: set_eq_iff image_iff) blast
    then have "j_ID ` set js = j_ID ` set ?top" by (simp only: image_image id)
    then show ?thesis by (simp only: ids'_def set_map)
  qed
  have "distinct (map j_ID js)"
    unfolding js by (rule distinct_map_filter) (simp add: same ids)
  from distinct_card [OF this] have "length js = card (j_ID ` set js)"
    by (simp only: set_map length_map)
  also have "\<dots> \<le> length ?top"
    unfolding ids_js ids'_def using card_length [of "map j_ID ?top"] by (simp only: length_map)
  finally show "length js \<le> nat lim" by simp
  show "\<forall>j \<in> set js. \<exists>j0 \<in> set (export_jobs a). \<exists>now. j = claim_job now j0 \<and> job_queued j0
           \<and> j_ID j0 \<notin> locked \<and> j \<in> set (export_jobs b)"
  proof
    fix j
    assume j: "j \<in> set js"
    then obtain j0 where "j0 \<in> set ?top" "j = claim_job now j0" using mem by blast
    with top j show "\<exists>j0 \<in> set (export_jobs a). \<exists>now. j = claim_job now j0 \<and> job_queued j0
           \<and> j_ID j0 \<notin> locked \<and> j \<in> set (export_jobs b)"
      by (auto simp: js)
  qed
  show "filter (\<lambda>j. j_ID j \<notin> j_ID ` set js) (export_jobs b)
       = filter (\<lambda>j. j_ID j \<notin> j_ID ` set js) (export_jobs a)"
    unfolding ids_js b by (rule update_rows_disjoint) simp
  show "\<forall>j \<in> set js. \<forall>q \<in> set (export_jobs a). job_queued q \<longrightarrow> j_ID q \<notin> locked \<longrightarrow>
           j_ID q \<notin> j_ID ` set js \<longrightarrow> j_CreatedAt j \<le> j_CreatedAt q"
  proof (intro ballI impI)
    fix j q
    assume "j \<in> set js" and q: "q \<in> set (export_jobs a)" "job_queued q" "j_ID q \<notin> locked"
      "j_ID q \<notin> j_ID ` set js"
    then obtain j0 where j0: "j0 \<in> set ?top" "j_CreatedAt j = j_CreatedAt j0" using mem by auto
    have "q \<notin> set ?top" using q(4) unfolding ids_js ids'_def by auto
    with q have "j_CreatedAt j0 \<le> j_CreatedAt q"
      using take_sort_key_le [of j0 "nat lim" j_CreatedAt "filter ?P (export_jobs a)" q] j0(1)
      by (simp add: order_asc_def)
    with j0 show "j_CreatedAt j \<le> j_CreatedAt q" by simp
  qed
qed

lemma ClaimQueued_Inr:
  assumes "ExportRepository_ClaimQueued locked lim w = (Inr js, w')"
  shows "js = [] \<and> w' = w \<and> lim \<le> 0 \<or> jobs_claimed locked lim (tabs w) js (tabs w')"
proof (cases "lim \<le> 0")
  case False
  then have "ExportRepository_ClaimQueued locked lim = exec (claim_queued locked lim)"
    by (simp add: ExportRepository_ClaimQueued_def)
  with assms writesD(1) [OF writes_exec [OF claim_queued_writes]] show ?thesis by fastforce
qed (use assms in \<open>simp add: ExportRepository_ClaimQueued_def\<close>)

end
