(* ===== verification/ExportService.thy ===== *)
theory ExportService
  imports Export_Repository
begin

text \<open>
  \<^verbatim>\<open>internal/service/export_service.go\<close>: asynchronous exports. The package
  \<^verbatim>\<open>internal/exports\<close> (object store, notifier, worker) is not part of the sources, so its
  two interfaces are the records \<open>ObjectStore\<close> and \<open>Notifier\<close> of functions the service is given.
  What the service needs of its job store is the locale \<open>export_store\<close>.
\<close>

section \<open>The interfaces and the service\<close>

record 's ExportJobStore =
  ej_Create :: "ExportJob \<Rightarrow> ('s, ExportJob) op"
  ej_GetByIDInTenant :: "string \<Rightarrow> string \<Rightarrow> ('s, ExportJob) op"
  ej_ListByTenant :: "string \<Rightarrow> int \<Rightarrow> int \<Rightarrow> ('s, ExportJob list \<times> int) op"
  ej_CountQueued :: "('s, int) op"

definition export_repo :: "world ExportJobStore" where
  "export_repo = \<lparr>
     ej_Create = ExportRepository_Create,
     ej_GetByIDInTenant = ExportRepository_GetByIDInTenant,
     ej_ListByTenant = ExportRepository_ListByTenant,
     ej_CountQueued = ExportRepository_CountQueued\<rparr>"

record ObjectStore =
  os_PresignGet :: "string \<Rightarrow> duration \<Rightarrow> (world, string) op"
  os_Backend :: string

record Notifier =
  nt_Publish :: "string \<Rightarrow> string \<Rightarrow> (world, unit) op"

record ExportService =
  es_jobs :: "world ExportJobStore"
  es_store :: ObjectStore
  es_notifier :: Notifier
  es_downloadTTL :: duration
  es_maxRows :: int

record RequestExportInput =
  re_Endpoint :: string
  re_Method :: string
  re_From :: "time option"
  re_To :: "time option"

definition isHTTPMethod :: "string \<Rightarrow> bool" where
  "isHTTPMethod m \<longleftrightarrow> m = ''GET'' \<or> m = ''POST'' \<or> m = ''PUT'' \<or> m = ''PATCH'' \<or> m = ''DELETE''
     \<or> m = ''HEAD'' \<or> m = ''OPTIONS''"

definition blank_job :: ExportJob where
  "blank_job = \<lparr>j_ID = '''', j_TenantID = '''', j_RequestedBy = None, j_Status = '''',
     j_Endpoint = '''', j_Method = '''', j_From = None, j_To = None, j_ObjectKey = '''',
     j_RowCount = 0, j_SizeBytes = 0, j_Attempts = 0, j_Error = '''', j_StartedAt = None,
     j_FinishedAt = None, j_CreatedAt = 0, j_UpdatedAt = 0\<rparr>"

text \<open>A failed notification is logged and forgotten.\<close>

definition publish_best_effort :: "ExportService \<Rightarrow> ExportJob \<Rightarrow> (world, unit) op" where
  "publish_best_effort s job w =
     (case nt_Publish (es_notifier s) (j_ID job) (j_TenantID job) w of
        (Inl err, w1) \<Rightarrow>
          (Inr (), w1\<lparr>log := log w1 @
             [(''failed to publish export job notification; the worker will pick it up by polling'',
               [(''error'', DStr (Error_string err)), (''export_job_id'', DStr (j_ID job))])]\<rparr>)
      | (Inr v, w1) \<Rightarrow> (Inr (), w1))"

definition request_refusal :: "RequestExportInput \<Rightarrow> goerr option" where
  "request_refusal inp =
     (let method = ToUpper (TrimSpace (re_Method inp)) in
      if method \<noteq> '''' \<and> \<not> isHTTPMethod method
      then Some (Api (Validation ''method must be a valid HTTP method''))
      else if 255 < length (re_Endpoint inp)
      then Some (Api (Validation ''endpoint filter must be at most 255 characters''))
      else case (re_From inp, re_To inp) of
          (Some a, Some b) \<Rightarrow>
            (if b < a
             then Some (Api (Validation
                     (''the '' @ squote ''to'' @ '' timestamp must not be before '' @ squote ''from'')))
             else None)
        | _ \<Rightarrow> None)"

definition ExportService_Request ::
  "ExportService \<Rightarrow> Scope \<Rightarrow> RequestExportInput \<Rightarrow> (world, ExportJob) op" where
  "ExportService_Request s scope inp =
     bind_op (require_scope scope) (\<lambda>_.
     bind_op (guard_op (request_refusal inp)) (\<lambda>_.
     let job = blank_job\<lparr>j_TenantID := TenantID scope, j_Endpoint := TrimSpace (re_Endpoint inp),
                 j_Method := ToUpper (TrimSpace (re_Method inp)), j_From := re_From inp,
                 j_To := re_To inp,
                 j_RequestedBy := (if UserID scope \<noteq> '''' then Some (UserID scope) else None)\<rparr>
     in bind_op (map_err (hide_missing ''tenant not found'' ''failed to enqueue the export'')
                   (ej_Create (es_jobs s) job)) (\<lambda>job1.
        bind_op (publish_best_effort s job1) (\<lambda>_. ret job1))))"

definition ExportService_Get :: "ExportService \<Rightarrow> Scope \<Rightarrow> string \<Rightarrow> (world, ExportJob) op" where
  "ExportService_Get s scope i =
     bind_op (require_scope scope) (\<lambda>_.
       map_err (hide_missing ''export job not found'' ''failed to load the export job'')
         (ej_GetByIDInTenant (es_jobs s) (TenantID scope) i))"

definition ExportService_List ::
  "ExportService \<Rightarrow> Scope \<Rightarrow> int \<Rightarrow> int \<Rightarrow> (world, ExportJob list \<times> int) op" where
  "ExportService_List s scope page pageSize =
     bind_op (require_scope scope) (\<lambda>_.
       map_err (\<lambda>err. Api (Wrap (Internal ''failed to list export jobs'') err))
         (ej_ListByTenant (es_jobs s) (TenantID scope) page pageSize))"

record Download =
  dl_URL :: string
  dl_ExpiresAt :: time
  dl_RowCount :: int
  dl_SizeBytes :: int

definition ExportService_DownloadURL :: "ExportService \<Rightarrow> Scope \<Rightarrow> string \<Rightarrow> (world, Download) op"
where
  "ExportService_DownloadURL s scope i =
     bind_op (ExportService_Get s scope i) (\<lambda>job.
       if j_Status job = ExportStatusFailed
       then fail (Api (Conflict ''this export failed and has no downloadable result''))
       else if j_Status job \<noteq> ExportStatusCompleted
       then fail (Api (WithDetails (Conflict ''this export is not ready yet'')
                    [(''status'', DStr (j_Status job))]))
       else if j_ObjectKey job = ''''
       then fail (Api (Internal ''the export is marked complete but has no stored object''))
       else
         bind_op (map_err (\<lambda>err. Api (Wrap (Internal ''failed to create a download URL'') err))
                    (os_PresignGet (es_store s) (j_ObjectKey job) (es_downloadTTL s))) (\<lambda>url w.
           (Inr \<lparr>dl_URL = url, dl_ExpiresAt = clock w + es_downloadTTL s,
                 dl_RowCount = j_RowCount job, dl_SizeBytes = j_SizeBytes job\<rparr>, w)))"

definition ExportService_QueueDepth :: "ExportService \<Rightarrow> (world, int) op" where
  "ExportService_QueueDepth s = ej_CountQueued (es_jobs s)"

definition ExportService_MaxRows :: "ExportService \<Rightarrow> int" where
  "ExportService_MaxRows s = es_maxRows s"

definition ExportService_Backend :: "ExportService \<Rightarrow> string" where
  "ExportService_Backend s = os_Backend (es_store s)"

lemma publish_no_error [simp]: "publish_best_effort s j w \<noteq> (Inl e, w')"
  by (simp add: publish_best_effort_def split: prod.splits sum.splits)

section \<open>What the service relies on\<close>

locale export_store =
  fixes jobs :: "world ExportJobStore"
    and rows :: "world \<Rightarrow> ExportJob list"
  assumes get_row: "ej_GetByIDInTenant jobs t i w = (Inr j, w') \<Longrightarrow>
      j \<in> set (rows w) \<and> uuid_in w t = Some (j_TenantID j) \<and> uuid_in w i = Some (j_ID j)"
    and get_frame: "ej_GetByIDInTenant jobs t i w = (r, w') \<Longrightarrow> rows w' = rows w"
    and create_fail: "ej_Create jobs j w = (Inl e, w') \<Longrightarrow> rows w' = rows w"
    and create_row: "ej_Create jobs j w = (Inr j', w') \<Longrightarrow>
      \<exists>row. rows w' = rows w @ [row] \<and> uuid_in w (j_TenantID j) = Some (j_TenantID row)
        \<and> j_Status row = ExportStatusQueued \<and> j_ID row = j_ID j' \<and> j_Endpoint row = j_Endpoint j
        \<and> j_Method row = j_Method j \<and> j_From row = j_From j \<and> j_To row = j_To j"
begin

lemma DownloadURL_row:
  assumes "es_jobs s = jobs" "ExportService_DownloadURL s scope i w = (Inr d, w')"
  shows "\<exists>j. j \<in> set (rows w) \<and> uuid_in w (TenantID scope) = Some (j_TenantID j)
    \<and> j_Status j = ExportStatusCompleted \<and> j_ObjectKey j \<noteq> '''' \<and> dl_RowCount d = j_RowCount j
    \<and> dl_ExpiresAt d = clock w' + es_downloadTTL s"
  using assms(2) unfolding ExportService_DownloadURL_def ExportService_Get_def assms(1)
  by (auto split: if_splits dest!: get_row)

text \<open>A request either leaves the queue alone or appends one queued job of the caller's tenant.\<close>

lemma Request_row:
  assumes "es_jobs s = jobs" "ExportService_Request s scope inp w = (r, w')"
    and quiet: "\<And>j t v q v'. nt_Publish (es_notifier s) j t v = (q, v') \<Longrightarrow> rows v' = rows v"
    and log_frame: "\<And>v l. rows (v\<lparr>log := l\<rparr>) = rows v"
  shows "rows w' = rows w \<or> (\<exists>row. rows w' = rows w @ [row]
    \<and> uuid_in w (TenantID scope) = Some (j_TenantID row) \<and> j_Status row = ExportStatusQueued)"
proof -
  have pub: "rows v' = rows v" if "publish_best_effort s j v = (q, v')" for j v q v'
    using that quiet log_frame
    by (auto simp: publish_best_effort_def split: prod.splits sum.splits)
  show ?thesis
  proof (cases r)
    case (Inl e)
    with assms(2) show ?thesis
      unfolding ExportService_Request_def assms(1) Let_def
      by (auto dest: create_fail create_row pub)
  next
    case (Inr j)
    with assms(2) show ?thesis
      unfolding ExportService_Request_def assms(1) Let_def
      by (fastforce dest: create_row pub)
  qed
qed

end

lemma export_repo_sel [simp]:
  "ej_Create export_repo = ExportRepository_Create"
  "ej_GetByIDInTenant export_repo = ExportRepository_GetByIDInTenant"
  "ej_ListByTenant export_repo = ExportRepository_ListByTenant"
  "ej_CountQueued export_repo = ExportRepository_CountQueued"
  by (simp_all add: export_repo_def)

interpretation ex: export_store export_repo export_jobs
proof
  fix t i :: string and w w' :: world and j
  show "ej_GetByIDInTenant export_repo t i w = (Inr j, w') \<Longrightarrow> j \<in> set (export_jobs w)
      \<and> uuid_in w t = Some (j_TenantID j) \<and> uuid_in w i = Some (j_ID j)"
    by (auto dest: ExportRepository_GetByIDInTenant_Inr)
next
  fix t i :: string and w w' :: world and r
  show "ej_GetByIDInTenant export_repo t i w = (r, w') \<Longrightarrow> export_jobs w' = export_jobs w"
    by (auto dest: read_only_keeps [OF read_only_export_repo(1)])
next
  fix j and w w' :: world and e
  show "ej_Create export_repo j w = (Inl e, w') \<Longrightarrow> export_jobs w' = export_jobs w"
    by (auto dest: writes_fail_keeps [OF ExportRepository_Create_writes])
next
  fix j j' and w w' :: world
  assume "ej_Create export_repo j w = (Inr j', w')"
  then have run: "ExportRepository_Create j w = (Inr j', w')" by simp
  from writesD(1) [OF ExportRepository_Create_writes run] obtain row where
    b: "tabs w' = (tabs w)\<lparr>export_jobs := export_jobs w @ [row]\<rparr>"
    and "uuid_in w (j_TenantID j) = Some (j_TenantID row)" "j_Status row = ExportStatusQueued"
      "j_ID row = j_ID j'" "j_Endpoint row = j_Endpoint j" "j_Method row = j_Method j"
      "j_From row = j_From j" "j_To row = j_To j"
    by (auto simp: job_inserted_def)
  with tabs_updD(9) [OF b]
  show "\<exists>row. export_jobs w' = export_jobs w @ [row]
        \<and> uuid_in w (j_TenantID j) = Some (j_TenantID row)
        \<and> j_Status row = ExportStatusQueued \<and> j_ID row = j_ID j' \<and> j_Endpoint row = j_Endpoint j
        \<and> j_Method row = j_Method j \<and> j_From row = j_From j \<and> j_To row = j_To j"
    by auto
qed

end
