(* ===== verification/Handlers.thy ===== *)
theory Handlers
  imports Middleware UserService ExportService
begin

text \<open>
  \<^verbatim>\<open>internal/handler\<close>: one handler per endpoint. Each reads the request, calls a service with
  the scope of the authenticated identity, records the audit event and renders the result. Audit
  events take the peer address \<open>RemoteAddr\<close>. The filesystem object store \<open>LocalStore\<close> belongs
  to the missing \<^verbatim>\<open>internal/exports\<close> and is a record of functions.
\<close>

record LocalStore =
  ls_VerifySignature :: "string \<Rightarrow> int \<Rightarrow> string \<Rightarrow> goerr option"
  ls_Open :: "string \<Rightarrow> (world, string \<times> int) op"

record services =
  sv_auth :: AuthService
  sv_users :: "world UserStoreFull"
  sv_tenants :: "world TenantStoreFull"
  sv_prefix :: string
  sv_usage :: "world UsageStore"
  sv_exports :: ExportService
  sv_local :: "LocalStore option"
  sv_page :: pagination

definition answer :: "RW \<Rightarrow> world \<Rightarrow> string option \<times> RW \<times> world" where
  "answer rw w = (None, rw, w)"

definition event :: "Request \<Rightarrow> string option \<Rightarrow> string option \<Rightarrow> string \<Rightarrow> details \<Rightarrow> RecordInput" where
  "event r tid aid ev meta =
     \<lparr>ai_TenantID = tid, ai_ActorID = aid, ai_Event = ev, ai_Metadata = meta,
      ai_Endpoint = r_Path r, ai_IPAddress = r_RemoteAddr r, ai_UserAgent = UserAgent r\<rparr>"

definition scope_event :: "Request \<Rightarrow> string \<Rightarrow> details \<Rightarrow> RecordInput" where
  "scope_event r ev meta =
     (let scope = ScopeFromContext r
      in event r (strPtrOrNil (TenantID scope)) (strPtrOrNil (UserID scope)) ev meta)"

text \<open>\<open>ac, _ := AuthFromContext\<close>: the zero value when there is none.\<close>

definition AuthOrZero :: "Request \<Rightarrow> AuthContext" where
  "AuthOrZero r = (case AuthFromContext r of
      Some ac \<Rightarrow> ac
    | None \<Rightarrow> \<lparr>ac_UserID = '''', ac_TenantID = '''', ac_Role = '''', ac_TenantPlan = '''',
        ac_AuthMethod = '''', ac_APIKeyID = ''''\<rparr>)"

section \<open>Authentication endpoints\<close>

definition slug_keep :: "char \<Rightarrow> bool" where
  "slug_keep c \<longleftrightarrow> is_lower c \<or> is_digit c \<or> c = CHR ''-''"

definition slugify :: "string \<Rightarrow> string" where
  "slugify name =
     filter slug_keep (map (\<lambda>c. if c = CHR '' '' then CHR ''-'' else c) (ToLower (TrimSpace name)))"

record signupRequest =
  sr_TenantName :: string
  sr_Email :: string
  sr_Password :: string
  sr_FirstName :: string
  sr_LastName :: string

definition signupRequest_fields :: "signupRequest setters" where
  "signupRequest_fields = [
     (''tenant_name'', set_string (\<lambda>s r. r\<lparr>sr_TenantName := s\<rparr>)),
     (''email'', set_string (\<lambda>s r. r\<lparr>sr_Email := s\<rparr>)),
     (''password'', set_string (\<lambda>s r. r\<lparr>sr_Password := s\<rparr>)),
     (''first_name'', set_string (\<lambda>s r. r\<lparr>sr_FirstName := s\<rparr>)),
     (''last_name'', set_string (\<lambda>s r. r\<lparr>sr_LastName := s\<rparr>))]"

text \<open>The layout of the expiry times stops at seconds.\<close>

definition tokenPairView :: "TokenPair \<Rightarrow> json" where
  "tokenPairView p = JObj [
     (''access_token'', JStr (tp_AccessToken p)),
     (''access_token_expires_at'', JTime (NewNumericDate (tp_AccessTokenExpiresAt p))),
     (''refresh_token'', JStr (tp_RefreshToken p)),
     (''refresh_token_expires_at'', JTime (NewNumericDate (tp_RefreshTokenExpiresAt p)))]"

definition handleAuthError :: "goerr \<Rightarrow> RW \<Rightarrow> RW" where
  "handleAuthError err =
     (if errors_Is err ErrInvalidCredentials then response_Unauthorized ''invalid email or password''
      else if errors_Is err ErrAccountInactive then response_Forbidden ''account is inactive''
      else if errors_Is err ErrEmailTaken then response_Conflict ''email is already registered''
      else if errors_Is err ErrTenantSlugTaken
      then response_Conflict
             ''a tenant with a similar name already exists, please choose a different name''
      else response_InternalError ''authentication failed'')"

definition AuthHandler_Signup :: "services \<Rightarrow> handler" where
  "AuthHandler_Signup h r rw w =
     (case decodeJSON signupRequest_fields r
             \<lparr>sr_TenantName = '''', sr_Email = '''', sr_Password = '''', sr_FirstName = '''',
              sr_LastName = ''''\<rparr> of
        (Some err, req) \<Rightarrow>
          answer (response_BadRequest ''invalid request body'' (Some (JStr (Error_string err))) rw) w
      | (None, req) \<Rightarrow>
          if sr_TenantName req = '''' \<or> sr_Email req = '''' \<or> length (sr_Password req) < 8
          then answer (response_BadRequest
            ''tenant_name, email, and a password of at least 8 characters are required'' None rw) w
          else if slugify (sr_TenantName req) = ''''
          then answer (response_BadRequest
            ''tenant_name must contain at least one alphanumeric character'' None rw) w
          else
            (case AuthService_Signup (sv_auth h) \<lparr>si_TenantName = sr_TenantName req,
                    si_TenantSlug = slugify (sr_TenantName req),
                    si_Email = ToLower (TrimSpace (sr_Email req)), si_Password = sr_Password req,
                    si_FirstName = sr_FirstName req, si_LastName = sr_LastName req\<rparr> w of
               (Inl err, w1) \<Rightarrow> answer (handleAuthError err rw) w1
             | (Inr (user, tenant, pair), w1) \<Rightarrow>
                 let w2 = AuditService_Record (event r (Some (t_ID tenant)) (Some (u_ID user))
                            EventTenantCreated [(''tenant_slug'', DStr (t_Slug tenant))]) w1;
                     w3 = AuditService_Record (event r (Some (t_ID tenant)) (Some (u_ID user))
                            EventUserSignup []) w2
                 in answer (response_Created ''signup successful'' (Some (JObj [
                        (''user'', User_json user), (''tenant'', Tenant_json tenant),
                        (''tokens'', tokenPairView pair)])) rw) w3))"

record loginRequest =
  lr_Email :: string
  lr_Password :: string

definition loginRequest_fields :: "loginRequest setters" where
  "loginRequest_fields = [
     (''email'', set_string (\<lambda>s r. r\<lparr>lr_Email := s\<rparr>)),
     (''password'', set_string (\<lambda>s r. r\<lparr>lr_Password := s\<rparr>))]"

text \<open>A failed login returns no user, so its event has no tenant.\<close>

definition AuthHandler_Login :: "services \<Rightarrow> handler" where
  "AuthHandler_Login h r rw w =
     (case decodeJSON loginRequest_fields r \<lparr>lr_Email = '''', lr_Password = ''''\<rparr> of
        (Some err, req) \<Rightarrow>
          answer (response_BadRequest ''invalid request body'' (Some (JStr (Error_string err))) rw) w
      | (None, req) \<Rightarrow>
          (case AuthService_Login (sv_auth h) (ToLower (TrimSpace (lr_Email req)))
                  (lr_Password req) w of
             (Inl err, w1) \<Rightarrow>
               answer (handleAuthError err rw)
                 (AuditService_Record (event r None None EventUserLoginFailed
                    [(''email'', DStr (lr_Email req))]) w1)
           | (Inr (user, pair), w1) \<Rightarrow>
               answer (response_OK ''login successful'' (Some (JObj [
                   (''user'', User_json user), (''tokens'', tokenPairView pair)])) rw)
                 (AuditService_Record (event r (Some (u_TenantID user)) (Some (u_ID user))
                    EventUserLogin []) w1)))"

record refreshRequest =
  fr_RefreshToken :: string

definition AuthHandler_Refresh :: "services \<Rightarrow> handler" where
  "AuthHandler_Refresh h r rw w =
     (case decodeJSON [(''refresh_token'', set_string (\<lambda>s r. r\<lparr>fr_RefreshToken := s\<rparr>))] r
             \<lparr>fr_RefreshToken = ''''\<rparr> of
        (err, req) \<Rightarrow>
          if err \<noteq> None \<or> fr_RefreshToken req = ''''
          then answer (response_BadRequest ''refresh_token is required'' None rw) w
          else
            (case AuthService_Refresh (sv_auth h) (fr_RefreshToken req) w of
               (Inl e, w1) \<Rightarrow>
                 answer (response_Unauthorized ''invalid or expired refresh token'' rw) w1
             | (Inr pair, w1) \<Rightarrow>
                 answer (response_OK ''token refreshed'' (Some (JObj [(''tokens'', tokenPairView pair)]))
                   rw) w1))"

definition AuthHandler_Logout :: "services \<Rightarrow> handler" where
  "AuthHandler_Logout h r rw w =
     (case AuthFromContext r of
        None \<Rightarrow> answer (response_Unauthorized ''authentication required'' rw) w
      | Some ac \<Rightarrow>
          if ac_UserID ac = '''' then answer (response_Unauthorized ''authentication required'' rw) w
          else
            (case AuthService_Logout (sv_auth h) (ac_UserID ac) w of
               (Inl err, w1) \<Rightarrow> answer (response_InternalError ''failed to log out'' rw) w1
             | (Inr v, w1) \<Rightarrow>
                 answer (response_OK ''logged out successfully'' None rw)
                   (AuditService_Record (event r (Some (ac_TenantID ac)) (Some (ac_UserID ac))
                      EventUserLogout []) w1)))"

definition AuthHandler_Me :: "services \<Rightarrow> handler" where
  "AuthHandler_Me h r rw w =
     (case AuthFromContext r of
        None \<Rightarrow> answer (response_Unauthorized ''authentication required'' rw) w
      | Some ac \<Rightarrow>
          if ac_UserID ac = '''' then answer (response_Unauthorized ''authentication required'' rw) w
          else
            (case AuthService_CurrentUser (sv_auth h) (ac_UserID ac) w of
               (Inl err, w1) \<Rightarrow> answer (response_NotFound ''user not found'' rw) w1
             | (Inr user, w1) \<Rightarrow>
                 answer (response_OK ''current user'' (Some (User_json user)) rw) w1))"

section \<open>Tenant endpoints\<close>

definition TenantHandler_Current :: "services \<Rightarrow> handler" where
  "TenantHandler_Current h r rw w =
     (case TenantService_Current (sv_tenants h) (ScopeFromContext r) w of
        (Inl err, w1) \<Rightarrow> answer (response_Fail r err rw) w1
      | (Inr t, w1) \<Rightarrow>
          answer (response_OKWithRequest r ''tenant retrieved'' (Some (Tenant_json t)) rw) w1)"

definition auditIfCrossTenant :: "Request \<Rightarrow> string \<Rightarrow> string \<Rightarrow> goerr \<Rightarrow> world \<Rightarrow> world" where
  "auditIfCrossTenant r resource requestedID err w =
     (if \<not> IsCrossTenant (Some err) then w
      else AuditService_Record (scope_event r EventCrossTenantDenied
             [(''resource'', DStr resource), (''requested_id'', DStr requestedID)]) w)"

definition TenantHandler_Get :: "services \<Rightarrow> handler" where
  "TenantHandler_Get h r rw w =
     (let i = r_PathValue r ''id'' in
      case TenantService_GetForScope (sv_tenants h) (ScopeFromContext r) i w of
        (Inl err, w1) \<Rightarrow>
          answer (response_Fail r err rw) (auditIfCrossTenant r ''tenant'' i err w1)
      | (Inr t, w1) \<Rightarrow>
          answer (response_OKWithRequest r ''tenant retrieved'' (Some (Tenant_json t)) rw) w1)"

definition TenantHandler_List :: "services \<Rightarrow> handler" where
  "TenantHandler_List h r rw w =
     (case TenantService_ListForScope (sv_tenants h) (ScopeFromContext r) w of
        (Inl err, w1) \<Rightarrow> answer (response_Fail r err rw) w1
      | (Inr (ts, n), w1) \<Rightarrow>
          answer (response_OKWithRequest r ''tenants retrieved'' (Some
            (ListResponse (map Tenant_json ts) (NewMeta 1 (int (length ts)) n))) rw) w1)"

definition TenantHandler_Update :: "services \<Rightarrow> handler" where
  "TenantHandler_Update h r rw w =
     (case decodeJSON [(''name'', set_string_ptr (\<lambda>s r. r\<lparr>us_Name := s\<rparr>))] r \<lparr>us_Name = None\<rparr> of
        (Some err, req) \<Rightarrow> answer (response_Fail r (badBody err) rw) w
      | (None, req) \<Rightarrow>
          let scope = ScopeFromContext r in
          (case TenantService_UpdateForScope (sv_tenants h) scope (TenantID scope) req w of
             (Inl err, w1) \<Rightarrow> answer (response_Fail r err rw) w1
           | (Inr t, w1) \<Rightarrow>
               answer (response_OKWithRequest r ''tenant updated'' (Some (Tenant_json t)) rw)
                 (AuditService_Record (event r (strPtrOrNil (t_ID t)) (strPtrOrNil (UserID scope))
                    EventTenantUpdated []) w1)))"

section \<open>User endpoints\<close>

definition UserHandler_List :: "services \<Rightarrow> handler" where
  "UserHandler_List h r rw w =
     (case paginationParams (sv_page h) r of (page, pageSize) \<Rightarrow>
      case UserService_List (sv_users h) (ScopeFromContext r) page pageSize w of
        (Inl err, w1) \<Rightarrow> answer (response_Fail r err rw) w1
      | (Inr (us, n), w1) \<Rightarrow>
          answer (response_OKWithRequest r ''users retrieved'' (Some
            (ListResponse (map User_json us) (NewMeta page pageSize n))) rw) w1)"

definition UserHandler_Get :: "services \<Rightarrow> handler" where
  "UserHandler_Get h r rw w =
     (case UserService_Get (sv_users h) (ScopeFromContext r) (r_PathValue r ''id'') w of
        (Inl err, w1) \<Rightarrow>
          answer (response_Fail r err rw)
            (auditIfCrossTenant r ''user'' (r_PathValue r ''id'') err w1)
      | (Inr u, w1) \<Rightarrow>
          answer (response_OKWithRequest r ''user retrieved'' (Some (User_json u)) rw) w1)"

definition UserHandler_Me :: "services \<Rightarrow> handler" where
  "UserHandler_Me h r rw w =
     (case UserService_Me (sv_users h) (ScopeFromContext r) w of
        (Inl err, w1) \<Rightarrow> answer (response_Fail r err rw) w1
      | (Inr u, w1) \<Rightarrow>
          answer (response_OKWithRequest r ''current user'' (Some (User_json u)) rw) w1)"

record updateRoleRequest =
  rr_Role :: Role

definition UserHandler_UpdateRole :: "services \<Rightarrow> handler" where
  "UserHandler_UpdateRole h r rw w =
     (case decodeJSON [(''role'', set_string (\<lambda>s r. r\<lparr>rr_Role := s\<rparr>))] r \<lparr>rr_Role = ''''\<rparr> of
        (Some err, req) \<Rightarrow> answer (response_Fail r (badBody err) rw) w
      | (None, req) \<Rightarrow>
          let targetID = r_PathValue r ''id'' in
          (case UserService_UpdateRole (sv_users h) (ScopeFromContext r) targetID (rr_Role req) w of
             (Inl err, w1) \<Rightarrow>
               answer (response_Fail r err rw) (auditIfCrossTenant r ''user'' targetID err w1)
           | (Inr result, w1) \<Rightarrow>
               answer (response_OKWithRequest r ''role updated'' (Some (User_json (ur_User result))) rw)
                 (AuditService_Record (scope_event r EventRoleChanged
                    [(''target_user_id'', DStr targetID),
                     (''previous_role'', DStr (ur_PreviousRole result)),
                     (''new_role'', DStr (ur_NewRole result))]) w1)))"

record setUserActiveRequest =
  ar_IsActive :: bool

definition UserHandler_SetActive :: "services \<Rightarrow> handler" where
  "UserHandler_SetActive h r rw w =
     (case decodeJSON [(''is_active'', set_bool (\<lambda>b r. r\<lparr>ar_IsActive := b\<rparr>))] r
             \<lparr>ar_IsActive = False\<rparr> of
        (Some err, req) \<Rightarrow> answer (response_Fail r (badBody err) rw) w
      | (None, req) \<Rightarrow>
          let targetID = r_PathValue r ''id'' in
          (case UserService_SetActive (sv_users h) (ScopeFromContext r) targetID
                  (ar_IsActive req) w of
             (Inl err, w1) \<Rightarrow>
               answer (response_Fail r err rw) (auditIfCrossTenant r ''user'' targetID err w1)
           | (Inr user, w1) \<Rightarrow>
               answer (response_OKWithRequest r ''user status updated'' (Some (User_json user)) rw)
                 (AuditService_Record (scope_event r EventRoleChanged
                    [(''target_user_id'', DStr targetID), (''is_active'', DBool (ar_IsActive req))])
                    w1)))"

end
