(* ===== verification/ResourceHandlers.thy ===== *)
theory ResourceHandlers
  imports Handlers
begin

text \<open>
  \<^verbatim>\<open>internal/handler\<close>, continued: API keys, entitlements, usage, audit, exports, the platform
  control plane and the health probes.
\<close>

section \<open>API keys\<close>

definition APIKeyHandler_handleError :: "goerr \<Rightarrow> RW \<Rightarrow> RW" where
  "APIKeyHandler_handleError err =
     (if errors_Is err ErrAPIKeyNotFound then response_NotFound ''API key not found''
      else response_InternalError ''operation failed'')"

record generateAPIKeyRequest =
  gk_Name :: string

text \<open>The body is optional: the decoder's error is dropped, what it had read is kept.\<close>

definition APIKeyHandler_Generate :: "services \<Rightarrow> handler" where
  "APIKeyHandler_Generate h r rw w =
     (let ac = AuthOrZero r;
          req = snd (decodeJSON [(''name'', set_string (\<lambda>s r. r\<lparr>gk_Name := s\<rparr>))] r
                       \<lparr>gk_Name = ''''\<rparr>)
      in case APIKeyService_Generate (sv_prefix h) (ac_TenantID ac) (strPtrOrNil (ac_UserID ac))
                 (gk_Name req) w of
           (Inl err, w1) \<Rightarrow> answer (response_InternalError ''failed to generate API key'' rw) w1
         | (Inr (plaintext, key), w1) \<Rightarrow>
             answer (response_Created
                 (''API key generated '' @ em_dash @ '' store it now, it will not be shown again'')
                 (Some (JObj [(''api_key'', JStr plaintext), (''details'', APIKey_json key)])) rw)
               (AuditService_Record (event r (Some (ac_TenantID ac)) (strPtrOrNil (ac_UserID ac))
                  EventAPIKeyGenerated
                  [(''api_key_id'', DStr (k_ID key)), (''name'', DStr (k_Name key))]) w1))"

definition APIKeyHandler_List :: "services \<Rightarrow> handler" where
  "APIKeyHandler_List h r rw w =
     (case APIKeyService_ListByTenant (ac_TenantID (AuthOrZero r)) w of
        (Inl err, w1) \<Rightarrow> answer (response_InternalError ''failed to list API keys'' rw) w1
      | (Inr keys, w1) \<Rightarrow>
          answer (response_OK ''API keys retrieved'' (Some (JArr (map APIKey_json keys))) rw) w1)"

definition APIKeyHandler_Rotate :: "services \<Rightarrow> handler" where
  "APIKeyHandler_Rotate h r rw w =
     (let ac = AuthOrZero r; i = r_PathValue r ''id''
      in case APIKeyService_Rotate (sv_prefix h) (ac_TenantID ac) i (strPtrOrNil (ac_UserID ac)) w of
           (Inl err, w1) \<Rightarrow> answer (APIKeyHandler_handleError err rw) w1
         | (Inr (plaintext, key), w1) \<Rightarrow>
             answer (response_OK
                 (''API key rotated '' @ em_dash @ '' store the new key now, it will not be shown again'')
                 (Some (JObj [(''api_key'', JStr plaintext), (''details'', APIKey_json key)])) rw)
               (AuditService_Record (event r (Some (ac_TenantID ac)) (strPtrOrNil (ac_UserID ac))
                  EventAPIKeyRotated
                  [(''old_key_id'', DStr i), (''new_key_id'', DStr (k_ID key))]) w1))"

definition APIKeyHandler_Deactivate :: "services \<Rightarrow> handler" where
  "APIKeyHandler_Deactivate h r rw w =
     (let ac = AuthOrZero r; i = r_PathValue r ''id''
      in case APIKeyService_Deactivate (ac_TenantID ac) i w of
           (Inl err, w1) \<Rightarrow> answer (APIKeyHandler_handleError err rw) w1
         | (Inr v, w1) \<Rightarrow>
             answer (response_OK ''API key deactivated'' None rw)
               (AuditService_Record (event r (Some (ac_TenantID ac)) (strPtrOrNil (ac_UserID ac))
                  EventAPIKeyRevoked [(''api_key_id'', DStr i)]) w1))"

section \<open>Entitlements\<close>

definition EntitlementHandler_ListCatalog :: "services \<Rightarrow> handler" where
  "EntitlementHandler_ListCatalog h r rw w =
     (case EntitlementService_ListFeatureCatalog w of
        (Inl err, w1) \<Rightarrow>
          answer (response_Fail r (Api (Wrap (Internal ''failed to list features'') err)) rw) w1
      | (Inr fs, w1) \<Rightarrow>
          answer (response_OKWithRequest r ''feature catalog retrieved''
            (Some (JArr (map Feature_json fs))) rw) w1)"

definition EntitlementHandler_ListMine :: "services \<Rightarrow> handler" where
  "EntitlementHandler_ListMine h r rw w =
     (case AuthFromContext r of
        None \<Rightarrow> answer (response_Fail r (Api (Unauthenticated ''authentication is required'')) rw) w
      | Some ac \<Rightarrow>
          (case EntitlementService_ListEnabledFeatures (ac_TenantID ac) (ac_TenantPlan ac) w of
             (Inl err, w1) \<Rightarrow>
               answer (response_Fail r
                 (Api (Wrap (Internal ''failed to resolve entitlements'') err)) rw) w1
           | (Inr fs, w1) \<Rightarrow>
               answer (response_OKWithRequest r ''tenant entitlements retrieved'' (Some (JObj [
                  (''tenant_id'', JStr (ac_TenantID ac)), (''plan'', JStr (ac_TenantPlan ac)),
                  (''features'', JArr (map JStr fs))])) rw) w1))"

section \<open>Usage and audit\<close>

definition EndpointSummary_json :: "EndpointSummary \<Rightarrow> json" where
  "EndpointSummary_json s = JObj [(''endpoint'', JStr (es_Endpoint s)), (''method'', JStr (es_Method s)),
     (''request_count'', JNum (es_RequestCount s)), (''error_count'', JNum (es_ErrorCount s)),
     (''avg_latency_ms'', JFrac (fst (es_AvgLatencyMS s)) (snd (es_AvgLatencyMS s)))]"

definition UsageHandler_List :: "services \<Rightarrow> handler" where
  "UsageHandler_List h r rw w =
     (let scope = ScopeFromContext r in
      if \<not> Scope_Valid scope
      then answer (response_Fail r (Api (Unauthenticated ''authentication is required'')) rw) w
      else case paginationParams (sv_page h) r of (page, pageSize) \<Rightarrow>
        (case timeWindow r of
           Inl err \<Rightarrow> answer (response_Fail r err rw) w
         | Inr (from, to) \<Rightarrow>
             (case UsageService_List (sv_usage h) (TenantID scope) (r_Query r ''endpoint'')
                     (r_Query r ''method'') from to page pageSize w of
                (Inl err, w1) \<Rightarrow>
                  answer (response_Fail r
                    (Api (Wrap (Internal ''failed to list usage records'') err)) rw) w1
              | (Inr (ls, n), w1) \<Rightarrow>
                  answer (response_OKWithRequest r ''usage records retrieved'' (Some
                    (ListResponse (map UsageLog_json ls) (NewMeta page pageSize n))) rw) w1)))"

definition UsageHandler_Summary :: "services \<Rightarrow> handler" where
  "UsageHandler_Summary h r rw w =
     (let scope = ScopeFromContext r in
      if \<not> Scope_Valid scope
      then answer (response_Fail r (Api (Unauthenticated ''authentication is required'')) rw) w
      else
        (case timeWindow r of
           Inl err \<Rightarrow> answer (response_Fail r err rw) w
         | Inr (from, to) \<Rightarrow>
             (case UsageService_Summary (sv_usage h) (TenantID scope) from to w of
                (Inl err, w1) \<Rightarrow>
                  answer (response_Fail r
                    (Api (Wrap (Internal ''failed to summarize usage'') err)) rw) w1
              | (Inr ss, w1) \<Rightarrow>
                  answer (response_OKWithRequest r ''usage summary retrieved''
                    (Some (JArr (map EndpointSummary_json ss))) rw) w1)))"

definition AuditHandler_List :: "services \<Rightarrow> handler" where
  "AuditHandler_List h r rw w =
     (let scope = ScopeFromContext r in
      if \<not> Scope_Valid scope
      then answer (response_Fail r (Api (Unauthenticated ''authentication is required'')) rw) w
      else case paginationParams (sv_page h) r of (page, pageSize) \<Rightarrow>
        (case AuditService_List (TenantID scope) (r_Query r ''event'') page pageSize w of
           (Inl err, w1) \<Rightarrow>
             answer (response_Fail r (Api (Wrap (Internal ''failed to list audit logs'') err)) rw) w1
         | (Inr (ls, n), w1) \<Rightarrow>
             answer (response_OKWithRequest r ''audit logs retrieved'' (Some
               (ListResponse (map AuditLog_json ls) (NewMeta page pageSize n))) rw) w1))"

definition AuditHandler_Get :: "services \<Rightarrow> handler" where
  "AuditHandler_Get h r rw w =
     (let scope = ScopeFromContext r in
      if \<not> Scope_Valid scope
      then answer (response_Fail r (Api (Unauthenticated ''authentication is required'')) rw) w
      else
        (case AuditService_GetForTenant (TenantID scope) (r_PathValue r ''id'') w of
           (Inl err, w1) \<Rightarrow>
             answer (response_Fail r
               (hide_missing ''audit log entry not found'' ''failed to retrieve the audit log entry''
                  err) rw) w1
         | (Inr a, w1) \<Rightarrow>
             answer (response_OKWithRequest r ''audit log entry retrieved''
               (Some (AuditLog_json a)) rw) w1))"

section \<open>Exports\<close>

record createExportRequest =
  cr_Endpoint :: string
  cr_Method :: string
  cr_From :: string
  cr_To :: string

definition createExportRequest_fields :: "createExportRequest setters" where
  "createExportRequest_fields = [
     (''endpoint'', set_string (\<lambda>s r. r\<lparr>cr_Endpoint := s\<rparr>)),
     (''method'', set_string (\<lambda>s r. r\<lparr>cr_Method := s\<rparr>)),
     (''from'', set_string (\<lambda>s r. r\<lparr>cr_From := s\<rparr>)),
     (''to'', set_string (\<lambda>s r. r\<lparr>cr_To := s\<rparr>))]"

definition ExportHandler_Create :: "services \<Rightarrow> handler" where
  "ExportHandler_Create h r rw w =
     (case decodeOptionalJSON createExportRequest_fields r
             \<lparr>cr_Endpoint = '''', cr_Method = '''', cr_From = '''', cr_To = ''''\<rparr> of
        (Some err, req) \<Rightarrow> answer (response_Fail r (badBody err) rw) w
      | (None, req) \<Rightarrow>
          (case parseRFC3339Field ''from'' (cr_From req) of
             Inl err \<Rightarrow> answer (response_Fail r err rw) w
           | Inr from \<Rightarrow>
               (case parseRFC3339Field ''to'' (cr_To req) of
                  Inl err \<Rightarrow> answer (response_Fail r err rw) w
                | Inr to \<Rightarrow>
                    (case ExportService_Request (sv_exports h) (ScopeFromContext r)
                            \<lparr>re_Endpoint = cr_Endpoint req, re_Method = cr_Method req,
                             re_From = from, re_To = to\<rparr> w of
                       (Inl err, w1) \<Rightarrow> answer (response_Fail r err rw) w1
                     | (Inr job, w1) \<Rightarrow>
                         answer (response_Accepted ''export queued'' (Some (JObj [
                             (''job'', ExportJob_json job),
                             (''max_rows'', JNum (ExportService_MaxRows (sv_exports h)))])) rw)
                           (AuditService_Record (scope_event r EventExportRequested
                              [(''export_job_id'', DStr (j_ID job))]) w1)))))"

definition ExportHandler_List :: "services \<Rightarrow> handler" where
  "ExportHandler_List h r rw w =
     (case paginationParams (sv_page h) r of (page, pageSize) \<Rightarrow>
      case ExportService_List (sv_exports h) (ScopeFromContext r) page pageSize w of
        (Inl err, w1) \<Rightarrow> answer (response_Fail r err rw) w1
      | (Inr (js, n), w1) \<Rightarrow>
          answer (response_OKWithRequest r ''export jobs retrieved'' (Some
            (ListResponse (map ExportJob_json js) (NewMeta page pageSize n))) rw) w1)"

definition Download_json :: "Download \<Rightarrow> json" where
  "Download_json d = JObj [(''url'', JStr (dl_URL d)), (''expires_at'', JTime (dl_ExpiresAt d)),
     (''row_count'', JNum (dl_RowCount d)), (''size_bytes'', JNum (dl_SizeBytes d))]"

definition ExportHandler_Get :: "services \<Rightarrow> handler" where
  "ExportHandler_Get h r rw w =
     (let scope = ScopeFromContext r in
      case ExportService_Get (sv_exports h) scope (r_PathValue r ''id'') w of
        (Inl err, w1) \<Rightarrow> answer (response_Fail r err rw) w1
      | (Inr job, w1) \<Rightarrow>
          (case (if j_Status job = ExportStatusCompleted
                 then (case ExportService_DownloadURL (sv_exports h) scope (j_ID job) w1 of
                         (Inr d, w2) \<Rightarrow> ([(''download'', Download_json d)], w2)
                       | (Inl err, w2) \<Rightarrow> ([], w2))
                 else ([], w1)) of
             (download, w2) \<Rightarrow>
               answer (response_OKWithRequest r ''export job retrieved''
                 (Some (JObj ([(''job'', ExportJob_json job)] @ download))) rw) w2))"

definition ExportHandler_DownloadURL :: "services \<Rightarrow> handler" where
  "ExportHandler_DownloadURL h r rw w =
     (let i = r_PathValue r ''id'' in
      case ExportService_DownloadURL (sv_exports h) (ScopeFromContext r) i w of
        (Inl err, w1) \<Rightarrow> answer (response_Fail r err rw) w1
      | (Inr d, w1) \<Rightarrow>
          answer (response_OKWithRequest r ''download URL created'' (Some (Download_json d)) rw)
            (AuditService_Record (scope_event r EventExportDownloaded
               [(''export_job_id'', DStr i)]) w1))"

definition ExportHandler_ServeLocalObject :: "services \<Rightarrow> handler" where
  "ExportHandler_ServeLocalObject h r rw w =
     (case sv_local h of
        None \<Rightarrow> answer (response_Fail r (Api (NotFound ''not found'')) rw) w
      | Some store \<Rightarrow>
          (case Atoi (r_Query r ''expires'') of
             None \<Rightarrow> answer (response_Fail r (Api (Forbidden ''this download link is not valid'')) rw) w
           | Some expires \<Rightarrow>
               if ls_VerifySignature store (r_Query r ''key'') expires (r_Query r ''signature'') \<noteq> None
               then answer (response_Fail r
                      (Api (Forbidden ''this download link has expired or been altered'')) rw) w
               else
                 (case ls_Open store (r_Query r ''key'') w of
                    (Inl err, w1) \<Rightarrow>
                      answer (response_Fail r
                        (if errors_Is err exports_ErrObjectNotFound
                         then Api (NotFound ''this export is no longer available'')
                         else Api (Wrap (Internal ''failed to read the export'') err)) rw) w1
                  | (Inr (content, size'), w1) \<Rightarrow>
                      answer (Write (BRaw content)
                        (Set_header ''Cache-Control'' ''private, no-store''
                          (Set_header ''Content-Disposition''
                             (''attachment; filename='' @ dquote ''bridgecore-usage-export.csv'')
                            (Set_header ''Content-Length'' (Itoa size')
                              (Set_header ''Content-Type'' ''text/csv; charset=utf-8'' rw))))) w1)))"

section \<open>The platform control plane\<close>

definition mapTenantError :: "goerr \<Rightarrow> goerr" where
  "mapTenantError err =
     (if errors_Is err ErrTenantNotFound then Api (NotFound ''tenant not found'')
      else if errors_Is err ErrTenantSlugTaken
      then Api (Conflict ''a tenant with this slug already exists'')
      else err)"

definition createTenantRequest_fields :: "CreateTenantInput setters" where
  "createTenantRequest_fields = [
     (''name'', set_string (\<lambda>s r. r\<lparr>ct_Name := s\<rparr>)),
     (''slug'', set_string (\<lambda>s r. r\<lparr>ct_Slug := s\<rparr>)),
     (''plan'', set_string (\<lambda>s r. r\<lparr>ct_Plan := s\<rparr>))]"

definition operator_event :: "Request \<Rightarrow> string \<Rightarrow> string \<Rightarrow> details \<Rightarrow> RecordInput" where
  "operator_event r tid ev meta =
     event r (strPtrOrNil tid) None ev ([(''actor'', DStr ''platform_operator'')] @ meta)"

definition PlatformHandler_CreateTenant :: "services \<Rightarrow> handler" where
  "PlatformHandler_CreateTenant h r rw w =
     (case decodeJSON createTenantRequest_fields r
             \<lparr>ct_Name = '''', ct_Slug = '''', ct_Plan = ''''\<rparr> of
        (Some err, req) \<Rightarrow> answer (response_Fail r (badBody err) rw) w
      | (None, req) \<Rightarrow>
          (case TenantService_Create (sv_tenants h) req w of
             (Inl err, w1) \<Rightarrow> answer (response_Fail r (mapTenantError err) rw) w1
           | (Inr t, w1) \<Rightarrow>
               answer (response_Created ''tenant created'' (Some (Tenant_json t)) rw)
                 (AuditService_Record (operator_event r (t_ID t) EventTenantCreated
                    [(''plan'', DStr (t_Plan t))]) w1)))"

definition PlatformHandler_ListTenants :: "services \<Rightarrow> handler" where
  "PlatformHandler_ListTenants h r rw w =
     (case paginationParams (sv_page h) r of (page, pageSize) \<Rightarrow>
      case TenantService_List (sv_tenants h) (r_Query r ''search'') page pageSize w of
        (Inl err, w1) \<Rightarrow>
          answer (response_Fail r (Api (Wrap (Internal ''failed to list tenants'') err)) rw) w1
      | (Inr (ts, n), w1) \<Rightarrow>
          answer (response_OKWithRequest r ''tenants retrieved'' (Some
            (ListResponse (map Tenant_json ts) (NewMeta page pageSize n))) rw) w1)"

definition PlatformHandler_GetTenant :: "services \<Rightarrow> handler" where
  "PlatformHandler_GetTenant h r rw w =
     (case TenantService_Get (sv_tenants h) (r_PathValue r ''id'') w of
        (Inl err, w1) \<Rightarrow> answer (response_Fail r (mapTenantError err) rw) w1
      | (Inr t, w1) \<Rightarrow>
          answer (response_OKWithRequest r ''tenant retrieved'' (Some (Tenant_json t)) rw) w1)"

definition updateTenantRequest_fields :: "UpdateTenantInput setters" where
  "updateTenantRequest_fields = [
     (''name'', set_string_ptr (\<lambda>s r. r\<lparr>ut_Name := s\<rparr>)),
     (''plan'', set_string_ptr (\<lambda>s r. r\<lparr>ut_Plan := s\<rparr>)),
     (''is_active'', set_bool_ptr (\<lambda>b r. r\<lparr>ut_IsActive := b\<rparr>))]"

definition PlatformHandler_UpdateTenant :: "services \<Rightarrow> handler" where
  "PlatformHandler_UpdateTenant h r rw w =
     (case decodeJSON updateTenantRequest_fields r
             \<lparr>ut_Name = None, ut_Plan = None, ut_IsActive = None\<rparr> of
        (Some err, req) \<Rightarrow> answer (response_Fail r (badBody err) rw) w
      | (None, req) \<Rightarrow>
          (case TenantService_Update (sv_tenants h) (r_PathValue r ''id'') req w of
             (Inl err, w1) \<Rightarrow> answer (response_Fail r (mapTenantError err) rw) w1
           | (Inr t, w1) \<Rightarrow>
               answer (response_OKWithRequest r ''tenant updated'' (Some (Tenant_json t)) rw)
                 (AuditService_Record (operator_event r (t_ID t) EventTenantUpdated
                    [(''plan'', DStr (t_Plan t))]) w1)))"

definition PlatformHandler_DeleteTenant :: "services \<Rightarrow> handler" where
  "PlatformHandler_DeleteTenant h r rw w =
     (let i = r_PathValue r ''id'' in
      case TenantService_Delete (sv_tenants h) i w of
        (Inl err, w1) \<Rightarrow> answer (response_Fail r (mapTenantError err) rw) w1
      | (Inr v, w1) \<Rightarrow>
          answer (response_OKWithRequest r ''tenant deleted'' None rw)
            (AuditService_Record (operator_event r i EventTenantDeleted []) w1))"

record grantFeatureRequest =
  gf_TenantID :: string
  gf_FeatureKey :: string
  gf_Enabled :: bool

definition grantFeatureRequest_fields :: "grantFeatureRequest setters" where
  "grantFeatureRequest_fields = [
     (''tenant_id'', set_string (\<lambda>s r. r\<lparr>gf_TenantID := s\<rparr>)),
     (''feature_key'', set_string (\<lambda>s r. r\<lparr>gf_FeatureKey := s\<rparr>)),
     (''enabled'', set_bool (\<lambda>b r. r\<lparr>gf_Enabled := b\<rparr>))]"

definition PlatformHandler_GrantFeature :: "services \<Rightarrow> handler" where
  "PlatformHandler_GrantFeature h r rw w =
     (case decodeJSON grantFeatureRequest_fields r
             \<lparr>gf_TenantID = '''', gf_FeatureKey = '''', gf_Enabled = False\<rparr> of
        (Some err, req) \<Rightarrow> answer (response_Fail r (badBody err) rw) w
      | (None, req) \<Rightarrow>
          if gf_TenantID req = '''' \<or> gf_FeatureKey req = ''''
          then answer (response_Fail r (Api (Validation ''tenant_id and feature_key are required'')) rw)
                 w
          else
            (case EntitlementService_GrantFeature (gf_TenantID req) (gf_FeatureKey req)
                    (gf_Enabled req) w of
               (Inl err, w1) \<Rightarrow> answer (response_Fail r err rw) w1
             | (Inr v, w1) \<Rightarrow>
                 answer (response_OKWithRequest r ''feature entitlement updated'' (Some (JObj [
                     (''tenant_id'', JStr (gf_TenantID req)),
                     (''feature_key'', JStr (gf_FeatureKey req)),
                     (''enabled'', JBool (gf_Enabled req))])) rw)
                   (AuditService_Record (operator_event r (gf_TenantID req)
                      (if \<not> gf_Enabled req then EventFeatureRevoked else EventFeatureGranted)
                      [(''feature_key'', DStr (gf_FeatureKey req)),
                       (''enabled'', DBool (gf_Enabled req))]) w1)))"

section \<open>Health\<close>

record health_info =
  hi_version :: string
  hi_buildTime :: string
  hi_gitCommit :: string
  hi_env :: string
  hi_startedAt :: time

text \<open>\<open>Healthy\<close> of the database and of Redis: one ping each.\<close>

definition Healthy :: "world \<Rightarrow> bool \<times> world" where
  "Healthy w = (case ext_call w of (err, w1) \<Rightarrow> (err = None, w1))"

definition boolToStatus :: "bool \<Rightarrow> string" where
  "boolToStatus ok = (if ok then ''up'' else ''down'')"

definition statusWord :: "bool \<Rightarrow> string" where
  "statusWord ok = (if ok then ''healthy'' else ''degraded'')"

definition HealthHandler_Ready :: handler where
  "HealthHandler_Ready r rw w =
     (case Healthy w of (dbOK, w1) \<Rightarrow>
      case Healthy w1 of (redisOK, w2) \<Rightarrow>
        if dbOK \<and> redisOK
        then answer (response_OKWithRequest r ''ready''
               (Some (JObj [(''database'', JStr ''up''), (''redis'', JStr ''up'')])) rw) w2
        else answer (response_Err 503 ''not ready'' (Some (JObj [
               (''database'', JStr (boolToStatus dbOK)),
               (''redis'', JStr (boolToStatus redisOK))])) rw) w2)"

text \<open>\<open>time.Since(h.startedAt)\<close> in whole seconds, and rounded and printed as a duration.\<close>

definition uptime_s :: "health_info \<Rightarrow> world \<Rightarrow> int" where
  "uptime_s hi w = (clock w - hi_startedAt hi) div second"

definition seconds_String :: "int \<Rightarrow> string" where
  "seconds_String n =
     (if n < 60 then Itoa n @ ''s''
      else if n < 3600 then Itoa (n div 60) @ ''m'' @ Itoa (n mod 60) @ ''s''
      else Itoa (n div 3600) @ ''h'' @ Itoa (n mod 3600 div 60) @ ''m'' @ Itoa (n mod 60) @ ''s'')"

definition uptime :: "health_info \<Rightarrow> world \<Rightarrow> string" where
  "uptime hi w = seconds_String ((clock w - hi_startedAt hi + second div 2) div second)"

definition HealthHandler_Live :: "health_info \<Rightarrow> handler" where
  "HealthHandler_Live hi r rw w =
     answer (response_OKWithRequest r ''alive'' (Some (JObj [
       (''uptime'', JStr (uptime hi w)), (''version'', JStr (hi_version hi))])) rw) w"

definition HealthHandler_Health :: "services \<Rightarrow> health_info \<Rightarrow> handler" where
  "HealthHandler_Health h hi r rw w =
     (case Healthy w of (dbOK, w1) \<Rightarrow>
      case Healthy w1 of (redisOK, w2) \<Rightarrow>
      case ExportService_QueueDepth (sv_exports h) w2 of (depth, w3) \<Rightarrow>
        let payload = JObj [(''status'', JStr (statusWord (dbOK \<and> redisOK))),
              (''database'', JStr (boolToStatus dbOK)), (''redis'', JStr (boolToStatus redisOK)),
              (''env'', JStr (hi_env hi)), (''version'', JStr (hi_version hi)),
              (''build_time'', JStr (hi_buildTime hi)), (''git_commit'', JStr (hi_gitCommit hi)),
              (''uptime'', JStr (uptime hi w2)), (''uptime_s'', JNum (uptime_s hi w2)),
              (''exports'', JObj [
                 (''object_store'', JStr (ExportService_Backend (sv_exports h))),
                 (''queue_depth'', case depth of Inr n \<Rightarrow> JNum n | Inl e \<Rightarrow> JStr ''unavailable'')])]
        in if dbOK \<and> redisOK
           then answer (response_OKWithRequest r ''service is healthy'' (Some payload) rw) w3
           else answer (response_Err 503 ''service is degraded'' (Some payload) rw) w3)"

end
