(* ===== verification/Routes.thy ===== *)
theory Routes
  imports ResourceHandlers
begin

text \<open>
  \<^verbatim>\<open>cmd/api/routes.go\<close> and the wiring of \<^verbatim>\<open>cmd/api/main.go\<close>: the routing table with the
  middleware chain of every route, and the server every request goes through. The pattern
  matching is that of \<open>http.ServeMux\<close>: a literal segment beats \<open>{id}\<close>, which matches one
  non-empty segment, and \<open>GET\<close> also serves \<open>HEAD\<close>. The GraphQL handler is an argument. The
  developer documentation routes (a file server) are left out.
\<close>

record deps =
  d_services :: services
  d_auth :: auth_deps
  d_usage :: UsageRecorder
  d_entitlements :: EntitlementChecker
  d_health :: health_info
  d_rateLimit :: int
  d_graphqlPath :: string
  d_platformToken :: string
  d_graphql :: handler
  d_cors :: CORSConfig

definition exportDownloadPath :: string where
  "exportDownloadPath = ''/api/v1/usage/exports/download''"

record route =
  ro_Method :: string
  ro_Pattern :: string
  ro_Handler :: handler

definition route_of :: "string \<Rightarrow> string \<Rightarrow> handler \<Rightarrow> route" where
  "route_of m p h = \<lparr>ro_Method = m, ro_Pattern = p, ro_Handler = h\<rparr>"

section \<open>The table\<close>

definition authenticated :: "deps \<Rightarrow> middleware" where
  "authenticated d =
     Chain [Auth (d_auth d), RateLimit (d_rateLimit d), UsageMetering (d_usage d)]"

definition public_routes :: "deps \<Rightarrow> route list" where
  "public_routes d = (let h = d_services d in [
     route_of ''GET'' ''/health'' (HealthHandler_Health h (d_health d)),
     route_of ''GET'' ''/ready'' HealthHandler_Ready,
     route_of ''GET'' ''/live'' (HealthHandler_Live (d_health d)),
     route_of ''POST'' ''/api/v1/auth/signup'' (AuthHandler_Signup h),
     route_of ''POST'' ''/api/v1/auth/login'' (AuthHandler_Login h),
     route_of ''POST'' ''/api/v1/auth/refresh'' (AuthHandler_Refresh h),
     route_of ''GET'' exportDownloadPath (ExportHandler_ServeLocalObject h)])"

text \<open>The routes behind the shared chain, with the handler as it stands inside it.\<close>

definition tenant_routes :: "deps \<Rightarrow> route list" where
  "tenant_routes d =
     (let h = d_services d;
          requireAdmin = RequireRole RoleAdmin;
          requireDeveloper = RequireRole RoleDeveloper;
          requireUsageExport = RequireFeature (d_entitlements d) ''usage.export''
      in [
     route_of ''POST'' ''/api/v1/auth/logout'' (AuthHandler_Logout h),
     route_of ''GET'' ''/api/v1/auth/me'' (AuthHandler_Me h),
     route_of '''' (d_graphqlPath d) (d_graphql d),
     route_of ''GET'' ''/api/v1/tenant'' (TenantHandler_Current h),
     route_of ''PATCH'' ''/api/v1/tenant'' (requireAdmin (TenantHandler_Update h)),
     route_of ''GET'' ''/api/v1/tenants'' (TenantHandler_List h),
     route_of ''GET'' ''/api/v1/tenants/{id}'' (TenantHandler_Get h),
     route_of ''GET'' ''/api/v1/users'' (UserHandler_List h),
     route_of ''GET'' ''/api/v1/users/me'' (UserHandler_Me h),
     route_of ''GET'' ''/api/v1/users/{id}'' (UserHandler_Get h),
     route_of ''PATCH'' ''/api/v1/users/{id}/role'' (requireAdmin (UserHandler_UpdateRole h)),
     route_of ''PATCH'' ''/api/v1/users/{id}/status'' (requireAdmin (UserHandler_SetActive h)),
     route_of ''GET'' ''/api/v1/features'' (EntitlementHandler_ListCatalog h),
     route_of ''GET'' ''/api/v1/features/mine'' (EntitlementHandler_ListMine h),
     route_of ''POST'' ''/api/v1/apikeys'' (requireDeveloper (APIKeyHandler_Generate h)),
     route_of ''GET'' ''/api/v1/apikeys'' (APIKeyHandler_List h),
     route_of ''POST'' ''/api/v1/apikeys/{id}/rotate'' (requireDeveloper (APIKeyHandler_Rotate h)),
     route_of ''DELETE'' ''/api/v1/apikeys/{id}'' (requireDeveloper (APIKeyHandler_Deactivate h)),
     route_of ''GET'' ''/api/v1/usage'' (UsageHandler_List h),
     route_of ''GET'' ''/api/v1/usage/summary'' (UsageHandler_Summary h),
     route_of ''POST'' ''/api/v1/usage/exports'' (requireUsageExport (ExportHandler_Create h)),
     route_of ''GET'' ''/api/v1/usage/exports'' (requireUsageExport (ExportHandler_List h)),
     route_of ''GET'' ''/api/v1/usage/exports/{id}'' (requireUsageExport (ExportHandler_Get h)),
     route_of ''GET'' ''/api/v1/usage/exports/{id}/download''
       (requireUsageExport (ExportHandler_DownloadURL h)),
     route_of ''GET'' ''/api/v1/audit'' (AuditHandler_List h),
     route_of ''GET'' ''/api/v1/audit/{id}'' (AuditHandler_Get h)])"

definition platform_routes :: "deps \<Rightarrow> route list" where
  "platform_routes d = (let h = d_services d in [
     route_of ''POST'' ''/api/v1/platform/tenants'' (PlatformHandler_CreateTenant h),
     route_of ''GET'' ''/api/v1/platform/tenants'' (PlatformHandler_ListTenants h),
     route_of ''GET'' ''/api/v1/platform/tenants/{id}'' (PlatformHandler_GetTenant h),
     route_of ''PUT'' ''/api/v1/platform/tenants/{id}'' (PlatformHandler_UpdateTenant h),
     route_of ''DELETE'' ''/api/v1/platform/tenants/{id}'' (PlatformHandler_DeleteTenant h),
     route_of ''POST'' ''/api/v1/platform/features/grant'' (PlatformHandler_GrantFeature h)])"

definition platform :: "deps \<Rightarrow> middleware" where
  "platform d = Chain [RequirePlatformToken (d_platformToken d), RateLimit (d_rateLimit d)]"

definition wrap_route :: "middleware \<Rightarrow> route \<Rightarrow> route" where
  "wrap_route mw ro = ro\<lparr>ro_Handler := mw (ro_Handler ro)\<rparr>"

definition registerRoutes :: "deps \<Rightarrow> route list" where
  "registerRoutes d =
     public_routes d
     @ map (wrap_route (authenticated d)) (tenant_routes d)
     @ (if d_platformToken d \<noteq> '''' then map (wrap_route (platform d)) (platform_routes d) else [])"

section \<open>Matching\<close>

fun segments_match :: "string list \<Rightarrow> string list \<Rightarrow> bool" where
  "segments_match [] [] = True"
| "segments_match (p # ps) (s # ss) =
     ((if p = ''{id}'' then s \<noteq> '''' else p = s) \<and> segments_match ps ss)"
| "segments_match _ _ = False"

fun path_value :: "string list \<Rightarrow> string list \<Rightarrow> string" where
  "path_value (p # ps) (s # ss) = (if p = ''{id}'' then s else path_value ps ss)"
| "path_value _ _ = ''''"

definition method_match :: "string \<Rightarrow> string \<Rightarrow> bool" where
  "method_match m req \<longleftrightarrow> m = '''' \<or> m = req \<or> m = ''GET'' \<and> req = ''HEAD''"

definition pattern_match :: "route \<Rightarrow> string \<Rightarrow> bool" where
  "pattern_match ro path \<longleftrightarrow>
     segments_match (Split CHR ''/'' (ro_Pattern ro)) (Split CHR ''/'' path)"

definition literal_pattern :: "route \<Rightarrow> bool" where
  "literal_pattern ro \<longleftrightarrow> ''{id}'' \<notin> set (Split CHR ''/'' (ro_Pattern ro))"

definition find_route :: "route list \<Rightarrow> string \<Rightarrow> string \<Rightarrow> route option" where
  "find_route ros m path =
     find (\<lambda>ro. method_match (ro_Method ro) m \<and> pattern_match ro path)
       (filter literal_pattern ros @ filter (\<lambda>ro. \<not> literal_pattern ro) ros)"

text \<open>No pattern for the path is a 404; only patterns for other methods a 405.\<close>

definition ServeMux :: "route list \<Rightarrow> handler" where
  "ServeMux ros r rw w =
     (case find_route ros (r_Method r) (r_Path r) of
        Some ro \<Rightarrow>
          ro_Handler ro
            (r\<lparr>r_PathValue := (\<lambda>name. if name = ''id''
                 then path_value (Split CHR ''/'' (ro_Pattern ro)) (Split CHR ''/'' (r_Path r))
                 else '''')\<rparr>) rw w
      | None \<Rightarrow>
          if list_ex (\<lambda>ro. pattern_match ro (r_Path r)) ros
          then (None, Write (BRaw ''Method Not Allowed'') (WriteHeader 405 rw), w)
          else (None, Write (BRaw ''404 page not found'') (WriteHeader 404 rw), w))"

definition globalChain :: "deps \<Rightarrow> middleware" where
  "globalChain d = Chain [RequestID, Recovery, SecurityHeaders, CORS (d_cors d), Logging]"

definition server :: "deps \<Rightarrow> handler" where
  "server d = globalChain d (ServeMux (registerRoutes d))"

section \<open>Which handler a request reaches\<close>

lemma find_route_mem: "find_route ros m p = Some ro \<Longrightarrow> ro \<in> set ros"
  by (auto simp: find_route_def dest!: find_Some_mem)

lemma wrap_route_sel [simp]:
  "ro_Method (wrap_route mw ro) = ro_Method ro" "ro_Pattern (wrap_route mw ro) = ro_Pattern ro"
  "ro_Handler (wrap_route mw ro) = mw (ro_Handler ro)"
  by (simp_all add: wrap_route_def)

text \<open>A request either reaches a public handler or goes through a chain that asks for a credential.\<close>

lemma registerRoutes_cases:
  assumes "ro \<in> set (registerRoutes d)"
  obtains (public) "ro \<in> set (public_routes d)"
    | (tenant) inner where "inner \<in> set (tenant_routes d)" "ro = wrap_route (authenticated d) inner"
    | (platform) inner where "inner \<in> set (platform_routes d)" "ro = wrap_route (platform d) inner"
        "d_platformToken d \<noteq> ''''"
  using assms by (auto simp: registerRoutes_def split: if_splits)

end
