(* ===== verification/Isolation.thy ===== *)
theory Isolation
  imports Routes
begin

text \<open>
  Tenant isolation: what an operation, a service call and an authenticated route may change.
  \<open>tview T\<close> is the part of the database that belongs to tenant \<open>T\<close> (with the feature catalog,
  which is everybody's); an operation is confined to \<open>A\<close> when every other tenant's part comes out
  as it went in. The rules of the collection \<open>confined_rules\<close> follow the way operations are put
  together.
\<close>

section \<open>The part of a tenant\<close>

definition tview :: "string \<Rightarrow> tables \<Rightarrow> tables" where
  "tview T a = a\<lparr>
     tenants := filter (\<lambda>t. t_ID t = T) (tenants a),
     users := filter (\<lambda>u. u_TenantID u = T) (users a),
     tenant_features := filter (\<lambda>g. tf_TenantID g = T) (tenant_features a),
     api_keys := filter (\<lambda>k. k_TenantID k = T) (api_keys a),
     refresh_tokens := filter (\<lambda>t. list_ex (\<lambda>u. u_TenantID u = T \<and> u_ID u = rt_UserID t) (users a))
                         (refresh_tokens a),
     usage_logs := filter (\<lambda>u. ul_TenantID u = Some T) (usage_logs a),
     audit_logs := filter (\<lambda>l. al_TenantID l = Some T) (audit_logs a),
     export_jobs := filter (\<lambda>j. j_TenantID j = T) (export_jobs a)\<rparr>"

text \<open>
  Stored identifiers are in the server's canonical spelling, primary keys are unique, and the
  empty string is no identifier.
\<close>

definition ids_ok :: "(string \<Rightarrow> string option) \<Rightarrow> tables \<Rightarrow> bool" where
  "ids_ok env a \<longleftrightarrow>
     env '''' = None \<and> (\<forall>t \<in> set (tenants a). env (t_ID t) = Some (t_ID t))
     \<and> (\<forall>k \<in> set (api_keys a). env (k_ID k) = Some (k_ID k)
          \<and> env (k_TenantID k) = Some (k_TenantID k))
     \<and> distinct (map k_ID (api_keys a))"

definition keeps_others :: "string \<Rightarrow> world \<Rightarrow> world \<Rightarrow> bool" where
  "keeps_others A w w' \<longleftrightarrow>
     uuid_in w' = uuid_in w \<and> (\<forall>B. B \<noteq> A \<longrightarrow> tview B (tabs w') = tview B (tabs w))"

definition confined :: "(string \<Rightarrow> string option) \<Rightarrow> string \<Rightarrow> (world, 'a) op \<Rightarrow> bool" where
  "confined env A f \<longleftrightarrow>
     (\<forall>w r w'. uuid_in w = env \<longrightarrow> f w = (r, w') \<longrightarrow> keeps_others A w w')"

named_theorems confined_rules \<open>operations that stay within a tenant\<close>

lemma keeps_others_refl [simp]: "keeps_others A w w"
  by (simp add: keeps_others_def)

lemma keeps_others_trans [trans]:
  "keeps_others A w w1 \<Longrightarrow> keeps_others A w1 w2 \<Longrightarrow> keeps_others A w w2"
  by (simp add: keeps_others_def)

lemma keeps_others_tabs: "tabs w' = tabs w \<Longrightarrow> uuid_in w' = uuid_in w \<Longrightarrow> keeps_others A w w'"
  by (simp add: keeps_others_def)

lemma confinedD:
  "confined env A f \<Longrightarrow> f w = (r, w') \<Longrightarrow> uuid_in w = env \<Longrightarrow> keeps_others A w w'"
  by (auto simp: confined_def)

lemma tview_upd:
  "filter (\<lambda>t. t_ID t = B) ts = filter (\<lambda>t. t_ID t = B) (tenants a) \<Longrightarrow>
     tview B (a\<lparr>tenants := ts\<rparr>) = tview B a"
  "filter (\<lambda>k. k_TenantID k = B) ks = filter (\<lambda>k. k_TenantID k = B) (api_keys a) \<Longrightarrow>
     tview B (a\<lparr>api_keys := ks\<rparr>) = tview B a"
  "filter (\<lambda>u. ul_TenantID u = Some B) us = filter (\<lambda>u. ul_TenantID u = Some B) (usage_logs a) \<Longrightarrow>
     tview B (a\<lparr>usage_logs := us\<rparr>) = tview B a"
  "filter (\<lambda>l. al_TenantID l = Some B) ls = filter (\<lambda>l. al_TenantID l = Some B) (audit_logs a) \<Longrightarrow>
     tview B (a\<lparr>audit_logs := ls\<rparr>) = tview B a"
  "filter (\<lambda>j. j_TenantID j = B) js = filter (\<lambda>j. j_TenantID j = B) (export_jobs a) \<Longrightarrow>
     tview B (a\<lparr>export_jobs := js\<rparr>) = tview B a"
  by (simp_all add: tview_def)

lemma list_ex_filter: "list_ex (\<lambda>x. P x \<and> Q x) xs = list_ex Q (filter P xs)"
  by (induction xs) auto

lemma tview_users:
  assumes "rows_of B us = rows_of B (users a)"
  shows "tview B (a\<lparr>users := us\<rparr>) = tview B a"
proof -
  have "list_ex (\<lambda>u. u_TenantID u = B \<and> u_ID u = x) us
      = list_ex (\<lambda>u. u_TenantID u = B \<and> u_ID u = x) (users a)" for x
    using assms by (simp only: list_ex_filter rows_of_def)
  with assms show ?thesis by (simp add: tview_def rows_of_def)
qed

section \<open>Rules for operations\<close>

lemma confined_read_only: "read_only f \<Longrightarrow> confined env A f"
  by (auto simp: confined_def intro: keeps_others_tabs dest: read_onlyD(1) read_only_keeps(10))

lemma confined_bind [confined_rules]:
  assumes "confined env A m" "\<And>x. confined env A (f x)"
  shows "confined env A (bind_op m f)"
  unfolding confined_def
proof (intro allI impI)
  fix w r w'
  assume env: "uuid_in w = env" and run: "bind_op m f w = (r, w')"
  obtain a w1 where m: "m w = (a, w1)" by (cases "m w")
  have k: "keeps_others A w w1" by (rule confinedD [OF assms(1) m env])
  then have env1: "uuid_in w1 = env" using env by (simp add: keeps_others_def)
  show "keeps_others A w w'"
  proof (cases a)
    case (Inl e)
    with run m k show ?thesis by (simp add: bind_op_def)
  next
    case (Inr x)
    with run m have "f x w1 = (r, w')" by (simp add: bind_op_def)
    from keeps_others_trans [OF k confinedD [OF assms(2) this env1]] show ?thesis .
  qed
qed

lemma confined_map_err [confined_rules]: "confined env A m \<Longrightarrow> confined env A (map_err g m)"
  by (fastforce simp: confined_def map_err_def split: prod.splits sum.splits)

lemma confined_when [confined_rules]: "confined env A m \<Longrightarrow> confined env A (when_op c m)"
  by (auto simp: when_op_def confined_def)

lemma confined_if [confined_rules]:
  "confined env A f \<Longrightarrow> confined env A g \<Longrightarrow> confined env A (if c then f else g)"
  by simp

lemma confined_case_option [confined_rules]:
  "confined env A f \<Longrightarrow> (\<And>x. confined env A (g x)) \<Longrightarrow>
     confined env A (case y of None \<Rightarrow> f | Some x \<Rightarrow> g x)"
  by (simp split: option.split)

lemma confined_ignore_err [confined_rules]: "confined env A m \<Longrightarrow> confined env A (ignore_err m)"
  by (auto simp: confined_def ignore_err_def dest: surjective_pairing [THEN sym, THEN trans])
    (metis surjective_pairing)

lemma confined_tolerate [confined_rules]:
  "confined env A m \<Longrightarrow> confined env A (tolerate_missing msg m)"
  by (fastforce simp: confined_def tolerate_missing_def split: prod.splits sum.splits if_splits)

lemma confined_ret [confined_rules]: "confined env A (ret x)" "confined env A (fail e)"
    "confined env A (guard_op g)" "confined env A (require_scope s)"
  by (auto simp: require_scope_def intro!: confined_read_only frame_rules)

lemmas confined_reads [confined_rules] =
  read_only_tenant_repo [THEN confined_read_only] read_only_user_repo [THEN confined_read_only]
  read_only_key_repo [THEN confined_read_only] read_only_TenantHasFeature [THEN confined_read_only]
  read_only_entitlement_repo [THEN confined_read_only] read_only_activity [THEN confined_read_only]
  read_only_export_repo [THEN confined_read_only]

lemma confined_writes:
  assumes "writes R f"
    and "\<And>a x b B. R env a x b \<Longrightarrow> B \<noteq> A \<Longrightarrow> tview B b = tview B a"
  shows "confined env A f"
  unfolding confined_def
proof (intro allI impI)
  fix w r w'
  assume env: "uuid_in w = env" and run: "f w = (r, w')"
  note keep = writes_env [OF assms(1) run]
  show "keeps_others A w w'"
  proof (cases r)
    case (Inl e)
    with keep writesD(2) [OF assms(1) run [unfolded Inl]] show ?thesis
      by (simp add: keeps_others_tabs)
  next
    case (Inr x)
    with keep writesD(1) [OF assms(1) run [unfolded Inr]] env assms(2) show ?thesis
      by (auto simp: keeps_others_def)
  qed
qed

section \<open>The writes of the tenant routes\<close>

lemma users_set_tview:
  assumes "users_set A x f a r b" "\<And>now u. u_TenantID (f now u) = u_TenantID u" "B \<noteq> A"
  shows "tview B b = tview B a"
proof -
  from assms(1) obtain now where
    b: "b = a\<lparr>users := update_rows (user_row A x) (f now) (users a)\<rparr>"
    by (auto simp: users_set_def)
  have "rows_of B (update_rows (user_row A x) (f now) (users a)) = rows_of B (users a)"
    using assms(2,3) unfolding rows_of_def
    by (intro update_rows_disjoint) (auto simp: user_row_def)
  then show ?thesis unfolding b by (rule tview_users)
qed

lemma confined_user_writes [confined_rules]:
  assumes "env t = Some A"
  shows "confined env A (UserRepository_UpdateRoleInTenant t i role)"
    "confined env A (UserRepository_SetActiveInTenant t i active)"
  by (rule confined_writes [OF UserRepository_UpdateRoleInTenant_writes],
      use assms in \<open>auto intro: users_set_tview\<close>)
    (rule confined_writes [OF UserRepository_SetActiveInTenant_writes],
      use assms in \<open>auto intro: users_set_tview\<close>)

lemma confined_export_Create [confined_rules]:
  "env (j_TenantID j) = Some A \<Longrightarrow> confined env A (ExportRepository_Create j)"
  by (rule confined_writes [OF ExportRepository_Create_writes])
    (auto simp: job_inserted_def intro!: tview_upd)

lemma confined_key_Create [confined_rules]:
  "env (k_TenantID k) = Some A \<Longrightarrow> confined env A (APIKeyRepository_Create k)"
  by (rule confined_writes [OF APIKeyRepository_Create_writes])
    (auto simp: key_inserted_def intro!: tview_upd)

lemma confined_usage_Create [confined_rules]:
  "(\<And>t. ul_TenantID u = Some t \<Longrightarrow> env t = Some A) \<Longrightarrow> confined env A (UsageRepository_Create u)"
  by (rule confined_writes [OF UsageRepository_Create_writes])
    (auto simp: usage_appended_def split: option.splits intro!: tview_upd)

lemma confined_audit_Create [confined_rules]:
  "(\<And>t. al_TenantID e = Some t \<Longrightarrow> env t = Some A) \<Longrightarrow> confined env A (AuditRepository_Create e)"
  by (rule confined_writes [OF AuditRepository_Create_writes])
    (auto simp: audit_appended_def split: option.splits intro!: tview_upd)

lemma AuditService_Record_keeps:
  assumes "\<And>t. ai_TenantID inp = Some t \<Longrightarrow> uuid_in w t = Some A"
  shows "keeps_others A w (AuditService_Record inp w)"
proof -
  let ?e = "\<lparr>al_ID = '''', al_TenantID = ai_TenantID inp,
             al_ActorID = ai_ActorID inp, al_Event = ai_Event inp, al_Metadata = ai_Metadata inp,
             al_Endpoint = ai_Endpoint inp, al_IPAddress = ai_IPAddress inp,
             al_UserAgent = ai_UserAgent inp, al_CreatedAt = 0\<rparr>"
  obtain r w1 where run: "AuditRepository_Create ?e w = (r, w1)"
    by (cases "AuditRepository_Create ?e w")
  have "confined (uuid_in w) A (AuditRepository_Create ?e)"
    using assms by (intro confined_audit_Create) auto
  from confinedD [OF this run refl] have k: "keeps_others A w w1" .
  have "tabs (AuditService_Record inp w) = tabs w1" "uuid_in (AuditService_Record inp w) = uuid_in w1"
    using run by (auto simp: AuditService_Record_def split: sum.splits)
  with k show ?thesis by (simp add: keeps_others_def)
qed

text \<open>Logging out touches the tokens of the user, who is of the tenant.\<close>

lemma RevokeAll_keeps:
  assumes run: "RefreshTokenRepository_RevokeAllForUser uid w = (r, w')"
    and own: "\<forall>u \<in> set (users w). uuid_in w uid = Some (u_ID u) \<longrightarrow> u_TenantID u = A"
  shows "keeps_others A w w'"
proof (cases r)
  case (Inl e)
  with writesD(2) [OF RefreshTokenRepository_RevokeAllForUser_writes run [unfolded Inl]]
    writes_env [OF RefreshTokenRepository_RevokeAllForUser_writes run]
  show ?thesis by (simp add: keeps_others_tabs)
next
  case (Inr v)
  from writesD(1) [OF RefreshTokenRepository_RevokeAllForUser_writes run [unfolded Inr]]
  obtain x now where x: "uuid_in w uid = Some x"
    and b: "tabs w' = (tabs w)\<lparr>refresh_tokens :=
       update_rows (\<lambda>t. rt_UserID t = x \<and> rt_RevokedAt t = None)
         (\<lambda>t. t\<lparr>rt_RevokedAt := Some now\<rparr>) (refresh_tokens w)\<rparr>"
    by (auto simp: refresh_revoked_def)
  have "tview B (tabs w') = tview B (tabs w)" if "B \<noteq> A" for B
  proof -
    let ?Q = "\<lambda>t. list_ex (\<lambda>u. u_TenantID u = B \<and> u_ID u = rt_UserID t) (users w)"
    have "filter ?Q (update_rows (\<lambda>t. rt_UserID t = x \<and> rt_RevokedAt t = None)
         (\<lambda>t. t\<lparr>rt_RevokedAt := Some now\<rparr>) (refresh_tokens w)) = filter ?Q (refresh_tokens w)"
      using own x that by (intro update_rows_disjoint) (auto simp: list_ex_iff)
    then show ?thesis unfolding b by (simp add: tview_def)
  qed
  with writes_env [OF RefreshTokenRepository_RevokeAllForUser_writes run] show ?thesis
    by (simp add: keeps_others_def)
qed

text \<open>Writes to the row of one key, of the tenant.\<close>

lemma key_update_tview:
  assumes "distinct (map k_ID (api_keys a))" "k \<in> set (api_keys a)" "k_TenantID k = A" "B \<noteq> A"
    and "\<And>r. P r \<Longrightarrow> k_ID r = k_ID k" and "\<And>r. k_TenantID (f r) = k_TenantID r"
  shows "tview B (a\<lparr>api_keys := update_rows P f (api_keys a)\<rparr>) = tview B a"
proof (rule tview_upd(2), rule update_rows_disjoint)
  fix r
  assume "r \<in> set (api_keys a)" "P r"
  with assms have "r = k" by (auto simp: distinct_map dest: inj_onD)
  with assms show "k_TenantID r \<noteq> B \<and> k_TenantID (f r) \<noteq> B" by simp
qed

lemma Deactivate_keeps:
  assumes run: "APIKeyRepository_Deactivate i w = (r, w')"
    and ids: "distinct (map k_ID (api_keys w))"
    and k: "k \<in> set (api_keys w)" "uuid_in w i = Some (k_ID k)" "k_TenantID k = A"
  shows "keeps_others A w w'"
proof (cases r)
  case (Inl e)
  with writesD(2) [OF APIKeyRepository_Deactivate_writes run [unfolded Inl]]
    writes_env [OF APIKeyRepository_Deactivate_writes run]
  show ?thesis by (simp add: keeps_others_tabs)
next
  case (Inr v)
  from writesD(1) [OF APIKeyRepository_Deactivate_writes run [unfolded Inr]] k(2)
  obtain now where b: "tabs w' = (tabs w)\<lparr>api_keys :=
     update_rows (\<lambda>r. k_ID r = k_ID k \<and> k_RevokedAt r = None)
       (\<lambda>r. r\<lparr>k_IsActive := False, k_RevokedAt := Some now\<rparr>) (api_keys (tabs w))\<rparr>"
    by (auto simp: key_revoked_def)
  have "tview B (tabs w') = tview B (tabs w)" if "B \<noteq> A" for B
    unfolding b by (rule key_update_tview [of "tabs w" k A]) (use ids k that in auto)
  with writes_env [OF APIKeyRepository_Deactivate_writes run] show ?thesis
    by (simp add: keeps_others_def)
qed

end
