(* ===== verification/RouteIsolation.thy ===== *)
theory RouteIsolation
  imports Isolation
begin

text \<open>
  Tenant isolation of the authenticated routes: service by service, handler by handler, and for
  the whole chain. \<open>wired\<close> says that the dependencies are the ones \<^verbatim>\<open>cmd/api/main.go\<close> builds:
  the SQL repositories behind every interface, and an object store and notifier that do not write
  to the database.
\<close>

definition quiet :: "(world, 'a) op \<Rightarrow> bool" where
  "quiet f \<longleftrightarrow> (\<forall>w r w'. f w = (r, w') \<longrightarrow> tabs w' = tabs w \<and> uuid_in w' = uuid_in w)"

definition wired_services :: "services \<Rightarrow> bool" where
  "wired_services h \<longleftrightarrow> sv_users h = user_repo \<and> sv_tenants h = tenant_repo
     \<and> sv_usage h = usage_repo \<and> es_jobs (sv_exports h) = export_repo
     \<and> (\<exists>m lib bc. sv_auth h = sql_auth m lib bc)
     \<and> (\<forall>k ttl. quiet (os_PresignGet (es_store (sv_exports h)) k ttl))
     \<and> (\<forall>j t. quiet (nt_Publish (es_notifier (sv_exports h)) j t))"

definition wired :: "deps \<Rightarrow> bool" where
  "wired d \<longleftrightarrow> wired_services (d_services d)
     \<and> ad_tenants (d_auth d) = TenantService_Get tenant_repo
     \<and> d_usage d = UsageService_Record usage_repo
     \<and> d_entitlements d = EntitlementService_HasFeature"

lemma confined_quiet: "quiet f \<Longrightarrow> confined env A f"
  by (auto simp: quiet_def confined_def intro: keeps_others_tabs)

section \<open>Services\<close>

lemma confined_UserService [confined_rules]:
  assumes "env (TenantID scope) = Some A"
  shows "confined env A (UserService_Get user_repo scope i)"
    "confined env A (UserService_Me user_repo scope)"
    "confined env A (UserService_List user_repo scope p n)"
    "confined env A (UserService_UpdateRole user_repo scope i role)"
    "confined env A (UserService_SetActive user_repo scope i active)"
proof -
  show g: "confined env A (UserService_Get user_repo scope i)" for i
    unfolding UserService_Get_def user_repo_sel by (intro confined_rules)
  show "confined env A (UserService_Me user_repo scope)"
    unfolding UserService_Me_def user_repo_sel by (intro confined_rules g)
  show "confined env A (UserService_List user_repo scope p n)"
    unfolding UserService_List_def user_repo_sel by (intro confined_rules)
  have a: "confined env A (require_other_admin user_repo scope m)" for m
    unfolding require_other_admin_def user_repo_sel by (intro confined_rules)
  show "confined env A (UserService_UpdateRole user_repo scope i role)"
    unfolding UserService_UpdateRole_def Let_def user_repo_sel
    by (intro confined_rules g a assms)
  show "confined env A (UserService_SetActive user_repo scope i active)"
    unfolding UserService_SetActive_def user_repo_sel
    by (intro confined_rules g a assms)
qed

lemma confined_TenantService_Current [confined_rules]:
  "confined env A (TenantService_Current tenant_repo scope)"
  unfolding TenantService_Current_def tenant_repo_sel by (intro confined_rules)

lemma confined_TenantService [confined_rules]:
  "confined env A (TenantService_GetForScope tenant_repo scope i)"
  "confined env A (TenantService_ListForScope tenant_repo scope)"
  "confined env A (TenantService_Get tenant_repo i)"
proof -
  show "confined env A (TenantService_GetForScope tenant_repo scope i)"
    unfolding TenantService_GetForScope_def tenant_repo_sel by (intro confined_rules)
  show "confined env A (TenantService_ListForScope tenant_repo scope)"
    unfolding TenantService_ListForScope_def tenant_repo_sel by (intro confined_rules)
  show "confined env A (TenantService_Get tenant_repo i)"
    unfolding TenantService_Get_def tenant_repo_sel by (intro confined_rules)
qed

text \<open>The tenant's own update: the row written is the one read.\<close>

lemma UpdateForScope_keeps:
  assumes run: "TenantService_UpdateForScope tenant_repo scope i inp w = (r, w')"
    and ids: "ids_ok (uuid_in w) (tabs w)" and A: "uuid_in w (TenantID scope) = Some A"
  shows "keeps_others A w w'"
proof (rule ccontr)
  assume bad: "\<not> keeps_others A w w'"
  have named: "\<exists>t1. t_ID t1 = t_ID t \<and> (\<exists>q. TenantRepository_Update t1 s = (q, w'))"
    if "TenantRepository_Update (t\<lparr>t_Name := n\<rparr>) s = (q, w')" for t n s q w'
    using that by (intro exI [of _ "t\<lparr>t_Name := n\<rparr>"]) auto
  have cur: "confined (uuid_in w) A (TenantService_Current tenant_repo scope)"
    by (rule confined_TenantService_Current)
  obtain q1 s1 where c1: "TenantService_Current tenant_repo scope w = (q1, s1)"
    by (cases "TenantService_Current tenant_repo scope w")
  note k1 = confinedD [OF cur c1 refl]
  have "w' \<noteq> w" "w' \<noteq> s1" using bad k1 by auto
  with run c1 have "\<exists>t s1 t1 q. TenantService_Current tenant_repo scope w = (Inr t, s1)
      \<and> t_ID t1 = t_ID t \<and> TenantRepository_Update t1 s1 = (q, w')"
    by (auto simp: TenantService_UpdateForScope_def bind_op_def guard_op_def map_err_def fail_def
        ret_def Let_def split: if_splits option.splits sum.splits prod.splits dest: named)
  then obtain t s1 t1 q where c: "TenantService_Current tenant_repo scope w = (Inr t, s1)"
    and t1: "t_ID t1 = t_ID t" and u: "TenantRepository_Update t1 s1 = (q, w')" by blast
  from tr.Current_row [OF c] A have tA: "t_ID t = A" "t \<in> set (tenants w)" by auto
  with ids have env: "uuid_in w A = Some A" by (auto simp: ids_ok_def)
  have "confined (uuid_in w) A (TenantRepository_Update t1)"
    by (rule confined_writes [OF TenantRepository_Update_writes])
      (auto simp: tenant_updated_def t1 tA env intro!: tview_upd update_rows_disjoint)
  from confinedD [OF this u] tr.Current_frame [OF c] confinedD [OF cur c refl] bad
  show False by (auto dest: keeps_others_trans)
qed

lemma confined_Generate [confined_rules]:
  assumes "env tid = Some A"
  shows "confined env A (APIKeyService_Generate prefix tid cb name)"
proof -
  have "confined env A (GenerateAPIKey prefix)"
    by (auto simp: confined_def intro!: keeps_others_tabs dest!: GenerateAPIKey_keeps)
  then show ?thesis
    unfolding APIKeyService_Generate_def Let_def split_beta
    by (intro confined_rules) (use assms in auto)
qed

lemma GetByID_keeps:
  assumes "APIKeyRepository_GetByID i w = (r, w1)"
  shows "keeps_others A w w1" "tabs w1 = tabs w" "uuid_in w1 = uuid_in w"
  using read_onlyD(1) [OF read_only_key_repo(3) assms] read_only_keeps(10) [OF read_only_key_repo(3) assms]
  by (simp_all add: keeps_others_tabs)

lemma own_key:
  assumes "APIKeyRepository_GetByID i w = (Inr k, w1)" "k_TenantID k = tid"
    and "ids_ok (uuid_in w) (tabs w)" "uuid_in w tid = Some A"
  shows "k \<in> set (api_keys w)" "uuid_in w i = Some (k_ID k)" "k_TenantID k = A"
    "distinct (map k_ID (api_keys w))"
  using APIKeyRepository_GetByID_Inr [OF assms(1)] assms(2-) by (auto simp: ids_ok_def)

lemma Deactivate_service_keeps:
  assumes run: "APIKeyService_Deactivate tid i w = (r, w')"
    and ids: "ids_ok (uuid_in w) (tabs w)" "uuid_in w tid = Some A"
  shows "keeps_others A w w'"
proof -
  obtain q w1 where g: "APIKeyRepository_GetByID i w = (q, w1)"
    by (cases "APIKeyRepository_GetByID i w")
  note k1 = GetByID_keeps [OF g]
  show ?thesis
  proof (cases "\<exists>k. q = Inr k \<and> k_TenantID k = tid")
    case False
    with run g have "w' = w1"
      by (cases q) (auto simp: APIKeyService_Deactivate_def bind_op_def map_err_def fail_def)
    with k1 show ?thesis by simp
  next
    case True
    then obtain k where k: "q = Inr k" "k_TenantID k = tid" by blast
    with run g have d: "APIKeyRepository_Deactivate i w1 = (r, w')"
      by (simp add: APIKeyService_Deactivate_def bind_op_def map_err_def)
    note own = own_key [OF g [unfolded k(1)] k(2) ids]
    have "keeps_others A w1 w'"
      by (rule Deactivate_keeps [OF d, of k]) (use own tabs_eqD [OF k1(2)] k1(3) in auto)
    with k1(1) show ?thesis by (rule keeps_others_trans)
  qed
qed

lemma Rotate_service_keeps:
  assumes run: "APIKeyService_Rotate prefix tid i cb w = (r, w')"
    and ids: "ids_ok (uuid_in w) (tabs w)" "uuid_in w tid = Some A"
  shows "keeps_others A w w'"
proof -
  obtain q w1 where g: "APIKeyRepository_GetByID i w = (q, w1)"
    by (cases "APIKeyRepository_GetByID i w")
  note k1 = GetByID_keeps [OF g]
  show ?thesis
  proof (cases "\<exists>k. q = Inr k \<and> k_TenantID k = tid")
    case False
    with run g have "w' = w1"
      by (cases q) (auto simp: APIKeyService_Rotate_def bind_op_def map_err_def fail_def)
    with k1 show ?thesis by simp
  next
    case True
    then obtain k where k: "q = Inr k" "k_TenantID k = tid" by blast
    let ?gen = "APIKeyService_Generate prefix tid cb (k_Name k)"
    from k run g have rest: "bind_op (tolerate_missing ''apikey: deactivate old key''
        (APIKeyRepository_Deactivate i)) (\<lambda>_. ?gen) w1 = (r, w')"
      by (simp add: APIKeyService_Rotate_def bind_op_def map_err_def)
    note own = own_key [OF g [unfolded k(1)] k(2) ids]
    obtain q2 w2 where d: "APIKeyRepository_Deactivate i w1 = (q2, w2)"
      by (cases "APIKeyRepository_Deactivate i w1")
    have k2: "keeps_others A w1 w2"
      by (rule Deactivate_keeps [OF d, of k]) (use own tabs_eqD [OF k1(2)] k1(3) in auto)
    have gen: "confined (uuid_in w) A ?gen"
      by (rule confined_Generate) (rule ids(2))
    have env2: "uuid_in w2 = uuid_in w" using k1(3) k2 by (simp add: keeps_others_def)
    from rest d have "w' = w2 \<or> ?gen w2 = (r, w')"
      by (auto simp: bind_op_def tolerate_missing_def split: sum.splits if_splits)
    with k2 confinedD [OF gen _ env2] have "keeps_others A w1 w'"
      by (auto intro: keeps_others_trans)
    with k1(1) show ?thesis by (rule keeps_others_trans)
  qed
qed

lemma confined_entitlements [confined_rules]:
  "confined env A EntitlementService_ListFeatureCatalog"
  "confined env A (EntitlementService_ListEnabledFeatures t p)"
  "confined env A (EntitlementService_HasFeature t p k)"
  unfolding EntitlementService_ListFeatureCatalog_def EntitlementService_ListEnabledFeatures_def
    EntitlementService_HasFeature_def
  by (intro confined_rules)+

lemma confined_activity [confined_rules]:
  "confined env A (UsageService_List usage_repo t e m f u p n)"
  "confined env A (UsageService_Summary usage_repo t f u)"
  "confined env A (AuditService_List t ev p n)"
  "confined env A (AuditService_GetForTenant t i)"
  "confined env A (APIKeyService_ListByTenant t)"
  "confined env A (AuthService_CurrentUser (sql_auth mm lib bc) i)"
  unfolding UsageService_List_def UsageService_Summary_def AuditService_List_def
    AuditService_GetForTenant_def APIKeyService_ListByTenant_def AuthService_CurrentUser_def
    usage_repo_sel sql_auth_sel
  by (intro confined_rules)+

lemma confined_publish [confined_rules]:
  "(\<And>j t. quiet (nt_Publish (es_notifier s) j t)) \<Longrightarrow> confined env A (publish_best_effort s job)"
  by (fastforce simp: confined_def publish_best_effort_def quiet_def
      intro: keeps_others_tabs split: prod.splits sum.splits)

lemma confined_exports [confined_rules]:
  assumes "es_jobs s = export_repo" "env (TenantID scope) = Some A"
    and "\<And>k ttl. quiet (os_PresignGet (es_store s) k ttl)"
    and "\<And>j t. quiet (nt_Publish (es_notifier s) j t)"
  shows "confined env A (ExportService_Request s scope inp)"
    "confined env A (ExportService_Get s scope i)"
    "confined env A (ExportService_List s scope p n)"
    "confined env A (ExportService_DownloadURL s scope i)"
proof -
  show "confined env A (ExportService_Request s scope inp)"
    unfolding ExportService_Request_def Let_def assms(1) export_repo_sel
    by (intro confined_rules) (use assms in auto)
  show g: "confined env A (ExportService_Get s scope i)"
    unfolding ExportService_Get_def assms(1) export_repo_sel by (intro confined_rules)
  show "confined env A (ExportService_List s scope p n)"
    unfolding ExportService_List_def assms(1) export_repo_sel by (intro confined_rules)
  have fin: "confined env A (\<lambda>w. (Inr (F w), w))" for F :: "world \<Rightarrow> Download"
    by (auto simp: confined_def)
  show "confined env A (ExportService_DownloadURL s scope i)"
    unfolding ExportService_DownloadURL_def
    by (intro confined_rules g fin confined_quiet assms)
qed

end
