(* ===== verification/HandlerIsolation.thy ===== *)
theory HandlerIsolation
  imports RouteIsolation
begin

text \<open>
  Tenant isolation of the handlers and of the chain in front of them: a request that acts for
  tenant \<open>A\<close> leaves the part of every other tenant as it was.
\<close>

text \<open>
  The identity on a request: its tenant is \<open>A\<close>, and its user, if it names one, is one of \<open>A\<close>'s.
\<close>

definition identity_of :: "string \<Rightarrow> AuthContext \<Rightarrow> world \<Rightarrow> bool" where
  "identity_of A ac w \<longleftrightarrow> uuid_in w (ac_TenantID ac) = Some A
     \<and> (\<forall>u \<in> set (users w). uuid_in w (ac_UserID ac) = Some (u_ID u) \<longrightarrow> u_TenantID u = A)"

definition acts_for :: "string \<Rightarrow> Request \<Rightarrow> world \<Rightarrow> bool" where
  "acts_for A r w \<longleftrightarrow> (\<exists>ac. AuthFromContext r = Some ac \<and> identity_of A ac w)
     \<and> ids_ok (uuid_in w) (tabs w)"

definition handler_confined :: "string \<Rightarrow> handler \<Rightarrow> bool" where
  "handler_confined A hnd \<longleftrightarrow> (\<forall>r rw w p rw' w'.
     acts_for A r w \<longrightarrow> hnd r rw w = (p, rw', w') \<longrightarrow> keeps_others A w w')"

lemma handler_confinedI:
  assumes "\<And>r rw w p rw' w'. acts_for A r w \<Longrightarrow> hnd r rw w = (p, rw', w') \<Longrightarrow> keeps_others A w w'"
  shows "handler_confined A hnd"
  using assms by (auto simp: handler_confined_def)

lemma acts_for_scope:
  "acts_for A r w \<Longrightarrow> uuid_in w (TenantID (ScopeFromContext r)) = Some A"
  by (auto simp: acts_for_def identity_of_def ScopeFromContext_def)

lemma acts_for_zero:
  "acts_for A r w \<Longrightarrow> uuid_in w (ac_TenantID (AuthOrZero r)) = Some A"
  by (auto simp: acts_for_def identity_of_def AuthOrZero_def)

lemma acts_for_ids: "acts_for A r w \<Longrightarrow> ids_ok (uuid_in w) (tabs w)"
  by (simp add: acts_for_def)

lemma keeps_env: "keeps_others A w w1 \<Longrightarrow> uuid_in w1 = uuid_in w"
  by (simp add: keeps_others_def)

lemma keeps_audit:
  assumes "keeps_others A w w1" "\<And>t. ai_TenantID inp = Some t \<Longrightarrow> uuid_in w t = Some A"
  shows "keeps_others A w (AuditService_Record inp w1)"
  by (rule keeps_others_trans [OF assms(1)], rule AuditService_Record_keeps)
    (simp add: keeps_env [OF assms(1)] assms(2))

lemma event_tenant [simp]: "ai_TenantID (event r tid aid ev meta) = tid"
  by (simp add: event_def)

lemma scope_event_tenant [simp]:
  "ai_TenantID (scope_event r ev meta) = strPtrOrNil (TenantID (ScopeFromContext r))"
  by (simp add: scope_event_def Let_def)

lemma strPtrOrNil_Some [simp]: "strPtrOrNil s = Some t \<longleftrightarrow> s = t \<and> s \<noteq> ''''"
  by (auto simp: strPtrOrNil_def)

lemma keeps_scope_event:
  assumes "acts_for A r w" "keeps_others A w w1"
  shows "keeps_others A w (AuditService_Record (scope_event r ev meta) w1)"
  using assms(2) by (rule keeps_audit) (use acts_for_scope [OF assms(1)] in auto)

lemma keeps_cross:
  assumes "acts_for A r w" "keeps_others A w w1"
  shows "keeps_others A w (auditIfCrossTenant r res i err w1)"
  using assms by (simp add: auditIfCrossTenant_def keeps_scope_event)

lemma confined_run:
  assumes "confined (uuid_in w) A f"
  obtains q w1 where "f w = (q, w1)" "keeps_others A w w1"
  using confinedD [OF assms] by (cases "f w") auto

lemmas keeps_intros = keeps_scope_event keeps_cross

text \<open>The services' operations, called with the identity of the request.\<close>

lemma acts_keeps:
  assumes "acts_for A r w" "f w = (q, w1)"
    and "\<And>env. env (TenantID (ScopeFromContext r)) = Some A \<Longrightarrow>
           env (ac_TenantID (AuthOrZero r)) = Some A \<Longrightarrow> confined env A f"
  shows "keeps_others A w w1"
  by (rule confinedD [OF assms(3) assms(2) refl])
    (rule acts_for_scope acts_for_zero, rule assms(1))+

lemma calls_keep:
  assumes "acts_for A r w"
  shows "UserService_Get user_repo (ScopeFromContext r) i w = (q1, w1) \<Longrightarrow> keeps_others A w w1"
    "UserService_Me user_repo (ScopeFromContext r) w = (q1, w1) \<Longrightarrow> keeps_others A w w1"
    "UserService_List user_repo (ScopeFromContext r) p n w = (q2, w1) \<Longrightarrow> keeps_others A w w1"
    "UserService_UpdateRole user_repo (ScopeFromContext r) i role w = (q3, w1) \<Longrightarrow>
       keeps_others A w w1"
    "UserService_SetActive user_repo (ScopeFromContext r) i active w = (q1, w1) \<Longrightarrow>
       keeps_others A w w1"
    "TenantService_Current tenant_repo (ScopeFromContext r) w = (q4, w1) \<Longrightarrow> keeps_others A w w1"
    "TenantService_GetForScope tenant_repo (ScopeFromContext r) i w = (q4, w1) \<Longrightarrow>
       keeps_others A w w1"
    "TenantService_ListForScope tenant_repo (ScopeFromContext r) w = (q5, w1) \<Longrightarrow>
       keeps_others A w w1"
    "APIKeyService_Generate prefix (ac_TenantID (AuthOrZero r)) cb nm w = (q6, w1) \<Longrightarrow>
       keeps_others A w w1"
  by (erule acts_keeps [OF assms], intro confined_rules, assumption?)+

lemma export_calls_keep:
  assumes "wired_services h" "acts_for A r w"
  shows "ExportService_Request (sv_exports h) (ScopeFromContext r) inp w = (q1, w1) \<Longrightarrow>
       keeps_others A w w1"
    "ExportService_Get (sv_exports h) (ScopeFromContext r) i w = (q1, w1) \<Longrightarrow> keeps_others A w w1"
    "ExportService_List (sv_exports h) (ScopeFromContext r) p n w = (q2, w1) \<Longrightarrow>
       keeps_others A w w1"
    "ExportService_DownloadURL (sv_exports h) (ScopeFromContext r) i w = (q3, w1) \<Longrightarrow>
       keeps_others A w w1"
  using assms(1) unfolding wired_services_def
  by (auto elim!: acts_keeps [OF assms(2)] intro!: confined_exports)

lemma plain_calls_keep:
  "EntitlementService_ListFeatureCatalog w = (q1, w1) \<Longrightarrow> keeps_others A w w1"
  "EntitlementService_ListEnabledFeatures t p w = (q2, w1) \<Longrightarrow> keeps_others A w w1"
  "UsageService_List usage_repo t e m f u pg n w = (q3, w1) \<Longrightarrow> keeps_others A w w1"
  "UsageService_Summary usage_repo t f u w = (q4, w1) \<Longrightarrow> keeps_others A w w1"
  "AuditService_List t ev pg n w = (q5, w1) \<Longrightarrow> keeps_others A w w1"
  "AuditService_GetForTenant t i w = (q6, w1) \<Longrightarrow> keeps_others A w w1"
  "APIKeyService_ListByTenant t w = (q7, w1) \<Longrightarrow> keeps_others A w w1"
  "AuthService_CurrentUser (sql_auth mm lib bc) i w = (q8, w1) \<Longrightarrow> keeps_others A w w1"
  by (erule confinedD [OF _ _ refl, rotated], intro confined_rules)+

section \<open>The handlers\<close>

text \<open>Handlers that answer with the result of one confined call and change nothing more.\<close>

lemma reading_handlers:
  assumes "wired_services h"
  shows "handler_confined A (TenantHandler_Current h)" "handler_confined A (TenantHandler_List h)"
    "handler_confined A (UserHandler_List h)" "handler_confined A (UserHandler_Me h)"
    "handler_confined A (EntitlementHandler_ListCatalog h)"
    "handler_confined A (EntitlementHandler_ListMine h)"
    "handler_confined A (APIKeyHandler_List h)" "handler_confined A (AuthHandler_Me h)"
    "handler_confined A (UsageHandler_List h)" "handler_confined A (UsageHandler_Summary h)"
    "handler_confined A (AuditHandler_List h)" "handler_confined A (AuditHandler_Get h)"
  using assms unfolding wired_services_def
  by (auto intro!: handler_confinedI simp: TenantHandler_Current_def TenantHandler_List_def
      UserHandler_List_def UserHandler_Me_def EntitlementHandler_ListCatalog_def
      EntitlementHandler_ListMine_def APIKeyHandler_List_def AuthHandler_Me_def
      UsageHandler_List_def UsageHandler_Summary_def AuditHandler_List_def AuditHandler_Get_def
      answer_def Let_def split: prod.splits sum.splits option.splits if_splits
      intro: calls_keep plain_calls_keep)

text \<open>Handlers that record an event about their tenant.\<close>

lemma tenant_handlers:
  assumes "wired_services h"
  shows "handler_confined A (TenantHandler_Get h)" "handler_confined A (TenantHandler_Update h)"
proof -
  note W = assms [unfolded wired_services_def]
  show "handler_confined A (TenantHandler_Get h)"
    by (rule handler_confinedI, use W in \<open>auto simp: TenantHandler_Get_def answer_def Let_def
        split: prod.splits sum.splits
        intro: keeps_cross calls_keep\<close>)
  show "handler_confined A (TenantHandler_Update h)"
  proof (rule handler_confinedI)
    fix r rw w p rw' w'
    assume acts: "acts_for A r w" and run: "TenantHandler_Update h r rw w = (p, rw', w')"
    let ?scope = "ScopeFromContext r"
    have step: "keeps_others A w w1"
      if "TenantService_UpdateForScope tenant_repo ?scope i inp w = (q, w1)" for i inp q w1
      by (rule UpdateForScope_keeps [OF that acts_for_ids acts_for_scope]) (rule acts acts)+
    have own: "uuid_in w (t_ID t) = Some A"
      if "TenantService_UpdateForScope tenant_repo ?scope i inp w = (Inr t, w1)" for i inp t w1
    proof -
      from tr.UpdateForScope_Inr(5) [OF that] obtain t0 where "t0 \<in> set (tenants w)"
        "uuid_in w (TenantID ?scope) = Some (t_ID t0)" "t_ID t = t_ID t0"
        by (auto simp: t_fixed_def)
      with acts_for_scope [OF acts] acts_for_ids [OF acts] show ?thesis
        by (auto simp: ids_ok_def)
    qed
    from run W show "keeps_others A w w'"
      by (auto simp: TenantHandler_Update_def answer_def Let_def
          split: prod.splits sum.splits option.splits dest: own intro!: keeps_audit intro: step)
  qed
qed

lemma user_handlers:
  assumes "wired_services h"
  shows "handler_confined A (UserHandler_Get h)" "handler_confined A (UserHandler_UpdateRole h)"
    "handler_confined A (UserHandler_SetActive h)"
proof -
  note W = assms [unfolded wired_services_def]
  show "handler_confined A (UserHandler_Get h)"
    by (rule handler_confinedI, use W in \<open>auto simp: UserHandler_Get_def answer_def
        split: prod.splits sum.splits
        intro: keeps_cross calls_keep\<close>)
  show "handler_confined A (UserHandler_UpdateRole h)"
    by (rule handler_confinedI, use W in \<open>auto simp: UserHandler_UpdateRole_def answer_def Let_def
        split: prod.splits sum.splits option.splits
        intro: keeps_intros calls_keep\<close>)
  show "handler_confined A (UserHandler_SetActive h)"
    by (rule handler_confinedI, use W in \<open>auto simp: UserHandler_SetActive_def answer_def Let_def
        split: prod.splits sum.splits option.splits
        intro: keeps_intros calls_keep\<close>)
qed

lemma apikey_handlers:
  assumes "wired_services h"
  shows "handler_confined A (APIKeyHandler_Generate h)" "handler_confined A (APIKeyHandler_Rotate h)"
    "handler_confined A (APIKeyHandler_Deactivate h)"
proof -
  show "handler_confined A (APIKeyHandler_Generate h)"
    by (rule handler_confinedI, auto simp: APIKeyHandler_Generate_def answer_def Let_def
        split: prod.splits sum.splits dest: acts_for_zero
        intro!: keeps_audit intro: calls_keep)
  show "handler_confined A (APIKeyHandler_Rotate h)"
    by (rule handler_confinedI, auto simp: APIKeyHandler_Rotate_def answer_def Let_def
        split: prod.splits sum.splits dest: acts_for_zero
        intro!: keeps_audit intro: Rotate_service_keeps [OF _ acts_for_ids acts_for_zero])
  show "handler_confined A (APIKeyHandler_Deactivate h)"
    by (rule handler_confinedI, auto simp: APIKeyHandler_Deactivate_def answer_def Let_def
        split: prod.splits sum.splits dest: acts_for_zero
        intro!: keeps_audit intro: Deactivate_service_keeps [OF _ acts_for_ids acts_for_zero])
qed

lemma export_handlers:
  assumes "wired_services h"
  shows "handler_confined A (ExportHandler_Create h)" "handler_confined A (ExportHandler_List h)"
    "handler_confined A (ExportHandler_Get h)" "handler_confined A (ExportHandler_DownloadURL h)"
proof -
  note E = export_calls_keep [OF assms]
  show "handler_confined A (ExportHandler_Create h)"
    by (rule handler_confinedI, auto simp: ExportHandler_Create_def answer_def
        split: prod.splits sum.splits option.splits
        intro: keeps_intros E)
  show "handler_confined A (ExportHandler_List h)"
    by (rule handler_confinedI, auto simp: ExportHandler_List_def answer_def
        split: prod.splits sum.splits intro: E)
  show "handler_confined A (ExportHandler_DownloadURL h)"
    by (rule handler_confinedI, auto simp: ExportHandler_DownloadURL_def answer_def Let_def
        split: prod.splits sum.splits
        intro: keeps_intros E)
  show "handler_confined A (ExportHandler_Get h)"
  proof (rule handler_confinedI)
    fix r rw w p rw' w'
    assume acts: "acts_for A r w" and run: "ExportHandler_Get h r rw w = (p, rw', w')"
    have conf: "confined (uuid_in w) A (ExportService_DownloadURL (sv_exports h) (ScopeFromContext r) i)"
      for i
      by (rule confined_exports(4))
        (use assms acts_for_scope [OF acts] in \<open>auto simp: wired_services_def\<close>)
    note g = E(2) [OF acts]
    have d: "keeps_others A w w2"
      if "keeps_others A w w1"
        "ExportService_DownloadURL (sv_exports h) (ScopeFromContext r) i w1 = (q, w2)" for i q w1 w2
      by (rule keeps_others_trans [OF that(1) confinedD [OF conf that(2) keeps_env [OF that(1)]]])
    from run show "keeps_others A w w'"
      by (auto simp: ExportHandler_Get_def answer_def Let_def
          split: prod.splits sum.splits if_splits dest: g intro: d g)
  qed
qed

lemma logout_handler:
  assumes "wired_services h"
  shows "handler_confined A (AuthHandler_Logout h)"
proof (rule handler_confinedI)
  fix r rw w p rw' w'
  assume acts: "acts_for A r w" and run: "AuthHandler_Logout h r rw w = (p, rw', w')"
  then obtain ac where ac: "AuthFromContext r = Some ac" "identity_of A ac w"
    by (auto simp: acts_for_def)
  from assms obtain m lib bc where s: "sv_auth h = sql_auth m lib bc"
    by (auto simp: wired_services_def)
  have step: "keeps_others A w w1"
    if "RefreshTokenRepository_RevokeAllForUser (ac_UserID ac) w = (q, w1)" for q w1
    by (rule RevokeAll_keeps [OF that]) (use ac(2) in \<open>auto simp: identity_of_def\<close>)
  from run ac s show "keeps_others A w w'"
    by (auto simp: AuthHandler_Logout_def AuthService_Logout_def answer_def identity_of_def
        split: prod.splits sum.splits if_splits intro!: keeps_audit intro: step)
qed

end
