(* ===== verification/ChainIsolation.thy ===== *)
theory ChainIsolation
  imports HandlerIsolation
begin

text \<open>
  Tenant isolation of the chain in front of the authenticated routes: resolving the identity,
  the role and feature gates, the rate limiter and the metering of usage.
\<close>

section \<open>The identity carries over\<close>

lemma acts_for_cong:
  assumes "acts_for A r w" "AuthFromContext r' = AuthFromContext r" "users w' = users w"
    "uuid_in w' = uuid_in w" "ids_ok (uuid_in w') (tabs w')"
  shows "acts_for A r' w'"
  using assms by (auto simp: acts_for_def identity_of_def)

lemma acts_for_same_tabs:
  assumes "acts_for A r w" "tabs w' = tabs w" "uuid_in w' = uuid_in w"
  shows "acts_for A r w'"
  using assms tabs_eqD(2) [OF assms(2)] by (intro acts_for_cong [OF assms(1)]) (auto simp: acts_for_def)

lemma handler_confinedD:
  "handler_confined A hnd \<Longrightarrow> acts_for A r w \<Longrightarrow> hnd r rw w = (p, rw', w') \<Longrightarrow> keeps_others A w w'"
  by (auto simp: handler_confined_def)

section \<open>The gates\<close>

lemma acts_for_event:
  assumes "acts_for A r w" "AuthFromContext r = Some ac"
  shows "uuid_in w (ac_TenantID ac) = Some A"
  using assms by (auto simp: acts_for_def identity_of_def)

lemma RequireRole_confined:
  assumes "handler_confined A hnd"
  shows "handler_confined A (RequireRole role hnd)"
proof (rule handler_confinedI)
  fix r rw w p rw' w'
  assume acts: "acts_for A r w" and run: "RequireRole role hnd r rw w = (p, rw', w')"
  then obtain ac where ac: "AuthFromContext r = Some ac" by (auto simp: acts_for_def)
  show "keeps_others A w w'"
  proof (cases "RoleAtLeast (ac_Role ac) role")
    case True
    with run ac show ?thesis by (auto simp: RequireRole_def intro: handler_confinedD [OF assms acts])
  next
    case False
    with run ac show ?thesis
      by (auto simp: RequireRole_def denied_event_def acts_for_event [OF acts ac] intro!: keeps_audit)
  qed
qed

lemma HasFeature_keeps:
  assumes "EntitlementService_HasFeature t p k w = (q, w1)"
  shows "tabs w1 = tabs w" "uuid_in w1 = uuid_in w"
proof -
  have "read_only (EntitlementService_HasFeature t p k)"
    unfolding EntitlementService_HasFeature_def
    by (intro frame_rules read_only_TenantHasFeature)
  from read_onlyD(1) [OF this assms] read_only_keeps(10) [OF this assms]
  show "tabs w1 = tabs w" "uuid_in w1 = uuid_in w" .
qed

lemma RequireFeature_confined:
  assumes "handler_confined A hnd"
  shows "handler_confined A (RequireFeature EntitlementService_HasFeature feature hnd)"
proof (rule handler_confinedI)
  fix r rw w p rw' w'
  assume acts: "acts_for A r w"
    and run: "RequireFeature EntitlementService_HasFeature feature hnd r rw w = (p, rw', w')"
  then obtain ac where ac: "AuthFromContext r = Some ac" by (auto simp: acts_for_def)
  obtain q w1 where h:
    "EntitlementService_HasFeature (ac_TenantID ac) (ac_TenantPlan ac) feature w = (q, w1)"
    by (cases "EntitlementService_HasFeature (ac_TenantID ac) (ac_TenantPlan ac) feature w")
  note same = HasFeature_keeps [OF h]
  have k1: "keeps_others A w w1" using same by (rule keeps_others_tabs)
  have hnd: "keeps_others A w w'" if "hnd r rw w1 = (p, rw', w')"
    by (rule keeps_others_trans [OF k1 handler_confinedD [OF assms _ that]])
      (rule acts_for_same_tabs [OF acts same])
  have den: "keeps_others A w (AuditService_Record (denied_event r ac meta) w1)" for meta
    by (rule keeps_audit [OF k1]) (simp add: denied_event_def acts_for_event [OF acts ac])
  from run ac h k1 show "keeps_others A w w'"
    by (auto simp: RequireFeature_def split: sum.splits if_splits intro: hnd den)
qed

section \<open>Rate limiting and metering\<close>

lemma redis_keeps:
  "redis_Incr key w = (q, w1) \<Longrightarrow> tabs w1 = tabs w \<and> uuid_in w1 = uuid_in w"
  "redis_Expire key ttl w = (q', w1) \<Longrightarrow> tabs w1 = tabs w \<and> uuid_in w1 = uuid_in w"
  unfolding redis_Incr_def redis_Expire_def
  by (erule exec_cases; fastforce simp: same_env_def split: prod.splits option.splits)+

lemma RateLimit_decide_keeps:
  assumes "RateLimit_decide n r rw w = (admit, rw', w')"
  shows "tabs w' = tabs w" "uuid_in w' = uuid_in w"
proof -
  have e: "tabs (snd (redis_Expire key ttl w1)) = tabs w1 \<and>
      uuid_in (snd (redis_Expire key ttl w1)) = uuid_in w1" for key ttl w1
    by (cases "redis_Expire key ttl w1") (auto dest: redis_keeps)
  from assms show "tabs w' = tabs w" "uuid_in w' = uuid_in w"
    by (auto simp: RateLimit_decide_def Let_def e split: prod.splits sum.splits
        dest!: redis_keeps(1))
qed

lemma RateLimit_confined:
  assumes "handler_confined A hnd"
  shows "handler_confined A (RateLimit n hnd)"
proof (rule handler_confinedI)
  fix r rw w p rw' w'
  assume acts: "acts_for A r w" and run: "RateLimit n hnd r rw w = (p, rw', w')"
  obtain admit rw1 w1 where d: "RateLimit_decide n r rw w = (admit, rw1, w1)"
    by (cases "RateLimit_decide n r rw w")
  note same = RateLimit_decide_keeps [OF d]
  have k1: "keeps_others A w w1" using same by (rule keeps_others_tabs)
  from run d k1 show "keeps_others A w w'"
    by (auto simp: RateLimit_def split: if_splits intro: keeps_others_trans
        handler_confinedD [OF assms acts_for_same_tabs [OF acts same]])
qed

lemma UsageMetering_confined:
  assumes "handler_confined A hnd"
  shows "handler_confined A (UsageMetering (UsageService_Record usage_repo) hnd)"
proof (rule handler_confinedI)
  fix r rw w p rw' w'
  assume acts: "acts_for A r w"
    and run: "UsageMetering (UsageService_Record usage_repo) hnd r rw w = (p, rw', w')"
  obtain p1 rw1 w1 where h: "hnd r rw w = (p1, rw1, w1)" by (cases "hnd r rw w")
  note k1 = handler_confinedD [OF assms acts h]
  show "keeps_others A w w'"
  proof (cases p1)
    case (Some e)
    with run h k1 show ?thesis by (simp add: UsageMetering_def)
  next
    case None
    let ?u = "\<lparr>ri_TenantID = map_option ac_TenantID (AuthFromContext r),
       ri_Endpoint = r_Path r, ri_Method = r_Method r, ri_StatusCode = recorded_status rw1,
       ri_LatencyMS = milliseconds (clock w1 - clock w), ri_RequestID = r_RequestID r\<rparr>"
    obtain q w2 where u: "UsageService_Record usage_repo ?u w1 = (q, w2)"
      by (cases "UsageService_Record usage_repo ?u w1")
    have "confined (uuid_in w) A (UsageService_Record usage_repo ?u)"
      unfolding UsageService_Record_def usage_repo_sel
      by (intro confined_rules) (auto dest: acts_for_event [OF acts])
    from keeps_others_trans [OF k1 confinedD [OF this u keeps_env [OF k1]]]
    have "keeps_others A w w2" .
    with run h None u show ?thesis
      by (auto simp: UsageMetering_def keeps_others_def split: sum.splits)
  qed
qed

section \<open>Resolving the identity\<close>

lemma TenantService_Get_keeps:
  assumes "TenantService_Get tenant_repo i w = (q, w1)"
  shows "tabs w1 = tabs w" "uuid_in w1 = uuid_in w"
proof -
  have "read_only (TenantService_Get tenant_repo i)"
    unfolding TenantService_Get_def tenant_repo_sel by (intro frame_rules read_only_tenant_repo)
  from read_onlyD(1) [OF this assms] read_only_keeps(10) [OF this assms]
  show "tabs w1 = tabs w" "uuid_in w1 = uuid_in w" .
qed

text \<open>Authenticating with a key notes its use on the key's row, which is of the key's tenant.\<close>

definition key_noted :: "string \<Rightarrow> world \<Rightarrow> world \<Rightarrow> bool" where
  "key_noted A w w' \<longleftrightarrow> keeps_others A w w' \<and> users w' = users w \<and>
     (ids_ok (uuid_in w) (tabs w) \<longrightarrow> ids_ok (uuid_in w') (tabs w'))"

lemma key_noted_tabs: "tabs w' = tabs w \<Longrightarrow> uuid_in w' = uuid_in w \<Longrightarrow> key_noted A w w'"
  by (auto simp: key_noted_def intro: keeps_others_tabs dest: tabs_eqD)

lemma key_noted_trans: "key_noted A w w1 \<Longrightarrow> key_noted A w1 w2 \<Longrightarrow> key_noted A w w2"
  by (auto simp: key_noted_def intro: keeps_others_trans)

lemma ids_ok_noted:
  assumes "ids_ok env a"
  shows "ids_ok env (a\<lparr>api_keys := update_rows P (\<lambda>k. k\<lparr>k_LastUsedAt := now\<rparr>) (api_keys a)\<rparr>)"
proof -
  have "map k_ID (update_rows P (\<lambda>k. k\<lparr>k_LastUsedAt := now\<rparr>) ks) = map k_ID ks" for ks
    by (induction ks) (auto simp: update_rows_def)
  with assms show ?thesis by (auto simp: ids_ok_def ball_update_rows)
qed

lemma TouchLastUsed_noted:
  assumes run: "APIKeyRepository_TouchLastUsed (k_ID k) w = (q, w')"
    and k: "k \<in> set (api_keys w)" and A: "k_TenantID k = A"
    and ids: "ids_ok (uuid_in w) (tabs w)"
  shows "key_noted A w w'"
proof (cases q)
  case (Inl e)
  with writesD(2) [OF APIKeyRepository_TouchLastUsed_writes run [unfolded Inl]]
    writes_env [OF APIKeyRepository_TouchLastUsed_writes run]
  show ?thesis by (simp add: key_noted_tabs)
next
  case (Inr v)
  from ids k have x: "uuid_in w (k_ID k) = Some (k_ID k)" by (auto simp: ids_ok_def)
  from writesD(1) [OF APIKeyRepository_TouchLastUsed_writes run [unfolded Inr]] x
  obtain now where b: "tabs w' = (tabs w)\<lparr>api_keys :=
     update_rows (\<lambda>r. k_ID r = k_ID k) (\<lambda>r. r\<lparr>k_LastUsedAt := Some now\<rparr>) (api_keys (tabs w))\<rparr>"
    by auto
  have "tview B (tabs w') = tview B (tabs w)" if "B \<noteq> A" for B
    unfolding b by (rule key_update_tview [of "tabs w" k A])
      (use ids k A that in \<open>auto simp: ids_ok_def\<close>)
  moreover have "users w' = users w" using arg_cong [OF b, of users] by simp
  ultimately show ?thesis
    using writes_env [OF APIKeyRepository_TouchLastUsed_writes run]
      ids_ok_noted [OF ids, of "\<lambda>r. k_ID r = k_ID k" "Some now"]
    by (simp add: key_noted_def keeps_others_def b)
qed

lemma Authenticate_noted:
  assumes run: "APIKeyService_Authenticate prefix key w = (q, w')"
    and ids: "ids_ok (uuid_in w) (tabs w)"
    and A: "\<And>k. q = Inr k \<Longrightarrow> k_TenantID k = A"
  shows "key_noted A w w'"
proof (cases "length key \<le> length prefix \<or> take (length prefix) key \<noteq> prefix")
  case True
  with run show ?thesis by (auto simp: APIKeyService_Authenticate_def fail_def intro: key_noted_tabs)
next
  case False
  obtain ks w1 where l: "APIKeyRepository_ListActiveByPrefix prefix w = (ks, w1)"
    by (cases "APIKeyRepository_ListActiveByPrefix prefix w")
  note same = read_onlyD(1) [OF read_only_key_repo(1) l] read_only_keeps(10) [OF read_only_key_repo(1) l]
  have n1: "key_noted A w w1" by (rule key_noted_tabs [OF same])
  show ?thesis
  proof (cases "\<exists>cs c. ks = Inr cs \<and> find (\<lambda>c. CheckToken (k_KeyHash c) key) cs = Some c")
    case False
    with run l \<open>\<not> (length key \<le> _ \<or> _)\<close> have "w' = w1"
      by (auto simp: APIKeyService_Authenticate_def bind_op_def map_err_def fail_def
          split: sum.splits option.splits)
    with n1 show ?thesis by simp
  next
    case True
    then obtain cs c where ks: "ks = Inr cs" and f: "find (\<lambda>c. CheckToken (k_KeyHash c) key) cs = Some c"
      by blast
    obtain q2 w2 where t: "APIKeyRepository_TouchLastUsed (k_ID c) w1 = (q2, w2)"
      by (cases "APIKeyRepository_TouchLastUsed (k_ID c) w1")
    from run l ks f t \<open>\<not> (length key \<le> _ \<or> _)\<close> have w': "w' = w2" "q = Inr c"
      by (auto simp: APIKeyService_Authenticate_def bind_op_def map_err_def ignore_err_def ret_def)
    from APIKeyRepository_ListActiveByPrefix_Inr [OF l [unfolded ks]] f
    have c: "c \<in> set (api_keys w1)" using tabs_eqD(5) [OF same(1)] by (auto dest!: find_Some_mem)
    have "key_noted A w1 w2"
      by (rule TouchLastUsed_noted [OF t c A [OF w'(2)]]) (use ids same in simp)
    with n1 w' show ?thesis by (auto intro: key_noted_trans)
  qed
qed

lemma Auth_resolve_noted:
  assumes ad: "ad_tenants d = TenantService_Get tenant_repo"
    and run: "Auth_resolve d r w = (Inr ac, w')"
    and ids: "ids_ok (uuid_in w) (tabs w)" and A: "uuid_in w (ac_TenantID ac) = Some A"
  shows "key_noted A w w'"
proof (cases "r_Header r ''X-API-Key'' = ''''")
  case True
  with run obtain t i where "TenantService_Get tenant_repo i w = (Inr t, w')"
    by (auto simp: Auth_resolve_def resolve_bearer_def ad Let_def
        split: prod.splits sum.splits if_splits)
  from TenantService_Get_keeps [OF this] show ?thesis by (rule key_noted_tabs)
next
  case False
  with run obtain k t w1 where
    k: "APIKeyService_Authenticate (ad_prefix d) (r_Header r ''X-API-Key'') w = (Inr k, w1)"
    and t: "TenantService_Get tenant_repo (k_TenantID k) w1 = (Inr t, w')"
    and ac: "ac_TenantID ac = k_TenantID k"
    by (auto simp: Auth_resolve_def resolve_api_key_def ad split: prod.splits sum.splits if_splits)
  from Authenticate_Inr(1) [OF k] ids ac A have "k_TenantID k = A" by (auto simp: ids_ok_def)
  then have "key_noted A w w1" by (intro Authenticate_noted [OF k ids]) auto
  from key_noted_trans [OF this key_noted_tabs [OF TenantService_Get_keeps [OF t]]] show ?thesis .
qed

text \<open>A refused request touches no tenant: at most an event without a tenant is recorded.\<close>

lemma Auth_resolve_refused:
  assumes ad: "ad_tenants d = TenantService_Get tenant_repo"
    and run: "Auth_resolve d r w = (Inl e, w')" and ids: "ids_ok (uuid_in w) (tabs w)"
    and key: "\<forall>k w1. APIKeyService_Authenticate (ad_prefix d) (r_Header r ''X-API-Key'') w = (Inr k, w1)
        \<longrightarrow> k_TenantID k = A"
  shows "keeps_others A w w'"
proof (cases "r_Header r ''X-API-Key'' = ''''")
  case True
  with run show ?thesis
    by (auto simp: Auth_resolve_def resolve_bearer_def ad Let_def
        split: prod.splits sum.splits if_splits
        intro: keeps_others_tabs dest: TenantService_Get_keeps)
next
  case False
  obtain q w1 where k: "APIKeyService_Authenticate (ad_prefix d) (r_Header r ''X-API-Key'') w = (q, w1)"
    by (cases "APIKeyService_Authenticate (ad_prefix d) (r_Header r ''X-API-Key'') w")
  have n: "keeps_others A w w1"
    using Authenticate_noted [OF k ids, of A] key k by (auto simp: key_noted_def)
  have g: "keeps_others A w w2" if "TenantService_Get tenant_repo i w1 = (q2, w2)" for i q2 w2
    by (rule keeps_others_trans [OF n keeps_others_tabs [OF TenantService_Get_keeps [OF that]]])
  have a: "keeps_others A w (AuditService_Record (unauthorized_event r m) w1)" for m
    by (rule keeps_audit [OF n]) (simp add: unauthorized_event_def)
  from run False k show ?thesis
    by (auto simp: Auth_resolve_def resolve_api_key_def ad split: prod.splits sum.splits if_splits
        intro: a dest: g) (auto simp: keeps_others_def dest: g)
qed

section \<open>The routes\<close>

lemma tenant_routes_confined:
  assumes d: "wired d" and ro: "ro \<in> set (tenant_routes d)" and m: "ro_Method ro \<noteq> ''''"
  shows "handler_confined A (ro_Handler ro)"
proof -
  have W: "wired_services (d_services d)" and E: "d_entitlements d = EntitlementService_HasFeature"
    using d by (simp_all add: wired_def)
  note H = reading_handlers [OF W] tenant_handlers [OF W] user_handlers [OF W]
    apikey_handlers [OF W] export_handlers [OF W] logout_handler [OF W]
  show ?thesis
    using ro m
    by (auto simp: tenant_routes_def Let_def route_of_def E
        intro: H H [THEN RequireRole_confined] H [THEN RequireFeature_confined])
qed

lemma authenticated_confined:
  assumes d: "wired d" and hnd: "handler_confined A hnd"
    and ids: "ids_ok (uuid_in w) (tabs w)"
    and run: "authenticated d hnd r rw w = (p, rw', w')"
    and res: "Auth_resolve (d_auth d) r w = (Inr ac, w1)" and ac: "identity_of A ac w"
  shows "keeps_others A w w'"
proof -
  have ad: "ad_tenants (d_auth d) = TenantService_Get tenant_repo"
    and us: "d_usage d = UsageService_Record usage_repo"
    using d by (simp_all add: wired_def)
  have n: "key_noted A w w1"
    by (rule Auth_resolve_noted [OF ad res ids]) (use ac in \<open>simp add: identity_of_def\<close>)
  moreover have "ac_TenantID ac \<noteq> ''''" using ac ids by (auto simp: identity_of_def ids_ok_def)
  ultimately have acts: "acts_for A (withAuth r ac) w1"
    using ac ids
    by (auto simp: acts_for_def identity_of_def key_noted_def keeps_others_def)
  have "handler_confined A (RateLimit (d_rateLimit d) (UsageMetering (d_usage d) hnd))"
    unfolding us by (intro RateLimit_confined UsageMetering_confined hnd)
  from handler_confinedD [OF this acts] run res n show ?thesis
    by (auto simp: authenticated_def Auth_def key_noted_def intro: keeps_others_trans)
qed

end
