(* ===== verification/Sample.thy ===== *)
theory Sample
  imports ChainIsolation
begin

text \<open>
  A small installation, for the properties to be applied to: two tenants with their users, one API
  key, one queued and one completed export, and stand-ins for the libraries the program links.
\<close>

section \<open>The database\<close>

definition sample_tenant :: "string \<Rightarrow> string \<Rightarrow> Plan \<Rightarrow> Tenant" where
  "sample_tenant i slug plan = \<lparr>t_ID = i, t_Name = slug, t_Slug = slug, t_Plan = plan,
     t_IsActive = True, t_CreatedAt = 0, t_UpdatedAt = 0, t_DeletedAt = None\<rparr>"

definition sample_user :: "string \<Rightarrow> string \<Rightarrow> Role \<Rightarrow> User" where
  "sample_user i tid role = \<lparr>u_ID = i, u_TenantID = tid, u_Email = i @ ''@x.io'',
     u_PasswordHash = ''#secret'', u_FirstName = '''', u_LastName = '''', u_Role = role,
     u_IsActive = True, u_LastLoginAt = None, u_CreatedAt = 0, u_UpdatedAt = 0,
     u_DeletedAt = None\<rparr>"

definition sample_job :: "string \<Rightarrow> string \<Rightarrow> ExportStatus \<Rightarrow> ExportJob" where
  "sample_job i tid status = \<lparr>j_ID = i, j_TenantID = tid, j_RequestedBy = None, j_Status = status,
     j_Endpoint = '''', j_Method = '''', j_From = None, j_To = None, j_ObjectKey = ''o.csv'',
     j_RowCount = 5, j_SizeBytes = 50, j_Attempts = 0, j_Error = '''', j_StartedAt = None,
     j_FinishedAt = None, j_CreatedAt = 0, j_UpdatedAt = 0\<rparr>"

definition sample_key :: "string \<Rightarrow> string \<Rightarrow> string \<Rightarrow> APIKey" where
  "sample_key i tid hash = \<lparr>k_ID = i, k_TenantID = tid, k_CreatedBy = None, k_Name = ''ci'',
     k_Prefix = ''bc_'', k_KeyHash = hash, k_LastFour = ''bc_1'', k_IsActive = True,
     k_LastUsedAt = None, k_ExpiresAt = None, k_CreatedAt = 0, k_UpdatedAt = 0,
     k_RevokedAt = None\<rparr>"

definition sample_usage :: "string \<Rightarrow> string \<Rightarrow> UsageLog" where
  "sample_usage tid path = \<lparr>ul_ID = ''l1'', ul_TenantID = Some tid, ul_Endpoint = path,
     ul_Method = ''GET'', ul_StatusCode = 200, ul_LatencyMS = 3, ul_RequestID = ''r'',
     ul_CreatedAt = 0\<rparr>"

text \<open>Identifiers are read in any case, like the hexadecimal digits of a UUID.\<close>

definition sample_world :: world where
  "sample_world = \<lparr>
     tenants = [sample_tenant ''t1'' ''acme'' ''pro'', sample_tenant ''t2'' ''beta'' ''free''],
     users = [sample_user ''u1'' ''t1'' ''admin'', sample_user ''u2'' ''t1'' ''developer'',
              sample_user ''u3'' ''t2'' ''admin''],
     features = [],
     tenant_features = [],
     api_keys = [sample_key ''k1'' ''t1'' ''h''],
     refresh_tokens = [],
     usage_logs = [sample_usage ''t1'' ''/a'', sample_usage ''t2'' ''/b''],
     audit_logs = [],
     export_jobs = [sample_job ''j1'' ''t1'' ''completed'', sample_job ''j2'' ''t2'' ''queued''],
     redis = (\<lambda>_. None),
     clock = 1000,
     script = [],
     next_id = 0,
     uuid_gen = (\<lambda>n. ''n'' @ replicate n CHR ''0''),
     uuid_in = (\<lambda>s. if s = '''' then None else Some (ToLower s)),
     rand_bytes = (\<lambda>i n. Some (replicate n CHR ''r'')),
     rand_next = 0,
     log = []\<rparr>"

lemma sample_world_sel [simp]:
  "clock sample_world = 1000" "script sample_world = []" "next_id sample_world = 0"
  "uuid_in sample_world = (\<lambda>s. if s = '''' then None else Some (ToLower s))"
  "tenants sample_world = [sample_tenant ''t1'' ''acme'' ''pro'', sample_tenant ''t2'' ''beta'' ''free'']"
  "users sample_world = [sample_user ''u1'' ''t1'' ''admin'', sample_user ''u2'' ''t1'' ''developer'',
     sample_user ''u3'' ''t2'' ''admin'']"
  "api_keys sample_world = [sample_key ''k1'' ''t1'' ''h'']"
  "export_jobs sample_world = [sample_job ''j1'' ''t1'' ''completed'', sample_job ''j2'' ''t2'' ''queued'']"
  "refresh_tokens sample_world = []" "features sample_world = []"
  "tenant_features sample_world = []" "audit_logs sample_world = []"
  by (simp_all add: sample_world_def)

lemma sample_lower [simp]:
  "ToLower ''t1'' = ''t1''" "ToLower ''t2'' = ''t2''" "ToLower ''u1'' = ''u1''"
  "ToLower ''u2'' = ''u2''" "ToLower ''u3'' = ''u3''" "ToLower ''k1'' = ''k1''"
  "ToLower ''j1'' = ''j1''" "ToLower ''j2'' = ''j2''"
  by code_simp+

section \<open>The libraries\<close>

definition sample_bcrypt :: bcrypt_lib where
  "sample_bcrypt = \<lparr>GenerateFromPassword = (\<lambda>salt p cost. Inr (''#'' @ p)),
     CompareHashAndPassword = (\<lambda>h p. if h = ''#'' @ p then None else Some (PlainErr ''mismatch''))\<rparr>"

text \<open>
  A signer whose tokens list the claims and the key, field by field, the times in marks of whole
  seconds. It is no cryptography, but it keeps what is asked of the JWT package.
\<close>

definition put_field :: "string \<Rightarrow> string" where
  "put_field s = concat (map (\<lambda>c. [CHR ''.'', c]) s) @ '';''"

fun get_fields :: "string \<Rightarrow> string \<Rightarrow> string list" where
  "get_fields acc [] = []"
| "get_fields acc [c] = (if c = CHR '';'' then [acc] else [])"
| "get_fields acc (c # d # cs) =
     (if c = CHR '';'' then acc # get_fields [] (d # cs) else get_fields (acc @ [d]) cs)"

lemma get_put_field: "get_fields acc (put_field s @ r) = (acc @ s) # get_fields [] r"
proof (induction s arbitrary: acc)
  case Nil
  show ?case by (cases r) (simp_all add: put_field_def)
next
  case (Cons c s)
  have "put_field (c # s) @ r = CHR ''.'' # c # (put_field s @ r)" by (simp add: put_field_def)
  with Cons.IH [of "acc @ [c]"] show ?case by simp
qed

definition put_fields :: "string list \<Rightarrow> string" where
  "put_fields ss = concat (map put_field ss)"

lemma get_put_fields: "get_fields [] (put_fields ss) = ss"
  by (induction ss) (simp_all add: put_fields_def get_put_field)

definition put_time :: "time \<Rightarrow> string" where
  "put_time t = replicate (nat (t div second)) CHR ''i''"

definition get_time :: "string \<Rightarrow> time" where
  "get_time s = int (length s) * second"

definition whole :: "time \<Rightarrow> bool" where
  "whole t \<longleftrightarrow> 0 \<le> t \<and> t mod second = 0"

lemma get_put_time: "whole t \<Longrightarrow> get_time (put_time t) = t"
  by (auto simp: whole_def get_time_def put_time_def second_def)

definition put_token :: "Claims \<Rightarrow> string \<Rightarrow> string" where
  "put_token c k = put_fields [c_UserID c, c_TenantID c, c_Role c, c_TokenUse c, c_Issuer c,
     c_Subject c, c_ID c, put_time (c_IssuedAt c), put_time (c_ExpiresAt c),
     put_time (c_NotBefore c), k]"

definition get_token :: "string \<Rightarrow> (Claims \<times> string) option" where
  "get_token tok =
     (case get_fields [] tok of
        [u, t, r, use, iss, sub', i, ia, ex, nb, k] \<Rightarrow>
          (let c = \<lparr>c_UserID = u, c_TenantID = t, c_Role = r, c_TokenUse = use, c_Issuer = iss,
                 c_Subject = sub', c_ID = i, c_IssuedAt = get_time ia, c_ExpiresAt = get_time ex,
                 c_NotBefore = get_time nb\<rparr>
           in if put_token c k = tok then Some (c, k) else None)
      | _ \<Rightarrow> None)"

definition whole_claims :: "Claims \<Rightarrow> bool" where
  "whole_claims c \<longleftrightarrow> whole (c_IssuedAt c) \<and> whole (c_ExpiresAt c) \<and> whole (c_NotBefore c)"

definition sample_jwt :: jwt_lib where
  "sample_jwt = \<lparr>
     SignedString = (\<lambda>c k. if whole_claims c then Inr (put_token c k) else Inl (PlainErr ''date'')),
     ParseWithClaims = (\<lambda>tok kf iss now. case get_token tok of
         None \<Rightarrow> Inl (PlainErr ''malformed'')
       | Some (c, k) \<Rightarrow>
           if kf True = Inr k \<and> whole_claims c \<and> c_Issuer c = iss \<and> c_NotBefore c \<le> now
             \<and> now < c_ExpiresAt c
           then Inr (c, True) else Inl (PlainErr ''refused''))\<rparr>"

lemma get_put_token: "whole_claims c \<Longrightarrow> get_token (put_token c k) = Some (c, k)"
  unfolding get_token_def put_token_def get_put_fields
  by (simp add: whole_claims_def get_put_time)

lemma get_token_Some: "get_token tok = Some (c, k) \<Longrightarrow> put_token c k = tok"
  by (auto simp: get_token_def Let_def split: list.splits if_splits)

lemma sample_jwt_library: "jwt_library sample_jwt"
  unfolding jwt_library_def
proof (intro conjI)
  show "jwt_signed_parses sample_jwt"
    by (auto simp: jwt_signed_parses_def sample_jwt_def get_put_token split: if_splits)
  show "jwt_parsed_signed sample_jwt"
    by (auto simp: jwt_parsed_signed_def sample_jwt_def
        split: option.splits if_splits dest!: get_token_Some)
  show "jwt_carries_claims sample_jwt"
    by (auto simp: jwt_carries_claims_def sample_jwt_def split: if_splits)
      (metis get_put_token option.inject prod.inject)
qed

definition sample_manager :: Manager where
  "sample_manager = \<lparr>accessSecret = ''A'', refreshSecret = ''R'', accessTTL = 2 * second,
     refreshTTL = 5 * second, issuer = ''bridgecore''\<rparr>"

abbreviation sample_auth :: AuthService where
  "sample_auth \<equiv> sql_auth sample_manager sample_jwt sample_bcrypt"

text \<open>With these, a token pair can be issued to every stored user.\<close>

lemma NewNumericDate_whole: "0 \<le> t \<Longrightarrow> whole (NewNumericDate t)"
proof -
  assume "0 \<le> t"
  moreover have "t - t mod second = second * (t div second)"
    by (simp add: minus_mod_eq_mult_div)
  ultimately show ?thesis
    by (simp add: whole_def NewNumericDate_def second_def pos_imp_zdiv_nonneg_iff)
qed

lemma sample_issue:
  assumes "0 \<le> clock w" "0 \<le> ttl"
  shows "\<exists>tok. Manager_issue sample_jwt m u t r use secret ttl w
     = (Inr (tok, clock w + ttl), w\<lparr>next_id := Suc (next_id w)\<rparr>)"
  using assms
  by (simp add: Manager_issue_def sample_jwt_def Let_def whole_claims_def NewNumericDate_whole)

lemma sample_pair:
  assumes "script w = []" "0 \<le> clock w" "uuid_in w (u_ID u) = Some x" "x \<in> set (map u_ID (users w))"
  shows "\<exists>pair w'. issueTokenPair sample_auth u w = (Inr pair, w')"
proof -
  have ttl: "0 \<le> accessTTL sample_manager" "0 \<le> refreshTTL sample_manager"
    by (simp_all add: sample_manager_def second_def)
  obtain a where a: "IssueAccessToken sample_jwt sample_manager (u_ID u) (u_TenantID u) (u_Role u) w
      = (Inr (a, clock w + accessTTL sample_manager), w\<lparr>next_id := Suc (next_id w)\<rparr>)"
    unfolding IssueAccessToken_def using sample_issue [OF assms(2) ttl(1)] by blast
  let ?w = "w\<lparr>next_id := Suc (next_id w)\<rparr>"
  have "0 \<le> clock ?w" using assms(2) by simp
  from sample_issue [OF this ttl(2)] obtain b where
    b: "IssueRefreshToken sample_jwt sample_manager (u_ID u) (u_TenantID u) (u_Role u) ?w
      = (Inr (b, clock ?w + refreshTTL sample_manager), ?w\<lparr>next_id := Suc (next_id ?w)\<rparr>)"
    unfolding IssueRefreshToken_def by blast
  from assms show ?thesis
    by (simp add: issueTokenPair_def bind_op_def map_err_def a b RefreshTokenRepository_Create_def
        uuid_param_def insert_refresh_token_def user_exists_def ret_def Let_def)
qed

section \<open>The server\<close>

definition sample_exports :: ExportService where
  "sample_exports = \<lparr>es_jobs = export_repo,
     es_store = \<lparr>os_PresignGet = (\<lambda>k ttl. ret (''https://o/'' @ k)), os_Backend = ''local''\<rparr>,
     es_notifier = \<lparr>nt_Publish = (\<lambda>j t. ret ())\<rparr>,
     es_downloadTTL = 60 * second, es_maxRows = 100\<rparr>"

definition sample_services :: services where
  "sample_services = \<lparr>sv_auth = sample_auth, sv_users = user_repo, sv_tenants = tenant_repo,
     sv_prefix = ''bc_'', sv_usage = usage_repo, sv_exports = sample_exports, sv_local = None,
     sv_page = initial_pagination\<rparr>"

definition sample_deps :: deps where
  "sample_deps = \<lparr>d_services = sample_services,
     d_auth = \<lparr>ad_jwtManager = sample_manager, ad_jwt = sample_jwt, ad_prefix = ''bc_'',
       ad_tenants = TenantService_Get tenant_repo\<rparr>,
     d_usage = UsageService_Record usage_repo, d_entitlements = EntitlementService_HasFeature,
     d_health = \<lparr>hi_version = ''1'', hi_buildTime = '''', hi_gitCommit = '''', hi_env = '''',
       hi_startedAt = 0\<rparr>,
     d_rateLimit = 10, d_graphqlPath = ''/graphql'', d_platformToken = ''ops'',
     d_graphql = (\<lambda>r rw w. (None, rw, w)),
     d_cors = \<lparr>AllowedOrigins = [''*''], AllowedMethods = [], AllowedHeaders = [], MaxAge = 0\<rparr>\<rparr>"

definition sample_request :: "string \<Rightarrow> string \<Rightarrow> (string \<times> string) list \<Rightarrow> Request" where
  "sample_request m path hs = \<lparr>r_Method = m, r_Path = path,
     r_Header = (\<lambda>k. case map_of hs k of None \<Rightarrow> '''' | Some v \<Rightarrow> v), r_Query = (\<lambda>_. ''''),
     r_PathValue = (\<lambda>_. ''''), r_RemoteAddr = ''10.0.0.1'', r_ContentLength = 0,
     r_Body = ([], None), r_Auth = None, r_RequestID = '''', r_Platform = False\<rparr>"

definition sample_rw :: RW where
  "sample_rw = \<lparr>rw_Header = [], rw_Status = None, rw_Body = []\<rparr>"

lemma sample_wired: "wired sample_deps"
  by (auto simp: wired_def wired_services_def sample_deps_def sample_services_def
      sample_exports_def quiet_def)

lemma sample_ids_ok: "ids_ok (uuid_in sample_world) (tabs sample_world)"
  by (simp add: ids_ok_def sample_tenant_def sample_key_def)

section \<open>Credentials of the first administrator\<close>

definition sample_ac :: AuthContext where
  "sample_ac = \<lparr>ac_UserID = ''u1'', ac_TenantID = ''t1'', ac_Role = ''admin'',
     ac_TenantPlan = ''pro'', ac_AuthMethod = ''jwt'', ac_APIKeyID = ''''\<rparr>"

definition sample_claims :: Claims where
  "sample_claims = \<lparr>c_UserID = ''u1'', c_TenantID = ''t1'', c_Role = ''admin'',
     c_TokenUse = ''access'', c_Issuer = ''bridgecore'', c_Subject = ''u1'', c_ID = ''n'',
     c_IssuedAt = 0, c_ExpiresAt = 2 * second, c_NotBefore = 0\<rparr>"

definition sample_token :: string where
  "sample_token = put_token sample_claims ''A''"

text \<open>A bearer of the administrator's token, at a route.\<close>

definition sample_bearer :: "string \<Rightarrow> string \<Rightarrow> Request" where
  "sample_bearer m path = sample_request m path [(''Authorization'', ''Bearer '' @ sample_token)]"

lemma sample_resolved:
  "Auth_resolve (d_auth sample_deps) (sample_bearer m path) sample_world
     = (Inr sample_ac, sample_world)"
proof -
  have t: "TrimSpace (TrimPrefix (''Bearer '' @ sample_token) ''Bearer '') = sample_token"
    by code_simp
  have v: "VerifyAccessToken sample_jwt sample_manager sample_token 1000 = Inr sample_claims"
    by code_simp
  have g: "TenantService_Get tenant_repo ''t1'' sample_world
      = (Inr (sample_tenant ''t1'' ''acme'' ''pro''), sample_world)"
    by (simp add: TenantService_Get_def TenantRepository_GetByID_def map_err_def uuid_param_def
        query_row_def sample_tenant_def t_live_def)
  show ?thesis
    by (simp add: Auth_resolve_def resolve_bearer_def sample_bearer_def sample_request_def
        sample_deps_def Let_def t [simplified] v g sample_claims_def sample_ac_def
        sample_tenant_def Role_Valid_def const_defs)
qed

end
