(* ===== verification/AccessProperties.thy ===== *)
theory AccessProperties
  imports Sample
begin

text \<open>
  The properties of access: what a request may see and change of the tenants and users, and who
  may make it. Every property with a hypothesis is followed by an application to the sample
  installation.
\<close>

section \<open>Tenant isolation\<close>

text \<open>C1. A request through the authenticated chain to any route of the tenants' API but GraphQL
  leaves everything that belongs to any other tenant than the one its credential is for as it
  was: rows of the tenant, its users, their refresh tokens, grants, keys, logs and exports. This
  holds whatever the request asks for, and whichever calls to the database and Redis fail.
\<close>

theorem tenant_isolation:
  assumes "wired d" and "ro \<in> set (tenant_routes d)" and "ro_Method ro \<noteq> ''''"
    and "ids_ok (uuid_in w) (tabs w)"
    and "Auth_resolve (d_auth d) r w = (Inr ac, w1)" and "identity_of A ac w"
    and "authenticated d (ro_Handler ro) r rw w = (p, rw', w')" and "B \<noteq> A"
  shows "tview B (tabs w') = tview B (tabs w)"
  using authenticated_confined [OF assms(1) tenant_routes_confined [OF assms(1-3)] assms(4,7,5,6)]
    assms(8) by (simp add: keeps_others_def)

theorem tenant_isolation_witness:
  "tview ''t2'' (tabs (snd (snd (authenticated sample_deps (UserHandler_List sample_services)
      (sample_bearer ''GET'' ''/api/v1/users'') sample_rw sample_world))))
    = tview ''t2'' (tabs sample_world)"
proof -
  let ?ro = "route_of ''GET'' ''/api/v1/users'' (UserHandler_List sample_services)"
  have ro: "?ro \<in> set (tenant_routes sample_deps)" "ro_Method ?ro \<noteq> ''''"
    by (simp_all add: tenant_routes_def Let_def sample_deps_def route_of_def)
  have ac: "identity_of ''t1'' sample_ac sample_world"
    by (simp add: identity_of_def sample_ac_def sample_user_def)
  obtain p rw' w' where run: "authenticated sample_deps (ro_Handler ?ro)
      (sample_bearer ''GET'' ''/api/v1/users'') sample_rw sample_world = (p, rw', w')"
    by (cases "authenticated sample_deps (ro_Handler ?ro)
      (sample_bearer ''GET'' ''/api/v1/users'') sample_rw sample_world")
  from tenant_isolation [OF sample_wired ro sample_ids_ok sample_resolved ac run, of "''t2''"] run
  show ?thesis by (simp add: route_of_def)
qed

section \<open>Administrators\<close>

text \<open>Requests to change a user, one after the other, of any tenants and callers.\<close>

datatype user_command = ChangeRole Scope string Role | ChangeActive Scope string bool

fun run_command :: "user_command \<Rightarrow> world \<Rightarrow> world" where
  "run_command (ChangeRole scope i role) w = snd (UserService_UpdateRole user_repo scope i role w)"
| "run_command (ChangeActive scope i active) w =
     snd (UserService_SetActive user_repo scope i active w)"

lemma run_command_keeps:
  assumes "distinct (map u_ID (users w))" "has_admin T (users w)"
  shows "distinct (map u_ID (users (run_command c w)))" "has_admin T (users (run_command c w))"
proof -
  have "distinct (map u_ID (users (run_command c w))) \<and> has_admin T (users (run_command c w))"
  proof (cases c)
    case (ChangeRole scope i role)
    obtain q w' where run: "UserService_UpdateRole user_repo scope i role w = (q, w')"
      by (cases "UserService_UpdateRole user_repo scope i role w")
    with uf.UpdateRole_keeps_admin [OF run] uf.UpdateRole_keeps_ids [OF run] assms ChangeRole
    show ?thesis by simp
  next
    case (ChangeActive scope i active)
    obtain q w' where run: "UserService_SetActive user_repo scope i active w = (q, w')"
      by (cases "UserService_SetActive user_repo scope i active w")
    with uf.SetActive_keeps_admin [OF run] uf.SetActive_keeps_ids [OF run] assms ChangeActive
    show ?thesis by simp
  qed
  then show "distinct (map u_ID (users (run_command c w)))" "has_admin T (users (run_command c w))"
    by auto
qed

text \<open>C3. A tenant that has a live, active administrator has one after any sequence of role and
  status changes, by whomever they are asked for and whether they succeed or fail, as long as
  user identifiers are unique (the primary key of the table) and the requests run one after the
  other.
\<close>

theorem last_admin_kept:
  assumes "distinct (map u_ID (users w))" and "has_admin T (users w)"
  shows "has_admin T (users (fold run_command cs w))"
  using assms
proof (induction cs arbitrary: w)
  case (Cons c cs)
  from Cons.IH [OF run_command_keeps [OF Cons.prems]] show ?case by simp
qed simp

abbreviation sample_admin :: Scope where
  "sample_admin \<equiv> \<lparr>TenantID = ''t1'', UserID = ''u1'', s_Role = ''admin''\<rparr>"

theorem last_admin_kept_witness:
  "has_admin ''t1'' (users (fold run_command
     [ChangeRole sample_admin ''u2'' RoleAdmin, ChangeActive sample_admin ''u2'' False,
      ChangeRole (sample_admin\<lparr>UserID := ''u2''\<rparr>) ''u1'' RoleViewer] sample_world))"
  by (rule last_admin_kept)
    (simp_all add: sample_user_def has_admin_def active_admin_def u_live_def const_defs)

text \<open>
  Requests that overlap can break that rule: the count of administrators and the update are two
  statements of no common transaction. With two administrators, each demoting the other, one
  request running between the two statements of the other, none is left.
\<close>

definition overlapping_repo :: "user_command \<Rightarrow> world UserStoreFull" where
  "overlapping_repo c = user_repo\<lparr>uf_CountAdminsInTenant := (\<lambda>t w.
     case UserRepository_CountAdminsInTenant t w of (r, w1) \<Rightarrow> (r, run_command c w1))\<rparr>"

definition two_admins :: world where
  "two_admins = sample_world\<lparr>users := [sample_user ''u1'' ''t1'' ''admin'',
     sample_user ''u2'' ''t1'' ''admin'']\<rparr>"

theorem last_admin_race:
  "filter (active_admin ''t1'') (users two_admins) = users two_admins
    \<and> filter (active_admin ''t1'') (users (snd (UserService_UpdateRole
        (overlapping_repo (ChangeRole (sample_admin\<lparr>UserID := ''u2''\<rparr>) ''u1'' ''viewer''))
        sample_admin ''u2'' ''viewer'' two_admins))) = []"
proof
  show "filter (active_admin ''t1'') (users two_admins) = users two_admins"
    by (simp add: two_admins_def sample_user_def active_admin_def u_live_def const_defs)
  have "map u_Role (users (snd (UserService_UpdateRole
        (overlapping_repo (ChangeRole (sample_admin\<lparr>UserID := ''u2''\<rparr>) ''u1'' ''viewer''))
        sample_admin ''u2'' ''viewer'' two_admins))) = [''viewer'', ''viewer'']"
    by code_simp
  then show "filter (active_admin ''t1'') (users (snd (UserService_UpdateRole
        (overlapping_repo (ChangeRole (sample_admin\<lparr>UserID := ''u2''\<rparr>) ''u1'' ''viewer''))
        sample_admin ''u2'' ''viewer'' two_admins))) = []"
    by (auto simp: filter_empty_conv active_admin_def const_defs map_eq_Cons_conv)
qed



text \<open>Nobody changes their own role or status under the identifier their credential carries: both
  operations refuse, at once, and change nothing.
\<close>

theorem no_self_change:
  assumes "UserID scope \<noteq> ''''"
  shows "(\<exists>e. UserService_UpdateRole repo scope (UserID scope) role w = (Inl e, w))
    \<and> (\<exists>e. UserService_SetActive repo scope (UserID scope) active w = (Inl e, w))"
  using assms by (simp add: UserService_UpdateRole_def UserService_SetActive_def fail_def)

theorem no_self_change_witness:
  "\<exists>e. UserService_UpdateRole user_repo sample_admin ''u1'' ''viewer'' sample_world
     = (Inl e, sample_world)"
  using no_self_change [of sample_admin user_repo "''viewer''" sample_world] by simp

text \<open>
  The comparison behind that refusal is of spellings, while the database reads several spellings of one
  identifier: an administrator who writes their own identifier in capitals demotes themselves
  (there is a second administrator here, so that the last-administrator rule does not interfere).
\<close>

theorem self_change_by_other_spelling:
  "map u_Role (users (snd (UserService_UpdateRole user_repo sample_admin ''U1'' ''viewer'' two_admins)))
     = [''viewer'', ''admin'']"
  by code_simp

text \<open>C22. A user of another tenant looks exactly like one that does not exist: whenever the caller's
  tenant has no live user of that identifier the answer is the same, and nothing changes.
\<close>

theorem foreign_user_looks_missing:
  assumes "script w = []" and "Scope_Valid scope" and "TrimSpace i \<noteq> ''''"
    and "uuid_in w (TenantID scope) = Some A" and "uuid_in w i = Some x"
    and "\<forall>u \<in> set (users w). u_ID u = x \<longrightarrow> u_TenantID u \<noteq> A \<or> \<not> u_live u"
  shows "UserService_Get user_repo scope i w = (Inl (Api (NotFound ''user not found'')), w)"
proof -
  have none: "filter (\<lambda>u. u_ID u = x \<and> u_TenantID u = A \<and> u_live u) (users w) = []"
    using assms(6) by (auto simp: filter_empty_conv)
  have "UserRepository_GetByIDInTenant (TenantID scope) i w
      = (Inl (Sentinel repository_ErrNotFound), w)"
    using assms none
    by (simp add: UserRepository_GetByIDInTenant_def map_err_def uuid_param_def query_row_def
        not_found_if_no_rows_def)
  with assms show ?thesis
    by (simp add: UserService_Get_def bind_op_def map_err_def require_scope_def guard_op_def ret_def
        hide_missing_def)
qed

theorem foreign_user_looks_missing_witness:
  "UserService_Get user_repo sample_admin ''u3'' sample_world
     = (Inl (Api (NotFound ''user not found'')), sample_world)"
  by (rule foreign_user_looks_missing [where A = "''t1''" and x = "''u3''"])
    (simp_all add: Scope_Valid_def sample_user_def TrimSpace_def TrimLeftSpace_def is_space_def)

text \<open>C23. What a tenant's administrator can change about the tenant: never an identifier, a slug, the
  plan, the activation or the deletion of any tenant, and nothing at all of another tenant's row.
\<close>

theorem tenant_self_update:
  assumes "TenantService_UpdateForScope tenant_repo scope i inp w = (r, w')"
    and "distinct (map t_ID (tenants w))"
    and "\<forall>t \<in> set (tenants w). uuid_in w (t_ID t) = Some (t_ID t)"
  shows "map t_fixed (tenants w') = map t_fixed (tenants w)
    \<and> filter (\<lambda>t. uuid_in w (TenantID scope) \<noteq> Some (t_ID t)) (tenants w')
      = filter (\<lambda>t. uuid_in w (TenantID scope) \<noteq> Some (t_ID t)) (tenants w)"
  using tr.UpdateForScope_fixed [OF assms] by simp

theorem tenant_self_update_witness:
  "map t_fixed (tenants (snd (TenantService_UpdateForScope tenant_repo sample_admin ''t1''
      \<lparr>us_Name = Some ''New''\<rparr> sample_world))) = map t_fixed (tenants sample_world)"
proof -
  obtain r w' where run: "TenantService_UpdateForScope tenant_repo sample_admin ''t1''
      \<lparr>us_Name = Some ''New''\<rparr> sample_world = (r, w')"
    by (cases "TenantService_UpdateForScope tenant_repo sample_admin ''t1''
      \<lparr>us_Name = Some ''New''\<rparr> sample_world")
  from tenant_self_update [OF run] run show ?thesis by (simp add: sample_tenant_def)
qed

section \<open>Credentials\<close>



lemma Authenticate_tabs:
  assumes "APIKeyService_Authenticate prefix key w = (q, w')"
  shows "\<exists>ks. tabs w' = (tabs w)\<lparr>api_keys := ks\<rparr>"
proof -
  have same: "\<exists>ks. tabs w = (tabs w)\<lparr>api_keys := ks\<rparr>" for w :: world
    by (rule exI [of _ "api_keys (tabs w)"]) simp
  have list: "tabs w1 = tabs w" if "APIKeyRepository_ListActiveByPrefix p w = (r, w1)" for p r w1
    by (rule read_onlyD(1) [OF read_only_key_repo(1) that])
  have touch: "\<exists>ks. tabs w2 = (tabs w1)\<lparr>api_keys := ks\<rparr>"
    if "APIKeyRepository_TouchLastUsed i w1 = (r, w2)" for i w1 r w2
  proof (cases r)
    case (Inl e)
    from writesD(2) [OF APIKeyRepository_TouchLastUsed_writes that [unfolded Inl]] same [of w1]
    show ?thesis by simp
  next
    case (Inr v)
    from writesD(1) [OF APIKeyRepository_TouchLastUsed_writes that [unfolded Inr]]
    show ?thesis by auto
  qed
  from assms show ?thesis
    by (cases q) (auto simp: APIKeyService_Authenticate_def same split: if_splits option.splits
        dest!: list touch, intro exI, rule refl)
qed

lemma refusal_status [simp]:
  "Status (Unauthenticated m) = 401" "Status (Forbidden m) = 403" "Status (Internal m) = 500"
  by (simp_all add: apierr_ctors)

lemma resolve_refusal:
  assumes "Auth_resolve d r w = (Inl e, w1)"
  shows "\<exists>err. e = Api err \<and> Status err \<in> {401, 403, 500}"
  using assms
  by (auto simp: Auth_resolve_def resolve_api_key_def resolve_bearer_def Let_def
      split: prod.splits sum.splits if_splits)

lemma resolve_tabs:
  assumes "ad_tenants d = TenantService_Get tenant_repo" "Auth_resolve d r w = (q, w')"
  shows "\<exists>ks. audit_grown ((tabs w)\<lparr>api_keys := ks\<rparr>) (tabs w')"
proof (cases "r_Header r ''X-API-Key'' = ''''")
  case True
  with assms have "tabs w' = tabs w"
    by (auto simp: Auth_resolve_def resolve_bearer_def Let_def dest: TenantService_Get_keeps
        split: prod.splits sum.splits if_splits)
  moreover have "(tabs w)\<lparr>api_keys := api_keys w\<rparr> = tabs w" by (rule tables.equality) simp_all
  ultimately have "audit_grown ((tabs w)\<lparr>api_keys := api_keys w\<rparr>) (tabs w')"
    by (simp only: audit_grown_refl)
  then show ?thesis ..
next
  case False
  obtain k w1 where k: "APIKeyService_Authenticate (ad_prefix d) (r_Header r ''X-API-Key'') w = (k, w1)"
    by (cases "APIKeyService_Authenticate (ad_prefix d) (r_Header r ''X-API-Key'') w")
  from Authenticate_tabs [OF k] obtain ks where ks: "tabs w1 = (tabs w)\<lparr>api_keys := ks\<rparr>" by blast
  from assms False k have "tabs w' = tabs w1
      \<or> w' = AuditService_Record (unauthorized_event r ''invalid_api_key'') w1"
    by (auto simp: Auth_resolve_def resolve_api_key_def dest: TenantService_Get_keeps(1)
        split: prod.splits sum.splits if_splits)
  with AuditService_Record_grown(1) [of w1 "unauthorized_event r ''invalid_api_key''"] ks
  have "audit_grown ((tabs w)\<lparr>api_keys := ks\<rparr>) (tabs w')" by auto
  then show ?thesis ..
qed

text \<open>A request whose credential is refused is answered with the refusal, whatever handler the
  route has: an error of the API's vocabulary with status 401, 403 or 500. It has changed no table
  but the last-use times of the keys and the audit log, which has at most grown.
\<close>

theorem refused_request:
  assumes "wired d" and "Auth_resolve (d_auth d) r w = (Inl e, w1)"
  shows "authenticated d hnd r rw w = (None, response_Fail r e rw, w1)
    \<and> (\<exists>err. e = Api err \<and> Status err \<in> {401, 403, 500})
    \<and> (\<exists>ks. audit_grown ((tabs w)\<lparr>api_keys := ks\<rparr>) (tabs w1))"
  using resolve_refusal [OF assms(2)] resolve_tabs [OF _ assms(2)] assms
  by (simp add: authenticated_def Auth_def wired_def)

theorem refused_request_witness:
  "\<exists>e w1. authenticated sample_deps (UserHandler_List sample_services)
      (sample_request ''GET'' ''/api/v1/users'' []) sample_rw sample_world
    = (None, response_Fail (sample_request ''GET'' ''/api/v1/users'' []) e sample_rw, w1)"
proof -
  have "Auth_resolve (d_auth sample_deps) (sample_request ''GET'' ''/api/v1/users'' []) sample_world
      = (Inl (Api (Unauthenticated ''a bearer token or API key is required'')), sample_world)"
    by (simp add: Auth_resolve_def resolve_bearer_def sample_request_def)
  from refused_request [OF sample_wired this] show ?thesis by blast
qed

text \<open>C17. The platform routes, which act on every tenant, answer with 404 to everyone who does not
  present the configured token, and to everyone when none is configured (they are not even
  registered then); nothing but the audit log changes.
\<close>

theorem platform_closed:
  assumes "d_platformToken d = '''' \<or> r_Header r ''X-Platform-Token'' \<noteq> d_platformToken d"
  shows "platform d hnd r rw w
      = (None, response_Fail r (Api (NotFound ''not found'')) rw,
         AuditService_Record (unauthorized_event r ''invalid_platform_token'') w)
    \<and> audit_grown (tabs w) (tabs (snd (snd (platform d hnd r rw w))))
    \<and> (d_platformToken d = '''' \<longrightarrow>
         registerRoutes d = public_routes d @ map (wrap_route (authenticated d)) (tenant_routes d))"
  using assms AuditService_Record_grown(1)
  by (auto simp: platform_def RequirePlatformToken_def registerRoutes_def)

theorem platform_closed_witness:
  "platform sample_deps (PlatformHandler_ListTenants sample_services)
      (sample_bearer ''GET'' ''/api/v1/platform/tenants'') sample_rw sample_world
    = (None, response_Fail (sample_bearer ''GET'' ''/api/v1/platform/tenants'')
         (Api (NotFound ''not found'')) sample_rw,
       AuditService_Record (unauthorized_event (sample_bearer ''GET'' ''/api/v1/platform/tenants'')
         ''invalid_platform_token'') sample_world)"
proof -
  have "r_Header (sample_bearer ''GET'' ''/api/v1/platform/tenants'') ''X-Platform-Token''
      \<noteq> d_platformToken sample_deps"
    by (simp add: sample_bearer_def sample_request_def sample_deps_def)
  then show ?thesis by (rule platform_closed [OF disjI2, THEN conjunct1])
qed

lemma UsageMetering_cong:
  "(\<And>rw w. h1 r rw w = h2 r rw w) \<Longrightarrow> UsageMetering u h1 r rw w = UsageMetering u h2 r rw w"
  by (simp add: UsageMetering_def)

lemma RateLimit_cong:
  "(\<And>rw w. h1 r rw w = h2 r rw w) \<Longrightarrow> RateLimit n h1 r rw w = RateLimit n h2 r rw w"
  by (simp add: RateLimit_def split: prod.split)

text \<open>C16. An API key never acts as an administrator: behind the authenticated chain with the
  administrator gate, a request with an API-key header does the same whatever handler is behind
  the gate; no handler there is ever run for it.
\<close>

theorem api_key_is_no_admin:
  assumes "r_Header r ''X-API-Key'' \<noteq> ''''"
  shows "authenticated d (RequireRole RoleAdmin h1) r rw w
       = authenticated d (RequireRole RoleAdmin h2) r rw w"
proof -
  have gate: "RequireRole RoleAdmin h1 (withAuth r ac) rw' w' = RequireRole RoleAdmin h2 (withAuth r ac) rw' w'"
    if "ac_Role ac = RoleDeveloper" for ac rw' w'
    using that by (simp add: RequireRole_def RoleAtLeast_admin)
  have "ac_Role ac = RoleDeveloper" if "Auth_resolve (d_auth d) r w = (Inr ac, w1)" for ac w1
    using Auth_resolve_Inr [OF that] assms by (auto simp: authenticated_by_def)
  then show ?thesis
    by (auto simp: authenticated_def Auth_def split: prod.splits sum.splits
        intro!: RateLimit_cong UsageMetering_cong gate)
qed

theorem api_key_is_no_admin_witness:
  "authenticated sample_deps (RequireRole RoleAdmin (UserHandler_UpdateRole sample_services))
      (sample_request ''PATCH'' ''/'' [(''X-API-Key'', ''bc_1'')]) sample_rw sample_world
    = authenticated sample_deps (RequireRole RoleAdmin (\<lambda>r rw w. (None, rw, w)))
        (sample_request ''PATCH'' ''/'' [(''X-API-Key'', ''bc_1'')]) sample_rw sample_world"
  by (rule api_key_is_no_admin) (simp add: sample_request_def)

text \<open>
  Attempts to read another tenant's user are not audited, although the handler calls for it:
  without driver errors, looking a user up leaves the audit log as it was, whatever identifier is
  asked for. (The service reports a missing row, never the cause the audit looks for.)
\<close>

theorem cross_tenant_probe_unaudited:
  assumes "script w = []" and "sv_users h = user_repo"
    and "UserHandler_Get h r rw w = (p, rw', w')"
  shows "audit_logs w' = audit_logs w"
proof -
  obtain q w1 where g: "UserService_Get user_repo (ScopeFromContext r) (r_PathValue r ''id'') w = (q, w1)"
    by (cases "UserService_Get user_repo (ScopeFromContext r) (r_PathValue r ''id'') w")
  then have w1: "w1 = w" "\<And>e. q = Inl e \<Longrightarrow> \<not> IsCrossTenant (Some e)"
    using assms(1)
    by (auto simp: UserService_Get_def bind_op_def map_err_def require_scope_def guard_op_def ret_def
        fail_def hide_missing_def UserRepository_GetByIDInTenant_def uuid_param_def query_row_def
        not_found_if_no_rows_def IsCrossTenant_def errors_Is_Api apierr_ctors
        split: if_splits option.splits list.splits sum.splits prod.splits)
  from assms(2,3) g w1 show ?thesis
    by (cases q) (auto simp: UserHandler_Get_def answer_def auditIfCrossTenant_def)
qed

theorem cross_tenant_probe_unaudited_witness:
  "audit_logs (snd (snd (UserHandler_Get sample_services
      (withAuth (sample_request ''GET'' ''/api/v1/users/u3'' []) sample_ac\<lparr>r_PathValue := (\<lambda>_. ''u3'')\<rparr>)
      sample_rw sample_world))) = []"
proof -
  let ?r = "withAuth (sample_request ''GET'' ''/api/v1/users/u3'' []) sample_ac\<lparr>r_PathValue := (\<lambda>_. ''u3'')\<rparr>"
  obtain p rw' w' where run: "UserHandler_Get sample_services ?r sample_rw sample_world = (p, rw', w')"
    by (cases "UserHandler_Get sample_services ?r sample_rw sample_world")
  from cross_tenant_probe_unaudited [OF _ _ run] run show ?thesis
    by (simp add: sample_services_def)
qed

end
