(* ===== verification/SessionProperties.thy ===== *)
theory SessionProperties
  imports Sample
begin

text \<open>
  The properties of identity: accounts, sessions, tokens, API keys and entitlements.
\<close>

section \<open>Accounts\<close>

text \<open>C10. A signup that succeeds has added exactly one tenant, active and on the free plan, with the
  slug and name given, and exactly one user, an active administrator of it with the address given;
  neither the slug nor the address was in use. Identifiers the database generates are assumed to
  be in the spelling it reads back.
\<close>

theorem signup_creates:
  assumes "AuthService_Signup (sql_auth m lib bc) inp w = (Inr (u, t, p), w')"
    and "\<forall>n. uuid_in w (uuid_gen w n) = Some (uuid_gen w n)"
  shows "signed_up inp u t (tabs w) (tabs w')"
  using assms by (rule Signup_Inr)

definition sample_signup :: SignupInput where
  "sample_signup = \<lparr>si_TenantName = ''Nova'', si_TenantSlug = ''nova'', si_Email = ''a@nova.io'',
     si_Password = ''12345678'', si_FirstName = ''A'', si_LastName = ''B''\<rparr>"

lemma sample_signup_runs:
  "\<exists>u t p w'. AuthService_Signup sample_auth sample_signup sample_world = (Inr (u, t, p), w')"
proof -
  let ?t = "\<lparr>t_ID = '''', t_Name = ''Nova'', t_Slug = ''nova'', t_Plan = PlanFree, t_IsActive = True,
     t_CreatedAt = 0, t_UpdatedAt = 0, t_DeletedAt = None\<rparr>"
  let ?t1 = "?t\<lparr>t_ID := ''n'', t_CreatedAt := 1000, t_UpdatedAt := 1000\<rparr>"
  let ?w1 = "sample_world\<lparr>tenants := tenants sample_world @ [?t1], next_id := 1\<rparr>"
  let ?u = "\<lparr>u_ID = '''', u_TenantID = ''n'', u_Email = ''a@nova.io'', u_PasswordHash = ''#12345678'',
     u_FirstName = ''A'', u_LastName = ''B'', u_Role = RoleAdmin, u_IsActive = True,
     u_LastLoginAt = None, u_CreatedAt = 0, u_UpdatedAt = 0, u_DeletedAt = None\<rparr>"
  let ?u1 = "?u\<lparr>u_ID := ''n0'', u_CreatedAt := 1000, u_UpdatedAt := 1000\<rparr>"
  let ?w2 = "?w1\<lparr>rand_next := Suc (rand_next sample_world)\<rparr>"
  let ?w3 = "?w2\<lparr>users := users sample_world @ [?u1], next_id := 2\<rparr>"
  have gen: "uuid_gen sample_world = (\<lambda>n. ''n'' @ replicate n CHR ''0'')"
    by (simp add: sample_world_def)
  have low: "ToLower ''n'' = ''n''" "ToLower ''n0'' = ''n0''" by code_simp+
  have slug: "TenantRepository_GetBySlug ''nova'' sample_world
      = (Inl (Sentinel repository_ErrNotFound), sample_world)"
    by (simp add: TenantRepository_GetBySlug_def map_err_def query_row_def sample_tenant_def
        not_found_if_no_rows_def)
  have mail: "UserRepository_GetByEmail ''a@nova.io'' sample_world
      = (Inl (Sentinel repository_ErrNotFound), sample_world)"
    by (simp add: UserRepository_GetByEmail_def map_err_def query_row_def sample_user_def
        not_found_if_no_rows_def)
  have tenant: "TenantRepository_Create ?t sample_world = (Inr ?t1, ?w1)"
    by (simp add: TenantRepository_Create_def map_err_def insert_tenant_def sample_tenant_def
        fresh_id_def gen Let_def const_defs Plan_Valid_def)
  have hash: "HashPassword sample_bcrypt ''12345678'' ?w1 = (Inr ''#12345678'', ?w2)"
    by (simp add: HashPassword_def sample_bcrypt_def)
  have user: "UserRepository_Create ?u ?w2 = (Inr ?u1, ?w3)"
    by (simp add: UserRepository_Create_def map_err_def uuid_param_def insert_user_def
        sample_user_def fresh_id_def gen low Let_def const_defs Role_Valid_def tenant_exists_def)
  have "\<exists>p w'. issueTokenPair sample_auth ?u1 ?w3 = (Inr p, w')"
    by (rule sample_pair [where x = "''n0''"]) (simp_all add: low)
  then show ?thesis
    using slug mail tenant hash user
    by (simp add: AuthService_Signup_def sample_signup_def)
qed

theorem signup_creates_witness:
  "\<exists>u t p w'. AuthService_Signup sample_auth sample_signup sample_world = (Inr (u, t, p), w')
     \<and> signed_up sample_signup u t (tabs sample_world) (tabs w')"
proof -
  obtain u t p w' where run:
    "AuthService_Signup sample_auth sample_signup sample_world = (Inr (u, t, p), w')"
    using sample_signup_runs by blast
  have "map to_lower (replicate n CHR ''0'') = replicate n CHR ''0''" for n
    by (simp add: to_lower_def is_upper_def)
  moreover have "to_lower CHR ''n'' = CHR ''n''" by code_simp
  ultimately have "\<forall>n. uuid_in sample_world (uuid_gen sample_world n) = Some (uuid_gen sample_world n)"
    by (simp add: sample_world_def ToLower_def)
  from signup_creates [OF run this] run show ?thesis by blast
qed

text \<open>C11. A login that succeeds is for a live, active user with the address given whose password hash
  accepts the password. Without driver errors, one for an address nobody has and one with a wrong
  password are refused with the same error, and neither changes anything.
\<close>

theorem login_checks:
  assumes "AuthService_Login (sql_auth m lib bc) email password w = (r, w')"
  shows "case r of
      Inr (u, p) \<Rightarrow> u \<in> set (users w) \<and> u_live u \<and> u_Email u = email \<and> u_IsActive u
        \<and> CheckPassword bc (u_PasswordHash u) password
    | Inl e \<Rightarrow> script w = [] \<longrightarrow>
        (\<forall>u \<in> set (users w). u_live u \<longrightarrow> u_Email u = email \<longrightarrow>
           \<not> CheckPassword bc (u_PasswordHash u) password) \<longrightarrow>
        e = Sentinel ErrInvalidCredentials \<and> w' = w"
proof (cases r)
  case (Inl e)
  with assms Login_refused [of w email bc password m lib] show ?thesis by auto
next
  case (Inr up)
  obtain u p where up: "up = (u, p)" by (cases up)
  from Login_Inr [OF assms [unfolded Inr up]] show ?thesis unfolding Inr up by simp
qed

theorem login_checks_witness:
  "AuthService_Login sample_auth ''u1@x.io'' ''guess'' sample_world
     = (Inl (Sentinel ErrInvalidCredentials), sample_world)"
proof -
  obtain r w' where run: "AuthService_Login sample_auth ''u1@x.io'' ''guess'' sample_world = (r, w')"
    by (cases "AuthService_Login sample_auth ''u1@x.io'' ''guess'' sample_world")
  have "isl (fst (AuthService_Login sample_auth ''u1@x.io'' ''guess'' sample_world))"
    by code_simp
  with run obtain e where "r = Inl e" by (cases r) auto
  with login_checks [OF run] run show ?thesis
    by (simp add: sample_user_def CheckPassword_def sample_bcrypt_def)
qed

section \<open>Sessions\<close>

text \<open>C9. What a refresh takes: a token that verifies as a refresh token now, whose hash is that of
  an unrevoked and unexpired row of the user it names, and that user must be active. The new pair
  comes with exactly one new row, the hash of its refresh token.
\<close>

theorem refresh_needs_session:
  assumes "AuthService_Refresh (sql_auth m lib bc) tok w = (Inr pair, w')"
  shows "\<exists>claims x row. VerifyRefreshToken lib m tok (clock w) = Inr claims
    \<and> uuid_in w (c_UserID claims) = Some x \<and> row \<in> set (refresh_tokens w)
    \<and> rt_active x (clock w) row \<and> rt_TokenHash row = HashToken tok
    \<and> (\<exists>rows new. refresh_tokens w' = rows @ [new] \<and> length rows = length (refresh_tokens w)
         \<and> rt_TokenHash new = HashToken (tp_RefreshToken pair) \<and> rt_RevokedAt new = None)"
proof -
  from assms obtain claims x row user w1 w2 w3 where
    v: "VerifyRefreshToken lib m tok (clock w) = Inr claims" "uuid_in w (c_UserID claims) = Some x"
      "row \<in> set (refresh_tokens w)" "rt_active x (clock w) row" "rt_TokenHash row = HashToken tok"
    and w2: "refresh_tokens w2 = refresh_tokens w"
    and w3: "w3 = snd (RefreshTokenRepository_Revoke (rt_ID row) w2)"
    and i: "issueTokenPair (sql_auth m lib bc) user w3 = (Inr pair, w')"
    by (rule ses.Refresh_Inr) auto
  obtain q where q: "RefreshTokenRepository_Revoke (rt_ID row) w2 = (q, w3)"
    by (cases "RefreshTokenRepository_Revoke (rt_ID row) w2") (simp add: w3)
  have "length (refresh_tokens w3) = length (refresh_tokens w2)"
  proof (cases q)
    case (Inl e)
    from tabs_eqD(6) [OF writesD(2) [OF RefreshTokenRepository_Revoke_writes q [unfolded Inl]]]
    show ?thesis by simp
  next
    case (Inr u)
    from writesD(1) [OF RefreshTokenRepository_Revoke_writes q [unfolded Inr]]
    show ?thesis by (auto dest!: refresh_revokedD simp: update_rows_def)
  qed
  with ses.issueTokenPair_row [OF i] v w2 show ?thesis by metis
qed

definition sample_refresh_token :: string where
  "sample_refresh_token = put_token (sample_claims\<lparr>c_TokenUse := ''refresh''\<rparr>) ''R''"

definition sample_session :: world where
  "sample_session = sample_world\<lparr>refresh_tokens := [\<lparr>rt_ID = ''k1'', rt_UserID = ''u1'',
     rt_TokenHash = HashToken sample_refresh_token, rt_ExpiresAt = 5000, rt_RevokedAt = None,
     rt_CreatedAt = 0\<rparr>]\<rparr>"

lemma sample_verify:
  "VerifyRefreshToken sample_jwt sample_manager sample_refresh_token 1000
     = Inr (sample_claims\<lparr>c_TokenUse := ''refresh''\<rparr>)"
  by code_simp

lemma sample_refresh_runs:
  "\<exists>pair w'. AuthService_Refresh sample_auth sample_refresh_token sample_session = (Inr pair, w')"
proof -
  let ?row = "hd (refresh_tokens sample_session)"
  have list: "RefreshTokenRepository_ListActiveByUser ''u1'' sample_session = (Inr [?row], sample_session)"
    by (simp add: RefreshTokenRepository_ListActiveByUser_def sample_session_def uuid_param_def
        query_rows_def rt_active_def order_desc_def)
  have user: "UserRepository_GetByID ''u1'' sample_session
      = (Inr (sample_user ''u1'' ''t1'' ''admin''), sample_session)"
    by (simp add: UserRepository_GetByID_def map_err_def uuid_param_def query_row_def
        sample_session_def sample_user_def u_live_def)
  let ?w = "snd (RefreshTokenRepository_Revoke ''k1'' sample_session)"
  have w: "?w = sample_session\<lparr>refresh_tokens := [?row\<lparr>rt_RevokedAt := Some 1000\<rparr>]\<rparr>"
    by (simp add: RefreshTokenRepository_Revoke_def uuid_param_def sample_session_def
        update_rows_def rows_affected_def Let_def)
  have "\<exists>pair w'. issueTokenPair sample_auth (sample_user ''u1'' ''t1'' ''admin'') ?w = (Inr pair, w')"
    unfolding w by (rule sample_pair [where x = "''u1''"])
      (simp_all add: sample_session_def sample_user_def)
  then show ?thesis
    using list user
    by (simp add: AuthService_Refresh_def sample_session_def sample_verify sample_claims_def
        bind_op_def map_err_def CheckToken_HashToken sample_user_def ignore_err_def)
qed

theorem refresh_needs_session_witness:
  "\<exists>row. row \<in> set (refresh_tokens sample_session) \<and> rt_TokenHash row = HashToken sample_refresh_token"
proof -
  obtain pair w' where
    "AuthService_Refresh sample_auth sample_refresh_token sample_session = (Inr pair, w')"
    using sample_refresh_runs by blast
  from refresh_needs_session [OF this] show ?thesis by blast
qed



text \<open>C12. Logging out ends every session of the user: afterwards no refresh token that names the
  user is accepted, whichever one it is.
\<close>

theorem logout_ends_sessions:
  assumes "AuthService_Logout (sql_auth m lib bc) uid w = (Inr v, w')"
    and "VerifyRefreshToken lib m tok (clock w') = Inr claims"
    and "uuid_in w (c_UserID claims) = uuid_in w uid"
  shows "\<exists>e w''. AuthService_Refresh (sql_auth m lib bc) tok w' = (Inl e, w'')"
  by (rule ses.Logout_ends [OF assms(1)]) (use assms(2,3) in simp_all)

theorem logout_ends_sessions_witness:
  "\<exists>e w''. AuthService_Refresh sample_auth sample_refresh_token
     (snd (AuthService_Logout sample_auth ''u1'' sample_session)) = (Inl e, w'')"
proof -
  let ?w = "sample_session\<lparr>refresh_tokens :=
     [hd (refresh_tokens sample_session)\<lparr>rt_RevokedAt := Some 1000\<rparr>]\<rparr>"
  have run: "AuthService_Logout sample_auth ''u1'' sample_session = (Inr (), ?w)"
    by (simp add: AuthService_Logout_def RefreshTokenRepository_RevokeAllForUser_def uuid_param_def
        sample_session_def update_rows_def Let_def)
  from logout_ends_sessions [OF run, of sample_refresh_token
      "sample_claims\<lparr>c_TokenUse := ''refresh''\<rparr>"] sample_verify run
  show ?thesis by (simp add: sample_session_def sample_claims_def)
qed

section \<open>Tokens\<close>



section \<open>API keys\<close>

text \<open>An API key is accepted only as the secret of a stored key: a row with its hash and the
  configured prefix, active, not revoked, and not expired at the time of the lookup.
\<close>

theorem api_key_accepted:
  assumes "APIKeyService_Authenticate prefix secret w = (Inr k, w')"
  shows "k \<in> set (api_keys w) \<and> k_KeyHash k = HashToken secret
    \<and> (\<exists>now. clock w \<le> now \<and> now \<le> clock w' \<and> key_candidate prefix now k)"
  using Authenticate_Inr [OF assms] by blast

definition sample_keyed :: world where
  "sample_keyed = sample_world\<lparr>api_keys := [sample_key ''k1'' ''t1'' (HashToken ''bc_1'')]\<rparr>"

lemma sample_authenticates:
  "\<exists>w'. APIKeyService_Authenticate ''bc_'' ''bc_1'' sample_keyed
     = (Inr (sample_key ''k1'' ''t1'' (HashToken ''bc_1'')), w')"
  by (simp add: APIKeyService_Authenticate_def bind_op_def map_err_def sample_keyed_def
      APIKeyRepository_ListActiveByPrefix_def query_rows_def key_candidate_def sample_key_def
      k_live_def CheckToken_HashToken ignore_err_def ret_def)

theorem api_key_accepted_witness:
  "\<exists>k. k \<in> set (api_keys sample_keyed) \<and> k_KeyHash k = HashToken ''bc_1''"
  using sample_authenticates api_key_accepted by blast







section \<open>Entitlements\<close>

text \<open>The two ways to ask for a tenant's features agree: without driver errors, and with one
  grant per feature and tenant (a unique constraint), a feature is reported as enabled exactly
  when it is in the list, which has no repetitions: the features of the plan and the enabled
  grants.
\<close>

theorem features_agree:
  assumes "EntitlementService_ListEnabledFeatures t plan w = (Inr ks, w1)"
    and "EntitlementService_HasFeature t plan k v = (Inr b, v1)"
    and "tabs v = tabs w" and "uuid_in v = uuid_in w" and "script v = []"
    and "\<forall>tid. uuid_in w t = Some tid \<longrightarrow> grants_unique tid (tabs w)"
  shows "distinct ks \<and> (b \<longleftrightarrow> k \<in> set ks)"
proof -
  from ListEnabledFeatures_Inr [OF assms(1)] obtain tid where tid: "uuid_in w t = Some tid"
    and ks: "distinct ks" "set ks = set (PlanFeatureDefaults plan)
      \<union> {k. (k, True) \<in> set (grants_of tid (tabs w))}" by blast
  from HasFeature_Inr [OF assms(2,5)] tid assms(3,4,6) ks show ?thesis by auto
qed

theorem features_agree_witness:
  "\<exists>ks b. fst (EntitlementService_ListEnabledFeatures ''t1'' ''pro'' sample_world) = Inr ks
     \<and> fst (EntitlementService_HasFeature ''t1'' ''pro'' ''usage.export'' sample_world) = Inr b
     \<and> (b \<longleftrightarrow> ''usage.export'' \<in> set ks)"
proof -
  have "\<not> isl (fst (EntitlementService_ListEnabledFeatures ''t1'' ''pro'' sample_world))"
    "\<not> isl (fst (EntitlementService_HasFeature ''t1'' ''pro'' ''usage.export'' sample_world))"
    by code_simp+
  then obtain ks w1 b v1 where
    l: "EntitlementService_ListEnabledFeatures ''t1'' ''pro'' sample_world = (Inr ks, w1)"
    and h: "EntitlementService_HasFeature ''t1'' ''pro'' ''usage.export'' sample_world = (Inr b, v1)"
    by (cases "EntitlementService_ListEnabledFeatures ''t1'' ''pro'' sample_world";
        cases "EntitlementService_HasFeature ''t1'' ''pro'' ''usage.export'' sample_world";
        cases "fst (EntitlementService_ListEnabledFeatures ''t1'' ''pro'' sample_world)";
        cases "fst (EntitlementService_HasFeature ''t1'' ''pro'' ''usage.export'' sample_world)") auto
  from features_agree [OF l h] l h show ?thesis
    by (simp add: grants_unique_def grants_of_def)
qed

text \<open>
  A grant that is switched off does not take a feature of the plan away, although the
  service's documentation says that explicit grants come first.
\<close>

theorem disabled_grant_keeps_plan_feature:
  assumes "EntitlementService_HasFeature t plan k w = (Inr b, w')"
    and "k \<in> set (PlanFeatureDefaults plan)"
  shows "b"
  using assms by (rule HasFeature_plan)

definition sample_revoked_export :: world where
  "sample_revoked_export = sample_world\<lparr>
     features := [\<lparr>f_ID = ''k1'', f_Key = ''usage.export'', f_Name = '''', f_Description = '''',
       f_CreatedAt = 0, f_UpdatedAt = 0\<rparr>],
     tenant_features := [\<lparr>tf_ID = ''k2'', tf_TenantID = ''t1'', tf_FeatureID = ''k1'',
       tf_Enabled = False, tf_CreatedAt = 0, tf_UpdatedAt = 0\<rparr>]\<rparr>"

theorem disabled_grant_keeps_plan_feature_witness:
  "fst (EntitlementService_HasFeature ''t1'' ''pro'' ''usage.export'' sample_revoked_export) = Inr True"
proof -
  have "\<not> isl (fst (EntitlementService_HasFeature ''t1'' ''pro'' ''usage.export'' sample_revoked_export))"
    "''usage.export'' \<in> set (PlanFeatureDefaults ''pro'')"
    by code_simp+
  then show ?thesis
    using disabled_grant_keeps_plan_feature [of "''t1''" "''pro''" "''usage.export''" sample_revoked_export]
    by (cases "EntitlementService_HasFeature ''t1'' ''pro'' ''usage.export'' sample_revoked_export";
        cases "fst (EntitlementService_HasFeature ''t1'' ''pro'' ''usage.export'' sample_revoked_export)")
      auto
qed

end
