(* ===== verification/ExportQueue.thy ===== *)
theory ExportQueue
  imports Export_Repository
begin

text \<open>
  The queue of export jobs as a state machine: every statement of the repository that changes the
  table is a step, failed calls included. The retry budget is the one \<open>ReleaseStale\<close> is called
  with. \<open>Requeue\<close> has no guard of its own; its step says what its caller, the worker of the
  missing \<^verbatim>\<open>internal/exports\<close>, must check for the budget to hold.
\<close>

inductive queue_step :: "int \<Rightarrow> world \<Rightarrow> world \<Rightarrow> bool" for budget :: int where
  create: "ExportRepository_Create j w = (r, w') \<Longrightarrow> distinct (map j_ID (export_jobs w')) \<Longrightarrow>
     queue_step budget w w'"
| claim: "ExportRepository_ClaimQueued locked lim w = (r, w') \<Longrightarrow> queue_step budget w w'"
| complete: "ExportRepository_MarkCompleted i key n size' w = (r, w') \<Longrightarrow> queue_step budget w w'"
| fail_step: "ExportRepository_MarkFailed i reason w = (r, w') \<Longrightarrow> queue_step budget w w'"
| requeue: "ExportRepository_Requeue i reason w = (r, w') \<Longrightarrow>
     (\<forall>j \<in> set (export_jobs w). uuid_in w i = Some (j_ID j) \<longrightarrow> j_Attempts j < budget) \<Longrightarrow>
     queue_step budget w w'"
| release: "ExportRepository_ReleaseStale olderThan budget w = (r, w') \<Longrightarrow> queue_step budget w w'"
| elsewhere: "export_jobs w' = export_jobs w \<Longrightarrow> queue_step budget w w'"

inductive_cases queue_stepE: "queue_step budget w w'"

definition job_ok :: "int \<Rightarrow> ExportJob \<Rightarrow> bool" where
  "job_ok budget j \<longleftrightarrow> ExportStatus_Valid (j_Status j) \<and> 0 \<le> j_Attempts j \<and> j_Attempts j \<le> budget
     \<and> (job_queued j \<longrightarrow> j_Attempts j < budget)"

definition queue_ok :: "int \<Rightarrow> ExportJob list \<Rightarrow> bool" where
  "queue_ok budget js \<longleftrightarrow> distinct (map j_ID js) \<and> (\<forall>j \<in> set js. job_ok budget j)"

lemma job_ok_mark:
  assumes "job_ok budget j"
  shows "job_ok budget (complete_job k n s now j)" "job_ok budget (fail_job m now j)"
    "j_Attempts j < budget \<Longrightarrow> job_ok budget (requeue_job m now j)"
    "job_queued j \<Longrightarrow> job_ok budget (claim_job now j)"
    "job_ok budget (release_job budget now j)"
  using assms
  by (auto simp: job_ok_def complete_job_def fail_job_def requeue_job_def claim_job_def
      release_job_def job_queued_def ExportStatus_Valid_def)

lemma job_mark_ID [simp]:
  "j_ID (complete_job k n s now j) = j_ID j" "j_ID (fail_job m now j) = j_ID j"
  "j_ID (requeue_job m now j) = j_ID j" "j_ID (claim_job now j) = j_ID j"
  "j_ID (release_job b now j) = j_ID j"
  by (simp_all add: complete_job_def fail_job_def requeue_job_def claim_job_def release_job_def)

lemma queue_ok_update:
  assumes "queue_ok budget js" "\<And>j. j_ID (f j) = j_ID j"
    and "\<And>j. j \<in> set js \<Longrightarrow> P j \<Longrightarrow> job_ok budget j \<Longrightarrow> job_ok budget (f j)"
  shows "queue_ok budget (update_rows P f js)"
  using assms by (auto simp: queue_ok_def ball_update_rows update_rows_map)

lemma queue_ok_marked:
  assumes "job_marked x f a b" "queue_ok budget (export_jobs a)" "\<And>now j. j_ID (f now j) = j_ID j"
    and "\<And>now j. j \<in> set (export_jobs a) \<Longrightarrow> j_ID j = x \<Longrightarrow> job_ok budget j \<Longrightarrow>
           job_ok budget (f now j)"
  shows "queue_ok budget (export_jobs b)"
proof -
  from assms(1) obtain now where
    "export_jobs b = update_rows (\<lambda>j. j_ID j = x) (f now) (export_jobs a)"
    by (auto simp: job_marked_def)
  then show ?thesis using queue_ok_update [OF assms(2)] assms(3,4) by simp
qed

lemma queue_ok_failed:
  assumes "writes R f" "f w = (Inl e, w')" "queue_ok budget (export_jobs w)"
  shows "queue_ok budget (export_jobs w')"
  using tabs_eqD(9) [OF writesD(2) [OF assms(1,2)]] assms(3) by simp

lemma queue_ok_call:
  assumes "writes (\<lambda>env a y b. \<exists>x. env i = Some x \<and> job_marked x f a b) m" "m w = (r, w')"
    and "queue_ok budget (export_jobs w)" "\<And>now j. j_ID (f now j) = j_ID j"
    and "\<And>now j. j \<in> set (export_jobs w) \<Longrightarrow> uuid_in w i = Some (j_ID j) \<Longrightarrow> job_ok budget j \<Longrightarrow>
           job_ok budget (f now j)"
  shows "queue_ok budget (export_jobs w')"
proof (cases r)
  case (Inl e)
  with assms(2) queue_ok_failed [OF assms(1) _ assms(3)] show ?thesis by simp
next
  case (Inr u)
  from writesD(1) [OF assms(1) assms(2) [unfolded Inr]] obtain x where
    x: "uuid_in w i = Some x" and m: "job_marked x f (tabs w) (tabs w')" by blast
  have "queue_ok budget (export_jobs (tabs w'))"
    by (rule queue_ok_marked [OF m]) (use assms(3-5) x in auto)
  then show ?thesis by simp
qed

lemma ReleaseStale_rows:
  assumes "ExportRepository_ReleaseStale olderThan budget w = (Inr n, w')"
  shows "\<exists>now. export_jobs w' = update_rows (job_stale (clock w - olderThan)) (release_job budget now)
      (export_jobs w)" "n = rows_affected (job_stale (clock w - olderThan)) (export_jobs w)"
proof -
  from assms obtain w1 where w1: "tabs w1 = tabs w"
    "n = rows_affected (job_stale (clock w - olderThan)) (export_jobs w1)"
    "export_jobs w' = update_rows (job_stale (clock w - olderThan)) (release_job budget (clock w1))
       (export_jobs w1)"
    by (auto simp: ExportRepository_ReleaseStale_def Let_def elim!: exec_Inr)
  then show "\<exists>now. export_jobs w' = update_rows (job_stale (clock w - olderThan))
      (release_job budget now) (export_jobs w)"
    "n = rows_affected (job_stale (clock w - olderThan)) (export_jobs w)"
    using tabs_eqD(9) [OF w1(1)] by auto
qed

lemma ReleaseStale_Inl:
  assumes "ExportRepository_ReleaseStale olderThan budget w = (Inl e, w')"
  shows "export_jobs w' = export_jobs w"
  using assms unfolding ExportRepository_ReleaseStale_def Let_def
  by (rule exec_cases) (auto dest: tabs_eqD(9))

lemma queue_step_ok:
  assumes "queue_step budget w w'" "queue_ok budget (export_jobs w)" "0 < budget"
  shows "queue_ok budget (export_jobs w')"
  using assms(1)
proof cases
  case (create j r)
  show ?thesis
  proof (cases r)
    case (Inl e)
    with create queue_ok_failed [OF ExportRepository_Create_writes _ assms(2)] show ?thesis by simp
  next
    case (Inr j')
    from writesD(1) [OF ExportRepository_Create_writes create(1) [unfolded Inr]] obtain row where
      b: "tabs w' = (tabs w)\<lparr>export_jobs := export_jobs w @ [row]\<rparr>"
      and row: "j_Status row = ExportStatusQueued" "j_Attempts row = 0"
      by (auto simp: job_inserted_def)
    from row assms(3) have "job_ok budget row"
      by (simp add: job_ok_def ExportStatus_Valid_def)
    with create(2) assms(2) tabs_updD(9) [OF b] show ?thesis by (simp add: queue_ok_def)
  qed
next
  case (claim locked lim r)
  show ?thesis
  proof (cases r)
    case (Inl e)
    with claim have "exec (claim_queued locked lim) w = (Inl e, w')"
      by (simp add: ExportRepository_ClaimQueued_def split: if_splits)
    from queue_ok_failed [OF writes_exec [OF claim_queued_writes] this assms(2)] show ?thesis .
  next
    case (Inr js)
    from ClaimQueued_Inr [OF claim(1) [unfolded Inr]] show ?thesis
    proof
      assume c: "jobs_claimed locked lim (tabs w) js (tabs w')"
      have ids: "distinct (map j_ID (export_jobs (tabs w)))" using assms(2) by (simp add: queue_ok_def)
      note R = jobs_claimed_rows [OF c ids]
      have "job_ok budget j" if j: "j \<in> set (export_jobs w')" for j
      proof (cases "j_ID j \<in> j_ID ` set js")
        case True
        then obtain j1 where j1: "j1 \<in> set js" "j_ID j1 = j_ID j" by auto
        with R(2) obtain j0 now where j0: "j0 \<in> set (export_jobs w)" "j1 = claim_job now j0"
          "job_queued j0" "j1 \<in> set (export_jobs w')" by auto
        have "distinct (map j_ID (export_jobs w'))" using R(5) ids by simp
        with j1(2) j0(4) j have "j = j1" by (auto simp: distinct_map dest: inj_onD)
        with j0 assms(2) show ?thesis by (auto simp: queue_ok_def intro: job_ok_mark(4))
      next
        case False
        with j have "j \<in> set (filter (\<lambda>j. j_ID j \<notin> j_ID ` set js) (export_jobs (tabs w')))" by simp
        then have "j \<in> set (export_jobs w)" unfolding R(4) by simp
        with assms(2) show ?thesis by (simp add: queue_ok_def)
      qed
      with R(5) ids show ?thesis by (simp add: queue_ok_def)
    qed (use assms(2) in simp)
  qed
next
  case (complete i key n size' r)
  show ?thesis
    by (rule queue_ok_call [OF ExportRepository_mark_writes(1) complete assms(2)])
      (auto intro: job_ok_mark)
next
  case (fail_step i reason r)
  show ?thesis
    by (rule queue_ok_call [OF ExportRepository_mark_writes(2) fail_step assms(2)])
      (auto intro: job_ok_mark)
next
  case (requeue i reason r)
  show ?thesis
    by (rule queue_ok_call [OF ExportRepository_mark_writes(3) requeue(1) assms(2)])
      (use requeue(2) in \<open>auto intro: job_ok_mark\<close>)
next
  case (release olderThan r)
  show ?thesis
  proof (cases r)
    case (Inl e)
    with release assms(2) ReleaseStale_Inl show ?thesis by metis
  next
    case (Inr n)
    from ReleaseStale_rows(1) [OF release [unfolded Inr]] obtain now where
      "export_jobs w' = update_rows (job_stale (clock w - olderThan)) (release_job budget now)
         (export_jobs w)" by blast
    then show ?thesis
      by (simp, intro queue_ok_update [OF assms(2)]) (auto intro: job_ok_mark)
  qed
qed (use assms(2) in simp)

end
