(* ===== verification/RecordProperties.thy ===== *)
theory RecordProperties
  imports Sample ExportQueue
begin

text \<open>
  The properties of exports, usage and audit records, and of what every request goes through:
  pagination, rate limiting, request identifiers and error responses.
\<close>

section \<open>Exports\<close>

text \<open>A request for an export leaves every stored job as it was and adds at most one row, queued
  and of the caller's own tenant, whether or not the notification goes through.
\<close>

theorem export_request_queues:
  assumes "es_jobs s = export_repo"
    and "\<forall>j t v q v'. nt_Publish (es_notifier s) j t v = (q, v') \<longrightarrow> export_jobs v' = export_jobs v"
    and "ExportService_Request s scope inp w = (r, w')"
  shows "export_jobs w' = export_jobs w
    \<or> (\<exists>row. export_jobs w' = export_jobs w @ [row]
         \<and> uuid_in w (TenantID scope) = Some (j_TenantID row) \<and> j_Status row = ExportStatusQueued)"
  by (rule ex.Request_row [OF assms(1,3)]) (use assms(2) in auto)

abbreviation sample_input :: RequestExportInput where
  "sample_input \<equiv> \<lparr>re_Endpoint = '''', re_Method = ''get'', re_From = None, re_To = None\<rparr>"

theorem export_request_queues_witness:
  "map j_Status (drop 2 (export_jobs (snd (ExportService_Request sample_exports
     \<lparr>TenantID = ''t1'', UserID = ''u1'', s_Role = ''admin''\<rparr> sample_input sample_world))))
   \<in> {[], [''queued'']}"
proof -
  obtain r w' where run: "ExportService_Request sample_exports
      \<lparr>TenantID = ''t1'', UserID = ''u1'', s_Role = ''admin''\<rparr> sample_input sample_world = (r, w')"
    by (cases "ExportService_Request sample_exports
      \<lparr>TenantID = ''t1'', UserID = ''u1'', s_Role = ''admin''\<rparr> sample_input sample_world")
  have "es_jobs sample_exports = export_repo"
    "\<forall>j t v q v'. nt_Publish (es_notifier sample_exports) j t v = (q, v') \<longrightarrow>
       export_jobs v' = export_jobs v"
    by (simp_all add: sample_exports_def)
  from export_request_queues [OF this run] run show ?thesis by (auto simp: const_defs)
qed

text \<open>A download link is only made for a finished export of the caller's own tenant that has a
  stored object; it expires a fixed time after it was made.
\<close>

theorem download_own_completed:
  assumes "es_jobs s = export_repo" and "ExportService_DownloadURL s scope i w = (Inr d, w')"
  shows "\<exists>j. j \<in> set (export_jobs w) \<and> uuid_in w (TenantID scope) = Some (j_TenantID j)
    \<and> j_Status j = ExportStatusCompleted \<and> j_ObjectKey j \<noteq> '''' \<and> dl_RowCount d = j_RowCount j
    \<and> dl_ExpiresAt d = clock w' + es_downloadTTL s"
  by (rule ex.DownloadURL_row [OF assms])

theorem download_own_completed_witness:
  "\<exists>j \<in> set (export_jobs sample_world). j_TenantID j = ''t1'' \<and> j_Status j = ExportStatusCompleted"
proof -
  let ?scope = "\<lparr>TenantID = ''t1'', UserID = ''u1'', s_Role = ''admin''\<rparr>"
  have "\<not> isl (fst (ExportService_DownloadURL sample_exports ?scope ''j1'' sample_world))"
    by code_simp
  then obtain d w' where run: "ExportService_DownloadURL sample_exports ?scope ''j1'' sample_world = (Inr d, w')"
    by (cases "ExportService_DownloadURL sample_exports ?scope ''j1'' sample_world";
        cases "fst (ExportService_DownloadURL sample_exports ?scope ''j1'' sample_world)") auto
  have "es_jobs sample_exports = export_repo" by (simp add: sample_exports_def)
  from download_own_completed [OF this run] show ?thesis by auto
qed

text \<open>C25. A worker's claim takes at most the number of jobs it asks for. Each was queued, was not
  locked by another worker, and is no younger than any job it could have taken and did not; each is
  now in processing, with one attempt more. The other jobs stay as they were.
\<close>

theorem claim_takes_oldest:
  assumes "ExportRepository_ClaimQueued locked lim w = (Inr js, w')"
    and "distinct (map j_ID (export_jobs w))"
  shows "length js \<le> nat lim
    \<and> (\<forall>j \<in> set js. j_Status j = ExportStatusProcessing
         \<and> (\<exists>j0 \<in> set (export_jobs w). j_ID j0 = j_ID j \<and> job_queued j0 \<and> j_ID j0 \<notin> locked
              \<and> j_Attempts j = j_Attempts j0 + 1))
    \<and> (\<forall>j \<in> set js. \<forall>q \<in> set (export_jobs w). job_queued q \<longrightarrow> j_ID q \<notin> locked \<longrightarrow>
         j_ID q \<notin> j_ID ` set js \<longrightarrow> j_CreatedAt j \<le> j_CreatedAt q)
    \<and> filter (\<lambda>j. j_ID j \<notin> j_ID ` set js) (export_jobs w')
      = filter (\<lambda>j. j_ID j \<notin> j_ID ` set js) (export_jobs w)"
  using ClaimQueued_Inr [OF assms(1)]
proof
  assume "jobs_claimed locked lim (tabs w) js (tabs w')"
  from jobs_claimed_rows [OF this] assms(2) show ?thesis
    by (fastforce simp: claim_job_def)
qed simp

theorem claim_takes_oldest_witness:
  "\<exists>js w'. ExportRepository_ClaimQueued {} 3 sample_world = (Inr js, w') \<and> length js \<le> 3
     \<and> (\<forall>j \<in> set js. j_Status j = ExportStatusProcessing)"
proof -
  obtain js w' where run: "ExportRepository_ClaimQueued {} 3 sample_world = (Inr js, w')"
    by (simp add: ExportRepository_ClaimQueued_def claim_queued_def Let_def)
  from claim_takes_oldest [OF run] run show ?thesis by (simp add: sample_job_def)
qed

text \<open>Two claims, one after the other, never take the same job.\<close>

theorem claims_disjoint:
  assumes "ExportRepository_ClaimQueued l1 n1 w = (Inr js1, w1)"
    and "ExportRepository_ClaimQueued l2 n2 v = (Inr js2, v1)"
    and "export_jobs v = export_jobs w1" and "distinct (map j_ID (export_jobs w))"
  shows "j_ID ` set js1 \<inter> j_ID ` set js2 = {}"
proof (cases "js1 = [] \<or> js2 = []")
  case False
  with ClaimQueued_Inr [OF assms(1)] ClaimQueued_Inr [OF assms(2)]
  have c1: "jobs_claimed l1 n1 (tabs w) js1 (tabs w1)"
    and c2: "jobs_claimed l2 n2 (tabs v) js2 (tabs v1)" by auto
  have d1: "distinct (map j_ID (export_jobs (tabs w)))" using assms(4) by simp
  have d2: "distinct (map j_ID (export_jobs (tabs v)))"
    using jobs_claimed_rows(5) [OF c1 d1] d1 assms(3) by simp
  show ?thesis
  proof (rule ccontr)
    assume "\<not> ?thesis"
    then obtain a b where ab: "a \<in> set js1" "b \<in> set js2" "j_ID a = j_ID b" by blast
    from jobs_claimed_rows(2) [OF c1 d1] ab(1) obtain a0 now where
      a: "a = claim_job now a0" "a \<in> set (export_jobs w1)" by auto
    from jobs_claimed_rows(2) [OF c2 d2] ab(2) obtain b0 now' where
      b: "b = claim_job now' b0" "b0 \<in> set (export_jobs w1)" "job_queued b0"
      using assms(3) by auto
    have "j_ID a = j_ID b0" using ab(3) b(1) by simp
    with a(2) b(2) d2 assms(3) have "a = b0" by (auto simp: distinct_map dest: inj_onD)
    with a(1) b(3) show False by (simp add: job_queued_def claim_job_def)
  qed
qed auto

theorem claims_disjoint_witness:
  "\<exists>js1 w1 js2 v1. ExportRepository_ClaimQueued {} 1 sample_world = (Inr js1, w1)
     \<and> ExportRepository_ClaimQueued {} 1 w1 = (Inr js2, v1) \<and> j_ID ` set js1 \<inter> j_ID ` set js2 = {}"
proof -
  obtain js1 w1 where run1: "ExportRepository_ClaimQueued {} 1 sample_world = (Inr js1, w1)"
    and w1: "script w1 = []"
    by (simp add: ExportRepository_ClaimQueued_def claim_queued_def Let_def)
  obtain js2 v1 where run2: "ExportRepository_ClaimQueued {} 1 w1 = (Inr js2, v1)"
    by (simp add: ExportRepository_ClaimQueued_def claim_queued_def Let_def w1)
  from claims_disjoint [OF run1 run2 refl] run1 run2 show ?thesis by (simp add: sample_job_def)
qed

text \<open>C7. The retry budget holds in every state the queue can reach from an empty one: no job has more
  attempts than the budget, a queued one has fewer, and every status is one of the four. A worker
  may put a job back only while it has attempts left; everything else, failed calls included, may
  happen in any order.
\<close>

theorem retry_budget:
  assumes "(queue_step budget)\<^sup>*\<^sup>* w w'" and "export_jobs w = []" and "0 < budget"
    and "j \<in> set (export_jobs w')"
  shows "ExportStatus_Valid (j_Status j) \<and> j_Attempts j \<le> budget
    \<and> (job_queued j \<longrightarrow> j_Attempts j < budget)"
proof -
  from assms(1) have "queue_ok budget (export_jobs w')"
  proof (induction rule: rtranclp_induct)
    case base
    show ?case by (simp add: assms(2) queue_ok_def)
  next
    case (step v v')
    from queue_step_ok [OF step(2,3) assms(3)] show ?case .
  qed
  with assms(4) show ?thesis by (simp add: queue_ok_def job_ok_def)
qed

theorem retry_budget_witness:
  "\<exists>w j. (queue_step 3)\<^sup>*\<^sup>* (sample_world\<lparr>export_jobs := []\<rparr>) w \<and> j \<in> set (export_jobs w)
     \<and> j_Attempts j \<le> 3"
proof -
  let ?w = "sample_world\<lparr>export_jobs := []\<rparr>"
  obtain r w' where run: "ExportRepository_Create (blank_job\<lparr>j_TenantID := ''t1''\<rparr>) ?w = (r, w')"
    and row: "length (export_jobs w') = 1"
    by (simp add: ExportRepository_Create_def map_err_def uuid_param_def uuid_opt_param_def
        insert_job_def blank_job_def Let_def tenant_exists_def sample_tenant_def opt_ok_def)
  have "distinct (map j_ID (export_jobs w'))" using row by (cases "export_jobs w'") auto
  with run have step: "(queue_step 3)\<^sup>*\<^sup>* ?w w'" by (blast intro: queue_step.create)
  from row have j: "hd (export_jobs w') \<in> set (export_jobs w')" by (cases "export_jobs w'") auto
  from retry_budget [OF step _ _ j] step j show ?thesis by auto
qed

text \<open>
  A report about a job that has already ended is taken all the same: a worker that was given
  up on, and reports a failure after another one completed the job, turns it into a failed one.
\<close>

theorem late_report_overwrites:
  "map j_Status (export_jobs sample_world) = [''completed'', ''queued'']
    \<and> map j_Status (export_jobs (snd (ExportRepository_MarkFailed ''j1'' ''late'' sample_world)))
      = [''failed'', ''queued'']"
  by code_simp

section \<open>Usage and lists\<close>

text \<open>The usage summary loses and repeats nothing: the request counts of its groups add up to the
  number of the tenant's log rows in the window, and no group has more errors than requests.
\<close>

theorem usage_summary_counts:
  assumes "UsageRepository_SummaryByTenant t from to w = (Inr ss, w')"
  shows "\<exists>A. uuid_in w t = Some A
    \<and> sum_list (map es_RequestCount ss)
      = int (length (filter (usage_filter A '''' '''' from to) (usage_logs w)))
    \<and> (\<forall>s \<in> set ss. es_ErrorCount s \<le> es_RequestCount s)"
proof -
  from assms obtain w1 A where w1: "tabs w1 = tabs w" "uuid_in w1 = uuid_in w" "uuid_in w1 t = Some A"
    and ss: "ss = usage_summary (filter (usage_filter A '''' '''' from to) (usage_logs w1))"
    by (auto simp: UsageRepository_SummaryByTenant_def uuid_param_Inr query_rows_def same_env_def
        elim!: exec_Inr)
  have "es_ErrorCount (summarize rows g) \<le> es_RequestCount (summarize rows g)" for rows g
    by (simp add: summarize_def Let_def del: filter_filter)
  then have "\<forall>s \<in> set ss. es_ErrorCount s \<le> es_RequestCount s"
    by (auto simp: ss usage_summary_def)
  with w1 ss tabs_eqD(7) [OF w1(1)] usage_summary_total show ?thesis by auto
qed

theorem usage_summary_counts_witness:
  "\<exists>ss. fst (UsageRepository_SummaryByTenant ''t1'' None None sample_world) = Inr ss
     \<and> sum_list (map es_RequestCount ss) = 1"
proof -
  obtain ss w' where run: "UsageRepository_SummaryByTenant ''t1'' None None sample_world = (Inr ss, w')"
    by (simp add: UsageRepository_SummaryByTenant_def uuid_param_def query_rows_def)
  from usage_summary_counts [OF run] run show ?thesis
    by (auto simp: sample_world_def sample_usage_def usage_filter_def in_window_def)
qed





text \<open>A list request is always for a page of at least one and at most the configured maximum of
  rows, and for page one or later, whatever the query says and however the limits were configured.
\<close>

theorem page_size_bounded:
  "1 \<le> fst (paginationParams (ConfigurePagination d m initial_pagination) r)
    \<and> 1 \<le> snd (paginationParams (ConfigurePagination d m initial_pagination) r)
    \<and> snd (paginationParams (ConfigurePagination d m initial_pagination) r)
      \<le> (if 0 < m then m else 100)"
proof -
  have init: "0 < defaultPageSize initial_pagination" "0 < maxPageSize initial_pagination"
    by (simp_all add: initial_pagination_def)
  have "maxPageSize (ConfigurePagination d m initial_pagination) = (if 0 < m then m else 100)"
    by (simp add: ConfigurePagination_def initial_pagination_def Let_def)
  with paginationParams_bounds [OF ConfigurePagination_ok [OF init], of d m r] show ?thesis by simp
qed

section \<open>Every request\<close>





text \<open>The request identifier a client may send is cut to what is safe to log and store: at most 64
  letters, digits, hyphens, underscores and dots. An identifier of that form passes unchanged, so
  that cleaning twice is cleaning once.
\<close>

theorem request_id_clean:
  "list_all safe_char (sanitizeRequestID raw) \<and> length (sanitizeRequestID raw) \<le> 64
    \<and> sanitizeRequestID (sanitizeRequestID raw) = sanitizeRequestID raw
    \<and> (list_all safe_char raw \<and> length raw \<le> 64 \<longrightarrow> sanitizeRequestID raw = raw)"
  using sanitize_safe [of raw] sanitize_length [of raw] sanitize_id [of raw]
    sanitize_id [OF sanitize_safe sanitize_length, of raw]
  by (simp add: maxRequestIDLength_def)

theorem request_id_clean_witness:
  "sanitizeRequestID ''req-1'' = ''req-1''"
proof -
  have "list_all safe_char ''req-1'' \<and> length ''req-1'' \<le> 64" by code_simp
  with request_id_clean [of "''req-1''"] show ?thesis by blast
qed

text \<open>What an error response shows never depends on the internal cause: an error that is none of
  the API's own gives one and the same response, whatever it is, and wrapping a cause in an API
  error changes nothing of the response.
\<close>

theorem error_response_opaque:
  assumes "errors_As_Error e1 = None" and "errors_As_Error e2 = None"
  shows "response_Fail r e1 rw = response_Fail r e2 rw
    \<and> response_Fail r (Api (Wrap a e1)) rw = response_Fail r (Api a) rw"
  using assms by (simp add: response_Fail_def From_def Let_def apierr_ctors)

theorem error_response_opaque_witness:
  "response_Fail (sample_request ''GET'' ''/'' []) (PqErr ''XX000'' ''disk'') sample_rw
     = response_Fail (sample_request ''GET'' ''/'' []) (Sentinel ErrInvalidToken) sample_rw"
  by (rule error_response_opaque [THEN conjunct1]) simp_all



text \<open>The secrets of the tables are in no response: what is rendered of a user does not depend on
  the password hash, and what is rendered of an API key not on the key's hash.
\<close>

theorem secrets_not_rendered:
  "User_json (u\<lparr>u_PasswordHash := h\<rparr>) = User_json u \<and> APIKey_json (k\<lparr>k_KeyHash := h\<rparr>) = APIKey_json k"
  by (simp add: User_json_def APIKey_json_def)

end
