(* ===== verification/GraphModel.thy ===== *)
theory GraphModel
  imports Http Activity_Repository ExportService
begin

text \<open>
  \<^verbatim>\<open>graph/model\<close>: what GraphQL shows of the domain objects, in types of its own. A view has only the
  fields listed here, so that a hash in the tables has nowhere to appear. A nil pointer is
  \<^const>\<open>None\<close>.
\<close>

record Tenant_view =
  mt_ID :: string
  mt_Name :: string
  mt_Slug :: string
  mt_Plan :: string
  mt_IsActive :: bool
  mt_CreatedAt :: time
  mt_UpdatedAt :: time

definition NewTenant :: "Tenant option \<Rightarrow> Tenant_view option" where
  "NewTenant = map_option (\<lambda>t. \<lparr>mt_ID = t_ID t, mt_Name = t_Name t, mt_Slug = t_Slug t,
     mt_Plan = t_Plan t, mt_IsActive = t_IsActive t, mt_CreatedAt = t_CreatedAt t,
     mt_UpdatedAt = t_UpdatedAt t\<rparr>)"

text \<open>The tenant of a user is carried for the nested field, and is no field of the schema itself.\<close>

record User_view =
  mu_ID :: string
  mu_Email :: string
  mu_FirstName :: string
  mu_LastName :: string
  mu_Role :: string
  mu_IsActive :: bool
  mu_LastLoginAt :: "time option"
  mu_CreatedAt :: time
  mu_UpdatedAt :: time
  mu_TenantID :: string

definition NewUser :: "User option \<Rightarrow> User_view option" where
  "NewUser = map_option (\<lambda>u. \<lparr>mu_ID = u_ID u, mu_Email = u_Email u, mu_FirstName = u_FirstName u,
     mu_LastName = u_LastName u, mu_Role = u_Role u, mu_IsActive = u_IsActive u,
     mu_LastLoginAt = u_LastLoginAt u, mu_CreatedAt = u_CreatedAt u, mu_UpdatedAt = u_UpdatedAt u,
     mu_TenantID = u_TenantID u\<rparr>)"

definition NewUsers :: "User option list \<Rightarrow> User_view option list" where
  "NewUsers us = map NewUser us"

record Feature_view =
  mf_ID :: string
  mf_Key :: string
  mf_Name :: string
  mf_Description :: string

definition NewFeatures :: "Feature list \<Rightarrow> Feature_view list" where
  "NewFeatures fs = map (\<lambda>f. \<lparr>mf_ID = f_ID f, mf_Key = f_Key f, mf_Name = f_Name f,
     mf_Description = f_Description f\<rparr>) fs"

record APIKey_view =
  mk_ID :: string
  mk_Name :: string
  mk_Prefix :: string
  mk_LastFour :: string
  mk_IsActive :: bool
  mk_LastUsedAt :: "time option"
  mk_ExpiresAt :: "time option"
  mk_CreatedAt :: time
  mk_RevokedAt :: "time option"

definition NewAPIKey :: "APIKey option \<Rightarrow> APIKey_view option" where
  "NewAPIKey = map_option (\<lambda>k. \<lparr>mk_ID = k_ID k, mk_Name = k_Name k, mk_Prefix = k_Prefix k,
     mk_LastFour = k_LastFour k, mk_IsActive = k_IsActive k, mk_LastUsedAt = k_LastUsedAt k,
     mk_ExpiresAt = k_ExpiresAt k, mk_CreatedAt = k_CreatedAt k, mk_RevokedAt = k_RevokedAt k\<rparr>)"

definition NewAPIKeys :: "APIKey option list \<Rightarrow> APIKey_view option list" where
  "NewAPIKeys ks = map NewAPIKey ks"

record GeneratedAPIKey =
  mg_APIKey :: "APIKey_view option"
  mg_Plaintext :: string

record UsageRecord =
  mr_ID :: string
  mr_Endpoint :: string
  mr_Method :: string
  mr_StatusCode :: int
  mr_LatencyMS :: int
  mr_RequestID :: string
  mr_CreatedAt :: time

definition NewUsageRecords :: "UsageLog list \<Rightarrow> UsageRecord list" where
  "NewUsageRecords us = map (\<lambda>u. \<lparr>mr_ID = ul_ID u, mr_Endpoint = ul_Endpoint u,
     mr_Method = ul_Method u, mr_StatusCode = ul_StatusCode u, mr_LatencyMS = ul_LatencyMS u,
     mr_RequestID = ul_RequestID u, mr_CreatedAt = ul_CreatedAt u\<rparr>) us"

text \<open>The average is the exact quotient of a sum and a count, as in the repository's summary.\<close>

record UsageSummary =
  ms_Endpoint :: string
  ms_Method :: string
  ms_RequestCount :: int
  ms_ErrorCount :: int
  ms_AvgLatencyMS :: "int \<times> nat"

definition NewUsageSummaries :: "EndpointSummary list \<Rightarrow> UsageSummary list" where
  "NewUsageSummaries ss = map (\<lambda>s. \<lparr>ms_Endpoint = es_Endpoint s, ms_Method = es_Method s,
     ms_RequestCount = es_RequestCount s, ms_ErrorCount = es_ErrorCount s,
     ms_AvgLatencyMS = es_AvgLatencyMS s\<rparr>) ss"

text \<open>The metadata is a string of JSON in the source; here it is the value the string encodes.\<close>

record AuditEntry =
  ma_ID :: string
  ma_Event :: string
  ma_ActorID :: "string option"
  ma_Endpoint :: string
  ma_IPAddress :: string
  ma_UserAgent :: string
  ma_Metadata :: json
  ma_CreatedAt :: time

record ExportJob_view =
  mj_ID :: string
  mj_Status :: string
  mj_Endpoint :: string
  mj_Method :: string
  mj_RowCount :: int
  mj_SizeBytes :: int
  mj_Attempts :: int
  mj_Error :: string
  mj_StartedAt :: "time option"
  mj_FinishedAt :: "time option"
  mj_CreatedAt :: time

definition NewExportJob :: "ExportJob option \<Rightarrow> ExportJob_view option" where
  "NewExportJob = map_option (\<lambda>j. \<lparr>mj_ID = j_ID j, mj_Status = j_Status j,
     mj_Endpoint = j_Endpoint j, mj_Method = j_Method j, mj_RowCount = j_RowCount j,
     mj_SizeBytes = j_SizeBytes j, mj_Attempts = j_Attempts j, mj_Error = j_Error j,
     mj_StartedAt = j_StartedAt j, mj_FinishedAt = j_FinishedAt j, mj_CreatedAt = j_CreatedAt j\<rparr>)"

definition NewExportJobs :: "ExportJob option list \<Rightarrow> ExportJob_view option list" where
  "NewExportJobs js = map NewExportJob js"

record PageInfo =
  mp_Page :: int
  mp_PageSize :: int
  mp_TotalCount :: int
  mp_TotalPages :: int
  mp_HasNext :: bool

definition NewPageInfo :: "int \<Rightarrow> int \<Rightarrow> int \<Rightarrow> PageInfo" where
  "NewPageInfo page pageSize n =
     (let pages = page_count n pageSize
      in \<lparr>mp_Page = page, mp_PageSize = pageSize, mp_TotalCount = n, mp_TotalPages = pages,
          mp_HasNext = (page < pages)\<rparr>)"

record UserConnection =
  uc_Nodes :: "User_view option list"
  uc_PageInfo :: PageInfo

record UsageConnection =
  ru_Nodes :: "UsageRecord list"
  ru_PageInfo :: PageInfo

record AuditConnection =
  ac_Nodes :: "AuditEntry list"
  ac_PageInfo :: PageInfo

record ExportJobConnection =
  jc_Nodes :: "ExportJob_view option list"
  jc_PageInfo :: PageInfo

record Download_view =
  md_URL :: string
  md_ExpiresAt :: time
  md_RowCount :: int
  md_SizeBytes :: int

text \<open>GraphQL and REST report a page alike.\<close>

lemma NewPageInfo_NewMeta:
  "mp_TotalPages (NewPageInfo p k n) = m_TotalPages (NewMeta p k n)"
  "mp_HasNext (NewPageInfo p k n) = m_HasNext (NewMeta p k n)"
  by (simp_all add: NewPageInfo_def NewMeta_def Let_def)

text \<open>The views do not depend on the hashes.\<close>

lemma NewUser_hash: "NewUser (Some (u\<lparr>u_PasswordHash := h\<rparr>)) = NewUser (Some u)"
  by (simp add: NewUser_def)

lemma NewAPIKey_hash: "NewAPIKey (Some (k\<lparr>k_KeyHash := h\<rparr>)) = NewAPIKey (Some k)"
  by (simp add: NewAPIKey_def)

end
