(* ===== verification/Dataloader.thy ===== *)
theory Dataloader
  imports GraphModel Tenant_Repository
begin

text \<open>
  \<^verbatim>\<open>graph/dataloader.go\<close>: the loader that reads many rows in one query. A loader is made for one
  request, so that its mutex plays no part; its values are pointers, \<^const>\<open>None\<close> is nil. An operation
  takes the loader and the state, and returns both.

  The locale \<open>loader_source\<close> says what the two functions of a loader have to promise; the tenant
  loader's functions keep these promises.
\<close>

record ('s, 'k, 'v) BatchLoader =
  bl_batch :: "'k list \<Rightarrow> ('s, 'k \<Rightarrow> 'v option option) op"
  bl_single :: "'k \<Rightarrow> ('s, 'v option) op"
  bl_cache :: "'k \<Rightarrow> 'v option option"
  bl_missed :: "'k \<Rightarrow> bool"
  bl_queries :: int

definition NewBatchLoader ::
  "('k list \<Rightarrow> ('s, 'k \<Rightarrow> 'v option option) op) \<Rightarrow> ('k \<Rightarrow> ('s, 'v option) op) \<Rightarrow> ('s, 'k, 'v) BatchLoader"
  where
  "NewBatchLoader batch single = \<lparr>bl_batch = batch, bl_single = single, bl_cache = Map.empty,
     bl_missed = (\<lambda>k. False), bl_queries = 0\<rparr>"

text \<open>The keys to ask for: not seen before in the list, neither cached nor known to be missing.\<close>

fun pending_keys :: "('s, 'k, 'v) BatchLoader \<Rightarrow> 'k list \<Rightarrow> 'k list \<Rightarrow> 'k list" where
  "pending_keys l seen [] = []"
| "pending_keys l seen (k # ks) =
     (if k \<in> set seen then pending_keys l seen ks
      else if bl_cache l k = None \<and> \<not> bl_missed l k then k # pending_keys l (k # seen) ks
      else pending_keys l (k # seen) ks)"

definition store_loaded ::
  "('k \<Rightarrow> 'v option option) \<Rightarrow> 'k \<Rightarrow> ('s, 'k, 'v) BatchLoader \<Rightarrow> ('s, 'k, 'v) BatchLoader" where
  "store_loaded loaded k l = (case loaded k of
      Some v \<Rightarrow> l\<lparr>bl_cache := (bl_cache l)(k \<mapsto> v)\<rparr>
    | None \<Rightarrow> l\<lparr>bl_missed := (bl_missed l)(k := True)\<rparr>)"

definition BatchLoader_Prime ::
  "('s, 'k, 'v) BatchLoader \<Rightarrow> 'k list \<Rightarrow> 's \<Rightarrow> goerr option \<times> ('s, 'k, 'v) BatchLoader \<times> 's" where
  "BatchLoader_Prime l ks w =
     (let pending = pending_keys l [] ks in
      if length pending = 0 then (None, l, w)
      else (case bl_batch l pending w of
          (Inl err, w1) \<Rightarrow> (Some err, l, w1)
        | (Inr loaded, w1) \<Rightarrow>
            (None, fold (store_loaded loaded) pending (l\<lparr>bl_queries := bl_queries l + 1\<rparr>), w1)))"

definition BatchLoader_Load ::
  "('s, 'k, 'v) BatchLoader \<Rightarrow> 'k \<Rightarrow> 's \<Rightarrow> (goerr + 'v option) \<times> ('s, 'k, 'v) BatchLoader \<times> 's" where
  "BatchLoader_Load l k w =
     (case bl_cache l k of
        Some v \<Rightarrow> (Inr v, l, w)
      | None \<Rightarrow>
          if bl_missed l k then (Inr None, l, w)
          else (case bl_single l k w of
              (Inl err, w1) \<Rightarrow> (Inl err, l, w1)
            | (Inr v, w1) \<Rightarrow>
                (Inr v, l\<lparr>bl_queries := bl_queries l + 1, bl_cache := (bl_cache l)(k \<mapsto> v)\<rparr>, w1)))"

definition Queries :: "('s, 'k, 'v) BatchLoader \<Rightarrow> int" where
  "Queries l = bl_queries l"

section \<open>The tenant loader\<close>

record TenantSource =
  tc_ListByIDs :: "string list \<Rightarrow> (world, Tenant list) op"
  tc_GetByID :: "string \<Rightarrow> (world, Tenant) op"

type_synonym tenant_loader = "(world, string, Tenant_view) BatchLoader"

definition by_tenant_id :: "Tenant list \<Rightarrow> string \<Rightarrow> Tenant_view option option" where
  "by_tenant_id rows = fold (\<lambda>t out. out(t_ID t \<mapsto> NewTenant (Some t))) rows Map.empty"

definition NewLoaders :: "TenantSource \<Rightarrow> tenant_loader" where
  "NewLoaders src = NewBatchLoader
     (\<lambda>ids. bind_op (tc_ListByIDs src ids) (\<lambda>rows. ret (by_tenant_id rows)))
     (\<lambda>i. bind_op (tc_GetByID src i) (\<lambda>t. ret (NewTenant (Some t))))"

text \<open>The source the server passes: the tenant repository.\<close>

definition tenant_source :: TenantSource where
  "tenant_source = \<lparr>tc_ListByIDs = TenantRepository_ListByIDs, tc_GetByID = TenantRepository_GetByID\<rparr>"

section \<open>A request's calls\<close>

text \<open>
  What a request may do with its loader, and the answers its \<open>Load\<close> calls get.
\<close>

datatype 'k loader_call = PrimeCall "'k list" | LoadCall 'k

fun run_calls :: "('s, 'k, 'v) BatchLoader \<Rightarrow> 'k loader_call list \<Rightarrow> 's
    \<Rightarrow> ('k \<times> (goerr + 'v option)) list \<times> ('s, 'k, 'v) BatchLoader \<times> 's" where
  "run_calls l [] w = ([], l, w)"
| "run_calls l (PrimeCall ks # cs) w =
     (case BatchLoader_Prime l ks w of (e, l1, w1) \<Rightarrow> run_calls l1 cs w1)"
| "run_calls l (LoadCall k # cs) w =
     (case BatchLoader_Load l k w of (r, l1, w1) \<Rightarrow>
      case run_calls l1 cs w1 of (rs, l2, w2) \<Rightarrow> ((k, r) # rs, l2, w2))"

definition loader_ok ::
  "('s \<Rightarrow> 'k \<Rightarrow> 'v option) \<Rightarrow> ('s \<Rightarrow> 'k \<Rightarrow> bool) \<Rightarrow> ('s, 'k, 'v) BatchLoader \<Rightarrow> 's \<Rightarrow> bool" where
  "loader_ok lookup good l w \<longleftrightarrow>
     (\<forall>k. good w k \<longrightarrow> (\<forall>v. bl_cache l k = Some v \<longrightarrow> v = lookup w k)
        \<and> (bl_missed l k \<longrightarrow> lookup w k = None))"

lemma set_pending_keys:
  "set (pending_keys l seen ks) = {k \<in> set ks. k \<notin> set seen \<and> bl_cache l k = None \<and> \<not> bl_missed l k}"
  by (induction ks arbitrary: seen) (auto split: if_splits)

lemma distinct_pending_keys: "distinct (pending_keys l seen ks)"
  by (induction ks arbitrary: seen) (auto simp: set_pending_keys)

lemma store_loaded_sel [simp]:
  "bl_cache (store_loaded m k l) j = (if j = k \<and> m k \<noteq> None then m k else bl_cache l j)"
  "bl_missed (store_loaded m k l) j \<longleftrightarrow> bl_missed l j \<or> (j = k \<and> m k = None)"
  "bl_queries (store_loaded m k l) = bl_queries l"
  "bl_batch (store_loaded m k l) = bl_batch l" "bl_single (store_loaded m k l) = bl_single l"
  unfolding store_loaded_def by (auto split: option.split)

lemma fold_store_cache:
  "bl_cache (fold (store_loaded m) ks l) k
     = (if k \<in> set ks \<and> m k \<noteq> None then m k else bl_cache l k)"
  by (induction ks arbitrary: l) auto

lemma fold_store_missed:
  "bl_missed (fold (store_loaded m) ks l) k \<longleftrightarrow> bl_missed l k \<or> (k \<in> set ks \<and> m k = None)"
  by (induction ks arbitrary: l) auto

lemma fold_store_rest:
  "bl_queries (fold (store_loaded m) ks l) = bl_queries l
    \<and> bl_batch (fold (store_loaded m) ks l) = bl_batch l
    \<and> bl_single (fold (store_loaded m) ks l) = bl_single l"
  by (induction ks arbitrary: l) auto

lemmas fold_store_loaded = fold_store_cache fold_store_missed fold_store_rest

text \<open>What a successful \<open>Prime\<close> has asked for is known, whatever the source.\<close>

lemma Prime_known:
  assumes "BatchLoader_Prime l ks w = (None, l1, w1)" "k \<in> set ks"
  shows "bl_cache l1 k \<noteq> None \<or> bl_missed l1 k"
proof (cases "bl_cache l k = None \<and> \<not> bl_missed l k")
  case True
  with assms(2) have "k \<in> set (pending_keys l [] ks)" by (simp add: set_pending_keys)
  with assms(1) show ?thesis
    by (auto simp: BatchLoader_Prime_def Let_def fold_store_loaded split: prod.splits sum.splits if_splits)
next
  case False
  with assms(1) show ?thesis
    by (auto simp: BatchLoader_Prime_def Let_def fold_store_loaded split: prod.splits sum.splits if_splits)
qed

lemma Prime_queries:
  assumes "BatchLoader_Prime l ks w = (e, l1, w1)"
  shows "bl_queries l \<le> bl_queries l1 \<and> bl_queries l1 \<le> bl_queries l + 1"
  using assms by (auto simp: BatchLoader_Prime_def Let_def fold_store_loaded
      split: prod.splits sum.splits if_splits)

lemma Load_known:
  "bl_cache l k \<noteq> None \<or> bl_missed l k \<Longrightarrow>
     BatchLoader_Load l k w = (Inr (case bl_cache l k of Some v \<Rightarrow> v | None \<Rightarrow> None), l, w)"
  by (auto simp: BatchLoader_Load_def split: option.split)

lemma run_calls_known:
  assumes "\<And>k. k \<in> set ks \<Longrightarrow> bl_cache l k \<noteq> None \<or> bl_missed l k"
  shows "run_calls l (map LoadCall ks) w
    = (map (\<lambda>k. (k, Inr (case bl_cache l k of Some v \<Rightarrow> v | None \<Rightarrow> None))) ks, l, w)"
  using assms by (induction ks) (simp_all add: Load_known)

section \<open>What a source promises\<close>

locale loader_source =
  fixes batch :: "'k list \<Rightarrow> ('s, 'k \<Rightarrow> 'v option option) op"
    and single :: "'k \<Rightarrow> ('s, 'v option) op"
    and lookup :: "'s \<Rightarrow> 'k \<Rightarrow> 'v option"
    and good :: "'s \<Rightarrow> 'k \<Rightarrow> bool"
  assumes batch_rows: "batch ks w = (Inr m, w') \<Longrightarrow> k \<in> set ks \<Longrightarrow> good w k \<Longrightarrow>
      m k = map_option Some (lookup w k)"
    and single_row: "single k w = (Inr v, w') \<Longrightarrow> good w k \<Longrightarrow> v = lookup w k"
    and batch_frame: "batch ks w = (r, w') \<Longrightarrow> lookup w' = lookup w \<and> good w' = good w"
    and single_frame: "single k w = (q, w') \<Longrightarrow> lookup w' = lookup w \<and> good w' = good w"
begin

lemma Prime_ok:
  assumes "BatchLoader_Prime l ks w = (e, l1, w1)" "bl_batch l = batch" "bl_single l = single"
    and "loader_ok lookup good l w"
  shows "loader_ok lookup good l1 w1" "bl_batch l1 = batch" "bl_single l1 = single"
    "lookup w1 = lookup w" "good w1 = good w"
proof -
  let ?p = "pending_keys l [] ks"
  consider (idle) "l1 = l" "w1 = w" | (failed) x where "l1 = l" "batch ?p w = (x, w1)"
    | (loaded) m where "batch ?p w = (Inr m, w1)"
        "l1 = fold (store_loaded m) ?p (l\<lparr>bl_queries := bl_queries l + 1\<rparr>)"
    using assms(1,2) by (auto simp: BatchLoader_Prime_def Let_def split: prod.splits sum.splits if_splits)
  then have "loader_ok lookup good l1 w1 \<and> bl_batch l1 = batch \<and> bl_single l1 = single
    \<and> lookup w1 = lookup w \<and> good w1 = good w"
  proof cases
    case idle
    then show ?thesis using assms(2-4) by simp
  next
    case failed
    with batch_frame [OF failed(2)] show ?thesis using assms(2-4) by (simp add: loader_ok_def)
  next
    case loaded
    have rows: "m k = map_option Some (lookup w k)" if "k \<in> set ?p" "good w k" for k
      using batch_rows [OF loaded(1)] that by blast
    from batch_frame [OF loaded(1)] assms(2-4) rows show ?thesis
      by (fastforce simp: loaded(2) loader_ok_def fold_store_loaded split: if_splits)
  qed
  then show "loader_ok lookup good l1 w1" "bl_batch l1 = batch" "bl_single l1 = single"
    "lookup w1 = lookup w" "good w1 = good w" by simp_all
qed

lemma Load_ok:
  assumes "BatchLoader_Load l k w = (r, l1, w1)" "bl_batch l = batch" "bl_single l = single"
    and "loader_ok lookup good l w"
  shows "loader_ok lookup good l1 w1" "bl_batch l1 = batch" "bl_single l1 = single"
    "lookup w1 = lookup w" "good w1 = good w" "good w k \<Longrightarrow> r = Inr v \<Longrightarrow> v = lookup w k"
proof -
  consider (known) "l1 = l" "w1 = w" "good w k \<Longrightarrow> r = Inr (lookup w k)"
    | (failed) e where "l1 = l" "single k w = (Inl e, w1)" "r = Inl e"
    | (loaded) x where "single k w = (Inr x, w1)" "r = Inr x"
        "l1 = l\<lparr>bl_queries := bl_queries l + 1, bl_cache := (bl_cache l)(k \<mapsto> x)\<rparr>"
    using assms(1,3,4)
    by (auto simp: BatchLoader_Load_def loader_ok_def split: prod.splits sum.splits option.splits if_splits)
  then have "loader_ok lookup good l1 w1 \<and> bl_batch l1 = batch \<and> bl_single l1 = single
    \<and> lookup w1 = lookup w \<and> good w1 = good w \<and> (good w k \<longrightarrow> r = Inr v \<longrightarrow> v = lookup w k)"
  proof cases
    case known
    then show ?thesis using assms(2-4) by auto
  next
    case failed
    with single_frame [OF failed(2)] show ?thesis using assms(2-4) by (simp add: loader_ok_def)
  next
    case loaded
    from single_frame [OF loaded(1)] single_row [OF loaded(1)] assms(2-4) show ?thesis
      by (auto simp: loaded(2,3) loader_ok_def)
  qed
  then show "loader_ok lookup good l1 w1" "bl_batch l1 = batch" "bl_single l1 = single"
    "lookup w1 = lookup w" "good w1 = good w" "good w k \<Longrightarrow> r = Inr v \<Longrightarrow> v = lookup w k" by simp_all
qed

lemma run_calls_lookup:
  assumes "run_calls l cs w = (rs, l1, w1)" "bl_batch l = batch" "bl_single l = single"
    and "loader_ok lookup good l w" "(k, Inr v) \<in> set rs" "good w k"
  shows "v = lookup w k"
  using assms
proof (induction l cs w arbitrary: rs rule: run_calls.induct)
  case (2 l ks cs w)
  obtain e l2 w2 where p: "BatchLoader_Prime l ks w = (e, l2, w2)"
    by (cases "BatchLoader_Prime l ks w")
  note ok = Prime_ok [OF p "2.prems"(2-4)]
  from "2.IH" [OF p [symmetric] refl _ ok(2,3,1)] "2.prems" p ok(4,5) show ?case by simp
next
  case (3 l j cs w)
  obtain r l2 w2 where p: "BatchLoader_Load l j w = (r, l2, w2)"
    by (cases "BatchLoader_Load l j w")
  obtain rs2 l3 w3 where rest: "run_calls l2 cs w2 = (rs2, l3, w3)" by (cases "run_calls l2 cs w2")
  note ok = Load_ok [OF p "3.prems"(2-4)]
  from "3.prems"(1) p rest have rs: "rs = (j, r) # rs2" "l3 = l1" "w3 = w1" by auto
  from "3.prems"(5) rs have "(j = k \<and> r = Inr v) \<or> (k, Inr v) \<in> set rs2" by auto
  then show ?case
  proof
    assume "j = k \<and> r = Inr v"
    with ok(6) "3.prems"(6) show ?thesis by simp
  next
    assume "(k, Inr v) \<in> set rs2"
    with "3.IH" [OF p [symmetric] refl rest [unfolded rs(2,3)] ok(2,3,1)] "3.prems"(6) ok(4,5)
    show ?thesis by simp
  qed
qed simp

end

section \<open>The tenant repository as a source\<close>

text \<open>
  The row of a key: the live tenant with this identifier. A good key is in the server's spelling of
  its identifiers, as every identifier read from the database is, and the identifiers of the
  tenants are distinct.
\<close>

definition tenant_row :: "world \<Rightarrow> string \<Rightarrow> Tenant_view option" where
  "tenant_row w k = (case filter (\<lambda>t. t_ID t = k \<and> t_live t) (tenants w) of
      [] \<Rightarrow> None
    | t # _ \<Rightarrow> NewTenant (Some t))"

definition tenant_key :: "world \<Rightarrow> string \<Rightarrow> bool" where
  "tenant_key w k \<longleftrightarrow> uuid_in w k = Some k \<and> distinct (map t_ID (tenants w))"

lemma by_tenant_id_snoc:
  "by_tenant_id (rows @ [t]) = (by_tenant_id rows)(t_ID t \<mapsto> NewTenant (Some t))"
  by (simp add: by_tenant_id_def)

lemma by_tenant_id_none: "k \<notin> t_ID ` set rows \<Longrightarrow> by_tenant_id rows k = None"
  by (induction rows rule: rev_induct) (auto simp: by_tenant_id_snoc by_tenant_id_def)

lemma by_tenant_id_row:
  "distinct (map t_ID rows) \<Longrightarrow> t \<in> set rows \<Longrightarrow> by_tenant_id rows (t_ID t) = Some (NewTenant (Some t))"
  by (induction rows rule: rev_induct) (auto simp: by_tenant_id_snoc image_iff)

lemma tenant_row_some:
  assumes "t \<in> set (tenants w)" "t_live t" "distinct (map t_ID (tenants w))"
  shows "tenant_row w (t_ID t) = NewTenant (Some t)"
proof (cases "filter (\<lambda>r. t_ID r = t_ID t \<and> t_live r) (tenants w)")
  case Nil
  with assms show ?thesis by (auto simp: filter_empty_conv)
next
  case (Cons x xs)
  then have "x \<in> set (filter (\<lambda>r. t_ID r = t_ID t \<and> t_live r) (tenants w))" by simp
  with assms have "x = t" by (auto simp: distinct_map dest: inj_onD)
  with Cons show ?thesis by (simp add: tenant_row_def)
qed

lemma tenant_row_none:
  "(\<And>t. t \<in> set (tenants w) \<Longrightarrow> t_live t \<Longrightarrow> t_ID t \<noteq> k) \<Longrightarrow> tenant_row w k = None"
  unfolding tenant_row_def by (subst filter_False) auto

lemma uuid_array_mem: "uuid_array w ks = Some us \<Longrightarrow> k \<in> set ks \<Longrightarrow> uuid_in w k = Some u \<Longrightarrow> u \<in> set us"
  by (induction ks arbitrary: us) (auto split: option.splits)

lemma ListByIDs_Inr:
  assumes "TenantRepository_ListByIDs ks w = (Inr rows, w')" "k \<in> set ks" "uuid_in w k = Some u"
  shows "\<exists>us. u \<in> set us \<and> rows = filter (\<lambda>t. t_ID t \<in> set us \<and> t_live t) (tenants w)"
proof -
  from assms(2) have "ks \<noteq> []" by auto
  with assms(1) obtain w1 where w1: "tabs w1 = tabs w" "same_env w w1"
    and q: "(case uuid_array w1 ks of
          None \<Rightarrow> (Inl (PqErr ''22P02'' ''invalid input syntax for type uuid''), w1)
        | Some us \<Rightarrow> query_rows (\<lambda>w. filter (\<lambda>t. t_ID t \<in> set us \<and> t_live t) (tenants w)) w1)
        = (Inr rows, w')"
    by (auto simp: TenantRepository_ListByIDs_def elim: exec_Inr)
  from q obtain us where us: "uuid_array w1 ks = Some us"
      "rows = filter (\<lambda>t. t_ID t \<in> set us \<and> t_live t) (tenants w1)"
    by (auto simp: query_rows_def split: option.splits)
  have "uuid_in w1 k = Some u" using w1(2) assms(3) by (simp add: same_env_def)
  from uuid_array_mem [OF us(1) assms(2) this] us(2) tabs_eqD(1) [OF w1(1)] show ?thesis by auto
qed

lemma loader_frame:
  assumes "read_only f" "f w = (r, w')"
  shows "tenant_row w' = tenant_row w \<and> tenant_key w' = tenant_key w"
  using read_only_keeps(1,10) [OF assms] by (auto simp: tenant_row_def tenant_key_def fun_eq_iff)

lemma read_only_loader:
  "read_only (bl_batch (NewLoaders tenant_source) ks)" "read_only (bl_single (NewLoaders tenant_source) k)"
  by (simp_all add: NewLoaders_def NewBatchLoader_def tenant_source_def frame_rules)

interpretation tl: loader_source "bl_batch (NewLoaders tenant_source)"
  "bl_single (NewLoaders tenant_source)" tenant_row tenant_key
proof
  fix ks w m w' k
  assume run: "bl_batch (NewLoaders tenant_source) ks w = (Inr m, w')"
    and k: "k \<in> set ks" and good: "tenant_key w k"
  from run obtain rows where m: "m = by_tenant_id rows"
      and rows: "TenantRepository_ListByIDs ks w = (Inr rows, w')"
    by (auto simp: NewLoaders_def NewBatchLoader_def tenant_source_def bind_op_def ret_def
        split: prod.splits sum.splits)
  from good have d: "distinct (map t_ID (tenants w))" and u: "uuid_in w k = Some k"
    by (simp_all add: tenant_key_def)
  from ListByIDs_Inr [OF rows k u] obtain us where us: "k \<in> set us"
    "rows = filter (\<lambda>t. t_ID t \<in> set us \<and> t_live t) (tenants w)" by blast
  show "m k = map_option Some (tenant_row w k)"
  proof (cases "\<exists>t \<in> set (tenants w). t_live t \<and> t_ID t = k")
    case True
    then obtain t where t: "t \<in> set (tenants w)" "t_live t" "k = t_ID t" by auto
    have "by_tenant_id rows (t_ID t) = Some (NewTenant (Some t))"
      by (rule by_tenant_id_row) (use us t d in \<open>auto simp: distinct_map_filter\<close>)
    with tenant_row_some [OF t(1,2) d] m t(3) show ?thesis by (simp add: NewTenant_def)
  next
    case False
    then have "k \<notin> t_ID ` set rows" by (auto simp: us(2))
    from by_tenant_id_none [OF this] False show ?thesis by (auto simp: m tenant_row_none)
  qed
next
  fix k w v w'
  assume run: "bl_single (NewLoaders tenant_source) k w = (Inr v, w')" and good: "tenant_key w k"
  from run obtain t where v: "v = NewTenant (Some t)" and t: "TenantRepository_GetByID k w = (Inr t, w')"
    by (auto simp: NewLoaders_def NewBatchLoader_def tenant_source_def bind_op_def ret_def
        split: prod.splits sum.splits)
  from TenantRepository_GetByID_Inr [OF t] good tenant_row_some [of t w] v
  show "v = tenant_row w k" by (auto simp: tenant_key_def)
qed (rule loader_frame, rule read_only_loader, assumption)+

lemma NewLoaders_ok: "loader_ok lookup good (NewLoaders src) w"
  by (simp add: loader_ok_def NewLoaders_def NewBatchLoader_def)

end
