(* ===== verification/Resolver.thy ===== *)
theory Resolver
  imports Handlers Dataloader
begin

text \<open>
  \<^verbatim>\<open>graph/resolver.go\<close> and \<^verbatim>\<open>graph/directives.go\<close>: what the fields of the GraphQL schema do. A resolver
  gets the field's arguments, its name and the object it belongs to, in the context of the request;
  its state is the world and the request's loader, \<^const>\<open>None\<close> where there is none. Its result is an
  error or a value of one of the types of \<^verbatim>\<open>graph/model\<close>; a pointer result may be nil.
\<close>

datatype arg = AInt int | AStr string | ATime time | AObj "(string \<times> arg) list"

datatype gval =
    GNil | GBool bool | GKeys "string list"
  | GTenant "Tenant_view option" | GUser "User_view option" | GUsers UserConnection
  | GFeatures "Feature_view list" | GAPIKeys "APIKey_view option list" | GGenerated GeneratedAPIKey
  | GUsage UsageConnection | GSummary "UsageSummary list" | GAudit AuditConnection
  | GJobs ExportJobConnection | GJob "ExportJob_view option" | GDownload Download_view

record ResolveParams =
  rp_Request :: Request
  rp_Args :: "(string \<times> arg) list"
  rp_FieldName :: string
  rp_Source :: gval

type_synonym rstate = "world \<times> tenant_loader option"

type_synonym field_resolver = "ResolveParams \<Rightarrow> (rstate, gval) op"

record Resolver =
  rv_services :: services
  rv_MaxPageSize :: int
  rv_DefaultPageSize :: int

abbreviation scope_of :: "ResolveParams \<Rightarrow> Scope" where
  "scope_of p \<equiv> ScopeFromContext (rp_Request p)"

text \<open>A service is called on the world; the loader stays.\<close>

definition on_world :: "(world, 'a) op \<Rightarrow> (rstate, 'a) op" where
  "on_world f st = (case f (fst st) of (r, w1) \<Rightarrow> (r, (w1, snd st)))"

section \<open>Arguments\<close>

text \<open>The type assertions on arguments: the zero value where the argument is absent or of another type.\<close>

definition str_arg :: "(string \<times> arg) list \<Rightarrow> string \<Rightarrow> string" where
  "str_arg args name = (case map_of args name of Some (AStr s) \<Rightarrow> s | _ \<Rightarrow> '''')"

definition input_arg :: "ResolveParams \<Rightarrow> (string \<times> arg) list" where
  "input_arg p = (case map_of (rp_Args p) ''input'' of Some (AObj kvs) \<Rightarrow> kvs | _ \<Rightarrow> [])"

definition time_arg :: "(string \<times> arg) list \<Rightarrow> string \<Rightarrow> time option" where
  "time_arg args name = (case map_of args name of Some (ATime t) \<Rightarrow> Some t | _ \<Rightarrow> None)"

definition timeArg :: "ResolveParams \<Rightarrow> string \<Rightarrow> time option" where
  "timeArg p name = time_arg (rp_Args p) name"

definition positive_arg :: "ResolveParams \<Rightarrow> string \<Rightarrow> int \<Rightarrow> int" where
  "positive_arg p name d = (case map_of (rp_Args p) name of
      Some (AInt v) \<Rightarrow> if 0 < v then v else d
    | _ \<Rightarrow> d)"

definition Resolver_pagination :: "Resolver \<Rightarrow> ResolveParams \<Rightarrow> int \<times> int" where
  "Resolver_pagination r p =
     (let page = positive_arg p ''page'' 1;
          pageSize = positive_arg p ''pageSize''
            (if rv_DefaultPageSize r \<le> 0 then 20 else rv_DefaultPageSize r);
          mx = (if rv_MaxPageSize r \<le> 0 then 100 else rv_MaxPageSize r)
      in (page, if mx < pageSize then mx else pageSize))"

definition ptr :: "string \<Rightarrow> string option" where
  "ptr s = (if s = '''' then None else Some s)"

section \<open>Audit and authorization\<close>

definition fieldName :: "ResolveParams \<Rightarrow> string" where
  "fieldName p = (if rp_FieldName p \<noteq> '''' then rp_FieldName p else ''unknown'')"

definition Resolver_auditDenial :: "Scope \<Rightarrow> string \<Rightarrow> details \<Rightarrow> (rstate, unit) op" where
  "Resolver_auditDenial scope ev meta = on_world (\<lambda>w. (Inr (), AuditService_Record
     \<lparr>ai_TenantID = (if TenantID scope \<noteq> '''' then Some (TenantID scope) else None),
      ai_ActorID = (if UserID scope \<noteq> '''' then Some (UserID scope) else None),
      ai_Event = ev, ai_Metadata = meta, ai_Endpoint = ''graphql'', ai_IPAddress = '''',
      ai_UserAgent = ''''\<rparr> w))"

definition Resolver_audit :: "ResolveParams \<Rightarrow> string \<Rightarrow> details \<Rightarrow> (rstate, unit) op" where
  "Resolver_audit p ev meta = on_world (\<lambda>w. (Inr (), AuditService_Record
     \<lparr>ai_TenantID = ptr (TenantID (scope_of p)), ai_ActorID = ptr (UserID (scope_of p)),
      ai_Event = ev, ai_Metadata = meta, ai_Endpoint = ''graphql:'' @ fieldName p,
      ai_IPAddress = '''', ai_UserAgent = ''''\<rparr> w))"

definition requireAuth :: "field_resolver \<Rightarrow> field_resolver" where
  "requireAuth next p =
     (if \<not> Scope_Valid (scope_of p) then fail (Api (Unauthenticated ''authentication is required''))
      else next p)"

definition requiresRole :: "Role \<Rightarrow> field_resolver \<Rightarrow> field_resolver" where
  "requiresRole minRole next = requireAuth (\<lambda>p.
     (let scope = scope_of p in
      if \<not> RoleAtLeast (s_Role scope) minRole then
        bind_op (Resolver_auditDenial scope EventFeatureAccessDenied
          [(''transport'', DStr ''graphql''), (''field'', DStr (fieldName p)),
           (''reason'', DStr ''insufficient_role''), (''required'', DStr minRole),
           (''actual'', DStr (s_Role scope))]) (\<lambda>_.
        fail (Api (Forbidden (''this operation requires the '' @ minRole @ '' role''))))
      else next p))"

definition requiresFeature :: "string \<Rightarrow> field_resolver \<Rightarrow> field_resolver" where
  "requiresFeature featureKey next = requireAuth (\<lambda>p.
     (case AuthFromContext (rp_Request p) of
        None \<Rightarrow> fail (Api (Unauthenticated ''authentication is required''))
      | Some ac \<Rightarrow>
          bind_op (map_err (\<lambda>err. Api (Wrap (Internal ''failed to resolve feature entitlement'') err))
            (on_world (EntitlementService_HasFeature (ac_TenantID ac) (ac_TenantPlan ac) featureKey)))
            (\<lambda>entitled.
          if \<not> entitled then
            bind_op (Resolver_auditDenial (scope_of p) EventFeatureAccessDenied
              [(''transport'', DStr ''graphql''), (''field'', DStr (fieldName p)),
               (''feature'', DStr featureKey), (''plan'', DStr (ac_TenantPlan ac))]) (\<lambda>_.
            fail (Api (FeatureRequired featureKey)))
          else next p)))"

section \<open>Queries\<close>

text \<open>\<open>errors become nil\<close>: what is not found is null.\<close>

definition null_if_missing :: "(rstate, gval) op \<Rightarrow> (rstate, gval) op" where
  "null_if_missing f st = (case f st of
      (Inl err, st1) \<Rightarrow> (if apierr_Is (Some err) CodeNotFound then (Inr GNil, st1) else (Inl err, st1))
    | (Inr v, st1) \<Rightarrow> (Inr v, st1))"

definition Resolver_me :: "Resolver \<Rightarrow> field_resolver" where
  "Resolver_me r p =
     (let scope = scope_of p in
      if UserID scope = '''' then ret GNil
      else bind_op (on_world (UserService_Me (sv_users (rv_services r)) scope)) (\<lambda>user.
           ret (GUser (NewUser (Some user)))))"

definition Resolver_tenant :: "Resolver \<Rightarrow> field_resolver" where
  "Resolver_tenant r p =
     bind_op (on_world (TenantService_Current (sv_tenants (rv_services r)) (scope_of p))) (\<lambda>t.
     ret (GTenant (NewTenant (Some t))))"

text \<open>The loader is primed with the tenants of the page; a failure is logged and nothing more.\<close>

definition prime_tenants :: "User_view option list \<Rightarrow> (rstate, unit) op" where
  "prime_tenants nodes st = (case st of
      (w, None) \<Rightarrow> (Inr (), st)
    | (w, Some l) \<Rightarrow>
        if nodes = [] then (Inr (), st)
        else (case BatchLoader_Prime l (map (\<lambda>u. mu_TenantID (the u)) nodes) w of
            (Some err, l1, w1) \<Rightarrow> (Inr (), (w1\<lparr>log := log w1 @ [(''failed to prime the tenant loader'',
                [(''error'', DStr (Error_string err))])]\<rparr>, Some l1))
          | (None, l1, w1) \<Rightarrow> (Inr (), (w1, Some l1))))"

definition Resolver_users :: "Resolver \<Rightarrow> field_resolver" where
  "Resolver_users r p =
     (case Resolver_pagination r p of (page, pageSize) \<Rightarrow>
      bind_op (on_world (UserService_List (sv_users (rv_services r)) (scope_of p) page pageSize))
        (\<lambda>(users, n).
      let nodes = NewUsers (map Some users) in
      bind_op (prime_tenants nodes) (\<lambda>_.
      ret (GUsers \<lparr>uc_Nodes = nodes, uc_PageInfo = NewPageInfo page pageSize n\<rparr>))))"

definition Resolver_user :: "Resolver \<Rightarrow> field_resolver" where
  "Resolver_user r p = null_if_missing
     (bind_op (on_world (UserService_Get (sv_users (rv_services r)) (scope_of p)
        (str_arg (rp_Args p) ''id''))) (\<lambda>user.
      ret (GUser (NewUser (Some user)))))"

definition load_tenant :: "string \<Rightarrow> tenant_loader \<Rightarrow> (rstate, gval) op" where
  "load_tenant i l st = (case BatchLoader_Load l i (fst st) of
      (r, l1, w1) \<Rightarrow> (case r of Inl e \<Rightarrow> Inl e | Inr v \<Rightarrow> Inr (GTenant v), (w1, Some l1)))"

definition Resolver_userTenant :: "Resolver \<Rightarrow> field_resolver" where
  "Resolver_userTenant r p = (case rp_Source p of
      GUser (Some user) \<Rightarrow>
        if mu_TenantID user = '''' then ret GNil
        else (\<lambda>st. case snd st of
            None \<Rightarrow> Resolver_tenant r p st
          | Some l \<Rightarrow> load_tenant (mu_TenantID user) l st)
    | _ \<Rightarrow> ret GNil)"

definition Resolver_features :: "Resolver \<Rightarrow> field_resolver" where
  "Resolver_features r p =
     bind_op (map_err (\<lambda>err. Api (Wrap (Internal ''failed to list features'') err))
       (on_world EntitlementService_ListFeatureCatalog)) (\<lambda>fs.
     ret (GFeatures (NewFeatures fs)))"

definition Resolver_myFeatures :: "Resolver \<Rightarrow> field_resolver" where
  "Resolver_myFeatures r p =
     (let ac = AuthOrZero (rp_Request p) in
      bind_op (map_err (\<lambda>err. Api (Wrap (Internal ''failed to resolve entitlements'') err))
        (on_world (EntitlementService_ListEnabledFeatures (ac_TenantID ac) (ac_TenantPlan ac)))) (\<lambda>ks.
      ret (GKeys ks)))"

definition Resolver_apiKeys :: "Resolver \<Rightarrow> field_resolver" where
  "Resolver_apiKeys r p =
     bind_op (map_err (\<lambda>err. Api (Wrap (Internal ''failed to list API keys'') err))
       (on_world (APIKeyService_ListByTenant (TenantID (scope_of p))))) (\<lambda>ks.
     ret (GAPIKeys (NewAPIKeys (map Some ks))))"

definition Resolver_usage :: "Resolver \<Rightarrow> field_resolver" where
  "Resolver_usage r p =
     (case Resolver_pagination r p of (page, pageSize) \<Rightarrow>
      bind_op (map_err (\<lambda>err. Api (Wrap (Internal ''failed to list usage records'') err))
        (on_world (UsageService_List (sv_usage (rv_services r)) (TenantID (scope_of p))
          (str_arg (rp_Args p) ''endpoint'') (str_arg (rp_Args p) ''method'')
          (timeArg p ''from'') (timeArg p ''to'') page pageSize))) (\<lambda>(records, n).
      ret (GUsage \<lparr>ru_Nodes = NewUsageRecords records, ru_PageInfo = NewPageInfo page pageSize n\<rparr>)))"

definition Resolver_usageSummary :: "Resolver \<Rightarrow> field_resolver" where
  "Resolver_usageSummary r p =
     bind_op (map_err (\<lambda>err. Api (Wrap (Internal ''failed to summarize usage'') err))
       (on_world (UsageService_Summary (sv_usage (rv_services r)) (TenantID (scope_of p))
         (timeArg p ''from'') (timeArg p ''to'')))) (\<lambda>summary.
     ret (GSummary (NewUsageSummaries summary)))"

definition audit_node :: "AuditLog \<Rightarrow> AuditEntry" where
  "audit_node e = \<lparr>ma_ID = al_ID e, ma_Event = al_Event e, ma_ActorID = al_ActorID e,
     ma_Endpoint = al_Endpoint e, ma_IPAddress = al_IPAddress e, ma_UserAgent = al_UserAgent e,
     ma_Metadata = (if 0 < length (al_Metadata e) then details_json (al_Metadata e) else JObj []),
     ma_CreatedAt = al_CreatedAt e\<rparr>"

definition Resolver_auditLogs :: "Resolver \<Rightarrow> field_resolver" where
  "Resolver_auditLogs r p =
     (case Resolver_pagination r p of (page, pageSize) \<Rightarrow>
      bind_op (map_err (\<lambda>err. Api (Wrap (Internal ''failed to list audit logs'') err))
        (on_world (AuditService_List (TenantID (scope_of p)) (str_arg (rp_Args p) ''event'')
          page pageSize))) (\<lambda>(entries, n).
      ret (GAudit \<lparr>ac_Nodes = map audit_node entries, ac_PageInfo = NewPageInfo page pageSize n\<rparr>)))"

definition Resolver_exportJobs :: "Resolver \<Rightarrow> field_resolver" where
  "Resolver_exportJobs r p =
     (case Resolver_pagination r p of (page, pageSize) \<Rightarrow>
      bind_op (on_world (ExportService_List (sv_exports (rv_services r)) (scope_of p) page pageSize))
        (\<lambda>(jobs, n).
      ret (GJobs \<lparr>jc_Nodes = NewExportJobs (map Some jobs), jc_PageInfo = NewPageInfo page pageSize n\<rparr>)))"

definition Resolver_exportJob :: "Resolver \<Rightarrow> field_resolver" where
  "Resolver_exportJob r p = null_if_missing
     (bind_op (on_world (ExportService_Get (sv_exports (rv_services r)) (scope_of p)
        (str_arg (rp_Args p) ''id''))) (\<lambda>job.
      ret (GJob (NewExportJob (Some job)))))"

definition Resolver_exportDownload :: "Resolver \<Rightarrow> field_resolver" where
  "Resolver_exportDownload r p =
     bind_op (on_world (ExportService_DownloadURL (sv_exports (rv_services r)) (scope_of p)
       (str_arg (rp_Args p) ''id''))) (\<lambda>d.
     ret (GDownload \<lparr>md_URL = dl_URL d, md_ExpiresAt = dl_ExpiresAt d, md_RowCount = dl_RowCount d,
       md_SizeBytes = dl_SizeBytes d\<rparr>))"

section \<open>Mutations\<close>

definition mapAPIKeyError :: "goerr \<Rightarrow> goerr" where
  "mapAPIKeyError err =
     (if apierr_Is (Some err) CodeInternal \<and> errors_Is err ErrAPIKeyNotFound
      then Api (NotFound ''API key not found'')
      else if errors_Is err ErrAPIKeyNotFound then Api (NotFound ''API key not found'')
      else Api (Wrap (Internal ''the API key operation failed'') err))"

definition Resolver_updateTenant :: "Resolver \<Rightarrow> field_resolver" where
  "Resolver_updateTenant r p =
     (let scope = scope_of p;
          namePtr = (case map_of (input_arg p) ''name'' of Some (AStr n) \<Rightarrow> Some n | _ \<Rightarrow> None)
      in bind_op (on_world (TenantService_UpdateForScope (sv_tenants (rv_services r)) scope
           (TenantID scope) \<lparr>us_Name = namePtr\<rparr>)) (\<lambda>t.
         bind_op (Resolver_audit p EventTenantUpdated [(''transport'', DStr ''graphql'')]) (\<lambda>_.
         ret (GTenant (NewTenant (Some t))))))"

definition Resolver_updateUserRole :: "Resolver \<Rightarrow> field_resolver" where
  "Resolver_updateUserRole r p =
     (let userID = str_arg (input_arg p) ''userId'';
          roleRaw = str_arg (input_arg p) ''role''
      in bind_op (on_world (UserService_UpdateRole (sv_users (rv_services r)) (scope_of p) userID roleRaw))
           (\<lambda>result.
         bind_op (Resolver_audit p EventRoleChanged
           [(''transport'', DStr ''graphql''), (''target_user_id'', DStr userID),
            (''previous_role'', DStr (ur_PreviousRole result)),
            (''new_role'', DStr (ur_NewRole result))]) (\<lambda>_.
         ret (GUser (NewUser (Some (ur_User result)))))))"

definition Resolver_generateAPIKey :: "Resolver \<Rightarrow> field_resolver" where
  "Resolver_generateAPIKey r p =
     bind_op (map_err (\<lambda>err. Api (Wrap (Internal ''failed to generate the API key'') err))
       (on_world (APIKeyService_Generate (sv_prefix (rv_services r)) (TenantID (scope_of p))
         (ptr (UserID (scope_of p))) (str_arg (input_arg p) ''name'')))) (\<lambda>(plaintext, key).
     bind_op (Resolver_audit p EventAPIKeyGenerated
       [(''transport'', DStr ''graphql''), (''api_key_id'', DStr (k_ID key))]) (\<lambda>_.
     ret (GGenerated \<lparr>mg_APIKey = NewAPIKey (Some key), mg_Plaintext = plaintext\<rparr>)))"

definition Resolver_rotateAPIKey :: "Resolver \<Rightarrow> field_resolver" where
  "Resolver_rotateAPIKey r p =
     (let i = str_arg (rp_Args p) ''id''
      in bind_op (map_err mapAPIKeyError
           (on_world (APIKeyService_Rotate (sv_prefix (rv_services r)) (TenantID (scope_of p)) i
             (ptr (UserID (scope_of p)))))) (\<lambda>(plaintext, key).
         bind_op (Resolver_audit p EventAPIKeyRotated
           [(''transport'', DStr ''graphql''), (''old_key_id'', DStr i),
            (''new_key_id'', DStr (k_ID key))]) (\<lambda>_.
         ret (GGenerated \<lparr>mg_APIKey = NewAPIKey (Some key), mg_Plaintext = plaintext\<rparr>))))"

definition Resolver_deactivateAPIKey :: "Resolver \<Rightarrow> field_resolver" where
  "Resolver_deactivateAPIKey r p =
     (let i = str_arg (rp_Args p) ''id''
      in bind_op (map_err mapAPIKeyError
           (on_world (APIKeyService_Deactivate (TenantID (scope_of p)) i))) (\<lambda>_.
         bind_op (Resolver_audit p EventAPIKeyRevoked
           [(''transport'', DStr ''graphql''), (''api_key_id'', DStr i)]) (\<lambda>_.
         ret (GBool True))))"

definition Resolver_requestUsageExport :: "Resolver \<Rightarrow> field_resolver" where
  "Resolver_requestUsageExport r p =
     (let kvs = input_arg p
      in bind_op (on_world (ExportService_Request (sv_exports (rv_services r)) (scope_of p)
           \<lparr>re_Endpoint = str_arg kvs ''endpoint'', re_Method = str_arg kvs ''method'',
            re_From = time_arg kvs ''from'', re_To = time_arg kvs ''to''\<rparr>)) (\<lambda>job.
         bind_op (Resolver_audit p EventExportRequested
           [(''transport'', DStr ''graphql''), (''export_job_id'', DStr (j_ID job))]) (\<lambda>_.
         ret (GJob (NewExportJob (Some job))))))"

section \<open>The schema\<close>

text \<open>The fields with a resolver of their own; the others read a component of the object.\<close>

definition query_fields :: "Resolver \<Rightarrow> (string \<times> field_resolver) list" where
  "query_fields r = [
     (''me'', requireAuth (Resolver_me r)),
     (''tenant'', requireAuth (Resolver_tenant r)),
     (''users'', requireAuth (Resolver_users r)),
     (''user'', requireAuth (Resolver_user r)),
     (''features'', requireAuth (Resolver_features r)),
     (''myFeatures'', requireAuth (Resolver_myFeatures r)),
     (''apiKeys'', requiresRole RoleDeveloper (Resolver_apiKeys r)),
     (''usage'', requireAuth (Resolver_usage r)),
     (''usageSummary'', requireAuth (Resolver_usageSummary r)),
     (''auditLogs'', requiresRole RoleDeveloper (Resolver_auditLogs r)),
     (''exportJobs'', requiresFeature ''usage.export'' (Resolver_exportJobs r)),
     (''exportJob'', requiresFeature ''usage.export'' (Resolver_exportJob r)),
     (''exportDownload'', requiresFeature ''usage.export'' (Resolver_exportDownload r))]"

definition mutation_fields :: "Resolver \<Rightarrow> (string \<times> field_resolver) list" where
  "mutation_fields r = [
     (''updateTenant'', requiresRole RoleAdmin (Resolver_updateTenant r)),
     (''updateUserRole'', requiresRole RoleAdmin (Resolver_updateUserRole r)),
     (''generateApiKey'', requiresRole RoleDeveloper (Resolver_generateAPIKey r)),
     (''rotateApiKey'', requiresRole RoleDeveloper (Resolver_rotateAPIKey r)),
     (''deactivateApiKey'', requiresRole RoleDeveloper (Resolver_deactivateAPIKey r)),
     (''requestUsageExport'', requiresFeature ''usage.export'' (Resolver_requestUsageExport r))]"

record schema =
  gs_Query :: "(string \<times> field_resolver) list"
  gs_Mutation :: "(string \<times> field_resolver) list"
  gs_User :: "(string \<times> field_resolver) list"

definition NewSchema :: "Resolver \<Rightarrow> schema" where
  "NewSchema r = \<lparr>gs_Query = query_fields r, gs_Mutation = mutation_fields r,
     gs_User = [(''tenant'', Resolver_userTenant r)]\<rparr>"

definition schema_fields :: "schema \<Rightarrow> (string \<times> field_resolver) list" where
  "schema_fields s = gs_Query s @ gs_Mutation s @ gs_User s"

end
