(* ===== verification/GraphSchema.thy ===== *)
theory GraphSchema
  imports Resolver "HOL-Library.AList"
begin

text \<open>
  \<^verbatim>\<open>graph/schema.go\<close> and the type declarations of \<^verbatim>\<open>NewSchema\<close>: the types the library graphql-go is
  given, and the values it finds in the views of \<^verbatim>\<open>graph/model\<close>, whose json tags are the names of the
  fields. \<open>has_type\<close> is what the GraphQL specification asks of a result: a field without a component
  of its name is null, an \<open>Int\<close> has 32 bits, an enumeration shows no other value than its own.
\<close>

section \<open>Types\<close>

datatype gtype =
    IntT | FloatT | StringT | BooleanT | IDT | DateTimeT
  | EnumT string "(string \<times> string) list"
  | ObjectT string "(string \<times> gtype) list"
  | InputT string "(string \<times> gtype) list"
  | ListT gtype | NonNull gtype

definition roleEnum :: gtype where
  "roleEnum = EnumT ''Role'' [(''ADMIN'', RoleAdmin), (''DEVELOPER'', RoleDeveloper), (''VIEWER'', RoleViewer)]"

definition planEnum :: gtype where
  "planEnum = EnumT ''Plan'' [(''FREE'', PlanFree), (''PRO'', PlanPro), (''ENTERPRISE'', PlanEnterprise)]"

definition exportStatusEnum :: gtype where
  "exportStatusEnum = EnumT ''ExportStatus'' [(''QUEUED'', ExportStatusQueued),
     (''PROCESSING'', ExportStatusProcessing), (''COMPLETED'', ExportStatusCompleted),
     (''FAILED'', ExportStatusFailed)]"

definition pageInfoType :: gtype where
  "pageInfoType = ObjectT ''PageInfo'' [
     (''page'', NonNull IntT), (''pageSize'', NonNull IntT), (''totalCount'', NonNull IntT),
     (''totalPages'', NonNull IntT), (''hasNext'', NonNull BooleanT)]"

definition tenantType :: gtype where
  "tenantType = ObjectT ''Tenant'' [
     (''id'', NonNull IDT), (''name'', NonNull StringT), (''slug'', NonNull StringT),
     (''plan'', NonNull planEnum), (''isActive'', NonNull BooleanT),
     (''createdAt'', NonNull DateTimeT), (''updatedAt'', NonNull DateTimeT)]"

definition featureType :: gtype where
  "featureType = ObjectT ''Feature'' [
     (''id'', NonNull IDT), (''key'', NonNull StringT), (''name'', NonNull StringT),
     (''description'', StringT)]"

definition apiKeyType :: gtype where
  "apiKeyType = ObjectT ''APIKey'' [
     (''id'', NonNull IDT), (''name'', NonNull StringT), (''prefix'', NonNull StringT),
     (''lastFour'', NonNull StringT), (''isActive'', NonNull BooleanT),
     (''lastUsedAt'', DateTimeT), (''expiresAt'', DateTimeT), (''revokedAt'', DateTimeT),
     (''createdAt'', NonNull DateTimeT)]"

definition generatedAPIKeyType :: gtype where
  "generatedAPIKeyType = ObjectT ''GeneratedAPIKey'' [
     (''apiKey'', NonNull apiKeyType), (''plaintext'', NonNull StringT)]"

definition usageRecordType :: gtype where
  "usageRecordType = ObjectT ''UsageRecord'' [
     (''id'', NonNull IDT), (''endpoint'', NonNull StringT), (''method'', NonNull StringT),
     (''statusCode'', NonNull IntT), (''latencyMs'', NonNull IntT), (''requestId'', StringT),
     (''createdAt'', NonNull DateTimeT)]"

definition usageSummaryType :: gtype where
  "usageSummaryType = ObjectT ''UsageSummary'' [
     (''endpoint'', NonNull StringT), (''method'', NonNull StringT), (''requestCount'', NonNull IntT),
     (''errorCount'', NonNull IntT), (''avgLatencyMs'', NonNull FloatT)]"

definition auditEntryType :: gtype where
  "auditEntryType = ObjectT ''AuditEntry'' [
     (''id'', NonNull IDT), (''event'', NonNull StringT), (''actorId'', IDT), (''endpoint'', StringT),
     (''ipAddress'', StringT), (''userAgent'', StringT), (''metadata'', StringT),
     (''createdAt'', NonNull DateTimeT)]"

definition exportJobType :: gtype where
  "exportJobType = ObjectT ''ExportJob'' [
     (''id'', NonNull IDT), (''status'', NonNull exportStatusEnum), (''endpoint'', StringT),
     (''method'', StringT), (''rowCount'', NonNull IntT), (''sizeBytes'', NonNull IntT),
     (''attempts'', NonNull IntT), (''error'', StringT), (''startedAt'', DateTimeT),
     (''finishedAt'', DateTimeT), (''createdAt'', NonNull DateTimeT)]"

definition downloadType :: gtype where
  "downloadType = ObjectT ''Download'' [
     (''url'', NonNull StringT), (''expiresAt'', NonNull DateTimeT), (''rowCount'', NonNull IntT),
     (''sizeBytes'', NonNull IntT)]"

definition updateTenantInput :: gtype where
  "updateTenantInput = InputT ''UpdateTenantInput'' [(''name'', NonNull StringT)]"

definition updateUserRoleInput :: gtype where
  "updateUserRoleInput = InputT ''UpdateUserRoleInput'' [(''userId'', NonNull IDT), (''role'', NonNull roleEnum)]"

definition generateAPIKeyInput :: gtype where
  "generateAPIKeyInput = InputT ''GenerateAPIKeyInput'' [(''name'', StringT)]"

definition requestExportInput :: gtype where
  "requestExportInput = InputT ''RequestExportInput'' [
     (''endpoint'', StringT), (''method'', StringT), (''from'', DateTimeT), (''to'', DateTimeT)]"

record ArgumentConfig =
  ag_Type :: gtype
  ag_DefaultValue :: "arg option"

definition argument :: "gtype \<Rightarrow> ArgumentConfig" where
  "argument t = \<lparr>ag_Type = t, ag_DefaultValue = None\<rparr>"

definition paginationArgs :: "(string \<times> ArgumentConfig) list \<Rightarrow> (string \<times> ArgumentConfig) list" where
  "paginationArgs extra = fold (\<lambda>(k, v) args. AList.update k v args) extra
     [(''page'', \<lparr>ag_Type = IntT, ag_DefaultValue = Some (AInt 1)\<rparr>), (''pageSize'', argument IntT)]"

section \<open>The types of \<open>NewSchema\<close>\<close>

text \<open>The field \<open>tenant\<close> of a user has a resolver and is added to the type afterwards.\<close>

definition userType :: gtype where
  "userType = ObjectT ''User'' [
     (''id'', NonNull IDT), (''email'', NonNull StringT), (''firstName'', StringT),
     (''lastName'', StringT), (''role'', NonNull roleEnum), (''isActive'', NonNull BooleanT),
     (''lastLoginAt'', DateTimeT), (''createdAt'', NonNull DateTimeT), (''updatedAt'', NonNull DateTimeT)]"

type_synonym field_configs = "(string \<times> gtype \<times> (string \<times> ArgumentConfig) list) list"

definition user_extension :: field_configs where
  "user_extension = [(''tenant'', tenantType, [])]"

definition userConnectionType :: gtype where
  "userConnectionType = ObjectT ''UserConnection'' [
     (''nodes'', NonNull (ListT (NonNull userType))), (''pageInfo'', NonNull pageInfoType)]"

definition usageConnectionType :: gtype where
  "usageConnectionType = ObjectT ''UsageConnection'' [
     (''nodes'', NonNull (ListT (NonNull usageRecordType))), (''pageInfo'', NonNull pageInfoType)]"

definition auditConnectionType :: gtype where
  "auditConnectionType = ObjectT ''AuditConnection'' [
     (''nodes'', NonNull (ListT (NonNull auditEntryType))), (''pageInfo'', NonNull pageInfoType)]"

definition exportConnectionType :: gtype where
  "exportConnectionType = ObjectT ''ExportJobConnection'' [
     (''nodes'', NonNull (ListT (NonNull exportJobType))), (''pageInfo'', NonNull pageInfoType)]"

definition queryType :: field_configs where
  "queryType = [
     (''me'', userType, []),
     (''tenant'', NonNull tenantType, []),
     (''users'', NonNull userConnectionType, paginationArgs []),
     (''user'', userType, [(''id'', argument (NonNull IDT))]),
     (''features'', NonNull (ListT (NonNull featureType)), []),
     (''myFeatures'', NonNull (ListT (NonNull StringT)), []),
     (''apiKeys'', NonNull (ListT (NonNull apiKeyType)), []),
     (''usage'', NonNull usageConnectionType, paginationArgs [
        (''endpoint'', argument StringT), (''method'', argument StringT),
        (''from'', argument DateTimeT), (''to'', argument DateTimeT)]),
     (''usageSummary'', NonNull (ListT (NonNull usageSummaryType)),
        [(''from'', argument DateTimeT), (''to'', argument DateTimeT)]),
     (''auditLogs'', NonNull auditConnectionType, paginationArgs [(''event'', argument StringT)]),
     (''exportJobs'', NonNull exportConnectionType, paginationArgs []),
     (''exportJob'', exportJobType, [(''id'', argument (NonNull IDT))]),
     (''exportDownload'', downloadType, [(''id'', argument (NonNull IDT))])]"

definition mutationType :: field_configs where
  "mutationType = [
     (''updateTenant'', NonNull tenantType, [(''input'', argument (NonNull updateTenantInput))]),
     (''updateUserRole'', NonNull userType, [(''input'', argument (NonNull updateUserRoleInput))]),
     (''generateApiKey'', NonNull generatedAPIKeyType, [(''input'', argument generateAPIKeyInput)]),
     (''rotateApiKey'', NonNull generatedAPIKeyType, [(''id'', argument (NonNull IDT))]),
     (''deactivateApiKey'', NonNull BooleanT, [(''id'', argument (NonNull IDT))]),
     (''requestUsageExport'', NonNull exportJobType, [(''input'', argument requestExportInput)])]"

section \<open>Values\<close>

datatype outval =
    VNull | VInt int | VFloat int nat | VStr string | VJson json | VBool bool | VTime time
  | VList "outval list" | VObj "(string \<times> outval) list"

definition or_null :: "('a \<Rightarrow> outval) \<Rightarrow> 'a option \<Rightarrow> outval" where
  "or_null f x = (case x of None \<Rightarrow> VNull | Some y \<Rightarrow> f y)"

definition Tenant_value :: "Tenant_view \<Rightarrow> outval" where
  "Tenant_value t = VObj [(''id'', VStr (mt_ID t)), (''name'', VStr (mt_Name t)),
     (''slug'', VStr (mt_Slug t)), (''plan'', VStr (mt_Plan t)), (''isActive'', VBool (mt_IsActive t)),
     (''createdAt'', VTime (mt_CreatedAt t)), (''updatedAt'', VTime (mt_UpdatedAt t))]"

definition User_value :: "User_view \<Rightarrow> outval" where
  "User_value u = VObj [(''id'', VStr (mu_ID u)), (''email'', VStr (mu_Email u)),
     (''firstName'', VStr (mu_FirstName u)), (''lastName'', VStr (mu_LastName u)),
     (''role'', VStr (mu_Role u)), (''isActive'', VBool (mu_IsActive u)),
     (''lastLoginAt'', or_null VTime (mu_LastLoginAt u)), (''createdAt'', VTime (mu_CreatedAt u)),
     (''updatedAt'', VTime (mu_UpdatedAt u))]"

definition Feature_value :: "Feature_view \<Rightarrow> outval" where
  "Feature_value f = VObj [(''id'', VStr (mf_ID f)), (''key'', VStr (mf_Key f)),
     (''name'', VStr (mf_Name f)), (''description'', VStr (mf_Description f))]"

definition APIKey_value :: "APIKey_view \<Rightarrow> outval" where
  "APIKey_value k = VObj [(''id'', VStr (mk_ID k)), (''name'', VStr (mk_Name k)),
     (''prefix'', VStr (mk_Prefix k)), (''lastFour'', VStr (mk_LastFour k)),
     (''isActive'', VBool (mk_IsActive k)), (''lastUsedAt'', or_null VTime (mk_LastUsedAt k)),
     (''expiresAt'', or_null VTime (mk_ExpiresAt k)), (''createdAt'', VTime (mk_CreatedAt k)),
     (''revokedAt'', or_null VTime (mk_RevokedAt k))]"

definition GeneratedAPIKey_value :: "GeneratedAPIKey \<Rightarrow> outval" where
  "GeneratedAPIKey_value g = VObj [(''apiKey'', or_null APIKey_value (mg_APIKey g)),
     (''plaintext'', VStr (mg_Plaintext g))]"

definition UsageRecord_value :: "UsageRecord \<Rightarrow> outval" where
  "UsageRecord_value u = VObj [(''id'', VStr (mr_ID u)), (''endpoint'', VStr (mr_Endpoint u)),
     (''method'', VStr (mr_Method u)), (''statusCode'', VInt (mr_StatusCode u)),
     (''latencyMs'', VInt (mr_LatencyMS u)), (''requestId'', VStr (mr_RequestID u)),
     (''createdAt'', VTime (mr_CreatedAt u))]"

definition UsageSummary_value :: "UsageSummary \<Rightarrow> outval" where
  "UsageSummary_value s = VObj [(''endpoint'', VStr (ms_Endpoint s)), (''method'', VStr (ms_Method s)),
     (''requestCount'', VInt (ms_RequestCount s)), (''errorCount'', VInt (ms_ErrorCount s)),
     (''avgLatencyMs'', (case ms_AvgLatencyMS s of (a, n) \<Rightarrow> VFloat a n))]"

definition AuditEntry_value :: "AuditEntry \<Rightarrow> outval" where
  "AuditEntry_value a = VObj [(''id'', VStr (ma_ID a)), (''event'', VStr (ma_Event a)),
     (''actorId'', or_null VStr (ma_ActorID a)), (''endpoint'', VStr (ma_Endpoint a)),
     (''ipAddress'', VStr (ma_IPAddress a)), (''userAgent'', VStr (ma_UserAgent a)),
     (''metadata'', VJson (ma_Metadata a)), (''createdAt'', VTime (ma_CreatedAt a))]"

definition ExportJob_value :: "ExportJob_view \<Rightarrow> outval" where
  "ExportJob_value j = VObj [(''id'', VStr (mj_ID j)), (''status'', VStr (mj_Status j)),
     (''endpoint'', VStr (mj_Endpoint j)), (''method'', VStr (mj_Method j)),
     (''rowCount'', VInt (mj_RowCount j)), (''sizeBytes'', VInt (mj_SizeBytes j)),
     (''attempts'', VInt (mj_Attempts j)), (''error'', VStr (mj_Error j)),
     (''startedAt'', or_null VTime (mj_StartedAt j)), (''finishedAt'', or_null VTime (mj_FinishedAt j)),
     (''createdAt'', VTime (mj_CreatedAt j))]"

definition PageInfo_value :: "PageInfo \<Rightarrow> outval" where
  "PageInfo_value p = VObj [(''page'', VInt (mp_Page p)), (''pageSize'', VInt (mp_PageSize p)),
     (''totalCount'', VInt (mp_TotalCount p)), (''totalPages'', VInt (mp_TotalPages p)),
     (''hasNext'', VBool (mp_HasNext p))]"

definition Download_value :: "Download_view \<Rightarrow> outval" where
  "Download_value d = VObj [(''url'', VStr (md_URL d)), (''expiresAt'', VTime (md_ExpiresAt d)),
     (''rowCount'', VInt (md_RowCount d)), (''sizeBytes'', VInt (md_SizeBytes d))]"

text \<open>The four connections have the same two components.\<close>

definition connection :: "outval list \<Rightarrow> PageInfo \<Rightarrow> outval" where
  "connection nodes info = VObj [(''nodes'', VList nodes), (''pageInfo'', PageInfo_value info)]"

fun gval_value :: "gval \<Rightarrow> outval" where
  "gval_value GNil = VNull"
| "gval_value (GBool b) = VBool b"
| "gval_value (GKeys ks) = VList (map VStr ks)"
| "gval_value (GTenant t) = or_null Tenant_value t"
| "gval_value (GUser u) = or_null User_value u"
| "gval_value (GUsers c) = connection (map (or_null User_value) (uc_Nodes c)) (uc_PageInfo c)"
| "gval_value (GFeatures fs) = VList (map Feature_value fs)"
| "gval_value (GAPIKeys ks) = VList (map (or_null APIKey_value) ks)"
| "gval_value (GGenerated g) = GeneratedAPIKey_value g"
| "gval_value (GUsage c) = connection (map UsageRecord_value (ru_Nodes c)) (ru_PageInfo c)"
| "gval_value (GSummary ss) = VList (map UsageSummary_value ss)"
| "gval_value (GAudit c) = connection (map AuditEntry_value (ac_Nodes c)) (ac_PageInfo c)"
| "gval_value (GJobs c) = connection (map (or_null ExportJob_value) (jc_Nodes c)) (jc_PageInfo c)"
| "gval_value (GJob j) = or_null ExportJob_value j"
| "gval_value (GDownload d) = Download_value d"

definition component :: "(string \<times> outval) list \<Rightarrow> string \<Rightarrow> outval" where
  "component kvs f = (case map_of kvs f of None \<Rightarrow> VNull | Some v \<Rightarrow> v)"

definition int32 :: "int \<Rightarrow> bool" where
  "int32 i \<longleftrightarrow> - (2 ^ 31) \<le> i \<and> i < 2 ^ 31"

fun has_type :: "gtype \<Rightarrow> outval \<Rightarrow> bool"
  and has_fields :: "(string \<times> gtype) list \<Rightarrow> (string \<times> outval) list \<Rightarrow> bool" where
  "has_type (NonNull t) v \<longleftrightarrow> v \<noteq> VNull \<and> has_type t v"
| "has_type IntT v \<longleftrightarrow> (case v of VNull \<Rightarrow> True | VInt i \<Rightarrow> int32 i | _ \<Rightarrow> False)"
| "has_type FloatT v \<longleftrightarrow> (case v of VNull \<Rightarrow> True | VFloat a n \<Rightarrow> 0 < n | _ \<Rightarrow> False)"
| "has_type StringT v \<longleftrightarrow> (case v of VNull \<Rightarrow> True | VStr s \<Rightarrow> True | VJson j \<Rightarrow> True | _ \<Rightarrow> False)"
| "has_type BooleanT v \<longleftrightarrow> (case v of VNull \<Rightarrow> True | VBool b \<Rightarrow> True | _ \<Rightarrow> False)"
| "has_type IDT v \<longleftrightarrow> (case v of VNull \<Rightarrow> True | VStr s \<Rightarrow> True | _ \<Rightarrow> False)"
| "has_type DateTimeT v \<longleftrightarrow> (case v of VNull \<Rightarrow> True | VTime t \<Rightarrow> True | _ \<Rightarrow> False)"
| "has_type (EnumT n vs) v \<longleftrightarrow> (case v of VNull \<Rightarrow> True | VStr s \<Rightarrow> s \<in> set (map snd vs) | _ \<Rightarrow> False)"
| "has_type (ObjectT n fs) v \<longleftrightarrow> (case v of VNull \<Rightarrow> True | VObj kvs \<Rightarrow> has_fields fs kvs | _ \<Rightarrow> False)"
| "has_type (InputT n fs) v \<longleftrightarrow> False"
| "has_type (ListT t) v \<longleftrightarrow> (case v of VNull \<Rightarrow> True | VList vs \<Rightarrow> list_all (has_type t) vs | _ \<Rightarrow> False)"
| "has_fields [] kvs \<longleftrightarrow> True"
| "has_fields ((f, t) # fs) kvs \<longleftrightarrow> has_type t (component kvs f) \<and> has_fields fs kvs"

text \<open>What the library passes on as arguments: of the declared name and type.\<close>

fun arg_has_type :: "gtype \<Rightarrow> arg \<Rightarrow> bool"
  and args_have_types :: "(string \<times> gtype) list \<Rightarrow> (string \<times> arg) list \<Rightarrow> bool" where
  "arg_has_type (NonNull t) a \<longleftrightarrow> arg_has_type t a"
| "arg_has_type IntT a \<longleftrightarrow> (case a of AInt i \<Rightarrow> int32 i | _ \<Rightarrow> False)"
| "arg_has_type StringT a \<longleftrightarrow> (case a of AStr s \<Rightarrow> True | _ \<Rightarrow> False)"
| "arg_has_type IDT a \<longleftrightarrow> (case a of AStr s \<Rightarrow> True | _ \<Rightarrow> False)"
| "arg_has_type DateTimeT a \<longleftrightarrow> (case a of ATime t \<Rightarrow> True | _ \<Rightarrow> False)"
| "arg_has_type (EnumT n vs) a \<longleftrightarrow> (case a of AStr s \<Rightarrow> s \<in> set (map snd vs) | _ \<Rightarrow> False)"
| "arg_has_type (InputT n fs) a \<longleftrightarrow> (case a of AObj kvs \<Rightarrow>
     list_all (\<lambda>(k, x). k \<in> set (map fst fs)) kvs \<and> args_have_types fs kvs | _ \<Rightarrow> False)"
| "arg_has_type _ a \<longleftrightarrow> False"
| "args_have_types [] kvs \<longleftrightarrow> True"
| "args_have_types ((f, t) # fs) kvs \<longleftrightarrow>
     (case map_of kvs f of None \<Rightarrow> (case t of NonNull s \<Rightarrow> False | _ \<Rightarrow> True) | Some a \<Rightarrow> arg_has_type t a) \<and> args_have_types fs kvs"

definition args_conform :: "(string \<times> ArgumentConfig) list \<Rightarrow> (string \<times> arg) list \<Rightarrow> bool" where
  "args_conform configs args \<longleftrightarrow> list_all (\<lambda>(k, a). case map_of configs k of
      None \<Rightarrow> False | Some c \<Rightarrow> arg_has_type (ag_Type c) a) args"

end
