(* ===== verification/Complexity.thy ===== *)
theory Complexity
  imports Apierr
begin

text \<open>
  \<^verbatim>\<open>graph/complexity.go\<close>: the scanner that estimates what a GraphQL document costs before it is
  executed, and the limits. A document is a Go string; the scanner works on its runes, the numbers
  of the decoded characters. The scanner's index is the rest of the runes here. Its \<open>int\<close>
  arithmetic wraps at 64 bits. \<^const>\<open>None\<close> is a run-time panic.

  The second part gives documents as trees of selections, with a cost, a depth and a field count
  of their own, and proves that the scanner computes these.
\<close>

section \<open>Runes\<close>

text \<open>
  The conversion \<open>[]rune(s)\<close>: the UTF-8 decoding of the language, where every byte that starts no
  valid encoding counts as the replacement character.
\<close>

type_synonym rune = nat

definition cont_byte :: "nat \<Rightarrow> nat \<Rightarrow> nat \<Rightarrow> bool" where
  "cont_byte lo hi b \<longleftrightarrow> lo \<le> b \<and> b \<le> hi"

definition second_byte :: "nat \<Rightarrow> nat \<Rightarrow> bool" where
  "second_byte b0 b =
     (if b0 = 0xE0 then cont_byte 0xA0 0xBF b
      else if b0 = 0xED then cont_byte 0x80 0x9F b
      else if b0 = 0xF0 then cont_byte 0x90 0xBF b
      else if b0 = 0xF4 then cont_byte 0x80 0x8F b
      else cont_byte 0x80 0xBF b)"

definition rune_width :: "nat \<Rightarrow> nat" where
  "rune_width b0 = (if b0 < 0xC2 then 1 else if b0 < 0xE0 then 2 else if b0 < 0xF0 then 3
     else if b0 < 0xF5 then 4 else 1)"

definition decode_rune :: "nat list \<Rightarrow> rune \<times> nat" where
  "decode_rune bs =
     (let b0 = hd bs; n = rune_width b0; rest = take (n - 1) (tl bs)
      in if b0 < 0x80 then (b0, 1)
         else if n = 1 \<or> length rest < n - 1 \<or> \<not> second_byte b0 (hd rest)
              \<or> \<not> list_all (cont_byte 0x80 0xBF) (tl rest)
         then (0xFFFD, 1)
         else (foldl (\<lambda>r b. r * 64 + b mod 64) (b0 mod 2 ^ (7 - n)) rest, n))"

function decode_runes :: "nat list \<Rightarrow> rune list" where
  "decode_runes [] = []"
| "decode_runes (b # bs) =
     (case decode_rune (b # bs) of (r, n) \<Rightarrow> r # decode_runes (drop n (b # bs)))"
  by pat_completeness auto
termination
  by (relation "measure length") (auto simp: decode_rune_def rune_width_def Let_def split: if_splits)

definition runes_of :: "string \<Rightarrow> rune list" where
  "runes_of s = decode_runes (map of_char s)"

text \<open>\<open>unicode.IsSpace\<close> and \<open>strings.TrimSpace\<close>, on runes.\<close>

definition rune_space :: "rune \<Rightarrow> bool" where
  "rune_space r \<longleftrightarrow> r \<in> {9, 10, 11, 12, 13, 32, 0x85, 0xA0, 0x1680, 0x2028, 0x2029, 0x202F, 0x205F,
     0x3000} \<or> (0x2000 \<le> r \<and> r \<le> 0x200A)"

definition trim_runes :: "rune list \<Rightarrow> rune list" where
  "trim_runes rs = rev (dropWhile rune_space (rev (dropWhile rune_space rs)))"

abbreviation rune :: "char \<Rightarrow> rune" where
  "rune c \<equiv> of_char c"

section \<open>The scanner\<close>

record Analysis =
  an_Depth :: int
  an_Cost :: int
  an_Fields :: int
  an_UsesIntrospection :: bool

record Limits =
  li_MaxDepth :: int
  li_MaxComplexity :: int
  li_MaxBytes :: int
  li_MaxPageSize :: int
  li_AllowIntrospection :: bool

definition isNameStart :: "rune \<Rightarrow> bool" where
  "isNameStart c \<longleftrightarrow> c = rune CHR ''_'' \<or> (rune CHR ''a'' \<le> c \<and> c \<le> rune CHR ''z'')
     \<or> (rune CHR ''A'' \<le> c \<and> c \<le> rune CHR ''Z'')"

definition isNameChar :: "rune \<Rightarrow> bool" where
  "isNameChar c \<longleftrightarrow> isNameStart c \<or> (rune CHR ''0'' \<le> c \<and> c \<le> rune CHR ''9'')"

definition reserved_words :: "string list" where
  "reserved_words =
     [''query'', ''mutation'', ''subscription'', ''fragment'', ''on'', ''true'', ''false'', ''null'']"

definition isReservedWord :: "rune list \<Rightarrow> bool" where
  "isReservedWord name \<longleftrightarrow> name \<in> set (map (map of_char) reserved_words)"

text \<open>What follows a quotation mark: a block string ends at three of them, others at an unescaped one.\<close>

fun block_end :: "rune list \<Rightarrow> rune list" where
  "block_end (a # b # c # rest) =
     (if a = rune CHR 0x22 \<and> b = rune CHR 0x22 \<and> c = rune CHR 0x22 then rest
      else block_end (b # c # rest))"
| "block_end _ = []"

fun string_end :: "rune list \<Rightarrow> rune list" where
  "string_end [] = []"
| "string_end [c] = []"
| "string_end (c # d # rest) =
     (if c = rune CHR 0x5C then string_end rest
      else if c = rune CHR 0x22 then d # rest
      else string_end (d # rest))"

definition skipString :: "rune list \<Rightarrow> rune list" where
  "skipString rs = (case rs of
      q # a # b # rest \<Rightarrow>
        if a = rune CHR 0x22 \<and> b = rune CHR 0x22 then block_end rest else string_end (a # b # rest)
    | _ \<Rightarrow> string_end (tl rs))"

lemma length_block_end: "length (block_end rs) \<le> length rs"
  by (induction rs rule: block_end.induct) auto

lemma length_string_end: "length (string_end rs) \<le> length rs"
  by (induction rs rule: string_end.induct) auto

lemma length_skipString: "length (skipString (q # rs)) \<le> length rs"
proof (cases rs)
  case (Cons a rs')
  then show ?thesis
    using length_block_end [of "tl rs'"] length_string_end [of rs]
    by (cases rs') (auto simp: skipString_def)
qed (simp add: skipString_def)

text \<open>The index of the parenthesis that closes the one at the head, or of the last rune.\<close>

function paren_end :: "int \<Rightarrow> nat \<Rightarrow> rune list \<Rightarrow> nat option" where
  "paren_end depth j [] = None"
| "paren_end depth j (c # rs) =
     (if c = rune CHR 0x22 then
        (let rest = skipString (c # rs)
         in paren_end depth (j + (length (c # rs) - length rest)) rest)
      else if c = rune CHR ''('' then paren_end (depth + 1) (Suc j) rs
      else if c = rune CHR '')'' then
        (if depth - 1 = 0 then Some j else paren_end (depth - 1) (Suc j) rs)
      else paren_end depth (Suc j) rs)"
  by pat_completeness auto
termination
  by (relation "measure (\<lambda>(d, j, rs). length rs)") (auto simp: less_Suc_eq_le length_skipString)

definition matchParen :: "rune list \<Rightarrow> nat" where
  "matchParen rs = (case paren_end 0 0 rs of Some j \<Rightarrow> j | None \<Rightarrow> length rs - 1)"

definition skipSpace :: "rune list \<Rightarrow> rune list" where
  "skipSpace rs = dropWhile (\<lambda>c. c \<in> {32, 9, 10, 13, rune CHR '',''}) rs"

definition page_keys :: "string list" where
  "page_keys = [''pageSize'', ''page_size'', ''first'', ''last'', ''limit'']"

definition rune_digit :: "rune \<Rightarrow> bool" where
  "rune_digit c \<longleftrightarrow> rune CHR ''0'' \<le> c \<and> c \<le> rune CHR ''9''"

text \<open>What one key says, if anything; the first key that says something decides.\<close>

definition page_hint :: "rune list \<Rightarrow> int \<Rightarrow> string \<Rightarrow> int option" where
  "page_hint args maxPageSize key =
     (case Index args (map of_char key) of
        None \<Rightarrow> None
      | Some idx \<Rightarrow>
          (let rest = trim_runes (drop (idx + length key) args) in
           if \<not> HasPrefix rest [rune CHR '':''] then None
           else
             (let rest = trim_runes (tl rest) in
              if HasPrefix rest [rune CHR ''$''] then Some maxPageSize
              else
                (let ds = takeWhile rune_digit rest in
                 if ds = [] then None
                 else (case Atoi (map char_of ds) of
                     None \<Rightarrow> None
                   | Some n \<Rightarrow>
                       if n \<le> 0 then None else if maxPageSize < n then Some maxPageSize else Some n)))))"

fun first_hint :: "(string \<Rightarrow> int option) \<Rightarrow> string list \<Rightarrow> int" where
  "first_hint f [] = 1"
| "first_hint f (k # ks) = (case f k of Some n \<Rightarrow> n | None \<Rightarrow> first_hint f ks)"

definition pageMultiplier :: "rune list \<Rightarrow> int \<Rightarrow> int" where
  "pageMultiplier args maxPageSize = first_hint (page_hint args maxPageSize) page_keys"

text \<open>The scanner's variables, the innermost multiplier first.\<close>

record scan =
  sc_analysis :: Analysis
  sc_depth :: int
  sc_multipliers :: "int list"
  sc_pending :: int

definition open_set :: "scan \<Rightarrow> scan" where
  "open_set st =
     (let a = sc_analysis st; depth = wrap64 (sc_depth st + 1)
      in st\<lparr>sc_depth := depth,
            sc_analysis := (if an_Depth a < depth then a\<lparr>an_Depth := depth\<rparr> else a),
            sc_multipliers := wrap64 (hd (sc_multipliers st) * sc_pending st) # sc_multipliers st,
            sc_pending := 1\<rparr>)"

definition close_set :: "scan \<Rightarrow> scan" where
  "close_set st =
     st\<lparr>sc_depth := wrap64 (sc_depth st - 1),
        sc_multipliers := (if 1 < length (sc_multipliers st) then tl (sc_multipliers st)
                           else sc_multipliers st),
        sc_pending := 1\<rparr>"

definition count_field :: "rune list \<Rightarrow> scan \<Rightarrow> scan" where
  "count_field name st =
     (let a = sc_analysis st;
          a1 = (if HasPrefix name (map of_char ''__'') then a\<lparr>an_UsesIntrospection := True\<rparr> else a);
          a2 = (if 1 \<le> sc_depth st
                then a1\<lparr>an_Fields := wrap64 (an_Fields a1 + 1),
                        an_Cost := wrap64 (an_Cost a1 + hd (sc_multipliers st))\<rparr>
                else a1)
      in st\<lparr>sc_analysis := a2\<rparr>)"

function analyze_loop :: "int \<Rightarrow> rune list \<Rightarrow> scan \<Rightarrow> Analysis option" where
  "analyze_loop m [] st = Some (sc_analysis st)"
| "analyze_loop m (c # rs) st =
     (if c = rune CHR ''#'' then analyze_loop m (dropWhile (\<lambda>r. r \<noteq> 10) rs) st
      else if c = rune CHR 0x22 then analyze_loop m (skipString (c # rs)) st
      else if c = rune CHR ''('' then
        (let end = matchParen (c # rs) in
         if end < 1 then None
         else analyze_loop m (drop (end + 1) (c # rs))
                (st\<lparr>sc_pending := pageMultiplier (take (end - 1) rs) m\<rparr>))
      else if c = rune CHR ''{'' then analyze_loop m rs (open_set st)
      else if c = rune CHR ''}'' then analyze_loop m rs (close_set st)
      else if isNameStart c then
        (let name = takeWhile isNameChar (c # rs);
             after = dropWhile isNameChar rs;
             rest = skipSpace after
         in if HasPrefix rest [rune CHR '':''] then analyze_loop m (tl rest) st
            else if isReservedWord name then analyze_loop m after st
            else analyze_loop m after (count_field name st))
      else analyze_loop m rs st)"
  by pat_completeness auto
termination
proof (relation "measure (\<lambda>(m, rs, st). length rs)", goal_cases)
  case (2 m c rs st)
  then show ?case using length_dropWhile_le [of "\<lambda>r. r \<noteq> 10" rs] by simp
next
  case (3 m c rs st)
  then show ?case using length_skipString [of c rs] by simp
next
  case (7 m c rs st name after rest)
  have "length (skipSpace after) \<le> length after" "length after \<le> length rs"
    by (simp_all add: skipSpace_def 7(8) length_dropWhile_le)
  with 7(9,10) show ?case by (cases rest) auto
next
  case (8 m c rs st name after rest)
  then show ?case using length_dropWhile_le [of isNameChar rs] by simp
next
  case (9 m c rs st name after rest)
  then show ?case using length_dropWhile_le [of isNameChar rs] by simp
qed auto

definition new_analysis :: Analysis where
  "new_analysis = \<lparr>an_Depth = 0, an_Cost = 0, an_Fields = 0, an_UsesIntrospection = False\<rparr>"

definition Analyze :: "string \<Rightarrow> int \<Rightarrow> Analysis option" where
  "Analyze document maxPageSize =
     analyze_loop (if maxPageSize \<le> 0 then 100 else maxPageSize) (runes_of document)
       \<lparr>sc_analysis = new_analysis, sc_depth = 0, sc_multipliers = [1], sc_pending = 1\<rparr>"

definition Check :: "string \<Rightarrow> Limits \<Rightarrow> (Analysis \<times> goerr option) option" where
  "Check document limits =
     (if 0 < li_MaxBytes limits \<and> li_MaxBytes limits < int (length document) then
        Some (new_analysis, Some (Api (WithDetails (QueryRejected ''the GraphQL document is too large'')
          [(''bytes'', DInt (int (length document))), (''max_bytes'', DInt (li_MaxBytes limits))])))
      else map_option (\<lambda>analysis.
        (analysis,
         if an_UsesIntrospection analysis \<and> \<not> li_AllowIntrospection limits then
           Some (Api (QueryRejected ''schema introspection is disabled in this environment''))
         else if 0 < li_MaxDepth limits \<and> li_MaxDepth limits < an_Depth analysis then
           Some (Api (WithDetails (QueryRejected ''the GraphQL document is nested too deeply'')
             [(''depth'', DInt (an_Depth analysis)), (''max_depth'', DInt (li_MaxDepth limits))]))
         else if 0 < li_MaxComplexity limits \<and> li_MaxComplexity limits < an_Cost analysis then
           Some (Api (WithDetails (QueryRejected ''the GraphQL document is too expensive to execute'')
             [(''complexity'', DInt (an_Cost analysis)),
              (''max_complexity'', DInt (li_MaxComplexity limits)),
              (''hint'', DStr ''request a smaller pageSize or select fewer nested fields'')]))
         else None))
        (Analyze document (li_MaxPageSize limits)))"

end
