(* ===== verification/QueryCost.thy ===== *)
theory QueryCost
  imports Complexity "HOL-Library.Sublist"
begin

text \<open>
  What the scanner of \<^verbatim>\<open>graph/complexity.go\<close> is meant to compute, on documents as trees: a
  selection has an alias or none, a name, a page size or none, and selections of its own. The
  theorems say that the scanner's analysis of the text of a tree is the tree's.
\<close>

datatype selection =
  Selection (s_alias: "string option") (s_name: string) (s_page: "nat option")
    (s_subs: "selection list")

definition page_arg :: "nat \<Rightarrow> string" where
  "page_arg k = ''(pageSize: '' @ Itoa (int k) @ '')''"

fun render :: "selection \<Rightarrow> string" where
  "render (Selection al n p ss) =
     (case al of None \<Rightarrow> '''' | Some a \<Rightarrow> a @ '': '') @ n
     @ (case p of None \<Rightarrow> '''' | Some k \<Rightarrow> page_arg k)
     @ (if ss = [] then '''' else ''{'' @ concat (map (\<lambda>s. render s @ '' '') ss) @ ''}'')"

definition render_set :: "selection list \<Rightarrow> string" where
  "render_set ss = ''{'' @ concat (map (\<lambda>s. render s @ '' '') ss) @ ''}''"

text \<open>The number of rows a page argument stands for, cut at the maximum.\<close>

definition factor :: "int \<Rightarrow> nat option \<Rightarrow> int" where
  "factor m p = (case p of None \<Rightarrow> 1 | Some k \<Rightarrow> min (int k) m)"

fun sel_cost :: "int \<Rightarrow> int \<Rightarrow> selection \<Rightarrow> int" where
  "sel_cost m c (Selection al n p ss) = c + sum_list (map (sel_cost m (c * factor m p)) ss)"

fun sel_depth :: "selection \<Rightarrow> nat" where
  "sel_depth (Selection al n p ss) =
     (if ss = [] then 0 else Suc (foldr max (map sel_depth ss) 0))"

fun sel_fields :: "selection \<Rightarrow> nat" where
  "sel_fields (Selection al n p ss) = Suc (sum_list (map sel_fields ss))"

fun sel_introspects :: "selection \<Rightarrow> bool" where
  "sel_introspects (Selection al n p ss) \<longleftrightarrow> HasPrefix n ''__'' \<or> list_ex sel_introspects ss"

definition is_name :: "string \<Rightarrow> bool" where
  "is_name n \<longleftrightarrow> n \<noteq> '''' \<and> isNameStart (rune (hd n)) \<and> list_all (\<lambda>c. isNameChar (rune c)) n"

text \<open>
  Well-formed trees: names, none of them a keyword, and page sizes where there is a page to select
  from.
\<close>

fun sel_ok :: "selection \<Rightarrow> bool" where
  "sel_ok (Selection al n p ss) \<longleftrightarrow>
     (case al of None \<Rightarrow> True | Some a \<Rightarrow> is_name a) \<and> is_name n \<and> n \<notin> set reserved_words
     \<and> (case p of None \<Rightarrow> True | Some k \<Rightarrow> 0 < k \<and> int k < 2 ^ 63 \<and> ss \<noteq> [])
     \<and> list_all sel_ok ss"

section \<open>Steps of the scanner\<close>

abbreviation rs :: "string \<Rightarrow> rune list" where
  "rs s \<equiv> map of_char s"

declare analyze_loop.simps [simp del] decode_runes.simps(2) [simp del]

lemma decode_runes_ascii: "list_all (\<lambda>b. b < 0x80) bs \<Longrightarrow> decode_runes bs = bs"
proof (induction bs)
  case (Cons b bs)
  then have "decode_rune (b # bs) = (b, 1)" by (simp add: decode_rune_def)
  with Cons show ?case by (subst decode_runes.simps) simp
qed simp

lemma isNameChar_bounds: "isNameChar c \<Longrightarrow> 48 \<le> c \<and> c < 123 \<and> c \<noteq> 58"
  by (auto simp: isNameChar_def isNameStart_def)

lemma isNameStart_bounds: "isNameStart c \<Longrightarrow> 65 \<le> c \<and> c < 123 \<and> isNameChar c"
  by (auto simp: isNameChar_def isNameStart_def)

lemma name_ascii: "is_name n \<Longrightarrow> list_all (\<lambda>c. byte c < 0x80) n"
proof -
  assume "is_name n"
  then have "isNameChar (byte c)" if "c \<in> set n" for c
    using that by (simp add: is_name_def list_all_iff)
  from isNameChar_bounds [OF this] show ?thesis by (fastforce simp: list_all_iff)
qed

lemma takeWhile_run: "list_all P xs \<Longrightarrow> r = [] \<or> \<not> P (hd r) \<Longrightarrow> takeWhile P (xs @ r) = xs"
  by (induction xs) (cases r; simp)+

lemma dropWhile_run: "list_all P xs \<Longrightarrow> r = [] \<or> \<not> P (hd r) \<Longrightarrow> dropWhile P (xs @ r) = r"
  by (induction xs) (cases r; simp)+

lemma loop_name:
  assumes "is_name n" "rest = [] \<or> \<not> isNameChar (hd rest)"
  shows "analyze_loop m (rs n @ rest) st =
     (if HasPrefix (skipSpace rest) [rune CHR '':''] then analyze_loop m (tl (skipSpace rest)) st
      else if isReservedWord (rs n) then analyze_loop m rest st
      else analyze_loop m rest (count_field (rs n) st))"
proof -
  obtain c xs where n: "rs n = c # xs" using assms(1) by (cases n) (auto simp: is_name_def)
  have c: "isNameStart c" "list_all isNameChar (c # xs)"
    using assms(1) n by (cases n; auto simp: is_name_def list_all_iff)+
  have "takeWhile isNameChar (c # xs @ rest) = c # xs" "dropWhile isNameChar (xs @ rest) = rest"
    using takeWhile_run [of isNameChar "c # xs" rest] dropWhile_run [of isNameChar xs rest] c(2) assms(2)
    by simp_all
  then show ?thesis
    using isNameStart_bounds [OF c(1)] c(1)
    by (simp add: n analyze_loop.simps(2) [of _ c] Let_def del: takeWhile.simps)
qed

lemma skipSpace_blank [simp]: "skipSpace (32 # r) = skipSpace r"
  by (simp add: skipSpace_def)

lemma skipSpace_stop: "isNameStart c \<or> c = 125 \<or> c = 40 \<or> c = 123 \<or> c = 58 \<Longrightarrow> skipSpace (c # r) = c # r"
  by (auto simp: skipSpace_def isNameStart_def)

lemma loop_blank [simp]: "analyze_loop m (32 # r) st = analyze_loop m r st"
  by (simp add: analyze_loop.simps(2) [of _ 32] isNameStart_def)

lemma loop_alias:
  assumes "is_name a"
  shows "analyze_loop m (rs (a @ '': '') @ r) st = analyze_loop m r st"
proof -
  have "analyze_loop m (rs a @ (58 # 32 # r)) st = analyze_loop m r st"
    using assms by (subst loop_name) (simp_all add: skipSpace_stop isNameChar_def isNameStart_def)
  then show ?thesis by simp
qed

lemma paren_end_plain:
  assumes "list_all (\<lambda>c. c \<noteq> 34 \<and> c \<noteq> 40 \<and> c \<noteq> 41) args"
  shows "paren_end 1 j (args @ 41 # r) = Some (j + length args)"
  using assms by (induction args arbitrary: j) simp_all

lemma digit_runes:
  "takeWhile rune_digit (rs (nat_digits k)) = rs (nat_digits k)"
  "hd (rs (nat_digits k)) \<noteq> 36" "\<not> rune_space (hd (rs (nat_digits k)))"
  "\<not> rune_space (last (rs (nat_digits k)))" "rs (nat_digits k) \<noteq> []"
  "list_all (\<lambda>c. c \<noteq> 34 \<and> c \<noteq> 40 \<and> c \<noteq> 41) (rs (nat_digits k))"
proof -
  have all: "list_all (\<lambda>c. 48 \<le> byte c \<and> byte c \<le> 57) (nat_digits k)"
    using nat_digits_all_digit [of k] by (simp add: is_digit_def [abs_def])
  then have mem: "48 \<le> c \<and> c \<le> 57" if "c \<in> set (rs (nat_digits k))" for c
    using that by (auto simp: list_all_iff)
  show ne: "rs (nat_digits k) \<noteq> []" by simp
  show "takeWhile rune_digit (rs (nat_digits k)) = rs (nat_digits k)"
    using mem by (simp add: takeWhile_eq_all_conv rune_digit_def)
  show "hd (rs (nat_digits k)) \<noteq> 36" "\<not> rune_space (hd (rs (nat_digits k)))"
    using mem [OF hd_in_set [OF ne]] by (auto simp: rune_space_def)
  show "\<not> rune_space (last (rs (nat_digits k)))"
    using mem [OF last_in_set [OF ne]] by (auto simp: rune_space_def)
  show "list_all (\<lambda>c. c \<noteq> 34 \<and> c \<noteq> 40 \<and> c \<noteq> 41) (rs (nat_digits k))"
    using mem by (fastforce simp: list_all_iff)
qed

lemma trim_runes_id: "xs \<noteq> [] \<Longrightarrow> \<not> rune_space (hd xs) \<Longrightarrow> \<not> rune_space (last xs) \<Longrightarrow> trim_runes xs = xs"
proof -
  assume xs: "xs \<noteq> []" "\<not> rune_space (hd xs)" "\<not> rune_space (last xs)"
  then have "dropWhile rune_space xs = xs" by (cases xs) auto
  moreover from xs have "dropWhile rune_space (rev xs) = rev xs" by (cases "rev xs") (auto simp: last_rev)
  ultimately show ?thesis by (simp add: trim_runes_def)
qed


lemma HasPrefix_single: "HasPrefix xs [x] \<longleftrightarrow> xs \<noteq> [] \<and> hd xs = x"
  by (cases xs) auto

lemma loop_args:
  assumes "0 < k" "int k < 2 ^ 63" "0 < m"
  shows "analyze_loop m (rs (page_arg k) @ r) st
    = analyze_loop m r (st\<lparr>sc_pending := factor m (Some k)\<rparr>)"
proof -
  let ?d = "rs (nat_digits k)" and ?a = "rs ''pageSize: ''"
  have "trim_runes (58 # 32 # ?d) = 58 # 32 # ?d"
    using digit_runes(4,5) [of k] by (intro trim_runes_id) (simp_all add: rune_space_def)
  moreover have "trim_runes (32 # ?d) = ?d"
    using trim_runes_id [OF digit_runes(5,3,4)] by (simp add: trim_runes_def rune_space_def)
  ultimately have trim: "trim_runes (58 # 32 # ?d) = 58 # 32 # ?d" "trim_runes (32 # ?d) = ?d"
    by blast+
  have "page_hint (?a @ ?d) m ''pageSize'' = Some (min (int k) m)"
    using assms digit_runes(2,5) [of k] Atoi_nat_digits [OF assms(2)] trim
    by (simp add: digit_runes(1) page_hint_def Let_def comp_def min_def HasPrefix_single)
  then have mult: "pageMultiplier (?a @ ?d) m = min (int k) m"
    by (simp add: pageMultiplier_def page_keys_def)
  have "paren_end 1 1 ((?a @ ?d) @ 41 # r) = Some (1 + length (?a @ ?d))"
    using digit_runes(6) [of k] by (intro paren_end_plain) simp
  then have "matchParen (40 # (?a @ ?d) @ 41 # r) = 1 + length (?a @ ?d)"
    by (simp add: matchParen_def del: append_assoc append_Cons list.map)
  then have "analyze_loop m (40 # (?a @ ?d) @ 41 # r) st
      = analyze_loop m r (st\<lparr>sc_pending := pageMultiplier (?a @ ?d) m\<rparr>)"
    by (simp add: analyze_loop.simps(2) [of _ 40] Let_def del: append_assoc append_Cons list.map)
  with mult show ?thesis by (simp add: page_arg_def Itoa_def factor_def)
qed

lemma isReservedWord_runes [simp]: "isReservedWord (rs n) \<longleftrightarrow> n \<in> set reserved_words"
proof -
  have "inj (map (of_char :: char \<Rightarrow> nat))" by (simp add: inj_map_eq_map inj_def)
  then show ?thesis by (simp add: isReservedWord_def inj_image_mem_iff)
qed

lemma HasPrefix_runes [simp]: "HasPrefix (rs n) (rs p) \<longleftrightarrow> HasPrefix n p"
  by (induction n p rule: HasPrefix.induct) auto

section \<open>The analysis of a tree\<close>

definition set_depth :: "selection list \<Rightarrow> nat" where
  "set_depth ss = foldr max (map sel_depth ss) 0"

definition set_cost :: "int \<Rightarrow> int \<Rightarrow> selection list \<Rightarrow> int" where
  "set_cost m c ss = sum_list (map (sel_cost m c) ss)"

definition set_fields :: "selection list \<Rightarrow> nat" where
  "set_fields ss = sum_list (map sel_fields ss)"

text \<open>An analysis with what the selections of a set at depth \<open>d\<close> and multiplier \<open>c\<close> add to it.\<close>

definition counted :: "int \<Rightarrow> int \<Rightarrow> int \<Rightarrow> selection list \<Rightarrow> Analysis \<Rightarrow> Analysis" where
  "counted m c d ss a =
     \<lparr>an_Depth = max (an_Depth a) (d + int (set_depth ss)),
      an_Cost = wrap64 (an_Cost a + set_cost m c ss),
      an_Fields = wrap64 (an_Fields a + int (set_fields ss)),
      an_UsesIntrospection = (an_UsesIntrospection a \<or> list_ex sel_introspects ss)\<rparr>"

lemma counted_Cons: "counted m c d ss (counted m c d [s] a) = counted m c d (s # ss) a"
  by (auto simp: counted_def set_depth_def set_cost_def set_fields_def wrap64_add add.assoc)

lemma set_depth_le: "s \<in> set ss \<Longrightarrow> sel_depth s \<le> set_depth ss"
  by (induction ss) (auto simp: set_depth_def)

definition follows :: "rune list \<Rightarrow> bool" where
  "follows r \<longleftrightarrow> (\<exists>c cs. r = 32 # c # cs \<and> (isNameStart c \<or> c = 125))"

text \<open>The scanner's variables inside a selection set.\<close>

definition within :: "int \<Rightarrow> int \<Rightarrow> scan \<Rightarrow> bool" where
  "within c d st \<longleftrightarrow> sc_pending st = 1 \<and> (\<exists>ms. sc_multipliers st = wrap64 c # ms) \<and> sc_depth st = d
     \<and> 1 \<le> d \<and> d \<le> an_Depth (sc_analysis st)
     \<and> wrap64 (an_Cost (sc_analysis st)) = an_Cost (sc_analysis st)
     \<and> wrap64 (an_Fields (sc_analysis st)) = an_Fields (sc_analysis st)"

lemma within_counted:
  "within c d st \<Longrightarrow> within c d (st\<lparr>sc_analysis := counted m c d ss (sc_analysis st)\<rparr>)"
  using wrap64_add [of _ 0] by (auto simp: within_def counted_def)

definition loops :: "int \<Rightarrow> selection \<Rightarrow> bool" where
  "loops m s \<longleftrightarrow> (\<forall>c d st r. within c d st \<longrightarrow> d + int (sel_depth s) < 2 ^ 63 \<longrightarrow> follows r \<longrightarrow>
     analyze_loop m (rs (render s) @ r) st
       = analyze_loop m r (st\<lparr>sc_analysis := counted m c d [s] (sc_analysis st)\<rparr>))"

lemma render_hd:
  assumes "sel_ok s"
  shows "\<exists>c cs. rs (render s) = c # cs \<and> isNameStart c"
proof -
  obtain al n p ss where s: "s = Selection al n p ss" by (cases s)
  show ?thesis
    using assms by (cases al; cases n; cases "the al") (auto simp: s is_name_def)
qed

lemma loop_list:
  assumes "\<And>s. s \<in> set ss \<Longrightarrow> loops m s" "list_all sel_ok ss"
    and "within c d st" "d + int (set_depth ss) < 2 ^ 63"
  shows "analyze_loop m (rs (concat (map (\<lambda>s. render s @ '' '') ss)) @ 125 # r) st
    = analyze_loop m (125 # r) (st\<lparr>sc_analysis := counted m c d ss (sc_analysis st)\<rparr>)"
  using assms
proof (induction ss arbitrary: st)
  case Nil
  then have "counted m c d [] (sc_analysis st) = sc_analysis st"
    by (simp add: within_def counted_def set_depth_def set_cost_def set_fields_def)
  then show ?case by simp
next
  case (Cons s ss)
  let ?st = "st\<lparr>sc_analysis := counted m c d [s] (sc_analysis st)\<rparr>"
  let ?r = "rs (concat (map (\<lambda>s. render s @ '' '') ss)) @ 125 # r"
  have "\<exists>c cs. ?r = c # cs \<and> (isNameStart c \<or> c = 125)"
  proof (cases ss)
    case (Cons s' ss')
    with Cons.prems(2) render_hd [of s'] show ?thesis by auto
  qed simp
  then have follows: "follows (32 # ?r)" by (auto simp: follows_def)
  have depth: "d + int (sel_depth s) < 2 ^ 63" "d + int (set_depth ss) < 2 ^ 63"
    using Cons.prems(4) by (simp_all add: set_depth_def)
  have "analyze_loop m (rs (render s) @ 32 # ?r) st = analyze_loop m (32 # ?r) ?st"
    using Cons.prems(1) [of s] Cons.prems(3) depth(1) follows unfolding loops_def by simp
  also have "\<dots> = analyze_loop m ?r ?st" by (rule loop_blank)
  also have "\<dots> = analyze_loop m (125 # r)
      (?st\<lparr>sc_analysis := counted m c d ss (sc_analysis ?st)\<rparr>)"
    using Cons.prems within_counted depth(2) by (intro Cons.IH) simp_all
  finally show ?case by (simp add: counted_Cons)
qed

lemma loop_open: "analyze_loop m (123 # r) st = analyze_loop m r (open_set st)"
  and loop_close: "analyze_loop m (125 # r) st = analyze_loop m r (close_set st)"
  by (simp_all add: analyze_loop.simps(2) [of _ 123] analyze_loop.simps(2) [of _ 125])

lemma loop_set:
  assumes "\<And>s. s \<in> set ss \<Longrightarrow> loops m s" "list_all sel_ok ss"
    and "sc_multipliers st = wrap64 c # ms" "sc_depth st = d" "0 \<le> d" "d \<le> an_Depth (sc_analysis st)"
    and "d + 1 + int (set_depth ss) < 2 ^ 63"
    and "wrap64 (an_Cost (sc_analysis st)) = an_Cost (sc_analysis st)"
    and "wrap64 (an_Fields (sc_analysis st)) = an_Fields (sc_analysis st)"
  shows "analyze_loop m (rs (render_set ss) @ r) st = analyze_loop m r
    (st\<lparr>sc_analysis := counted m (c * sc_pending st) (d + 1) ss (sc_analysis st), sc_pending := 1\<rparr>)"
proof -
  let ?st = "open_set st"
  have d: "wrap64 (d + 1) = d + 1" "wrap64 (d + 1 - 1) = d"
    using assms(5,7) by (simp_all add: wrap64_def)
  have within: "within (c * sc_pending st) (d + 1) ?st"
    using assms d by (auto simp: within_def open_set_def Let_def wrap64_mult)
  have "analyze_loop m (rs (render_set ss) @ r) st
      = analyze_loop m (rs (concat (map (\<lambda>s. render s @ '' '') ss)) @ 125 # r) ?st"
    by (simp add: render_set_def loop_open)
  also have "\<dots> = analyze_loop m r
      (close_set (?st\<lparr>sc_analysis := counted m (c * sc_pending st) (d + 1) ss (sc_analysis ?st)\<rparr>))"
    using loop_list [OF assms(1,2) within] assms(7) by (simp add: loop_close add.assoc)
  also have "close_set (?st\<lparr>sc_analysis := counted m (c * sc_pending st) (d + 1) ss (sc_analysis ?st)\<rparr>)
      = st\<lparr>sc_analysis := counted m (c * sc_pending st) (d + 1) ss (sc_analysis st), sc_pending := 1\<rparr>"
    using assms(3,4,6) d
    by (cases st) (auto simp: close_set_def open_set_def Let_def counted_def)
  finally show ?thesis .
qed

lemma wrap64_add_right: "wrap64 (x + wrap64 y) = wrap64 (x + y)"
  using wrap64_add [of y x] by (simp add: add.commute)

lemma count_field_within:
  assumes "within c d st"
  shows "count_field (rs n) st
    = st\<lparr>sc_analysis := counted m c d [Selection al n None []] (sc_analysis st)\<rparr>"
proof -
  have "HasPrefix (rs n) (rs ''__'') \<longleftrightarrow> HasPrefix n ''__''" by (rule HasPrefix_runes)
  moreover obtain ms where "sc_multipliers st = wrap64 c # ms" "1 \<le> sc_depth st"
      "d \<le> an_Depth (sc_analysis st)"
    using assms by (auto simp: within_def)
  ultimately show ?thesis
    by (cases "sc_analysis st")
       (simp add: count_field_def counted_def set_depth_def set_cost_def set_fields_def Let_def
          wrap64_add_right)
qed

lemma counted_field:
  assumes "ss \<noteq> []"
  shows "counted m (c * factor m p) (d + 1) ss (counted m c d [Selection al n None []] a)
    = counted m c d [Selection al n p ss] a"
  using assms
  by (auto simp: counted_def set_depth_def set_cost_def set_fields_def wrap64_add add.assoc)

lemma render_set_eq:
  "render (Selection al n p ss) =
     (case al of None \<Rightarrow> '''' | Some a \<Rightarrow> a @ '': '') @ n
     @ (case p of None \<Rightarrow> '''' | Some k \<Rightarrow> page_arg k) @ (if ss = [] then '''' else render_set ss)"
  by (simp add: render_set_def)

lemma loop_page:
  assumes "case p of None \<Rightarrow> True | Some k \<Rightarrow> 0 < k \<and> int k < 2 ^ 63" "0 < m" "sc_pending st = 1"
  shows "analyze_loop m (rs (case p of None \<Rightarrow> '''' | Some k \<Rightarrow> page_arg k) @ r) st
    = analyze_loop m r (st\<lparr>sc_pending := factor m p\<rparr>)"
  using assms loop_args by (cases p; cases st) (simp_all add: factor_def)

lemma loop_field:
  assumes "is_name n" "n \<notin> set reserved_words" "within c d st"
    and "\<exists>x xs. r = x # xs \<and> (x = 40 \<or> x = 123 \<or> follows r)"
  shows "analyze_loop m (rs n @ r) st
    = analyze_loop m r (st\<lparr>sc_analysis := counted m c d [Selection al n None []] (sc_analysis st)\<rparr>)"
proof -
  have "\<not> isNameChar (hd r) \<and> \<not> HasPrefix (skipSpace r) [58]"
    using assms(4)
    by (auto simp: follows_def skipSpace_stop isNameChar_def isNameStart_def HasPrefix_single)
  then have "analyze_loop m (rs n @ r) st = analyze_loop m r (count_field (rs n) st)"
    using assms(2) by (simp add: loop_name [OF assms(1)])
  then show ?thesis by (simp only: count_field_within [OF assms(3), of n m al])
qed

lemma loops_sel:
  assumes "sel_ok s" "0 < m"
  shows "loops m s"
  using assms(1)
proof (induction s)
  case (Selection al n p ss)
  have ok: "is_name n" "n \<notin> set reserved_words" "list_all sel_ok ss"
    "case al of None \<Rightarrow> True | Some a \<Rightarrow> is_name a"
    "case p of None \<Rightarrow> True | Some k \<Rightarrow> 0 < k \<and> int k < 2 ^ 63" "p \<noteq> None \<Longrightarrow> ss \<noteq> []"
    using Selection.prems by (auto split: option.splits)
  have IH: "loops m s" if "s \<in> set ss" for s
    using Selection.IH [OF that] ok(3) that by (simp add: list_all_iff)
  show ?case
    unfolding loops_def
  proof (intro allI impI)
    fix c d st r
    assume w: "within c d st" and depth: "d + int (sel_depth (Selection al n p ss)) < 2 ^ 63"
      and f: "follows r"
    define st1 where "st1 = st\<lparr>sc_analysis := counted m c d [Selection al n None []] (sc_analysis st)\<rparr>"
    let ?page = "case p of None \<Rightarrow> '''' | Some k \<Rightarrow> page_arg k"
    let ?tail = "rs (if ss = [] then '''' else render_set ss) @ r"
    have w1: "within c d st1" using within_counted [OF w] by (simp add: st1_def)
    have "\<exists>x xs. rs ?page @ ?tail = x # xs \<and> (x = 40 \<or> x = 123 \<or> follows (rs ?page @ ?tail))"
      using f ok(6) by (auto simp: page_arg_def render_set_def follows_def split: option.splits)
    then have "analyze_loop m (rs (render (Selection al n p ss)) @ r) st
        = analyze_loop m (rs ?page @ ?tail) st1"
      using loop_field [OF ok(1,2) w] ok(4) loop_alias
      by (cases al) (simp_all add: render_set_eq st1_def del: render.simps)
    also have "\<dots> = analyze_loop m ?tail (st1\<lparr>sc_pending := factor m p\<rparr>)"
      using w1 ok(5) assms(2) by (intro loop_page) (simp_all add: within_def)
    also have "\<dots> = analyze_loop m r (st\<lparr>sc_analysis := counted m c d [Selection al n p ss] (sc_analysis st)\<rparr>)"
    proof (cases "ss = []")
      case True
      then show ?thesis
        using ok(6) w1 by (cases p; cases st) (simp_all add: st1_def within_def factor_def)
    next
      case False
      from w1 obtain ms where ms: "sc_multipliers st1 = wrap64 c # ms" by (auto simp: within_def)
      have "analyze_loop m (rs (render_set ss) @ r) (st1\<lparr>sc_pending := factor m p\<rparr>) = analyze_loop m r
          (st1\<lparr>sc_analysis := counted m (c * factor m p) (d + 1) ss (sc_analysis st1), sc_pending := 1\<rparr>)"
        using loop_set [OF IH ok(3), where st = "st1\<lparr>sc_pending := factor m p\<rparr>" and c = c and d = d]
          ms w1 depth False by (simp add: within_def set_depth_def)
      moreover have "sc_pending st = 1" using w by (simp add: within_def)
      ultimately show ?thesis
        using False by (cases st) (simp add: st1_def counted_field)
    qed
    finally show "analyze_loop m (rs (render (Selection al n p ss)) @ r) st
       = analyze_loop m r (st\<lparr>sc_analysis := counted m c d [Selection al n p ss] (sc_analysis st)\<rparr>)" .
  qed
qed

text \<open>The analysis of a document that is one anonymous operation with the selections \<open>ss\<close>.\<close>

definition document_analysis :: "int \<Rightarrow> selection list \<Rightarrow> Analysis" where
  "document_analysis m ss =
     \<lparr>an_Depth = 1 + int (set_depth ss), an_Cost = wrap64 (set_cost m 1 ss),
      an_Fields = wrap64 (int (set_fields ss)), an_UsesIntrospection = list_ex sel_introspects ss\<rparr>"

lemma render_set_ascii:
  assumes "\<And>s. s \<in> set ss \<Longrightarrow> list_all (\<lambda>c. byte c < 0x80) (render s)"
  shows "list_all (\<lambda>c. byte c < 0x80) (render_set ss)"
  using assms by (auto simp: render_set_def list_all_iff)

lemma page_arg_ascii: "list_all (\<lambda>c. byte c < 0x80) (page_arg k)"
  using nat_digits_all_digit [of k]
  by (auto simp: page_arg_def Itoa_def list_all_iff is_digit_def dest!: bspec)

lemma render_ascii: "sel_ok s \<Longrightarrow> list_all (\<lambda>c. byte c < 0x80) (render s)"
proof (induction s)
  case (Selection al n p ss)
  have "list_all (\<lambda>c. byte c < 0x80) (render_set ss)"
    using Selection by (intro render_set_ascii) (simp add: list_all_iff)
  moreover have "list_all (\<lambda>c. byte c < 0x80) (case p of None \<Rightarrow> '''' | Some k \<Rightarrow> page_arg k)"
    using page_arg_ascii by (cases p) simp_all
  ultimately show ?case
    using Selection.prems name_ascii unfolding render_set_eq by (cases al) simp_all
qed

lemma Analyze_tree:
  assumes "list_all sel_ok ss" "int (set_depth ss) < 2 ^ 62"
  shows "Analyze (render_set ss) m = Some (document_analysis (if m \<le> 0 then 100 else m) ss)"
proof -
  let ?m = "if m \<le> 0 then 100 else m"
  let ?st = "\<lparr>sc_analysis = new_analysis, sc_depth = 0, sc_multipliers = [1], sc_pending = 1\<rparr>"
  have w: "wrap64 0 = 0" "wrap64 1 = 1" by (simp_all add: wrap64_def)
  have "list_all (\<lambda>c. byte c < 0x80) (render_set ss)"
    using assms(1) by (intro render_set_ascii render_ascii) (simp add: list_all_iff)
  then have "runes_of (render_set ss) = rs (render_set ss)"
    unfolding runes_of_def by (intro decode_runes_ascii) (simp add: list_all_iff)
  then have "Analyze (render_set ss) m = analyze_loop ?m (rs (render_set ss) @ []) ?st"
    by (simp add: Analyze_def)
  also have "\<dots> = analyze_loop ?m []
      (?st\<lparr>sc_analysis := counted ?m (1 * sc_pending ?st) (0 + 1) ss (sc_analysis ?st), sc_pending := 1\<rparr>)"
    using assms w by (intro loop_set loops_sel) (simp_all add: new_analysis_def list_all_iff)
  also have "\<dots> = Some (document_analysis ?m ss)"
    by (simp add: analyze_loop.simps counted_def document_analysis_def new_analysis_def max_def)
  finally show ?thesis .
qed


section \<open>Panics\<close>

lemma suffix_block_end: "suffix (block_end xs) xs"
  by (induction xs rule: block_end.induct) (auto intro: suffix_ConsI)

lemma suffix_string_end: "suffix (string_end xs) xs"
  by (induction xs rule: string_end.induct) (auto intro: suffix_ConsI)

lemma suffix_skipString: "suffix (skipString xs) xs"
proof (cases xs)
  case (Cons q ys)
  have "suffix (string_end (tl xs)) xs"
    using suffix_string_end suffix_tl by (rule suffix_order.trans)
  moreover have "suffix (block_end (tl (tl (tl xs)))) xs"
    by (intro suffix_order.trans [OF suffix_block_end] suffix_order.trans [OF suffix_tl] suffix_tl)
  ultimately show ?thesis
    by (cases ys; cases "tl ys") (auto simp: skipString_def Cons)
qed (simp add: skipString_def)

lemma paren_end_ge: "paren_end k j xs = Some i \<Longrightarrow> j \<le> i"
proof (induction k j xs rule: paren_end.induct)
  case (2 k j c xs)
  then show ?case
    by (auto simp: Let_def split: if_splits)
qed simp

lemma matchParen_pos:
  assumes "matchParen (40 # xs) < 1"
  shows "xs = []"
  using assms paren_end_ge [of 1 1 xs] by (auto simp: matchParen_def split: option.splits)

lemma analyze_loop_panics:
  "analyze_loop m xs st = None \<Longrightarrow> suffix [40] xs"
proof (induction m xs st rule: analyze_loop.induct)
  case (2 m c xs st)
  have skip: "suffix (skipSpace ys) ys" for ys by (simp add: skipSpace_def suffix_dropWhile)
  have drops: "suffix (dropWhile P xs) (c # xs)" "suffix xs (c # xs)"
    "suffix (tl (skipSpace (dropWhile isNameChar xs))) (c # xs)" for P
    by (auto intro: suffix_ConsI suffix_dropWhile suffix_order.trans [OF suffix_tl]
        suffix_order.trans [OF skip])
  note in_rest = suffix_order.trans [OF _ drops(1)] suffix_order.trans [OF _ drops(2)]
    suffix_order.trans [OF _ drops(3)] suffix_order.trans [OF _ suffix_skipString]
    suffix_order.trans [OF _ suffix_drop [of _ "c # xs"]]
  consider "c = 35" | "c = 34" | "c = 40" | "c = 123" | "c = 125"
    | "isNameStart c" "c \<notin> {35, 34, 40, 123, 125}" | "\<not> isNameStart c" "c \<notin> {35, 34, 40, 123, 125}"
    by auto
  then show ?case
  proof cases
    case 3
    show ?thesis
    proof (cases "matchParen (c # xs) < 1")
      case True
      with 3 matchParen_pos [of xs] show ?thesis by simp
    next
      case False
      with "2.prems" 3 have "analyze_loop m (drop (matchParen (c # xs) + 1) (c # xs))
          (st\<lparr>sc_pending := pageMultiplier (take (matchParen (c # xs) - 1) xs) m\<rparr>) = None"
        by (simp add: analyze_loop.simps Let_def)
      with "2.IH"(3) 3 False have "suffix [40] (drop (matchParen (c # xs) + 1) (c # xs))" by simp
      then show ?thesis by (rule suffix_order.trans [OF _ suffix_drop])
    qed
  next
    case 6
    let ?after = "dropWhile isNameChar xs"
    consider "HasPrefix (skipSpace ?after) [58]"
      | "\<not> HasPrefix (skipSpace ?after) [58]" "isReservedWord (takeWhile isNameChar (c # xs))"
      | "\<not> HasPrefix (skipSpace ?after) [58]" "\<not> isReservedWord (takeWhile isNameChar (c # xs))"
      by blast
    then show ?thesis
    proof cases
      case 1
      with 6 "2.prems" have "analyze_loop m (tl (skipSpace ?after)) st = None"
        by (simp add: analyze_loop.simps(2) [of m c] Let_def)
      with "2.IH"(6) [OF _ _ _ _ _ _ refl refl refl] 6 1 show ?thesis by (intro in_rest(3)) simp
    next
      case 2
      with 6 "2.prems" have "analyze_loop m ?after st = None"
        by (simp add: analyze_loop.simps(2) [of m c] Let_def del: takeWhile.simps)
      with "2.IH"(7) [OF _ _ _ _ _ _ refl refl refl] 6 2 show ?thesis
        by (intro in_rest(1) [of _ isNameChar]) (simp del: takeWhile.simps)
    next
      case 3
      with 6 "2.prems"
      have "analyze_loop m ?after (count_field (takeWhile isNameChar (c # xs)) st) = None"
        by (simp add: analyze_loop.simps(2) [of m c] Let_def del: takeWhile.simps)
      with "2.IH"(8) [OF _ _ _ _ _ _ refl refl refl] 6 3 show ?thesis
        by (intro in_rest(1) [of _ isNameChar]) (simp del: takeWhile.simps)
    qed
  next
    case 1
    with "2.prems" "2.IH"(1) show ?thesis
      by (intro in_rest(1) [of _ "\<lambda>r. r \<noteq> 10"]) (simp add: analyze_loop.simps(2) [of m 35])
  next
    case 2
    with "2.prems" "2.IH"(2) show ?thesis
      by (intro suffix_order.trans [OF _ suffix_skipString [of "c # xs"]]) (simp add: analyze_loop.simps(2) [of m 34])
  next
    case 4
    with "2.prems" "2.IH"(4) show ?thesis
      by (intro in_rest(2)) (simp add: analyze_loop.simps(2) [of m 123])
  next
    case 5
    with "2.prems" "2.IH"(5) show ?thesis
      by (intro in_rest(2)) (simp add: analyze_loop.simps(2) [of m 125])
  next
    case 7
    with "2.prems" "2.IH"(9) show ?thesis
      by (intro in_rest(2)) (simp add: analyze_loop.simps(2) [of m c])
  qed
qed (simp add: analyze_loop.simps)

end
