(* ===== verification/GraphqlHandler.thy ===== *)
theory GraphqlHandler
  imports Resolver QueryCost
begin

text \<open>
  \<^verbatim>\<open>graph/handler.go\<close>: the GraphQL endpoint, between the middleware and the executor. The executor is
  \<^verbatim>\<open>graphql.Do\<close> of the library \<^verbatim>\<open>graphql-go\<close>: a function of the schema and the request that works on
  the world and the request's loader, by calling resolvers. The page of the in-browser console is an
  argument too.
\<close>

record graphQLRequest =
  gr_Query :: string
  gr_OperationName :: string
  gr_Variables :: "(string \<times> json) list option"

text \<open>The executor's answer: the JSON it encodes to, and the messages of its errors.\<close>

record graphql_result =
  gx_json :: json
  gx_errors :: "string list"

type_synonym executor =
  "schema \<Rightarrow> graphQLRequest \<Rightarrow> Request \<Rightarrow> rstate \<Rightarrow> graphql_result \<times> rstate"

record graphql_handler =
  gh_schema :: schema
  gh_loaders :: TenantSource
  gh_limits :: Limits
  gh_playgroundEnabled :: bool
  gh_path :: string
  gh_Do :: executor

text \<open>The executor is the library's and stands beside the configuration.\<close>

record HandlerConfig =
  hc_Schema :: schema
  hc_TenantSource :: TenantSource
  hc_Limits :: Limits
  hc_PlaygroundEnabled :: bool
  hc_Path :: string

definition NewHandler :: "executor \<Rightarrow> HandlerConfig \<Rightarrow> graphql_handler" where
  "NewHandler gDo cfg = \<lparr>gh_schema = hc_Schema cfg, gh_loaders = hc_TenantSource cfg,
     gh_limits = hc_Limits cfg, gh_playgroundEnabled = hc_PlaygroundEnabled cfg, gh_path = hc_Path cfg,
     gh_Do = gDo\<rparr>"

section \<open>The body\<close>

text \<open>
  The decoder is the plain one: it ignores fields it does not know, and what follows the first
  value. A body of more than a megabyte is cut, and if its first value does not end before the cut
  the decoder complains.
\<close>

definition set_variables :: "json \<Rightarrow> graphQLRequest \<Rightarrow> graphQLRequest option" where
  "set_variables v d = (case v of
      JObj kvs \<Rightarrow> Some (d\<lparr>gr_Variables := Some
        ((case gr_Variables d of None \<Rightarrow> [] | Some old \<Rightarrow> old) @ kvs)\<rparr>)
    | JNull \<Rightarrow> Some (d\<lparr>gr_Variables := None\<rparr>)
    | _ \<Rightarrow> None)"

definition graphQLRequest_fields :: "graphQLRequest setters" where
  "graphQLRequest_fields = [
     (''query'', set_string (\<lambda>s d. d\<lparr>gr_Query := s\<rparr>)),
     (''operationName'', set_string (\<lambda>s d. d\<lparr>gr_OperationName := s\<rparr>)),
     (''variables'', set_variables)]"

definition decode_graphql :: "Request \<Rightarrow> goerr option \<times> graphQLRequest" where
  "decode_graphql r =
     (let dst = \<lparr>gr_Query = '''', gr_OperationName = '''', gr_Variables = None\<rparr> in
      case fst (r_Body r) of
        [] \<Rightarrow> (Some (case snd (r_Body r) of None \<Rightarrow> Sentinel io_EOF | Some msg \<Rightarrow> PlainErr msg), dst)
      | v # rest \<Rightarrow> decode_plain graphQLRequest_fields v dst)"

section \<open>Answers\<close>

text \<open>The decimal digits of \<open>itoa\<close>, from the last to the first.\<close>

function itoa_digits :: "int \<Rightarrow> string \<Rightarrow> string" where
  "itoa_digits n buf =
     (if 0 < n then itoa_digits (n div 10) (digit_char (nat (n mod 10)) # buf) else buf)"
  by pat_completeness auto
termination by (relation "measure (\<lambda>(n, buf). nat n)") auto

declare itoa_digits.simps [simp del]

definition itoa :: "int \<Rightarrow> string" where
  "itoa n =
     (if n = 0 then ''0''
      else (let neg = n < 0; m = (if neg then wrap64 (- n) else n);
                buf = itoa_digits m ''''
            in if neg then CHR ''-'' # buf else buf))"

definition Extensions_json :: "Extensions_map \<Rightarrow> json" where
  "Extensions_json m = JObj ([(''code'', JStr (ext_code m))]
     @ opt_field ''details'' details_json (ext_details m) @ [(''status'', JNum (ext_status m))])"

definition writeGraphQLError :: "goerr \<Rightarrow> RW \<Rightarrow> RW" where
  "writeGraphQLError err rw =
     (let e = From err in
      Write (BJson (JObj [(''data'', JNull), (''errors'', JArr [JObj [
          (''extensions'', Extensions_json (Extensions e)), (''message'', JStr (Message e))]])]))
        (WriteHeader 200 (Set_header ''Content-Type'' ''application/json; charset=utf-8'' rw)))"

definition auditRejection :: "graphql_handler \<Rightarrow> Request \<Rightarrow> Analysis \<Rightarrow> goerr \<Rightarrow> world \<Rightarrow> world" where
  "auditRejection h r analysis err =
     (let scope = ScopeFromContext r in
      AuditService_Record
        \<lparr>ai_TenantID = (if TenantID scope \<noteq> '''' then Some (TenantID scope) else None),
         ai_ActorID = (if UserID scope \<noteq> '''' then Some (UserID scope) else None),
         ai_Event = EventGraphQLRejected,
         ai_Metadata = [(''reason'', DStr (Message (From err))), (''depth'', DInt (an_Depth analysis)),
           (''complexity'', DInt (an_Cost analysis)), (''fields'', DInt (an_Fields analysis))],
         ai_Endpoint = gh_path h, ai_IPAddress = '''', ai_UserAgent = ''''\<rparr>)"

definition playgroundHTML :: "string \<Rightarrow> string" where
  "playgroundHTML path = Join [
       ''<!DOCTYPE html>'',
       ''<html lang='' @ dquote ''en'' @ ''>'',
       ''<head>'',
       ''  <meta charset='' @ dquote ''utf-8'' @ '' />'',
       ''  <title>BridgeCore GraphQL</title>'',
       ''  <link rel='' @ dquote ''stylesheet'' @ '' href='' @ dquote ''https://unpkg.com/graphiql@3/graphiql.min.css'' @ '' />'',
       ''  <style>'',
       ''    html, body, #graphiql { height: 100%; margin: 0; }'',
       ''    .bc-banner { font: 13px system-ui, sans-serif; background:#1f2937; color:#e5e7eb; padding:8px 12px; }'',
       ''    .bc-banner code { background:#111827; padding:1px 4px; border-radius:3px; }'',
       ''  </style>'',
       ''</head>'',
       ''<body>'',
       ''  <div class='' @ dquote ''bc-banner'' @ ''>'',
       ''    BridgeCore GraphQL &mdash; send an <code>Authorization: Bearer &lt;access token&gt;</code>'',
       ''    header (Headers tab) after logging in via <code>POST /api/v1/auth/login</code>.'',
       ''  </div>'',
       ''  <div id='' @ dquote ''graphiql'' @ ''>Loading'' @ [CHR 0xE2, CHR 0x80, CHR 0xA6] @ ''</div>'',
       ''  <script src='' @ dquote ''https://unpkg.com/react@18/umd/react.production.min.js'' @ ''></script>'',
       ''  <script src='' @ dquote ''https://unpkg.com/react-dom@18/umd/react-dom.production.min.js'' @ ''></script>'',
       ''  <script src='' @ dquote ''https://unpkg.com/graphiql@3/graphiql.min.js'' @ ''></script>'',
       ''  <script>'',
       ''    const fetcher = GraphiQL.createFetcher({ url: '' @ squote path @ '' });'',
       ''    ReactDOM.createRoot(document.getElementById('' @ squote ''graphiql'' @ ''))'',
       ''      .render(React.createElement(GraphiQL, { fetcher: fetcher }));'',
       ''  </script>'',
       ''</body>'',
       ''</html>''] [CHR 0x0A]"

definition servePlayground :: "graphql_handler \<Rightarrow> RW \<Rightarrow> RW" where
  "servePlayground h rw =
     Write (BRaw (playgroundHTML (gh_path h)))
       (WriteHeader 200 (Set_header ''Content-Type'' ''text/html; charset=utf-8'' rw))"

section \<open>The handler\<close>

text \<open>What the log says when the executor reports errors.\<close>

definition graphql_warning :: "Request \<Rightarrow> graphQLRequest \<Rightarrow> Analysis \<Rightarrow> string list \<Rightarrow> world \<Rightarrow> world" where
  "graphql_warning r req analysis errs w =
     (if 0 < length errs then w\<lparr>log := log w @ [(''graphql execution returned errors'',
          [(''request_id'', DStr (r_RequestID r)), (''operation'', DStr (gr_OperationName req)),
           (''error_count'', DInt (int (length errs))), (''complexity'', DInt (an_Cost analysis)),
           (''errors'', DStr (Join errs '', ''))])]\<rparr>
      else w)"

definition execute_graphql :: "graphql_handler \<Rightarrow> graphQLRequest \<Rightarrow> Analysis \<Rightarrow> handler" where
  "execute_graphql h req analysis r rw w =
     (case gh_Do h (gh_schema h) req r (w, Some (NewLoaders (gh_loaders h))) of
        (result, (w1, l)) \<Rightarrow>
          answer (Write (BJson (gx_json result))
            (WriteHeader 200
              (Set_header ''X-GraphQL-Complexity'' (itoa (an_Cost analysis))
                (Set_header ''Content-Type'' ''application/json; charset=utf-8'' rw))))
            (graphql_warning r req analysis (gx_errors result) w1))"

text \<open>The analysis of the document may panic; what it is about to slice is then out of range.\<close>

definition slice_panic :: "string \<Rightarrow> string" where
  "slice_panic q =
     (let n = int (length (runes_of q))
      in ''runtime error: slice bounds out of range ['' @ Itoa n @ '':'' @ Itoa (n - 1) @ '']'')"

definition Handler_ServeHTTP :: "graphql_handler \<Rightarrow> handler" where
  "Handler_ServeHTTP h r rw w =
     (if r_Method r = ''GET'' then
        (if \<not> gh_playgroundEnabled h
         then answer (response_Fail r (Api (NotFound ''not found'')) rw) w
         else answer (servePlayground h rw) w)
      else if r_Method r \<noteq> ''POST''
      then answer (response_Fail r (Api (BadRequest ''GraphQL requests must use POST'')) rw) w
      else
        (case decode_graphql r of
           (Some err, req) \<Rightarrow>
             answer (response_Fail r
               (Api (BadRequest ''the GraphQL request body could not be parsed'')) rw) w
         | (None, req) \<Rightarrow>
             if TrimSpace (gr_Query req) = ''''
             then answer (response_Fail r (Api (BadRequest ''a GraphQL query is required'')) rw) w
             else
               (case Check (gr_Query req) (gh_limits h) of
                  None \<Rightarrow> (Some (slice_panic (gr_Query req)), rw, w)
                | Some (analysis, Some err) \<Rightarrow>
                    answer (writeGraphQLError err rw) (auditRejection h r analysis err w)
                | Some (analysis, None) \<Rightarrow> execute_graphql h req analysis r rw w)))"

section \<open>Lemmas\<close>

lemma itoa_digits_nat: "0 < n \<Longrightarrow> itoa_digits (int n) buf = nat_digits n @ buf"
proof (induction n arbitrary: buf rule: less_induct)
  case (less n)
  show ?case
  proof (cases "n < 10")
    case True
    with less.prems show ?thesis
      by (simp add: itoa_digits.simps [of "int n"] itoa_digits.simps [of 0] nat_digits.simps [of n])
  next
    case False
    have "int n div 10 = int (n div 10)" "nat (int n mod 10) = n mod 10"
      by (simp_all add: zdiv_int nat_mod_distrib)
    with less.IH [of "n div 10"] False less.prems show ?thesis
      by (simp add: itoa_digits.simps [of "int n"] nat_digits.simps [of n])
  qed
qed

text \<open>\<open>itoa\<close> agrees with the library's function, but for the least 64-bit integer.\<close>

lemma itoa_Itoa:
  assumes "- (2 ^ 63) < n" "n < 2 ^ 63"
  shows "itoa n = Itoa n"
proof -
  consider "n = 0" | "0 < n" | "n < 0" by linarith
  then show ?thesis
  proof cases
    case 1
    have "digit_char 0 = CHR ''0''" by code_simp
    with 1 show ?thesis by (simp add: itoa_def Itoa_def nat_digits.simps)
  next
    case 2
    with itoa_digits_nat [of "nat n" "''''"] show ?thesis by (simp add: itoa_def Itoa_def Let_def)
  next
    case 3
    with assms have "wrap64 (- n) = - n" by (simp add: wrap64_id)
    with 3 itoa_digits_nat [of "nat (- n)" "''''"] show ?thesis by (simp add: itoa_def Itoa_def Let_def)
  qed
qed

lemma itoa_least: "itoa (- (2 ^ 63)) = ''-''"
  by (simp add: itoa_def wrap64_def itoa_digits.simps)

end
