(* ===== verification/GraphqlIsolation.thy ===== *)
theory GraphqlIsolation
  imports GraphqlHandler ChainIsolation
begin

text \<open>
  Tenant isolation of GraphQL: every resolver of the schema, called for tenant \<open>A\<close> with whatever
  arguments and whatever object, leaves the part of every other tenant as it was; so does the
  whole endpoint, in whatever order the executor calls the resolvers.
\<close>

section \<open>Operations on the world and the loader\<close>

definition loader_wired :: "tenant_loader option \<Rightarrow> bool" where
  "loader_wired l \<longleftrightarrow> (case l of None \<Rightarrow> True
     | Some b \<Rightarrow> bl_batch b = bl_batch (NewLoaders tenant_source)
         \<and> bl_single b = bl_single (NewLoaders tenant_source))"

text \<open>
  \<open>rok A w\<close> holds of the states that differ from \<open>w\<close> in the part of \<open>A\<close> only. \<open>rkeeps A w\<close> holds of the
  operations that stay in these states, and \<open>rstarts A w\<close> of those that do when they start in \<open>w\<close>.
\<close>

definition rok :: "string \<Rightarrow> world \<Rightarrow> rstate \<Rightarrow> bool" where
  "rok A w st \<longleftrightarrow> keeps_others A w (fst st) \<and> loader_wired (snd st)"

definition rkeeps :: "string \<Rightarrow> world \<Rightarrow> (rstate, 'a) op \<Rightarrow> bool" where
  "rkeeps A w f \<longleftrightarrow> (\<forall>st. rok A w st \<longrightarrow> rok A w (snd (f st)))"

definition rstarts :: "string \<Rightarrow> world \<Rightarrow> (rstate, 'a) op \<Rightarrow> bool" where
  "rstarts A w f \<longleftrightarrow> (\<forall>l. loader_wired l \<longrightarrow> rok A w (snd (f (w, l))))"

named_theorems rkeeps_rules \<open>resolvers that stay within a tenant\<close>

lemma rkeeps_starts: "rkeeps A w f \<Longrightarrow> rstarts A w f"
  by (simp add: rkeeps_def rstarts_def rok_def)

lemma rkeeps_ret [rkeeps_rules]: "rkeeps A w (ret x)" "rkeeps A w (fail e)"
  by (simp_all add: rkeeps_def ret_def fail_def)

lemma rkeeps_if [rkeeps_rules]: "rkeeps A w f \<Longrightarrow> rkeeps A w g \<Longrightarrow> rkeeps A w (if c then f else g)"
  by simp

lemma snd_bind_op: "snd (bind_op m f st) = (case m st of (Inl e, s1) \<Rightarrow> s1 | (Inr x, s1) \<Rightarrow> snd (f x s1))"
  by (simp add: bind_op_def split: prod.split sum.split)

lemma rok_bind:
  assumes "rok A w (snd (m st))" "\<And>x. rkeeps A w (f x)"
  shows "rok A w (snd (bind_op m f st))"
  using assms by (cases "m st") (auto simp: snd_bind_op rkeeps_def split: sum.split)

lemma rkeeps_bind [rkeeps_rules]:
  "rkeeps A w m \<Longrightarrow> (\<And>x. rkeeps A w (f x)) \<Longrightarrow> rkeeps A w (bind_op m f)"
  unfolding rkeeps_def [of A w m] rkeeps_def [of A w "bind_op m f"] by (blast intro: rok_bind)

lemma rstarts_bind:
  "rstarts A w m \<Longrightarrow> (\<And>x. rkeeps A w (f x)) \<Longrightarrow> rstarts A w (bind_op m f)"
  unfolding rstarts_def by (blast intro: rok_bind)

lemma snd_map_err: "snd (map_err g m st) = snd (m st)"
  by (simp add: map_err_def split: prod.split sum.split)

lemma rkeeps_map_err [rkeeps_rules]: "rkeeps A w m \<Longrightarrow> rkeeps A w (map_err g m)"
  by (simp add: rkeeps_def snd_map_err)

lemma rstarts_map_err: "rstarts A w m \<Longrightarrow> rstarts A w (map_err g m)"
  by (simp add: rstarts_def snd_map_err)

lemma snd_null: "snd (null_if_missing m st) = snd (m st)"
  by (simp add: null_if_missing_def split: prod.split sum.split)

lemma rkeeps_null [rkeeps_rules]: "rkeeps A w m \<Longrightarrow> rkeeps A w (null_if_missing m)"
  by (simp add: rkeeps_def snd_null)

lemma snd_on_world: "snd (on_world f st) = (snd (f (fst st)), snd st)"
  by (simp add: on_world_def split: prod.split)

lemma rkeeps_world [rkeeps_rules]:
  assumes "confined (uuid_in w) A f"
  shows "rkeeps A w (on_world f)"
  unfolding rkeeps_def
proof (intro allI impI)
  fix st
  assume ok: "rok A w st"
  obtain r w1 where run: "f (fst st) = (r, w1)" by (cases "f (fst st)")
  from ok have "uuid_in (fst st) = uuid_in w" by (simp add: rok_def keeps_others_def)
  with confinedD [OF assms run] run have "keeps_others A (fst st) (snd (f (fst st)))" by simp
  with ok show "rok A w (snd (on_world f st))"
    by (auto simp: rok_def snd_on_world intro: keeps_others_trans)
qed

lemma rstarts_world:
  "(\<And>r w1. f w = (r, w1) \<Longrightarrow> keeps_others A w w1) \<Longrightarrow> rstarts A w (on_world f)"
  by (cases "f w") (simp add: rstarts_def rok_def snd_on_world)

lemma rkeeps_record:
  assumes "\<And>t. ai_TenantID inp = Some t \<Longrightarrow> uuid_in w t = Some A"
  shows "rkeeps A w (on_world (\<lambda>w. (Inr (), AuditService_Record inp w)))"
  by (simp add: rkeeps_def rok_def snd_on_world keeps_audit assms)

lemma confined_loader:
  "confined env A (bl_batch (NewLoaders tenant_source) ks)"
  "confined env A (bl_single (NewLoaders tenant_source) k)"
  by (rule confined_read_only, rule read_only_loader)+

lemma Prime_keeps:
  assumes "BatchLoader_Prime b ks v = (e, b1, v1)" "loader_wired (Some b)"
  shows "keeps_others A v v1 \<and> loader_wired (Some b1)"
proof -
  consider "b1 = b" "v1 = v" | x where "b1 = b" "bl_batch b (pending_keys b [] ks) v = (x, v1)"
    | m where "bl_batch b (pending_keys b [] ks) v = (Inr m, v1)"
        "b1 = fold (store_loaded m) (pending_keys b [] ks) (b\<lparr>bl_queries := bl_queries b + 1\<rparr>)"
    using assms(1) by (auto simp: BatchLoader_Prime_def Let_def split: prod.splits sum.splits if_splits)
  then show ?thesis
    using assms(2) confinedD [OF confined_loader(1) _ refl]
    by cases (auto simp: loader_wired_def fold_store_rest)
qed

lemma Load_keeps:
  assumes "BatchLoader_Load b k v = (r, b1, v1)" "loader_wired (Some b)"
  shows "keeps_others A v v1 \<and> loader_wired (Some b1)"
proof -
  consider "b1 = b" "v1 = v" | x where "b1 = b" "bl_single b k v = (x, v1)"
    | x where "bl_single b k v = (Inr x, v1)"
        "b1 = b\<lparr>bl_queries := bl_queries b + 1, bl_cache := (bl_cache b)(k \<mapsto> x)\<rparr>"
    using assms(1)
    by (auto simp: BatchLoader_Load_def split: prod.splits sum.splits option.splits if_splits)
  then show ?thesis
    using assms(2) confinedD [OF confined_loader(2) _ refl] by cases (auto simp: loader_wired_def)
qed

lemma rkeeps_prime [rkeeps_rules]: "rkeeps A w (prime_tenants nodes)"
  unfolding rkeeps_def
proof (intro allI impI)
  fix st
  assume ok: "rok A w st"
  obtain v l where st: "st = (v, l)" by (cases st)
  show "rok A w (snd (prime_tenants nodes st))"
  proof (cases l)
    case (Some b)
    obtain e b1 v1 where p: "BatchLoader_Prime b (map (\<lambda>u. mu_TenantID (the u)) nodes) v = (e, b1, v1)"
      by (cases "BatchLoader_Prime b (map (\<lambda>u. mu_TenantID (the u)) nodes) v")
    have k: "keeps_others A w v1 \<and> loader_wired (Some b1)"
      using Prime_keeps [OF p, of A] ok st Some by (auto simp: rok_def intro: keeps_others_trans)
    then have "keeps_others A w (v1\<lparr>log := x\<rparr>)" for x by (simp add: keeps_others_def)
    with st Some p k ok show ?thesis by (simp add: prime_tenants_def rok_def split: option.split)
  qed (use ok st in \<open>simp add: prime_tenants_def\<close>)
qed

lemma rok_load:
  assumes "rok A w (v, Some b)"
  shows "rok A w (snd (load_tenant i b (v, Some b)))"
proof -
  obtain q b1 v1 where p: "BatchLoader_Load b i v = (q, b1, v1)" by (cases "BatchLoader_Load b i v")
  with Load_keeps [OF p, of A] assms show ?thesis
    by (auto simp: load_tenant_def rok_def intro: keeps_others_trans)
qed

section \<open>The resolvers\<close>

lemma ptr_Some [simp]: "ptr s = Some t \<longleftrightarrow> s = t \<and> s \<noteq> ''''"
  by (auto simp: ptr_def)

lemma rkeeps_audit [rkeeps_rules]:
  "uuid_in w (TenantID (scope_of p)) = Some A \<Longrightarrow> rkeeps A w (Resolver_audit p ev meta)"
  unfolding Resolver_audit_def by (rule rkeeps_record) auto

lemma rkeeps_denial [rkeeps_rules]:
  "uuid_in w (TenantID scope) = Some A \<Longrightarrow> rkeeps A w (Resolver_auditDenial scope ev meta)"
  unfolding Resolver_auditDenial_def by (rule rkeeps_record) (auto split: if_splits)

lemma rkeeps_requireAuth: "rstarts A w (next p) \<Longrightarrow> rstarts A w (requireAuth next p)"
  by (simp add: requireAuth_def rkeeps_starts rkeeps_ret)

lemma rkeeps_requiresRole:
  assumes "uuid_in w (TenantID (scope_of p)) = Some A" "rstarts A w (next p)"
  shows "rstarts A w (requiresRole minRole next p)"
  unfolding requiresRole_def Let_def
  by (rule rkeeps_requireAuth) (simp add: assms(2) rkeeps_starts rkeeps_bind rkeeps_denial assms(1) rkeeps_ret)

lemma rkeeps_requiresFeature:
  assumes "uuid_in w (TenantID (scope_of p)) = Some A" "rkeeps A w (next p)"
  shows "rstarts A w (requiresFeature key next p)"
  unfolding requiresFeature_def
  by (rule rkeeps_requireAuth)
    (auto split: option.split intro!: rkeeps_starts rkeeps_rules confined_rules assms)

lemma confined_wired_exports:
  assumes "wired_services h" "uuid_in w (TenantID scope) = Some A"
  shows "confined (uuid_in w) A (ExportService_Request (sv_exports h) scope inp)"
    "confined (uuid_in w) A (ExportService_Get (sv_exports h) scope i)"
    "confined (uuid_in w) A (ExportService_List (sv_exports h) scope p n)"
    "confined (uuid_in w) A (ExportService_DownloadURL (sv_exports h) scope i)"
  using assms unfolding wired_services_def by (auto intro!: confined_exports)

lemma rkeeps_queries:
  assumes "wired_services (rv_services r)" "uuid_in w (TenantID (scope_of p)) = Some A"
  shows "rkeeps A w (Resolver_me r p)" "rkeeps A w (Resolver_tenant r p)"
    "rkeeps A w (Resolver_users r p)" "rkeeps A w (Resolver_user r p)"
    "rkeeps A w (Resolver_features r p)" "rkeeps A w (Resolver_myFeatures r p)"
    "rkeeps A w (Resolver_apiKeys r p)" "rkeeps A w (Resolver_usage r p)"
    "rkeeps A w (Resolver_usageSummary r p)" "rkeeps A w (Resolver_auditLogs r p)"
    "rkeeps A w (Resolver_exportJobs r p)" "rkeeps A w (Resolver_exportJob r p)"
    "rkeeps A w (Resolver_exportDownload r p)"
proof -
  note eqs = assms(1) [unfolded wired_services_def]
  note ex = confined_wired_exports [OF assms]
  show "rkeeps A w (Resolver_me r p)" "rkeeps A w (Resolver_tenant r p)"
    "rkeeps A w (Resolver_user r p)"
    "rkeeps A w (Resolver_features r p)" "rkeeps A w (Resolver_myFeatures r p)"
    "rkeeps A w (Resolver_apiKeys r p)" "rkeeps A w (Resolver_usageSummary r p)"
    unfolding Resolver_me_def Resolver_tenant_def Resolver_user_def Resolver_features_def
      Resolver_myFeatures_def Resolver_apiKeys_def Resolver_usageSummary_def Let_def
    using eqs assms(2) by (auto intro!: rkeeps_rules confined_rules)
  show "rkeeps A w (Resolver_users r p)" "rkeeps A w (Resolver_usage r p)"
    "rkeeps A w (Resolver_auditLogs r p)"
    unfolding Resolver_users_def Resolver_usage_def Resolver_auditLogs_def Let_def
    using eqs assms(2) by (auto split: prod.split intro!: rkeeps_rules confined_rules)
  show "rkeeps A w (Resolver_exportJobs r p)" "rkeeps A w (Resolver_exportJob r p)"
    "rkeeps A w (Resolver_exportDownload r p)"
    unfolding Resolver_exportJobs_def Resolver_exportJob_def Resolver_exportDownload_def
    by (auto split: prod.split intro!: rkeeps_rules ex)
qed

lemma rstarts_mutations:
  assumes "wired_services (rv_services r)" "acts_for A (rp_Request p) w"
  shows "rstarts A w (Resolver_updateTenant r p)" "rstarts A w (Resolver_updateUserRole r p)"
    "rstarts A w (Resolver_generateAPIKey r p)" "rstarts A w (Resolver_rotateAPIKey r p)"
    "rstarts A w (Resolver_deactivateAPIKey r p)"
proof -
  note eqs = assms(1) [unfolded wired_services_def]
  note sc = acts_for_scope [OF assms(2)] and ids = acts_for_ids [OF assms(2)]
  show "rstarts A w (Resolver_updateUserRole r p)" "rstarts A w (Resolver_generateAPIKey r p)"
    unfolding Resolver_updateUserRole_def Resolver_generateAPIKey_def Let_def
    using eqs sc by (auto split: prod.split intro!: rkeeps_starts rkeeps_rules confined_rules)
  have u: "rstarts A w (on_world (TenantService_UpdateForScope tenant_repo (scope_of p) i inp))" for i inp
    by (rule rstarts_world) (rule UpdateForScope_keeps [OF _ ids sc])
  show "rstarts A w (Resolver_updateTenant r p)"
    unfolding Resolver_updateTenant_def Let_def using eqs
    by (auto intro!: rstarts_bind u rkeeps_rules sc)
  have "rstarts A w (on_world (APIKeyService_Rotate prefix (TenantID (scope_of p)) i cb))" for prefix i cb
    by (rule rstarts_world) (rule Rotate_service_keeps [OF _ ids sc])
  then show "rstarts A w (Resolver_rotateAPIKey r p)"
    unfolding Resolver_rotateAPIKey_def Let_def
    by (auto split: prod.split intro!: rstarts_bind rstarts_map_err rkeeps_rules sc)
  have "rstarts A w (on_world (APIKeyService_Deactivate (TenantID (scope_of p)) i))" for i
    by (rule rstarts_world) (rule Deactivate_service_keeps [OF _ ids sc])
  then show "rstarts A w (Resolver_deactivateAPIKey r p)"
    unfolding Resolver_deactivateAPIKey_def Let_def
    by (auto intro!: rstarts_bind rstarts_map_err rkeeps_rules sc)
qed

lemma rkeeps_requestUsageExport:
  assumes "wired_services (rv_services r)" "uuid_in w (TenantID (scope_of p)) = Some A"
  shows "rkeeps A w (Resolver_requestUsageExport r p)"
  unfolding Resolver_requestUsageExport_def Let_def
  by (intro rkeeps_rules confined_wired_exports assms)

lemma rstarts_userTenant:
  assumes "wired_services (rv_services r)" "uuid_in w (TenantID (scope_of p)) = Some A"
  shows "rstarts A w (Resolver_userTenant r p)"
  unfolding rstarts_def
proof (intro allI impI)
  fix l
  assume l: "loader_wired l"
  then have ok: "rok A w (w, l)" by (simp add: rok_def)
  have t: "rok A w (snd (Resolver_tenant r p (w, l)))"
    using rkeeps_queries(2) [OF assms] ok by (simp add: rkeeps_def)
  from ok rok_load t show "rok A w (snd (Resolver_userTenant r p (w, l)))"
    by (auto simp: Resolver_userTenant_def ret_def split: gval.split option.split)
qed

lemma schema_keeps:
  assumes "wired_services (rv_services r)" "acts_for A (rp_Request p) w"
    and "(name, f) \<in> set (schema_fields (NewSchema r))"
  shows "rstarts A w (f p)"
proof -
  note sc = acts_for_scope [OF assms(2)]
  note q = rkeeps_queries [OF assms(1) sc] and m = rstarts_mutations [OF assms(1,2)]
  from assms(3) show ?thesis
    by (auto simp: schema_fields_def NewSchema_def query_fields_def mutation_fields_def
        intro!: rkeeps_requireAuth rkeeps_requiresRole rkeeps_requiresFeature sc q m
          rkeeps_starts [OF q(1)] rkeeps_starts [OF q(2)] rkeeps_starts [OF q(3)]
          rkeeps_starts [OF q(4)] rkeeps_starts [OF q(5)] rkeeps_starts [OF q(6)]
          rkeeps_starts [OF q(7)] rkeeps_starts [OF q(8)] rkeeps_starts [OF q(9)]
          rkeeps_starts [OF q(10)] rkeeps_requestUsageExport [OF assms(1) sc]
          rstarts_userTenant [OF assms(1) sc])
qed

section \<open>Executions\<close>

text \<open>
  What an execution of a document does to the world: it calls resolvers of the schema in some order,
  with some arguments and objects. Each call starts in a database that keeps its own rules about
  identifiers.
\<close>

inductive gql_run :: "schema \<Rightarrow> Request \<Rightarrow> rstate \<Rightarrow> rstate \<Rightarrow> bool" for s r where
  finished: "gql_run s r st st"
| call: "\<lbrakk>(name, f) \<in> set (schema_fields s); rp_Request p = r; rp_FieldName p = name;
          ids_ok (uuid_in (fst st)) (tabs (fst st)); f p st = (res, st1); gql_run s r st1 st2\<rbrakk>
        \<Longrightarrow> gql_run s r st st2"

text \<open>The identity stays one of the tenant's, since the users of the others stay.\<close>

lemma identity_keeps:
  assumes "identity_of A ac w" "keeps_others A w w1"
  shows "identity_of A ac w1"
proof -
  have "u_TenantID u = A" if "u \<in> set (users w1)" "uuid_in w (ac_UserID ac) = Some (u_ID u)" for u
  proof (rule ccontr)
    assume B: "u_TenantID u \<noteq> A"
    with assms(2) have "users (tview (u_TenantID u) (tabs w1)) = users (tview (u_TenantID u) (tabs w))"
      by (simp add: keeps_others_def)
    then have eq: "filter (\<lambda>v. u_TenantID v = u_TenantID u) (users w1)
        = filter (\<lambda>v. u_TenantID v = u_TenantID u) (users w)"
      by (simp add: tview_def)
    have "u \<in> set (filter (\<lambda>v. u_TenantID v = u_TenantID u) (users w1))" using that(1) by simp
    then have "u \<in> set (users w)" unfolding eq by simp
    with assms(1) that(2) B show False by (auto simp: identity_of_def)
  qed
  with assms show ?thesis by (auto simp: identity_of_def keeps_others_def)
qed

lemma gql_run_keeps:
  assumes "gql_run (NewSchema rv) r st st'" "wired_services (rv_services rv)"
    and "rok A w st" "AuthFromContext r = Some ac" "identity_of A ac w"
  shows "rok A w st'"
  using assms(1,3)
proof (induction rule: gql_run.induct)
  case (call name f p st res st1 st2)
  have "keeps_others A w (fst st)" "loader_wired (snd st)" using call.prems by (simp_all add: rok_def)
  then have "acts_for A (rp_Request p) (fst st)"
    using assms(4,5) call.hyps(2,4) identity_keeps by (auto simp: acts_for_def)
  from schema_keeps [OF assms(2) this call.hyps(1)] \<open>loader_wired (snd st)\<close>
  have "rok A (fst st) (snd (f p (fst st, snd st)))" unfolding rstarts_def by blast
  then have "rok A (fst st) st1" by (simp add: call.hyps(5))
  with call.prems have "rok A w st1" by (auto simp: rok_def intro: keeps_others_trans)
  then show ?case by (rule call.IH)
qed

text \<open>The endpoint: the wiring of \<^verbatim>\<open>cmd/api/main.go\<close>, and an executor that works by calling resolvers.\<close>

definition wired_graphql :: "graphql_handler \<Rightarrow> Resolver \<Rightarrow> bool" where
  "wired_graphql h rv \<longleftrightarrow> gh_schema h = NewSchema rv \<and> wired_services (rv_services rv)
     \<and> gh_loaders h = tenant_source"

definition executes_by_calls :: "graphql_handler \<Rightarrow> Request \<Rightarrow> world \<Rightarrow> bool" where
  "executes_by_calls h r w \<longleftrightarrow> (\<forall>req. gql_run (gh_schema h) r (w, Some (NewLoaders (gh_loaders h)))
     (snd (gh_Do h (gh_schema h) req r (w, Some (NewLoaders (gh_loaders h))))))"

lemma ServeHTTP_keeps:
  assumes "wired_graphql h rv" "executes_by_calls h r w" "acts_for A r w"
    and "Handler_ServeHTTP h r rw w = (q, rw', w')"
  shows "keeps_others A w w'"
proof -
  obtain ac where ac: "AuthFromContext r = Some ac" "identity_of A ac w"
    using assms(3) by (auto simp: acts_for_def)
  have rej: "keeps_others A w (auditRejection h r an e w)" for an e
    unfolding auditRejection_def Let_def
    by (rule AuditService_Record_keeps) (use acts_for_scope [OF assms(3)] in \<open>auto split: if_splits\<close>)
  have exe: "keeps_others A w v" if run: "execute_graphql h req an r rw w = (q, rw', v)" for req an v
  proof -
    let ?st = "(w, Some (NewLoaders (gh_loaders h)))"
    obtain res w1 l where d: "gh_Do h (gh_schema h) req r ?st = (res, (w1, l))"
      by (cases "gh_Do h (gh_schema h) req r ?st") auto
    with assms(2) have g: "gql_run (gh_schema h) r ?st (w1, l)"
      unfolding executes_by_calls_def by (metis snd_conv)
    have "rok A w ?st" using assms(1) by (simp add: rok_def loader_wired_def wired_graphql_def)
    with gql_run_keeps [OF g [unfolded assms(1) [unfolded wired_graphql_def, THEN conjunct1]] _ _ ac] assms(1)
    have "keeps_others A w w1" by (simp add: rok_def wired_graphql_def)
    with run d show ?thesis
      by (auto simp: execute_graphql_def graphql_warning_def answer_def keeps_others_def split: if_splits)
  qed
  from assms(4) rej exe show ?thesis
    by (auto simp: Handler_ServeHTTP_def answer_def split: if_splits prod.splits option.splits)
qed

end
