(* ===== verification/GraphqlProperties.thy ===== *)
theory GraphqlProperties
  imports GraphqlIsolation Sample
begin

text \<open>
  Properties of the GraphQL layer: the admission of documents, the resolvers' loader, and what the
  resolvers may touch.
\<close>

section \<open>Admission of documents\<close>







text \<open>C28. The scanner answers for every document, well-formed or not, that does not end in an opening
  parenthesis.
\<close>

theorem query_check_total:
  assumes "runes_of document = [] \<or> last (runes_of document) \<noteq> rune CHR ''(''"
  shows "\<exists>a e. Check document li = Some (a, e)"
proof (cases "Analyze document (li_MaxPageSize li)")
  case None
  then have "suffix [40] (runes_of document)" unfolding Analyze_def by (rule analyze_loop_panics)
  with assms have False by (auto elim!: suffixE)
  then show ?thesis ..
qed (simp add: Check_def)

theorem query_check_total_witness:
  "\<exists>a e. Check ''query { users('' \<lparr>li_MaxDepth = 8, li_MaxComplexity = 1000, li_MaxBytes = 4,
     li_MaxPageSize = 100, li_AllowIntrospection = False\<rparr> = Some (a, e)
   \<and> (\<exists>a e. Check ''{ a(b }'' \<lparr>li_MaxDepth = 8, li_MaxComplexity = 1000, li_MaxBytes = 0,
     li_MaxPageSize = 100, li_AllowIntrospection = False\<rparr> = Some (a, e))"
proof -
  have "last (runes_of ''{ a(b }'') \<noteq> rune CHR ''(''" by code_simp
  from query_check_total [OF disjI2, OF this] have "\<exists>a e. Check ''{ a(b }''
     \<lparr>li_MaxDepth = 8, li_MaxComplexity = 1000, li_MaxBytes = 0, li_MaxPageSize = 100,
      li_AllowIntrospection = False\<rparr> = Some (a, e)" .
  then show ?thesis by (simp add: Check_def)
qed

text \<open>
  With an opening parenthesis at the end the scanner slices from beyond the end, and panics. And
  a directive with arguments hides the page size before it from the estimate.
\<close>

theorem trailing_paren_panics: "Analyze ''{ users('' 100 = None"
  by code_simp

theorem directive_hides_page_size:
  "map_option an_Cost (Analyze ''{a(first:$n){b}}'' 100) = Some 101
    \<and> map_option an_Cost (Analyze ''{a(first:$n)@x(if:$b){b}}'' 100) = Some 3"
  by (simp add: Analyze_def runes_of_def decode_runes_ascii analyze_loop.simps isNameStart_def
      isNameChar_def skipSpace_def isReservedWord_def reserved_words_def matchParen_def
      skipString_def pageMultiplier_def page_keys_def page_hint_def trim_runes_def rune_space_def
      rune_digit_def open_set_def close_set_def count_field_def wrap64_id new_analysis_def Let_def)

section \<open>Isolation and authorization\<close>

definition confined_executor :: "string \<Rightarrow> graphql_handler \<Rightarrow> bool" where
  "confined_executor A h \<longleftrightarrow> (\<forall>r w. acts_for A r w \<longrightarrow> executes_by_calls h r w)"

text \<open>C2. A GraphQL request through the authenticated chain leaves everything that belongs to any
  other tenant than the one its credential is for as it was, whatever the document asks for, in
  whatever order the executor calls the resolvers, and whichever calls to the database and Redis
  fail. Of the executor nothing is asked but that it changes the world by calling resolvers of the
  schema.
\<close>

theorem graphql_isolation:
  assumes "wired d" and "wired_graphql h rv" and "confined_executor A h"
    and "ids_ok (uuid_in w) (tabs w)"
    and "Auth_resolve (d_auth d) r w = (Inr ac, w1)" and "identity_of A ac w"
    and "authenticated d (Handler_ServeHTTP h) r rw w = (p, rw', w')" and "B \<noteq> A"
  shows "tview B (tabs w') = tview B (tabs w)"
proof -
  have "handler_confined A (Handler_ServeHTTP h)"
    using assms(2,3) ServeHTTP_keeps unfolding confined_executor_def by (blast intro: handler_confinedI)
  from authenticated_confined [OF assms(1) this assms(4,7,5,6)] assms(8)
  show ?thesis by (simp add: keeps_others_def)
qed

text \<open>An executor that answers every document with the name of the caller's tenant.\<close>

definition sample_resolver :: Resolver where
  "sample_resolver = \<lparr>rv_services = sample_services, rv_MaxPageSize = 100, rv_DefaultPageSize = 20\<rparr>"

definition sample_Do :: executor where
  "sample_Do s req r st =
     (let p = \<lparr>rp_Request = r, rp_Args = [], rp_FieldName = ''tenant'', rp_Source = GNil\<rparr> in
      case requireAuth (Resolver_tenant sample_resolver) p st of
        (Inr (GTenant (Some t)), st1) \<Rightarrow>
          (\<lparr>gx_json = JObj [(''data'', JObj [(''tenant'', JStr (mt_Name t))])], gx_errors = []\<rparr>, st1)
      | (_, st1) \<Rightarrow> (\<lparr>gx_json = JObj [(''data'', JNull)], gx_errors = [''failed'']\<rparr>, st1))"

definition sample_graphql :: graphql_handler where
  "sample_graphql = \<lparr>gh_schema = NewSchema sample_resolver, gh_loaders = tenant_source,
     gh_limits = \<lparr>li_MaxDepth = 8, li_MaxComplexity = 1000, li_MaxBytes = 0, li_MaxPageSize = 100,
       li_AllowIntrospection = False\<rparr>,
     gh_playgroundEnabled = False, gh_path = ''/graphql'',
     gh_Do = sample_Do\<rparr>"

lemma sample_wired_graphql: "wired_graphql sample_graphql sample_resolver"
  using sample_wired
  by (simp add: wired_graphql_def sample_graphql_def sample_resolver_def wired_def sample_deps_def)

lemma sample_confined_executor: "confined_executor A sample_graphql"
  unfolding confined_executor_def executes_by_calls_def
proof (intro allI impI)
  fix r w req
  assume "acts_for A r w"
  then have ids: "ids_ok (uuid_in w) (tabs w)" by (rule acts_for_ids)
  let ?s = "gh_schema sample_graphql" and ?st = "(w, Some (NewLoaders (gh_loaders sample_graphql)))"
  let ?p = "\<lparr>rp_Request = r, rp_Args = [], rp_FieldName = ''tenant'', rp_Source = GNil\<rparr>"
  obtain q st1 where run: "requireAuth (Resolver_tenant sample_resolver) ?p ?st = (q, st1)"
    by (cases "requireAuth (Resolver_tenant sample_resolver) ?p ?st")
  have "snd (gh_Do sample_graphql ?s req r ?st) = st1"
    using run by (simp add: sample_graphql_def sample_Do_def Let_def split: sum.split gval.split option.split)
  moreover have "gql_run ?s r ?st st1"
    by (rule gql_run.call [of "''tenant''" "requireAuth (Resolver_tenant sample_resolver)" _ ?p, OF _ _ _ _ run])
      (use ids in \<open>simp_all add: sample_graphql_def NewSchema_def schema_fields_def query_fields_def
         gql_run.finished\<close>)
  ultimately show "gql_run ?s r ?st (snd (gh_Do sample_graphql ?s req r ?st))" by simp
qed

definition sample_query :: Request where
  "sample_query = (sample_bearer ''POST'' ''/graphql'')
     \<lparr>r_Body := ([JObj [(''query'', JStr ''{tenant{name}}'')]], None)\<rparr>"

lemma Auth_resolve_body: "Auth_resolve ad (r\<lparr>r_Body := b\<rparr>) w = Auth_resolve ad r w"
proof -
  have "unauthorized_event (r\<lparr>r_Body := b\<rparr>) x = unauthorized_event r x" for x
    by (simp add: unauthorized_event_def UserAgent_def clientIP_def Let_def cong: if_cong)
  then have "resolve_api_key ad (r\<lparr>r_Body := b\<rparr>) k w = resolve_api_key ad r k w" for k
    unfolding resolve_api_key_def by presburger
  then show ?thesis by (simp add: Auth_resolve_def)
qed

lemma sample_query_resolved:
  "Auth_resolve (d_auth sample_deps) sample_query sample_world = (Inr sample_ac, sample_world)"
  unfolding sample_query_def Auth_resolve_body by (rule sample_resolved)

theorem graphql_isolation_witness:
  "tview ''t2'' (tabs (snd (snd (authenticated sample_deps (Handler_ServeHTTP sample_graphql)
      sample_query sample_rw sample_world)))) = tview ''t2'' (tabs sample_world)"
proof -
  have ac: "identity_of ''t1'' sample_ac sample_world"
    by (simp add: identity_of_def sample_ac_def sample_user_def)
  obtain p rw' w' where run: "authenticated sample_deps (Handler_ServeHTTP sample_graphql)
      sample_query sample_rw sample_world = (p, rw', w')"
    by (cases "authenticated sample_deps (Handler_ServeHTTP sample_graphql)
      sample_query sample_rw sample_world")
  from graphql_isolation [OF sample_wired sample_wired_graphql sample_confined_executor sample_ids_ok
      sample_query_resolved ac run, of "''t2''"] run
  show ?thesis by simp
qed

lemma on_world_audit_grown:
  "audit_grown (tabs (fst st)) (tabs (fst (snd (on_world (\<lambda>w. (Inr (), AuditService_Record inp w)) st))))"
  using AuditService_Record_grown(1) by (simp add: snd_on_world)

lemma requiresRole_refused:
  assumes "\<not> RoleAtLeast (s_Role (scope_of p)) minRole"
  shows "\<exists>e st'. requiresRole minRole next p st = (Inl (Api e), st') \<and> Status e \<in> {401, 403}
    \<and> audit_grown (tabs (fst st)) (tabs (fst st')) \<and> snd st' = snd st"
proof (cases "Scope_Valid (scope_of p)")
  case True
  with assms show ?thesis
    by (simp add: requiresRole_def requireAuth_def Let_def bind_op_def Resolver_auditDenial_def
        on_world_def fail_def apierr_ctors AuditService_Record_grown)
next
  case False
  then show ?thesis by (simp add: requiresRole_def requireAuth_def fail_def apierr_ctors)
qed

text \<open>C18. Over GraphQL too a caller's role decides what it may change: the tenant and the roles of its
  users take an administrator, and the API keys a developer. A call below that rank is answered with
  the status 401 or 403, and nothing changes but that the denial is in the audit log.
\<close>

theorem graphql_mutations_need_role:
  assumes "(name, f) \<in> set (mutation_fields r)"
    and "need = (if name \<in> {''updateTenant'', ''updateUserRole''} then RoleAdmin else RoleDeveloper)"
    and "name \<noteq> ''requestUsageExport''" and "\<not> RoleAtLeast (s_Role (scope_of p)) need"
  shows "\<exists>e st'. f p st = (Inl (Api e), st') \<and> Status e \<in> {401, 403}
    \<and> audit_grown (tabs (fst st)) (tabs (fst st')) \<and> snd st' = snd st"
proof -
  have "f \<in> range (requiresRole need)"
    using assms(1-3) by (simp add: mutation_fields_def) (elim disjE conjE; simp)
  then obtain nxt where "f = requiresRole need nxt" by (elim rangeE)
  with requiresRole_refused [OF assms(4)] show ?thesis by simp
qed

theorem graphql_mutations_need_role_witness:
  "\<exists>e st'. requiresRole RoleAdmin (Resolver_updateUserRole sample_resolver)
      \<lparr>rp_Request = withAuth (sample_request ''POST'' ''/graphql'' []) (sample_ac\<lparr>ac_Role := ''viewer''\<rparr>),
       rp_Args = [], rp_FieldName = ''updateUserRole'', rp_Source = GNil\<rparr> (sample_world, None)
     = (Inl (Api e), st') \<and> Status e \<in> {401, 403}
    \<and> audit_grown (tabs sample_world) (tabs (fst st')) \<and> snd st' = None"
proof -
  let ?p = "\<lparr>rp_Request = withAuth (sample_request ''POST'' ''/graphql'' []) (sample_ac\<lparr>ac_Role := ''viewer''\<rparr>),
       rp_Args = [], rp_FieldName = ''updateUserRole'', rp_Source = GNil\<rparr>"
  have low: "\<not> RoleAtLeast (s_Role (scope_of ?p)) RoleAdmin"
    by (simp add: withAuth_def ScopeFromContext_def AuthFromContext_def sample_ac_def RoleAtLeast_def
        roleRank_def const_defs)
  have field: "(''updateUserRole'', requiresRole RoleAdmin (Resolver_updateUserRole sample_resolver))
      \<in> set (mutation_fields sample_resolver)"
    by (simp add: mutation_fields_def)
  from graphql_mutations_need_role [OF field refl, of ?p "(sample_world, None)"] low
  show ?thesis by simp
qed

section \<open>The loader\<close>

text \<open>C27. The loader of a request is only an optimisation: whatever batches are primed and whatever tenants
  are loaded, in any order, and whichever of the queries fail, every tenant a load returns is the one
  that the table has for the identifier, and nil is returned for an identifier only if the table has
  no live row for it.
\<close>

theorem loader_agrees:
  assumes "run_calls (NewLoaders tenant_source) cs w = (answers, l, w')"
    and "(k, Inr v) \<in> set answers" and "uuid_in w k = Some k" and "distinct (map t_ID (tenants w))"
  shows "v = tenant_row w k"
  by (rule tl.run_calls_lookup [OF assms(1) refl refl NewLoaders_ok assms(2)])
    (simp add: tenant_key_def assms(3,4))

theorem loader_agrees_witness:
  "NewTenant (Some (sample_tenant ''t1'' ''acme'' ''pro'')) = tenant_row sample_world ''t1''"
proof -
  let ?cs = "[PrimeCall [''t1'', ''t2''], LoadCall ''t1'']"
  obtain answers l w' where run: "run_calls (NewLoaders tenant_source) ?cs sample_world = (answers, l, w')"
    by (cases "run_calls (NewLoaders tenant_source) ?cs sample_world")
  have "fst (run_calls (NewLoaders tenant_source) ?cs sample_world)
      = [(''t1'', Inr (NewTenant (Some (sample_tenant ''t1'' ''acme'' ''pro''))))]"
    by code_simp
  with run have "(''t1'', Inr (NewTenant (Some (sample_tenant ''t1'' ''acme'' ''pro'')))) \<in> set answers"
    by simp
  from loader_agrees [OF run this] show ?thesis by (simp add: sample_tenant_def)
qed

text \<open>
  What the two ways do not agree on is an identifier without a row: it is nil when it was primed,
  and an error when it was not.
\<close>

theorem loader_missing_differs:
  "fst (run_calls (NewLoaders tenant_source) [PrimeCall [''t9''], LoadCall ''t9''] sample_world)
      = [(''t9'', Inr None)]
    \<and> fst (run_calls (NewLoaders tenant_source) [LoadCall ''t9''] sample_world)
      = [(''t9'', Inl (Sentinel repository_ErrNotFound))]"
  by code_simp

text \<open>A page of users costs one query for their tenants: once the batch has been primed, loading any of
  its tenants, any number of times, makes no further query, does not touch the database and cannot
  fail.
\<close>

theorem loader_one_query:
  assumes "BatchLoader_Prime (NewLoaders tenant_source) ks w = (None, l, w1)"
    and "set js \<subseteq> set ks" and "run_calls l (map LoadCall js) v = (answers, l2, v2)"
  shows "Queries l2 \<le> 1 \<and> v2 = v \<and> map fst answers = js \<and> list_all (\<lambda>r. \<not> isl (snd r)) answers"
proof -
  have "bl_cache l k \<noteq> None \<or> bl_missed l k" if "k \<in> set js" for k
    using Prime_known [OF assms(1)] assms(2) that by auto
  from run_calls_known [OF this] assms(3) Prime_queries [OF assms(1)]
  show ?thesis
    by (auto simp: Queries_def NewLoaders_def NewBatchLoader_def comp_def list_all_iff)
qed

theorem loader_one_query_witness:
  "Queries (fst (snd (run_calls
     (fst (snd (BatchLoader_Prime (NewLoaders tenant_source) [''t1'', ''t2'', ''t1''] sample_world)))
     (map LoadCall [''t1'', ''t2'', ''t1'']) sample_world))) \<le> 1"
proof -
  let ?prime = "BatchLoader_Prime (NewLoaders tenant_source) [''t1'', ''t2'', ''t1''] sample_world"
  have "fst ?prime = None" by code_simp
  then obtain l w1 where prime: "?prime = (None, l, w1)" by (cases ?prime) auto
  obtain answers l2 v2 where run: "run_calls l (map LoadCall [''t1'', ''t2'', ''t1'']) sample_world = (answers, l2, v2)"
    by (cases "run_calls l (map LoadCall [''t1'', ''t2'', ''t1'']) sample_world")
  from loader_one_query [OF prime _ run] have "Queries l2 \<le> 1" by simp
  then show ?thesis unfolding prime fst_conv snd_conv run .
qed

end
