(* ===== verification/GraphTypes.thy ===== *)
theory GraphTypes
  imports GraphSchema GraphqlProperties
begin

text \<open>
  The resolvers keep to the types of the schema: a field that resolves gives a value of its declared
  type, so that the library never turns an answer into an error for a null it must not show, or for a
  name that is not of its enumeration. \<open>gives J Q f\<close> says of an operation that on tables with \<open>J\<close> it
  returns only values with \<open>Q\<close>.
\<close>

section \<open>What operations return\<close>

named_theorems gives_rules

definition gives :: "(tables \<Rightarrow> bool) \<Rightarrow> ('a \<Rightarrow> bool) \<Rightarrow> (world, 'a) op \<Rightarrow> bool" where
  "gives J Q f \<longleftrightarrow> (\<forall>w v w'. J (tabs w) \<longrightarrow> f w = (Inr v, w') \<longrightarrow> Q v)"

lemma gives_any: "gives (\<lambda>_. True) Q f \<Longrightarrow> gives J Q f"
  by (auto simp: gives_def)

lemma gives_True [gives_rules]: "gives J (\<lambda>_. True) f"
  by (simp add: gives_def)

lemma gives_weaken: "gives J P f \<Longrightarrow> (\<And>v. P v \<Longrightarrow> Q v) \<Longrightarrow> gives J Q f"
  by (fastforce simp: gives_def)

lemma gives_ret: "Q v \<Longrightarrow> gives J Q (ret v)"
  by (simp add: gives_def ret_def)

lemma gives_fail [gives_rules]: "gives J Q (fail e)"
  by (simp add: gives_def fail_def)

lemma gives_if: "(c \<Longrightarrow> gives J Q f) \<Longrightarrow> (\<not> c \<Longrightarrow> gives J Q g) \<Longrightarrow> gives J Q (if c then f else g)"
  by simp

lemma gives_map_err: "gives J Q f \<Longrightarrow> gives J Q (map_err h f)"
  by (fastforce simp: gives_def map_err_def split: sum.splits prod.splits)

lemma gives_bind_last:
  "(\<And>v. gives (\<lambda>_. True) Q (g v)) \<Longrightarrow> gives J Q (bind_op f g)"
  by (fastforce simp: gives_def bind_op_def split: sum.splits prod.splits)

lemma gives_bind_value:
  "gives J P f \<Longrightarrow> (\<And>v. P v \<Longrightarrow> gives (\<lambda>_. True) Q (g v)) \<Longrightarrow> gives J Q (bind_op f g)"
  by (fastforce simp: gives_def bind_op_def split: sum.splits prod.splits)

lemma gives_bind_read:
  assumes "read_only f" "gives J P f" "\<And>v. P v \<Longrightarrow> gives J Q (g v)"
  shows "gives J Q (bind_op f g)"
  unfolding gives_def
proof (intro allI impI)
  fix w v w'
  assume J: "J (tabs w)" and run: "bind_op f g w = (Inr v, w')"
  then obtain x w1 where f: "f w = (Inr x, w1)" and g: "g x w1 = (Inr v, w')"
    by (auto simp: bind_op_def split: sum.splits prod.splits)
  with assms(2) J have "P x" by (auto simp: gives_def)
  moreover have "tabs w1 = tabs w" by (rule read_onlyD(1) [OF assms(1) f])
  ultimately show "Q v" using assms(3) [of x] J g unfolding gives_def by metis
qed

lemma gives_exec: "gives J Q f \<Longrightarrow> gives J Q (exec f)"
  unfolding gives_def
proof (intro allI impI)
  fix w v w'
  assume f: "\<forall>w v w'. J (tabs w) \<longrightarrow> f w = (Inr v, w') \<longrightarrow> Q v" and J: "J (tabs w)"
    and run: "exec f w = (Inr v, w')"
  from run obtain w1 where w1: "ext_call w = (None, w1)" "f w1 = (Inr v, w')"
    by (auto simp: exec_def split: prod.splits option.splits)
  with ext_call_same [OF w1(1)] J have "J (tabs w1)" by simp
  with f w1(2) show "Q v" by blast
qed

lemma gives_uuid: "(\<And>x. gives J Q (f x)) \<Longrightarrow> gives J Q (uuid_param s f)"
  by (fastforce simp: gives_def uuid_param_def split: option.splits)

lemma gives_row: "(\<And>w r. J (tabs w) \<Longrightarrow> r \<in> set (rows w) \<Longrightarrow> Q r) \<Longrightarrow> gives J Q (query_row rows)"
  by (auto simp: gives_def query_row_def split: list.splits)

lemma gives_limit:
  "(\<And>w r. J (tabs w) \<Longrightarrow> r \<in> set (rows w) \<Longrightarrow> Q r) \<Longrightarrow> gives J (\<lambda>rs. \<forall>r \<in> set rs. Q r) (limit_offset n k rows)"
  by (auto simp: gives_def limit_offset_def split: if_splits dest!: in_set_takeD in_set_dropD)

lemma gives_rows: "(\<And>w. J (tabs w) \<Longrightarrow> Q (rows w)) \<Longrightarrow> gives J Q (query_rows rows)"
  by (auto simp: gives_def query_rows_def)

section \<open>Rows that can be shown\<close>

text \<open>
  Plans, roles and statuses are those of the schema's checks; the numbers of the rows, and the number
  of rows, have 32 bits.
\<close>

definition presentable :: "tables \<Rightarrow> bool" where
  "presentable a \<longleftrightarrow> (\<forall>t \<in> set (tenants a). Plan_Valid (t_Plan t))
     \<and> (\<forall>u \<in> set (users a). Role_Valid (u_Role u))
     \<and> (\<forall>j \<in> set (export_jobs a). ExportStatus_Valid (j_Status j) \<and> int32 (j_RowCount j)
          \<and> int32 (j_SizeBytes j) \<and> int32 (j_Attempts j))
     \<and> (\<forall>u \<in> set (usage_logs a). int32 (ul_StatusCode u) \<and> int32 (ul_LatencyMS u))
     \<and> int32 (int (length (users a))) \<and> int32 (int (length (export_jobs a)))
     \<and> int32 (int (length (usage_logs a))) \<and> int32 (int (length (audit_logs a)))"

abbreviation shown_job :: "ExportJob \<Rightarrow> bool" where
  "shown_job j \<equiv> ExportStatus_Valid (j_Status j) \<and> int32 (j_RowCount j) \<and> int32 (j_SizeBytes j)
     \<and> int32 (j_Attempts j)"

abbreviation shown_usage :: "UsageLog \<Rightarrow> bool" where
  "shown_usage u \<equiv> int32 (ul_StatusCode u) \<and> int32 (ul_LatencyMS u)"

abbreviation shown_total :: "int \<Rightarrow> bool" where
  "shown_total n \<equiv> 0 \<le> n \<and> int32 n"

lemma int32_length_filter:
  "int32 (int (length xs)) \<Longrightarrow> int32 (int (length (filter P xs)))"
  using le_less_trans [OF length_filter_le [of P xs], of "2 ^ 31"] by (simp add: int32_def)

lemma gives_page:
  assumes "\<And>w tid r. J (tabs w) \<Longrightarrow> r \<in> set (rows tid w) \<Longrightarrow> Q r"
    and "\<And>w tid. J (tabs w) \<Longrightarrow> int32 (int (length (rows tid w)))"
  shows "gives J (\<lambda>(rs, n). (\<forall>r \<in> set rs. Q r) \<and> shown_total n)
    (bind_op (exec (uuid_param t (\<lambda>tid. query_row (\<lambda>w. [int (length (rows tid w))])))) (\<lambda>total.
     bind_op (exec (uuid_param t (\<lambda>tid. limit_offset k off (\<lambda>w. order_desc key (rows tid w))))) (\<lambda>rs.
     ret (rs, total))))"
proof (rule gives_bind_read)
  show "read_only (exec (uuid_param t (\<lambda>tid. query_row (\<lambda>w. [int (length (rows tid w))]))))"
    by (intro frame_rules)
  show "gives J shown_total (exec (uuid_param t (\<lambda>tid. query_row (\<lambda>w. [int (length (rows tid w))]))))"
    by (intro gives_exec gives_uuid gives_row) (use assms(2) in auto)
next
  fix total
  assume total: "shown_total total"
  have "gives J (\<lambda>rs. \<forall>r \<in> set rs. Q r)
      (exec (uuid_param t (\<lambda>tid. limit_offset k off (\<lambda>w. order_desc key (rows tid w)))))"
    by (intro gives_exec gives_uuid gives_limit) (use assms(1) in \<open>auto simp: order_desc_def\<close>)
  then show "gives J (\<lambda>(rs, n). (\<forall>r \<in> set rs. Q r) \<and> shown_total n)
      (bind_op (exec (uuid_param t (\<lambda>tid. limit_offset k off (\<lambda>w. order_desc key (rows tid w))))) (\<lambda>rs.
       ret (rs, total)))"
    by (rule gives_bind_value) (use total in \<open>auto intro: gives_ret\<close>)
qed

lemma gives_User_GetByIDInTenant:
  "gives presentable (\<lambda>u. Role_Valid (u_Role u)) (UserRepository_GetByIDInTenant t i)"
  unfolding UserRepository_GetByIDInTenant_def
  by (intro gives_map_err gives_exec gives_uuid gives_row) (auto simp: presentable_def)

lemma gives_User_List:
  "gives presentable (\<lambda>(us, n). (\<forall>u \<in> set us. Role_Valid (u_Role u)) \<and> shown_total n)
     (UserRepository_ListByTenant t page k)"
  unfolding UserRepository_ListByTenant_def Let_def
  by (rule gives_page) (auto simp: presentable_def int32_length_filter)

lemma gives_Tenant_GetByID:
  "gives presentable (\<lambda>t. Plan_Valid (t_Plan t)) (TenantRepository_GetByID i)"
  unfolding TenantRepository_GetByID_def
  by (intro gives_map_err gives_exec gives_uuid gives_row) (auto simp: presentable_def)

lemma gives_Tenant_ListByIDs:
  "gives presentable (\<lambda>ts. \<forall>t \<in> set ts. Plan_Valid (t_Plan t)) (TenantRepository_ListByIDs ids)"
  unfolding TenantRepository_ListByIDs_def
  by (intro gives_if gives_ret gives_exec)
    (auto simp: gives_def presentable_def query_rows_def split: option.splits)

lemma gives_Tenant_Update:
  "gives J (\<lambda>t. Plan_Valid (t_Plan t)) (TenantRepository_Update t)"
  unfolding TenantRepository_Update_def
  by (intro gives_map_err gives_exec gives_uuid)
    (auto simp: gives_def update_tenant_def Let_def split: if_splits)

lemma gives_Job_GetByIDInTenant:
  "gives presentable shown_job (ExportRepository_GetByIDInTenant t i)"
  unfolding ExportRepository_GetByIDInTenant_def
  by (intro gives_map_err gives_exec gives_uuid gives_row) (auto simp: presentable_def)

lemma gives_Job_List:
  "gives presentable (\<lambda>(js, n). (\<forall>j \<in> set js. shown_job j) \<and> shown_total n)
     (ExportRepository_ListByTenant t page k)"
  unfolding ExportRepository_ListByTenant_def Let_def
  by (rule gives_page) (auto simp: presentable_def int32_length_filter)

lemma gives_Usage_List:
  "gives presentable (\<lambda>(us, n). (\<forall>u \<in> set us. shown_usage u) \<and> shown_total n)
     (UsageRepository_ListByTenant t e m from to page k)"
  unfolding UsageRepository_ListByTenant_def Let_def
  by (rule gives_page) (auto simp: presentable_def int32_length_filter)

lemma gives_Audit_List:
  "gives presentable (\<lambda>(es, n). shown_total n) (AuditRepository_ListByTenant t e page k)"
  unfolding AuditRepository_ListByTenant_def Let_def
  by (rule gives_weaken, rule gives_page [where Q = "\<lambda>_. True"]) (auto simp: presentable_def int32_length_filter)

lemma summarize_shown:
  assumes "s \<in> set (usage_summary rows)" "int32 (int (length rows))"
  shows "int32 (es_RequestCount s) \<and> int32 (es_ErrorCount s) \<and> 0 < snd (es_AvgLatencyMS s)"
proof -
  from assms(1) obtain u where u: "u \<in> set rows" and s: "s = summarize rows (usage_group u)"
    by (auto simp: usage_summary_def)
  let ?grp = "filter (\<lambda>x. usage_group x = usage_group u) rows"
  from u have "?grp \<noteq> []" by (auto simp: filter_empty_conv)
  moreover have "int32 (int (length ?grp))" using assms(2) by (rule int32_length_filter)
  moreover then have "int32 (int (length (filter (\<lambda>x. 400 \<le> ul_StatusCode x) ?grp)))" by (rule int32_length_filter)
  ultimately show ?thesis by (simp add: s summarize_def Let_def)
qed

lemma gives_Usage_Summary:
  "gives presentable (\<lambda>ss. \<forall>s \<in> set ss. int32 (es_RequestCount s) \<and> int32 (es_ErrorCount s)
      \<and> 0 < snd (es_AvgLatencyMS s)) (UsageRepository_SummaryByTenant t from to)"
  unfolding UsageRepository_SummaryByTenant_def
  by (intro gives_exec gives_uuid gives_rows)
    (use summarize_shown int32_length_filter in \<open>auto simp: presentable_def\<close>)

section \<open>Services\<close>

lemma gives_scoped:
  assumes "gives J Q f"
  shows "gives J Q (bind_op (require_scope scope) (\<lambda>_. f))"
proof (rule gives_bind_read [OF _ gives_True assms])
  show "read_only (require_scope scope)" unfolding require_scope_def by (intro frame_rules)
qed

lemma gives_UserService:
  "gives presentable (\<lambda>u. Role_Valid (u_Role u)) (UserService_Get user_repo scope i)"
  "gives presentable (\<lambda>u. Role_Valid (u_Role u)) (UserService_Me user_repo scope)"
  "gives presentable (\<lambda>(us, n). (\<forall>u \<in> set us. Role_Valid (u_Role u)) \<and> shown_total n)
     (UserService_List user_repo scope page k)"
  unfolding UserService_Me_def UserService_List_def UserService_Get_def user_repo_def UserStoreFull.simps
  by (intro gives_scoped gives_if gives_fail gives_map_err gives_User_GetByIDInTenant gives_User_List)+

lemma gives_UserService_UpdateRole:
  "gives presentable (\<lambda>r. Role_Valid (u_Role (ur_User r))) (UserService_UpdateRole user_repo scope i role)"
  unfolding UserService_UpdateRole_def
proof (intro gives_if gives_fail)
  assume valid: "\<not> \<not> Role_Valid role"
  show "gives presentable (\<lambda>r. Role_Valid (u_Role (ur_User r)))
     (bind_op (UserService_Get user_repo scope i) (\<lambda>target.
        let previous = u_Role target in
        if u_Role target = role
        then ret \<lparr>ur_User = target, ur_PreviousRole = role, ur_NewRole = role\<rparr>
        else
          bind_op (when_op (u_Role target = RoleAdmin \<and> role \<noteq> RoleAdmin)
                     (require_other_admin user_repo scope
                       ''this tenant would be left without an admin; promote another user first''))
            (\<lambda>_.
          bind_op (map_err (hide_missing ''user not found'' ''failed to update user role'')
                     (uf_UpdateRoleInTenant user_repo (TenantID scope) i role)) (\<lambda>_.
          ret \<lparr>ur_User = target\<lparr>u_Role := role\<rparr>, ur_PreviousRole = previous,
               ur_NewRole = role\<rparr>))))"
    by (rule gives_bind_value [OF gives_UserService(1)])
      (use valid in \<open>auto simp: Let_def intro!: gives_bind_last gives_ret\<close>)
qed

lemma gives_TenantService_Current:
  "gives presentable (\<lambda>t. Plan_Valid (t_Plan t)) (TenantService_Current tenant_repo scope)"
  unfolding TenantService_Current_def tenant_repo_def TenantStoreFull.simps
  by (intro gives_scoped gives_map_err gives_Tenant_GetByID)

lemma gives_TenantService_UpdateForScope:
  "gives J (\<lambda>t. Plan_Valid (t_Plan t)) (TenantService_UpdateForScope tenant_repo scope i inp)"
  unfolding TenantService_UpdateForScope_def tenant_repo_def TenantStoreFull.simps
  by (intro gives_bind_last gives_if gives_fail gives_map_err gives_Tenant_Update)

lemma gives_ExportService:
  assumes "es_jobs s = export_repo"
  shows "gives presentable shown_job (ExportService_Get s scope i)"
    and "gives presentable (\<lambda>(js, n). (\<forall>j \<in> set js. shown_job j) \<and> shown_total n)
       (ExportService_List s scope page k)"
    and "gives presentable (\<lambda>d. int32 (dl_RowCount d) \<and> int32 (dl_SizeBytes d)) (ExportService_DownloadURL s scope i)"
    and "gives J shown_job (ExportService_Request s scope inp)"
proof -
  show get: "gives presentable shown_job (ExportService_Get s scope i)"
    unfolding ExportService_Get_def assms export_repo_def ExportJobStore.simps
    by (intro gives_scoped gives_map_err gives_Job_GetByIDInTenant)
  show "gives presentable (\<lambda>(js, n). (\<forall>j \<in> set js. shown_job j) \<and> shown_total n)
       (ExportService_List s scope page k)"
    unfolding ExportService_List_def assms export_repo_def ExportJobStore.simps
    by (intro gives_scoped gives_map_err gives_Job_List)
  have last: "gives (\<lambda>_. True) (\<lambda>d. int32 (dl_RowCount d) \<and> int32 (dl_SizeBytes d))
      (bind_op f (\<lambda>url w. (Inr \<lparr>dl_URL = url, dl_ExpiresAt = clock w + t, dl_RowCount = j_RowCount job,
         dl_SizeBytes = j_SizeBytes job\<rparr>, w)))" if "shown_job job" for job f t
    by (rule gives_bind_last) (use that in \<open>simp add: gives_def\<close>)
  show "gives presentable (\<lambda>d. int32 (dl_RowCount d) \<and> int32 (dl_SizeBytes d)) (ExportService_DownloadURL s scope i)"
    unfolding ExportService_DownloadURL_def
    by (rule gives_bind_value [OF get]) (intro gives_if gives_fail last)
  show "gives J shown_job (ExportService_Request s scope inp)"
    unfolding ExportService_Request_def assms export_repo_def ExportJobStore.simps Let_def ExportRepository_Create_def
    by (intro gives_bind_last gives_bind_value [where P = shown_job] gives_map_err gives_exec gives_uuid)
      (auto simp: gives_def uuid_opt_param_def uuid_param_def insert_job_def Let_def blank_job_def int32_def
        ExportStatus_Valid_def split: option.splits if_splits)
qed

section \<open>Views\<close>

lemma enum_values:
  "has_type roleEnum (VStr s) \<longleftrightarrow> Role_Valid s" "has_type planEnum (VStr s) \<longleftrightarrow> Plan_Valid s"
  "has_type exportStatusEnum (VStr s) \<longleftrightarrow> ExportStatus_Valid s"
  by (auto simp: roleEnum_def planEnum_def exportStatusEnum_def Role_Valid_def Plan_Valid_def ExportStatus_Valid_def)

lemma typed_time_null: "has_type DateTimeT (or_null VTime t)" "has_type IDT (or_null VStr s)"
  by (auto simp: or_null_def split: option.split)

lemmas typed_time = typed_time_null [unfolded has_type.simps]

lemma typed_Tenant:
  "Plan_Valid (t_Plan t) \<Longrightarrow> has_type (NonNull tenantType) (or_null Tenant_value (NewTenant (Some t)))"
  by (simp add: tenantType_def Tenant_value_def NewTenant_def component_def enum_values or_null_def)

lemma typed_User:
  "Role_Valid (u_Role u) \<Longrightarrow> has_type (NonNull userType) (or_null User_value (NewUser (Some u)))"
  by (simp add: userType_def User_value_def NewUser_def component_def enum_values or_null_def [of User_value]
      typed_time)

lemma typed_Feature: "has_type (NonNull featureType) (Feature_value f)"
  by (simp add: featureType_def Feature_value_def component_def)

lemma typed_APIKey: "has_type (NonNull apiKeyType) (or_null APIKey_value (NewAPIKey (Some k)))"
  by (simp add: apiKeyType_def APIKey_value_def NewAPIKey_def component_def or_null_def [of APIKey_value] typed_time)

lemma typed_Generated:
  "has_type (NonNull generatedAPIKeyType)
     (GeneratedAPIKey_value \<lparr>mg_APIKey = NewAPIKey (Some k), mg_Plaintext = s\<rparr>)"
  using typed_APIKey [of k] by (simp add: generatedAPIKeyType_def GeneratedAPIKey_value_def component_def)

lemma typed_UsageRecord:
  "shown_usage u \<Longrightarrow> r \<in> set (NewUsageRecords [u]) \<Longrightarrow> has_type (NonNull usageRecordType) (UsageRecord_value r)"
  by (simp add: usageRecordType_def UsageRecord_value_def NewUsageRecords_def component_def)

lemma typed_UsageSummary:
  "int32 (es_RequestCount s) \<Longrightarrow> int32 (es_ErrorCount s) \<Longrightarrow> 0 < snd (es_AvgLatencyMS s)
    \<Longrightarrow> r \<in> set (NewUsageSummaries [s]) \<Longrightarrow> has_type (NonNull usageSummaryType) (UsageSummary_value r)"
  by (simp add: usageSummaryType_def UsageSummary_value_def NewUsageSummaries_def component_def split_beta)

lemma typed_AuditEntry: "has_type (NonNull auditEntryType) (AuditEntry_value a)"
  by (simp add: auditEntryType_def AuditEntry_value_def component_def typed_time)

lemma typed_ExportJob:
  "shown_job j \<Longrightarrow> has_type (NonNull exportJobType) (or_null ExportJob_value (NewExportJob (Some j)))"
  by (simp add: exportJobType_def ExportJob_value_def NewExportJob_def component_def enum_values
      or_null_def [of ExportJob_value] typed_time)

lemma page_count_int32:
  assumes "shown_total n" "0 < k"
  shows "int32 (page_count n k)"
proof -
  have "n div k + (if n mod k \<noteq> 0 then 1 else 0) \<le> n"
proof (cases "n mod k = 0 \<or> k = 1")
    case True
    with assms show ?thesis by (auto simp: zdiv_mono2 [of n 1 k, simplified])
  next
    case False
    with assms have "n \<noteq> 0" "1 < k" by auto
    with assms int_div_less_self [of n k] show ?thesis by auto
  qed
  moreover have "0 \<le> n div k" using assms by (simp add: pos_imp_zdiv_nonneg_iff)
  ultimately show ?thesis using assms by (auto simp: page_count_def int32_def)
qed

lemma typed_connection:
  assumes "\<forall>v \<in> set nodes. has_type t v" "int32 page" "int32 k" "0 < k" "shown_total n"
  shows "has_type (NonNull (ObjectT name [(''nodes'', NonNull (ListT t)), (''pageInfo'', NonNull pageInfoType)]))
    (connection nodes (NewPageInfo page k n))"
  using assms page_count_int32 [OF assms(5,4)]
  by (simp add: connection_def component_def pageInfoType_def PageInfo_value_def NewPageInfo_def Let_def list_all_iff)

section \<open>Resolvers\<close>

definition rgives :: "(gval \<Rightarrow> bool) \<Rightarrow> (rstate, gval) op \<Rightarrow> bool" where
  "rgives Q f \<longleftrightarrow> (\<forall>st v st'. presentable (tabs (fst st)) \<longrightarrow> f st = (Inr v, st') \<longrightarrow> Q v)"

lemma rgives_world:
  assumes "gives presentable P f" "\<And>x. P x \<Longrightarrow> Q (g x)"
  shows "rgives Q (bind_op (on_world f) (\<lambda>x. ret (g x)))"
  using assms by (fastforce simp: rgives_def gives_def bind_op_def on_world_def ret_def split: sum.splits prod.splits)

text \<open>What follows the service's call is an entry in the audit log, or the priming of the loader.\<close>

lemma rgives_world_then:
  assumes "gives presentable P f" "\<And>x. P x \<Longrightarrow> Q (g x)"
  shows "rgives Q (bind_op (on_world f) (\<lambda>x. bind_op (h x) (\<lambda>_. ret (g x))))"
  using assms by (fastforce simp: rgives_def gives_def bind_op_def on_world_def ret_def split: sum.splits prod.splits)

lemma map_err_on_world: "map_err e (on_world f) = on_world (map_err e f)"
  by (rule ext) (auto simp: map_err_def on_world_def split: sum.splits prod.splits)

lemma rgives_null_if_missing: "rgives Q f \<Longrightarrow> Q GNil \<Longrightarrow> rgives Q (null_if_missing f)"
  by (fastforce simp: rgives_def null_if_missing_def split: sum.splits prod.splits if_splits)

lemma rgives_ret: "Q v \<Longrightarrow> rgives Q (ret v)"
  by (simp add: rgives_def ret_def)

abbreviation typed_by :: "gtype \<Rightarrow> gval \<Rightarrow> bool" where
  "typed_by t v \<equiv> has_type t (gval_value v)"

lemma typed_null: "has_type (NonNull t) v \<Longrightarrow> has_type t v"
  by simp

lemma pagination_int32:
  assumes "Resolver_pagination r p = (page, k)" "args_conform args (rp_Args p)"
    and "map_of args ''page'' = map_of (paginationArgs []) ''page''" "int32 (rv_MaxPageSize r)"
  shows "int32 page \<and> int32 k \<and> 0 < k"
proof -
  have "int32 i" if "map_of (rp_Args p) ''page'' = Some (AInt i)" for i
    using assms(2,3) map_of_SomeD [OF that]
    by (auto simp: args_conform_def list_all_iff paginationArgs_def split: option.splits)
  moreover have "int32 1" "int32 100" by (simp_all add: int32_def)
  ultimately have "int32 page"
    using assms(1) by (auto simp: Resolver_pagination_def Let_def positive_arg_def split: option.splits arg.splits if_splits)
  moreover have "0 < k" "k \<le> (if rv_MaxPageSize r \<le> 0 then 100 else rv_MaxPageSize r)"
    using assms(1)
    by (auto simp: Resolver_pagination_def Let_def positive_arg_def split: option.splits arg.splits if_splits)
  ultimately show ?thesis using assms(4) by (auto simp: int32_def split: if_splits)
qed

lemma rgives_single:
  assumes "wired_services (rv_services r)"
  shows "rgives (typed_by userType) (Resolver_me r p)"
    and "rgives (typed_by (NonNull tenantType)) (Resolver_tenant r p)"
    and "rgives (typed_by userType) (Resolver_user r p)"
    and "rgives (typed_by exportJobType) (Resolver_exportJob r p)"
    and "rgives (typed_by downloadType) (Resolver_exportDownload r p)"
    and "rgives (typed_by (NonNull tenantType)) (Resolver_updateTenant r p)"
    and "rgives (typed_by (NonNull userType)) (Resolver_updateUserRole r p)"
    and "rgives (typed_by (NonNull exportJobType)) (Resolver_requestUsageExport r p)"
proof -
  from assms have w: "sv_users (rv_services r) = user_repo" "sv_tenants (rv_services r) = tenant_repo"
    "es_jobs (sv_exports (rv_services r)) = export_repo"
    by (simp_all add: wired_services_def)
  note null = typed_null [OF typed_User] typed_null [OF typed_ExportJob]
  have nil: "has_type userType VNull" by (simp add: userType_def)
  show "rgives (typed_by userType) (Resolver_me r p)"
    unfolding Resolver_me_def Let_def w
    by (auto intro!: rgives_ret rgives_world [OF gives_UserService(2)] simp: null(1) nil simp del: has_type.simps)
  show "rgives (typed_by (NonNull tenantType)) (Resolver_tenant r p)"
    unfolding Resolver_tenant_def w
    by (rule rgives_world [OF gives_TenantService_Current]) (simp only: gval_value.simps typed_Tenant)
  show "rgives (typed_by userType) (Resolver_user r p)"
    unfolding Resolver_user_def w
    by (intro rgives_null_if_missing rgives_world [OF gives_UserService(1)])
      (simp_all only: gval_value.simps null, simp add: userType_def)
  show "rgives (typed_by exportJobType) (Resolver_exportJob r p)"
    unfolding Resolver_exportJob_def
    by (intro rgives_null_if_missing rgives_world [OF gives_ExportService(1) [OF w(3)]])
      (simp_all only: gval_value.simps null, simp add: exportJobType_def)
  show "rgives (typed_by downloadType) (Resolver_exportDownload r p)"
    unfolding Resolver_exportDownload_def
    by (rule rgives_world [OF gives_ExportService(3) [OF w(3)]])
      (simp add: downloadType_def Download_value_def component_def)
  show "rgives (typed_by (NonNull tenantType)) (Resolver_updateTenant r p)"
    unfolding Resolver_updateTenant_def Let_def w
    by (rule rgives_world_then [OF gives_TenantService_UpdateForScope]) (simp only: gval_value.simps typed_Tenant)
  show "rgives (typed_by (NonNull userType)) (Resolver_updateUserRole r p)"
    unfolding Resolver_updateUserRole_def Let_def w
    by (rule rgives_world_then [OF gives_UserService_UpdateRole]) (simp only: gval_value.simps typed_User)
  show "rgives (typed_by (NonNull exportJobType)) (Resolver_requestUsageExport r p)"
    unfolding Resolver_requestUsageExport_def Let_def
    by (rule rgives_world_then [OF gives_ExportService(4) [OF w(3)]]) (simp only: gval_value.simps typed_ExportJob)
qed

lemma typed_list: "\<forall>v \<in> set vs. has_type t v \<Longrightarrow> has_type (NonNull (ListT t)) (VList vs)"
  by (simp add: list_all_iff)

lemma rgives_lists:
  assumes "wired_services (rv_services r)"
  shows "rgives (typed_by (NonNull (ListT (NonNull featureType)))) (Resolver_features r p)"
    and "rgives (typed_by (NonNull (ListT (NonNull StringT)))) (Resolver_myFeatures r p)"
    and "rgives (typed_by (NonNull (ListT (NonNull apiKeyType)))) (Resolver_apiKeys r p)"
    and "rgives (typed_by (NonNull (ListT (NonNull usageSummaryType)))) (Resolver_usageSummary r p)"
proof -
  have w: "sv_usage (rv_services r) = usage_repo" using assms by (simp add: wired_services_def)
  show "rgives (typed_by (NonNull (ListT (NonNull featureType)))) (Resolver_features r p)"
    unfolding Resolver_features_def map_err_on_world
    by (rule rgives_world [OF gives_True], unfold gval_value.simps, rule typed_list) (use typed_Feature in auto)
  show "rgives (typed_by (NonNull (ListT (NonNull StringT)))) (Resolver_myFeatures r p)"
    unfolding Resolver_myFeatures_def map_err_on_world Let_def
    by (rule rgives_world [OF gives_True], unfold gval_value.simps, rule typed_list) auto
  show "rgives (typed_by (NonNull (ListT (NonNull apiKeyType)))) (Resolver_apiKeys r p)"
    unfolding Resolver_apiKeys_def map_err_on_world
    by (rule rgives_world [OF gives_True], unfold gval_value.simps, rule typed_list)
      (use typed_APIKey in \<open>auto simp: NewAPIKeys_def simp del: has_type.simps\<close>)
  show "rgives (typed_by (NonNull (ListT (NonNull usageSummaryType)))) (Resolver_usageSummary r p)"
    unfolding Resolver_usageSummary_def map_err_on_world UsageService_Summary_def w usage_repo_def UsageStore.simps
    by (rule rgives_world [OF gives_map_err [OF gives_Usage_Summary]], unfold gval_value.simps, rule typed_list)
      (auto simp: NewUsageSummaries_def simp del: has_type.simps intro!: typed_UsageSummary)
qed

lemma rgives_keys:
  "rgives (typed_by (NonNull generatedAPIKeyType)) (Resolver_generateAPIKey r p)"
  "rgives (typed_by (NonNull generatedAPIKeyType)) (Resolver_rotateAPIKey r p)"
  "rgives (typed_by (NonNull BooleanT)) (Resolver_deactivateAPIKey r p)"
proof -
  have gen: "typed_by (NonNull generatedAPIKeyType) (GGenerated \<lparr>mg_APIKey = NewAPIKey (Some k), mg_Plaintext = s\<rparr>)"
    for k s by (simp only: gval_value.simps typed_Generated)
  show "rgives (typed_by (NonNull generatedAPIKeyType)) (Resolver_generateAPIKey r p)"
    unfolding Resolver_generateAPIKey_def map_err_on_world split_beta
    by (rule rgives_world_then [OF gives_True]) (rule gen)
  show "rgives (typed_by (NonNull generatedAPIKeyType)) (Resolver_rotateAPIKey r p)"
    unfolding Resolver_rotateAPIKey_def map_err_on_world split_beta Let_def
    by (rule rgives_world_then [OF gives_True]) (rule gen)
  show "rgives (typed_by (NonNull BooleanT)) (Resolver_deactivateAPIKey r p)"
    unfolding Resolver_deactivateAPIKey_def map_err_on_world Let_def
    by (rule rgives_world_then [OF gives_True]) simp
qed

lemma typed_page:
  assumes "\<forall>x \<in> set rows. has_type (NonNull t) (f x)" "int32 page" "int32 k" "0 < k" "shown_total n"
  shows "has_type (NonNull (ObjectT name [(''nodes'', NonNull (ListT (NonNull t))), (''pageInfo'', NonNull pageInfoType)]))
    (connection (map f rows) (NewPageInfo page k n))"
  by (rule typed_connection) (use assms in auto)

lemma rgives_pages:
  assumes "wired_services (rv_services r)" "Resolver_pagination r p = (page, k)"
    and ok: "int32 page" "int32 k" "0 < k"
  shows "rgives (typed_by (NonNull userConnectionType)) (Resolver_users r p)"
    and "rgives (typed_by (NonNull usageConnectionType)) (Resolver_usage r p)"
    and "rgives (typed_by (NonNull auditConnectionType)) (Resolver_auditLogs r p)"
    and "rgives (typed_by (NonNull exportConnectionType)) (Resolver_exportJobs r p)"
proof -
  from assms(1) have w: "sv_users (rv_services r) = user_repo" "sv_usage (rv_services r) = usage_repo"
    "es_jobs (sv_exports (rv_services r)) = export_repo"
    by (simp_all add: wired_services_def)
  show "rgives (typed_by (NonNull userConnectionType)) (Resolver_users r p)"
    unfolding Resolver_users_def assms(2) prod.case split_beta Let_def w
    by (rule rgives_world_then [OF gives_UserService(3)],
        unfold gval_value.simps UserConnection.simps userConnectionType_def NewUsers_def map_map,
        rule typed_page)
      (auto simp: ok typed_User simp del: has_type.simps)
  show "rgives (typed_by (NonNull usageConnectionType)) (Resolver_usage r p)"
    unfolding Resolver_usage_def assms(2) prod.case split_beta map_err_on_world UsageService_List_def w usage_repo_def
      UsageStore.simps
    by (rule rgives_world [OF gives_map_err [OF gives_Usage_List]],
        unfold gval_value.simps UsageConnection.simps usageConnectionType_def, rule typed_page)
      (auto simp: ok NewUsageRecords_def simp del: has_type.simps intro!: typed_UsageRecord)
  show "rgives (typed_by (NonNull auditConnectionType)) (Resolver_auditLogs r p)"
    unfolding Resolver_auditLogs_def assms(2) prod.case split_beta map_err_on_world AuditService_List_def
    by (rule rgives_world [OF gives_map_err [OF gives_Audit_List]],
        unfold gval_value.simps AuditConnection.simps auditConnectionType_def, rule typed_page)
      (auto simp: ok typed_AuditEntry simp del: has_type.simps)
  show "rgives (typed_by (NonNull exportConnectionType)) (Resolver_exportJobs r p)"
    unfolding Resolver_exportJobs_def assms(2) prod.case split_beta
    by (rule rgives_world [OF gives_ExportService(2) [OF w(3)]],
        unfold gval_value.simps ExportJobConnection.simps exportConnectionType_def NewExportJobs_def map_map,
        rule typed_page)
      (auto simp: ok typed_ExportJob simp del: has_type.simps)
qed

section \<open>Directives and the loader\<close>

lemma rgives_requireAuth: "rgives Q (f p) \<Longrightarrow> rgives Q (requireAuth f p)"
  by (auto simp: requireAuth_def rgives_def fail_def)

lemma rgives_requiresRole: "rgives Q (f p) \<Longrightarrow> rgives Q (requiresRole m f p)"
  unfolding requiresRole_def
  by (rule rgives_requireAuth)
    (auto simp: rgives_def Let_def bind_op_def fail_def split: sum.splits prod.splits)

lemma rgives_requiresFeature:
  assumes "rgives Q (f p)"
  shows "rgives Q (requiresFeature k f p)"
  unfolding requiresFeature_def
proof (rule rgives_requireAuth, unfold rgives_def, intro allI impI)
  fix st v st'
  let ?has = "\<lambda>ac. EntitlementService_HasFeature (ac_TenantID ac) (ac_TenantPlan ac) k"
  assume ok: "presentable (tabs (fst st))"
    and run: "(case AuthFromContext (rp_Request p) of
        None \<Rightarrow> fail (Api (Unauthenticated ''authentication is required''))
      | Some ac \<Rightarrow>
          bind_op (map_err (\<lambda>err. Api (Wrap (Internal ''failed to resolve feature entitlement'') err))
            (on_world (?has ac))) (\<lambda>entitled.
          if \<not> entitled then
            bind_op (Resolver_auditDenial (scope_of p) EventFeatureAccessDenied
              [(''transport'', DStr ''graphql''), (''field'', DStr (fieldName p)),
               (''feature'', DStr k), (''plan'', DStr (ac_TenantPlan ac))]) (\<lambda>_.
            fail (Api (FeatureRequired k)))
          else f p)) st = (Inr v, st')"
  then obtain ac where ac: "AuthFromContext (rp_Request p) = Some ac"
    by (cases "AuthFromContext (rp_Request p)") (simp_all add: fail_def)
  obtain q w1 where has: "?has ac (fst st) = (q, w1)" by (cases "?has ac (fst st)")
  with run ac have f: "f p (w1, snd st) = (Inr v, st')"
    by (cases q) (auto simp: bind_op_def map_err_def on_world_def fail_def split: sum.splits prod.splits if_splits)
  from HasFeature_keeps(1) [OF has] ok have "presentable (tabs w1)" by simp
  with assms f show "Q v" unfolding rgives_def by (metis fst_conv)
qed

text \<open>A loader of the tenant table in which nothing is remembered that could not be shown.\<close>

definition loader_shown :: "tenant_loader option \<Rightarrow> bool" where
  "loader_shown lo \<longleftrightarrow> loader_wired lo
     \<and> (\<forall>l k v. lo = Some l \<longrightarrow> bl_cache l k = Some v \<longrightarrow> has_type tenantType (or_null Tenant_value v))"

lemma loader_shown_new: "loader_shown (Some (NewLoaders tenant_source))"
  by (simp add: loader_shown_def loader_wired_def NewLoaders_def NewBatchLoader_def)

lemma gives_single:
  "gives presentable (\<lambda>v. has_type tenantType (or_null Tenant_value v)) (bl_single (NewLoaders tenant_source) k)"
  unfolding NewLoaders_def NewBatchLoader_def BatchLoader.simps tenant_source_def TenantSource.simps
  by (rule gives_bind_value [OF gives_Tenant_GetByID])
    (simp only: gives_ret typed_null [OF typed_Tenant])

lemma Load_shown:
  assumes "BatchLoader_Load l k w = (q, l1, w1)" "loader_shown (Some l)" "presentable (tabs w)"
  shows "loader_shown (Some l1) \<and> (\<forall>v. q = Inr v \<longrightarrow> has_type tenantType (or_null Tenant_value v))"
proof -
  have nil: "has_type tenantType (or_null Tenant_value None)" by (simp add: tenantType_def or_null_def)
  have single: "has_type tenantType (or_null Tenant_value v)" if "bl_single l k w = (Inr v, w2)" for v w2
    using that gives_single assms(2,3) unfolding gives_def loader_shown_def loader_wired_def option.case by metis
  show ?thesis
    using assms(1,2) nil single
    by (auto simp: BatchLoader_Load_def loader_shown_def loader_wired_def
        simp del: has_type.simps split: option.splits sum.splits prod.splits if_splits)
qed

lemma by_tenant_id_shown:
  assumes "\<forall>t \<in> set rows. Plan_Valid (t_Plan t)" "by_tenant_id rows i = Some v"
  shows "has_type tenantType (or_null Tenant_value v)"
proof -
  have "\<forall>i v. fold (\<lambda>t out. out(t_ID t \<mapsto> NewTenant (Some t))) rows m i = Some v \<longrightarrow> has_type tenantType (or_null Tenant_value v)"
    if "\<forall>i v. m i = Some v \<longrightarrow> has_type tenantType (or_null Tenant_value v)" for m
    using assms(1) that
  proof (induction rows arbitrary: m)
    case (Cons t rows)
    show ?case
      unfolding fold_Cons o_apply
      by (rule Cons.IH) (use Cons.prems typed_null [OF typed_Tenant] in \<open>auto simp del: has_type.simps\<close>)
  qed simp
  from this [of Map.empty] assms(2) show ?thesis by (simp add: by_tenant_id_def del: has_type.simps)
qed

lemma Prime_shown:
  assumes "BatchLoader_Prime l ks w = (e, l1, w1)" "loader_shown (Some l)" "presentable (tabs w)"
  shows "loader_shown (Some l1)"
proof -
  consider "l1 = l"
    | m where "bl_batch l (pending_keys l [] ks) w = (Inr m, w1)"
        "l1 = fold (store_loaded m) (pending_keys l [] ks) (l\<lparr>bl_queries := bl_queries l + 1\<rparr>)"
    using assms(1) by (auto simp: BatchLoader_Prime_def Let_def split: prod.splits sum.splits if_splits)
  then show ?thesis
  proof cases
    case (2 m)
    from 2(1) assms(2) obtain rows where "TenantRepository_ListByIDs (pending_keys l [] ks) w = (Inr rows, w1)"
      and m: "m = by_tenant_id rows"
      by (auto simp: loader_shown_def loader_wired_def NewLoaders_def NewBatchLoader_def tenant_source_def bind_op_def
          ret_def split: sum.splits prod.splits)
    with gives_Tenant_ListByIDs assms(3) have "\<forall>t \<in> set rows. Plan_Valid (t_Plan t)"
      unfolding gives_def by blast
    note shown = by_tenant_id_shown [OF this, folded m]
    with assms(2) show ?thesis
      unfolding 2(2) loader_shown_def loader_wired_def
      by (auto simp: fold_store_loaded simp del: has_type.simps split: if_splits)
  qed (use assms(2) in simp)
qed

lemma page_arg:
  "map_of (paginationArgs [(''endpoint'', a), (''method'', b), (''from'', c), (''to'', d)]) ''page''
    = map_of (paginationArgs []) ''page''"
  "map_of (paginationArgs [(''event'', a)]) ''page'' = map_of (paginationArgs []) ''page''"
  by (simp_all add: paginationArgs_def)

lemma query_typed:
  assumes "wired_services (rv_services rv)" "int32 (rv_MaxPageSize rv)"
    and "map_of (query_fields rv) name = Some f" "map_of queryType name = Some (ty, args)"
    and "args_conform args (rp_Args p)"
  shows "rgives (typed_by ty) (f p)"
proof -
  obtain page k where pg: "Resolver_pagination rv p = (page, k)" by fastforce
  have pages: "rgives (typed_by (NonNull userConnectionType)) (Resolver_users rv p)"
    "rgives (typed_by (NonNull usageConnectionType)) (Resolver_usage rv p)"
    "rgives (typed_by (NonNull auditConnectionType)) (Resolver_auditLogs rv p)"
    "rgives (typed_by (NonNull exportConnectionType)) (Resolver_exportJobs rv p)"
    if "map_of args ''page'' = map_of (paginationArgs []) ''page''"
    using pagination_int32 [OF pg assms(5) that assms(2)] rgives_pages [OF assms(1) pg] by blast+
  show ?thesis
    using assms(3,4) pages
    by (auto simp: query_fields_def queryType_def page_arg rgives_single [OF assms(1)] rgives_lists [OF assms(1)]
        simp del: has_type.simps intro!: rgives_requireAuth rgives_requiresRole rgives_requiresFeature
        split: if_splits)
qed

lemma mutation_typed:
  assumes "wired_services (rv_services rv)"
    and "map_of (mutation_fields rv) name = Some f" "map_of mutationType name = Some (ty, args)"
  shows "rgives (typed_by ty) (f p)"
  using assms(2,3)
  by (auto simp: mutation_fields_def mutationType_def rgives_single [OF assms(1)] rgives_keys
      simp del: has_type.simps intro!: rgives_requireAuth rgives_requiresRole rgives_requiresFeature
      split: if_splits)

lemma userTenant_typed:
  assumes "wired_services (rv_services rv)" "presentable (tabs (fst st))" "loader_shown (snd st)"
    and "Resolver_userTenant rv p st = (q, st')"
  shows "loader_shown (snd st') \<and> (\<forall>v. q = Inr v \<longrightarrow> has_type tenantType (gval_value v))"
proof -
  have nil: "has_type tenantType VNull" by (simp add: tenantType_def)
  have direct: ?thesis if run: "Resolver_tenant rv p st = (q, st')"
  proof -
    have "has_type tenantType (gval_value v)" if "q = Inr v" for v
      using rgives_single(2) [OF assms(1), of p] assms(2) run that unfolding rgives_def
      by (blast intro: typed_null)
    moreover have "snd st' = snd st"
      using run by (auto simp: Resolver_tenant_def bind_op_def on_world_def ret_def split: prod.splits sum.splits)
    ultimately show ?thesis using assms(3) by simp
  qed
  show ?thesis
  proof (cases "\<exists>u l. rp_Source p = GUser (Some u) \<and> mu_TenantID u \<noteq> [] \<and> snd st = Some l")
    case True
    then obtain u l where l: "rp_Source p = GUser (Some u)" "mu_TenantID u \<noteq> []" "snd st = Some l" by blast
    obtain a l1 w1 where load: "BatchLoader_Load l (mu_TenantID u) (fst st) = (a, l1, w1)"
      by (cases "BatchLoader_Load l (mu_TenantID u) (fst st)")
    from Load_shown [OF load] assms(2-4) l load show ?thesis
      by (auto simp: Resolver_userTenant_def load_tenant_def split: sum.splits simp del: has_type.simps)
  next
    case False
    with assms(3,4) direct nil show ?thesis
      by (auto simp: Resolver_userTenant_def ret_def simp del: has_type.simps
          split: gval.splits option.splits if_splits)
  qed
qed

named_theorems loader_rules

definition loader_same :: "(rstate, 'a) op \<Rightarrow> bool" where
  "loader_same f \<longleftrightarrow> (\<forall>st q st'. f st = (q, st') \<longrightarrow> snd st' = snd st)"

lemma loader_same_basic [loader_rules]:
  "loader_same (on_world h)" "loader_same (ret x)" "loader_same (fail e)"
  by (simp_all add: loader_same_def on_world_def ret_def fail_def split: prod.splits)

lemma loader_same_bind [loader_rules]:
  "loader_same f \<Longrightarrow> (\<And>x. loader_same (g x)) \<Longrightarrow> loader_same (bind_op f g)"
  by (fastforce simp: loader_same_def bind_op_def split: sum.splits prod.splits if_splits)

lemma loader_same_map_err [loader_rules]: "loader_same f \<Longrightarrow> loader_same (map_err e f)"
  by (fastforce simp: loader_same_def map_err_def split: sum.splits prod.splits if_splits)

lemma loader_same_null [loader_rules]: "loader_same f \<Longrightarrow> loader_same (null_if_missing f)"
  by (fastforce simp: loader_same_def null_if_missing_def split: sum.splits prod.splits if_splits)

lemma loader_same_if [loader_rules]:
  "loader_same f \<Longrightarrow> loader_same g \<Longrightarrow> loader_same (if c then f else g)"
  by simp

lemma loader_same_audit [loader_rules]:
  "loader_same (Resolver_audit p ev meta)" "loader_same (Resolver_auditDenial scope ev meta)"
  unfolding Resolver_audit_def Resolver_auditDenial_def by (rule loader_rules)+

lemma loader_same_directives [loader_rules]:
  assumes "loader_same (f p)"
  shows "loader_same (requireAuth f p)" "loader_same (requiresRole m f p)" "loader_same (requiresFeature k f p)"
proof -
  note rules = assms loader_rules
  show "loader_same (requireAuth f p)" "loader_same (requiresRole m f p)"
    unfolding requiresRole_def requireAuth_def Let_def by (intro rules)+
  show "loader_same (requiresFeature k f p)"
    unfolding requiresFeature_def requireAuth_def
    by (cases "AuthFromContext (rp_Request p)") (simp_all only: option.case, (intro rules)+)
qed

lemma loader_same_queries [loader_rules]:
  "loader_same (Resolver_me r p)" "loader_same (Resolver_tenant r p)" "loader_same (Resolver_user r p)"
  "loader_same (Resolver_features r p)" "loader_same (Resolver_myFeatures r p)"
  "loader_same (Resolver_apiKeys r p)" "loader_same (Resolver_usage r p)"
  "loader_same (Resolver_usageSummary r p)" "loader_same (Resolver_auditLogs r p)"
  "loader_same (Resolver_exportJobs r p)" "loader_same (Resolver_exportJob r p)"
  "loader_same (Resolver_exportDownload r p)"
  unfolding Resolver_me_def Resolver_tenant_def Resolver_user_def Resolver_features_def Resolver_myFeatures_def
    Resolver_apiKeys_def Resolver_usage_def Resolver_usageSummary_def Resolver_auditLogs_def
    Resolver_exportJobs_def Resolver_exportJob_def Resolver_exportDownload_def Let_def split_beta
  by (intro loader_rules)+

lemma loader_same_mutations [loader_rules]:
  "loader_same (Resolver_updateTenant r p)" "loader_same (Resolver_updateUserRole r p)"
  "loader_same (Resolver_generateAPIKey r p)" "loader_same (Resolver_rotateAPIKey r p)"
  "loader_same (Resolver_deactivateAPIKey r p)" "loader_same (Resolver_requestUsageExport r p)"
  unfolding Resolver_updateTenant_def Resolver_updateUserRole_def Resolver_generateAPIKey_def
    Resolver_rotateAPIKey_def Resolver_deactivateAPIKey_def Resolver_requestUsageExport_def Let_def split_beta
  by (intro loader_rules)+

lemma users_loader:
  assumes "wired_services (rv_services rv)" "presentable (tabs (fst st))" "loader_shown (snd st)"
    and "Resolver_users rv p st = (q, st')"
  shows "loader_shown (snd st')"
proof -
  obtain page k where pg: "Resolver_pagination rv p = (page, k)" by fastforce
  have "read_only (UserService_List user_repo (scope_of p) page k)"
    unfolding UserService_List_def user_repo_def UserStoreFull.simps require_scope_def by (intro frame_rules)
  have w: "sv_users (rv_services rv) = user_repo" using assms(1) by (simp add: wired_services_def)
  obtain a w1 where list: "UserService_List user_repo (scope_of p) page k (fst st) = (a, w1)" by fastforce
  have pres: "presentable (tabs w1)"
    using read_onlyD(1) [OF \<open>read_only _\<close> list] assms(2) by simp
  show ?thesis
  proof (cases "snd st")
    case None
    with assms(3,4) list show ?thesis
      by (auto simp: Resolver_users_def pg w bind_op_def on_world_def prime_tenants_def ret_def Let_def
          split: sum.splits prod.splits)
  next
    case (Some l)
    have prime: "loader_shown (Some l1)" if "BatchLoader_Prime l ks w1 = (e, l1, w2)" for ks e l1 w2
      using Prime_shown [OF that] assms(3) Some pres by simp
    from assms(3,4) list Some show ?thesis
      by (auto simp: Resolver_users_def pg w bind_op_def on_world_def prime_tenants_def ret_def Let_def
          dest: prime split: sum.splits prod.splits option.splits if_splits)
  qed
qed

section \<open>The property\<close>

definition typed_fields :: "Resolver \<Rightarrow> ((string \<times> field_resolver) list \<times> field_configs) list" where
  "typed_fields rv = [(gs_Query (NewSchema rv), queryType), (gs_Mutation (NewSchema rv), mutationType),
     (gs_User (NewSchema rv), user_extension)]"

text \<open>C19. Every field with a resolver has a declared type, and a field that resolves gives a value of this
  type, whatever arguments the declared argument types allow: no null where the type is non-null, no
  name outside an enumeration and no number beyond 32 bits, for rows that can be shown. The
  request's loader remembers only tenants of which the same holds, whether the field resolves or not.
\<close>

theorem graphql_values_typed:
  assumes "wired_services (rv_services rv)" "int32 (rv_MaxPageSize rv)"
    and "presentable (tabs (fst st))" "loader_shown (snd st)"
    and "(fs, cs) \<in> set (typed_fields rv)"
    and "map_of fs name = Some f" "map_of cs name = Some (ty, args)"
    and "args_conform args (rp_Args p)" "f p st = (r, st')"
  shows "map fst fs = map fst cs
    \<and> (\<forall>v. r = Inr v \<longrightarrow> has_type ty (gval_value v)) \<and> loader_shown (snd st')"
proof -
  have names: "map fst fs = map fst cs"
    using assms(5) by (auto simp: typed_fields_def NewSchema_def query_fields_def queryType_def mutation_fields_def
        mutationType_def user_extension_def)
  have given: ?thesis if "rgives (typed_by ty) (f p)" "loader_shown (snd st')"
    using that names assms(3,9) unfolding rgives_def by blast
  from assms(5) consider (query) "fs = query_fields rv" "cs = queryType"
    | (mutation) "fs = mutation_fields rv" "cs = mutationType"
    | (user) "fs = [(''tenant'', Resolver_userTenant rv)]" "cs = user_extension"
    by (auto simp: typed_fields_def NewSchema_def)
  then show ?thesis
  proof cases
    case query
    note t = query_typed [OF assms(1,2) assms(6,7) [unfolded query] assms(8)]
    have "loader_same (f p) \<or> f = requireAuth (Resolver_users rv)"
      using assms(6) unfolding query query_fields_def by (auto intro!: loader_rules split: if_splits)
    then have "loader_shown (snd st')"
    proof
      assume "loader_same (f p)"
      with assms(9) have "snd st' = snd st" unfolding loader_same_def by blast
      with assms(4) show ?thesis by simp
    next
      assume f: "f = requireAuth (Resolver_users rv)"
      show ?thesis
      proof (cases "Scope_Valid (scope_of p)")
        case True
        with f assms(9) have "Resolver_users rv p st = (r, st')" by (simp add: requireAuth_def)
        then show ?thesis by (rule users_loader [OF assms(1,3,4)])
      next
        case False
        with f assms(4,9) show ?thesis by (auto simp: requireAuth_def fail_def)
      qed
    qed
    with t show ?thesis by (rule given)
  next
    case mutation
    note t = mutation_typed [OF assms(1) assms(6,7) [unfolded mutation]]
    have "loader_same (f p)"
      using assms(6) unfolding mutation mutation_fields_def by (auto intro!: loader_rules split: if_splits)
    with assms(9) have "snd st' = snd st" unfolding loader_same_def by blast
    with assms(4) have "loader_shown (snd st')" by simp
    with t show ?thesis by (rule given)
  next
    case user
    with assms(6,7) have "f = Resolver_userTenant rv" "ty = tenantType"
      by (auto simp: user_extension_def split: if_splits)
    with userTenant_typed [OF assms(1,3,4)] assms(9) names show ?thesis by simp
  qed
qed

theorem graphql_values_typed_witness:
  "\<exists>v st'. requireAuth (Resolver_users sample_resolver)
      \<lparr>rp_Request = withAuth (sample_request ''POST'' ''/graphql'' []) sample_ac,
       rp_Args = [(''page'', AInt 1), (''pageSize'', AInt 50)], rp_FieldName = ''users'', rp_Source = GNil\<rparr>
      (sample_world, Some (NewLoaders tenant_source)) = (Inr v, st')
    \<and> has_type (NonNull userConnectionType) (gval_value v) \<and> loader_shown (snd st')"
proof -
  let ?p = "\<lparr>rp_Request = withAuth (sample_request ''POST'' ''/graphql'' []) sample_ac,
       rp_Args = [(''page'', AInt 1), (''pageSize'', AInt 50)], rp_FieldName = ''users'', rp_Source = GNil\<rparr>"
  let ?st = "(sample_world, Some (NewLoaders tenant_source))"
  have "isl (fst (requireAuth (Resolver_users sample_resolver) ?p ?st)) = False" by code_simp
  then obtain v st' where run: "requireAuth (Resolver_users sample_resolver) ?p ?st = (Inr v, st')"
    by (cases "requireAuth (Resolver_users sample_resolver) ?p ?st";
        cases "fst (requireAuth (Resolver_users sample_resolver) ?p ?st)") auto
  have field: "(gs_Query (NewSchema sample_resolver), queryType) \<in> set (typed_fields sample_resolver)"
    by (simp add: typed_fields_def)
  have name: "map_of (gs_Query (NewSchema sample_resolver)) ''users'' = Some (requireAuth (Resolver_users sample_resolver))"
    "map_of queryType ''users'' = Some (NonNull userConnectionType, paginationArgs [])"
    by (simp_all add: NewSchema_def query_fields_def queryType_def)
  have args: "args_conform (paginationArgs []) (rp_Args ?p)" by code_simp
  have "presentable (tabs sample_world)" by code_simp
  then have rows: "presentable (tabs (fst ?st))" by simp
  have loader: "loader_shown (snd ?st)" using loader_shown_new by simp
  have wired: "wired_services (rv_services sample_resolver)" "int32 (rv_MaxPageSize sample_resolver)"
    using sample_wired_graphql by (simp_all add: wired_graphql_def sample_resolver_def int32_def)
  from graphql_values_typed [where rv = sample_resolver and fs = "gs_Query (NewSchema sample_resolver)"
      and cs = queryType and name = "''users''" and f = "requireAuth (Resolver_users sample_resolver)"
      and ty = "NonNull userConnectionType" and args = "paginationArgs []" and p = ?p and st = ?st
      and r = "Inr v" and st' = st', OF wired rows loader field name args run] run
  show ?thesis by blast
qed

text \<open>
  The size of an export is 64 bits wide in the database and an \<open>Int\<close> of 32 bits in the schema: an
  export of two gigabytes cannot be shown, and as the field is non-null, neither can the job.
\<close>

theorem large_export_not_shown:
  "2 ^ 31 \<le> j_SizeBytes j \<Longrightarrow>
     \<not> has_type exportJobType (gval_value (GJob (NewExportJob (Some j))))"
  by (simp add: exportJobType_def ExportJob_value_def NewExportJob_def or_null_def [of ExportJob_value]
      component_def int32_def)

end
