(* ===== verification/Transports.thy ===== *)
theory Transports
  imports GraphqlProperties Routes
begin

text \<open>
  The program offers some changes twice, as a REST route and as a GraphQL mutation. \<open>shared_op\<close> lists
  them with their arguments; for each there is the handler of the route and the resolver of the field,
  both behind their check of the role or feature. Both are compared on the same world, for the same
  caller.
\<close>

section \<open>What both transports offer\<close>

datatype shared_op =
    ChangeRole string Role | RenameTenant string
  | GenerateKey string | RotateKey string | DeactivateKey string
  | RequestExport RequestExportInput

definition rest_handler :: "deps \<Rightarrow> shared_op \<Rightarrow> handler" where
  "rest_handler d op = (let h = d_services d in case op of
      ChangeRole i role \<Rightarrow> RequireRole RoleAdmin (UserHandler_UpdateRole h)
    | RenameTenant n \<Rightarrow> RequireRole RoleAdmin (TenantHandler_Update h)
    | GenerateKey n \<Rightarrow> RequireRole RoleDeveloper (APIKeyHandler_Generate h)
    | RotateKey i \<Rightarrow> RequireRole RoleDeveloper (APIKeyHandler_Rotate h)
    | DeactivateKey i \<Rightarrow> RequireRole RoleDeveloper (APIKeyHandler_Deactivate h)
    | RequestExport inp \<Rightarrow> RequireFeature (d_entitlements d) ''usage.export'' (ExportHandler_Create h))"

definition rest_route :: "shared_op \<Rightarrow> string \<times> string" where
  "rest_route op = (case op of
      ChangeRole i role \<Rightarrow> (''PATCH'', ''/api/v1/users/{id}/role'')
    | RenameTenant n \<Rightarrow> (''PATCH'', ''/api/v1/tenant'')
    | GenerateKey n \<Rightarrow> (''POST'', ''/api/v1/apikeys'')
    | RotateKey i \<Rightarrow> (''POST'', ''/api/v1/apikeys/{id}/rotate'')
    | DeactivateKey i \<Rightarrow> (''DELETE'', ''/api/v1/apikeys/{id}'')
    | RequestExport inp \<Rightarrow> (''POST'', ''/api/v1/usage/exports''))"

text \<open>A request of the route that asks for the operation.\<close>

definition rest_asks :: "shared_op \<Rightarrow> Request \<Rightarrow> bool" where
  "rest_asks op r = (case op of
      ChangeRole i role \<Rightarrow> r_PathValue r ''id'' = i
        \<and> decodeJSON [(''role'', set_string (\<lambda>s r. r\<lparr>rr_Role := s\<rparr>))] r \<lparr>rr_Role = ''''\<rparr>
            = (None, \<lparr>rr_Role = role\<rparr>)
    | RenameTenant n \<Rightarrow> decodeJSON [(''name'', set_string_ptr (\<lambda>s r. r\<lparr>us_Name := s\<rparr>))] r \<lparr>us_Name = None\<rparr>
            = (None, \<lparr>us_Name = Some n\<rparr>)
    | GenerateKey n \<Rightarrow> snd (decodeJSON [(''name'', set_string (\<lambda>s r. r\<lparr>gk_Name := s\<rparr>))] r
            \<lparr>gk_Name = ''''\<rparr>) = \<lparr>gk_Name = n\<rparr>
    | RotateKey i \<Rightarrow> r_PathValue r ''id'' = i
    | DeactivateKey i \<Rightarrow> r_PathValue r ''id'' = i
    | RequestExport inp \<Rightarrow> (case decodeOptionalJSON createExportRequest_fields r
              \<lparr>cr_Endpoint = '''', cr_Method = '''', cr_From = '''', cr_To = ''''\<rparr> of
            (e, req) \<Rightarrow> e = None \<and> cr_Endpoint req = re_Endpoint inp \<and> cr_Method req = re_Method inp
              \<and> parseRFC3339Field ''from'' (cr_From req) = Inr (re_From inp)
              \<and> parseRFC3339Field ''to'' (cr_To req) = Inr (re_To inp)))"

definition rest_success :: "shared_op \<Rightarrow> int" where
  "rest_success op = (case op of GenerateKey n \<Rightarrow> 201 | RequestExport inp \<Rightarrow> 202 | _ \<Rightarrow> 200)"

definition graphql_field :: "Resolver \<Rightarrow> shared_op \<Rightarrow> string \<times> field_resolver" where
  "graphql_field rv op = (case op of
      ChangeRole i role \<Rightarrow> (''updateUserRole'', requiresRole RoleAdmin (Resolver_updateUserRole rv))
    | RenameTenant n \<Rightarrow> (''updateTenant'', requiresRole RoleAdmin (Resolver_updateTenant rv))
    | GenerateKey n \<Rightarrow> (''generateApiKey'', requiresRole RoleDeveloper (Resolver_generateAPIKey rv))
    | RotateKey i \<Rightarrow> (''rotateApiKey'', requiresRole RoleDeveloper (Resolver_rotateAPIKey rv))
    | DeactivateKey i \<Rightarrow> (''deactivateApiKey'', requiresRole RoleDeveloper (Resolver_deactivateAPIKey rv))
    | RequestExport inp \<Rightarrow>
        (''requestUsageExport'', requiresFeature ''usage.export'' (Resolver_requestUsageExport rv)))"

definition time_field :: "string \<Rightarrow> time option \<Rightarrow> (string \<times> arg) list" where
  "time_field k t = (case t of None \<Rightarrow> [] | Some x \<Rightarrow> [(k, ATime x)])"

definition graphql_args :: "shared_op \<Rightarrow> (string \<times> arg) list" where
  "graphql_args op = (case op of
      ChangeRole i role \<Rightarrow> [(''input'', AObj [(''userId'', AStr i), (''role'', AStr role)])]
    | RenameTenant n \<Rightarrow> [(''input'', AObj [(''name'', AStr n)])]
    | GenerateKey n \<Rightarrow> [(''input'', AObj [(''name'', AStr n)])]
    | RotateKey i \<Rightarrow> [(''id'', AStr i)]
    | DeactivateKey i \<Rightarrow> [(''id'', AStr i)]
    | RequestExport inp \<Rightarrow> [(''input'', AObj ([(''endpoint'', AStr (re_Endpoint inp)),
        (''method'', AStr (re_Method inp))] @ time_field ''from'' (re_From inp) @ time_field ''to'' (re_To inp)))])"

lemma rest_route_registered:
  "route_of (fst (rest_route op)) (snd (rest_route op)) (rest_handler d op) \<in> set (tenant_routes d)"
  by (cases op) (simp_all add: rest_route_def rest_handler_def tenant_routes_def Let_def)

lemma graphql_field_declared: "graphql_field rv op \<in> set (mutation_fields rv)"
  by (cases op) (simp_all add: graphql_field_def mutation_fields_def)

section \<open>The same call behind both\<close>

text \<open>
  An outcome of a service, as the two transports report it: a status there, a value or an error here,
  and no change beyond what the service has done but in the audit log.
\<close>

definition rest_reports :: "int \<Rightarrow> (goerr + 'a) \<times> world \<Rightarrow> (goerr \<Rightarrow> int) \<Rightarrow> string option \<times> RW \<times> world \<Rightarrow> bool" where
  "rest_reports ok out code res \<longleftrightarrow> fst res = None
     \<and> rw_Status (fst (snd res)) = Some (case fst out of Inl e \<Rightarrow> code e | Inr x \<Rightarrow> ok)
     \<and> audit_grown (tabs (snd out)) (tabs (snd (snd res)))"

definition graphql_reports :: "(goerr + 'a) \<times> world \<Rightarrow> (goerr \<Rightarrow> int) \<Rightarrow> (goerr + gval) \<times> rstate \<Rightarrow> bool" where
  "graphql_reports out code res \<longleftrightarrow>
     (case fst out of Inl e \<Rightarrow> \<exists>e'. fst res = Inl e' \<and> Status (From e') = code e | Inr x \<Rightarrow> \<exists>v. fst res = Inr v)
     \<and> audit_grown (tabs (snd out)) (tabs (fst (snd res)))"

definition apart_from_audit :: "tables \<Rightarrow> tables \<Rightarrow> bool" where
  "apart_from_audit a b \<longleftrightarrow> a\<lparr>audit_logs := []\<rparr> = b\<lparr>audit_logs := []\<rparr>"

definition agree :: "int \<Rightarrow> string option \<times> RW \<times> world \<Rightarrow> (goerr + gval) \<times> rstate \<Rightarrow> bool" where
  "agree ok rest gql \<longleftrightarrow> fst rest = None
     \<and> rw_Status (fst (snd rest)) = Some (case fst gql of Inl e \<Rightarrow> Status (From e) | Inr v \<Rightarrow> ok)
     \<and> apart_from_audit (tabs (snd (snd rest))) (tabs (fst (snd gql)))"

lemma audit_grown_apart: "audit_grown a b \<Longrightarrow> audit_grown a c \<Longrightarrow> apart_from_audit b c"
  by (auto simp: audit_grown_def apart_from_audit_def)

lemma reports_agree:
  assumes "rest_reports ok out code rest" "graphql_reports out code gql"
  shows "agree ok rest gql"
  using assms audit_grown_apart
  by (fastforce simp: rest_reports_def graphql_reports_def agree_def split: sum.splits)

lemma graphql_call:
  "graphql_reports (S w) (\<lambda>e. Status (From (g e)))
     (bind_op (map_err g (on_world S)) (\<lambda>x. bind_op (Resolver_audit p ev (meta x)) (\<lambda>_. ret (val x))) (w, l))"
  using AuditService_Record_grown(1)
  by (cases "S w") (auto simp: graphql_reports_def bind_op_def map_err_def on_world_def Resolver_audit_def ret_def
      split: sum.splits)

lemma graphql_call_plain:
  "graphql_reports (S w) (\<lambda>e. Status (From e))
     (bind_op (on_world S) (\<lambda>x. bind_op (Resolver_audit p ev (meta x)) (\<lambda>_. ret (val x))) (w, l))"
  using AuditService_Record_grown(1)
  by (cases "S w") (auto simp: graphql_reports_def bind_op_def on_world_def Resolver_audit_def ret_def split: sum.splits)

lemmas rest_simps = rest_reports_def answer_def AuditService_Record_grown(1) response_Fail_def response_OK_def
  response_OKWithRequest_def response_Created_def response_Accepted_def response_plain_def response_JSON_def
  response_InternalError_def response_NotFound_def response_Err_def Let_def

lemma rest_service:
  assumes "rest_asks op r" "rw_Status rw = None" "AuthFromContext r = Some ac"
  shows "op = ChangeRole i role \<Longrightarrow> rest_reports 200 (UserService_UpdateRole (sv_users h) (ScopeFromContext r) i role w)
           (\<lambda>e. Status (From e)) (UserHandler_UpdateRole h r rw w)"
    and "op = RenameTenant n \<Longrightarrow> rest_reports 200
           (TenantService_UpdateForScope (sv_tenants h) (ScopeFromContext r) (TenantID (ScopeFromContext r)) \<lparr>us_Name = Some n\<rparr> w)
           (\<lambda>e. Status (From e)) (TenantHandler_Update h r rw w)"
    and "op = GenerateKey n \<Longrightarrow> rest_reports 201
           (APIKeyService_Generate (sv_prefix h) (ac_TenantID ac) (strPtrOrNil (ac_UserID ac)) n w)
           (\<lambda>e. 500) (APIKeyHandler_Generate h r rw w)"
    and "op = RotateKey i \<Longrightarrow> rest_reports 200
           (APIKeyService_Rotate (sv_prefix h) (ac_TenantID ac) i (strPtrOrNil (ac_UserID ac)) w)
           (\<lambda>e. if errors_Is e ErrAPIKeyNotFound then 404 else 500) (APIKeyHandler_Rotate h r rw w)"
    and "op = DeactivateKey i \<Longrightarrow> rest_reports 200 (APIKeyService_Deactivate (ac_TenantID ac) i w)
           (\<lambda>e. if errors_Is e ErrAPIKeyNotFound then 404 else 500) (APIKeyHandler_Deactivate h r rw w)"
    and "op = RequestExport inp \<Longrightarrow> rest_reports 202 (ExportService_Request (sv_exports h) (ScopeFromContext r) inp w)
           (\<lambda>e. Status (From e)) (ExportHandler_Create h r rw w)"
proof -
  note asks = assms(1) [unfolded rest_asks_def]
  have zero: "AuthOrZero r = ac" using assms(3) by (simp add: AuthOrZero_def)
  show "op = ChangeRole i role \<Longrightarrow> rest_reports 200 (UserService_UpdateRole (sv_users h) (ScopeFromContext r) i role w)
           (\<lambda>e. Status (From e)) (UserHandler_UpdateRole h r rw w)"
    using asks assms(2)
    by (cases "UserService_UpdateRole (sv_users h) (ScopeFromContext r) i role w")
      (auto simp: UserHandler_UpdateRole_def rest_simps auditIfCrossTenant_def split: sum.splits)
  show "op = RenameTenant n \<Longrightarrow> rest_reports 200
           (TenantService_UpdateForScope (sv_tenants h) (ScopeFromContext r) (TenantID (ScopeFromContext r)) \<lparr>us_Name = Some n\<rparr> w)
           (\<lambda>e. Status (From e)) (TenantHandler_Update h r rw w)"
    using asks assms(2)
    by (cases "TenantService_UpdateForScope (sv_tenants h) (ScopeFromContext r) (TenantID (ScopeFromContext r))
          \<lparr>us_Name = Some n\<rparr> w")
      (auto simp: TenantHandler_Update_def rest_simps split: sum.splits)
  show "op = GenerateKey n \<Longrightarrow> rest_reports 201
           (APIKeyService_Generate (sv_prefix h) (ac_TenantID ac) (strPtrOrNil (ac_UserID ac)) n w)
           (\<lambda>e. 500) (APIKeyHandler_Generate h r rw w)"
    using asks assms(2)
    by (cases "APIKeyService_Generate (sv_prefix h) (ac_TenantID ac) (strPtrOrNil (ac_UserID ac)) n w")
      (auto simp: APIKeyHandler_Generate_def rest_simps zero split: sum.splits)
  show "op = RotateKey i \<Longrightarrow> rest_reports 200
           (APIKeyService_Rotate (sv_prefix h) (ac_TenantID ac) i (strPtrOrNil (ac_UserID ac)) w)
           (\<lambda>e. if errors_Is e ErrAPIKeyNotFound then 404 else 500) (APIKeyHandler_Rotate h r rw w)"
    using asks assms(2)
    by (cases "APIKeyService_Rotate (sv_prefix h) (ac_TenantID ac) i (strPtrOrNil (ac_UserID ac)) w")
      (auto simp: APIKeyHandler_Rotate_def APIKeyHandler_handleError_def rest_simps zero split: sum.splits)
  show "op = DeactivateKey i \<Longrightarrow> rest_reports 200 (APIKeyService_Deactivate (ac_TenantID ac) i w)
           (\<lambda>e. if errors_Is e ErrAPIKeyNotFound then 404 else 500) (APIKeyHandler_Deactivate h r rw w)"
    using asks assms(2)
    by (cases "APIKeyService_Deactivate (ac_TenantID ac) i w")
      (auto simp: APIKeyHandler_Deactivate_def APIKeyHandler_handleError_def rest_simps zero split: sum.splits)
  show "op = RequestExport inp \<Longrightarrow> rest_reports 202 (ExportService_Request (sv_exports h) (ScopeFromContext r) inp w)
           (\<lambda>e. Status (From e)) (ExportHandler_Create h r rw w)"
    using asks assms(2)
    by (cases "ExportService_Request (sv_exports h) (ScopeFromContext r) inp w"; cases inp)
      (auto simp: ExportHandler_Create_def rest_simps split: sum.splits prod.splits)
qed

lemma mapAPIKeyError_status:
  "Status (From (mapAPIKeyError e)) = (if errors_Is e ErrAPIKeyNotFound then 404 else 500)"
  by (simp add: mapAPIKeyError_def From_def apierr_ctors)

lemma time_field_arg:
  "time_arg ([(''endpoint'', a), (''method'', b)] @ time_field ''from'' f @ time_field ''to'' t) ''from'' = f"
  "time_arg ([(''endpoint'', a), (''method'', b)] @ time_field ''from'' f @ time_field ''to'' t) ''to'' = t"
  by (auto simp: time_arg_def time_field_def split: option.splits)

lemma graphql_service:
  assumes "rp_Args p = graphql_args op" "AuthFromContext (rp_Request p) = Some ac"
  shows "op = ChangeRole i role \<Longrightarrow> graphql_reports
           (UserService_UpdateRole (sv_users (rv_services rv)) (scope_of p) i role w)
           (\<lambda>e. Status (From e)) (Resolver_updateUserRole rv p (w, l))"
    and "op = RenameTenant n \<Longrightarrow> graphql_reports
           (TenantService_UpdateForScope (sv_tenants (rv_services rv)) (scope_of p) (TenantID (scope_of p)) \<lparr>us_Name = Some n\<rparr> w)
           (\<lambda>e. Status (From e)) (Resolver_updateTenant rv p (w, l))"
    and "op = GenerateKey n \<Longrightarrow> graphql_reports
           (APIKeyService_Generate (sv_prefix (rv_services rv)) (ac_TenantID ac) (strPtrOrNil (ac_UserID ac)) n w)
           (\<lambda>e. 500) (Resolver_generateAPIKey rv p (w, l))"
    and "op = RotateKey i \<Longrightarrow> graphql_reports
           (APIKeyService_Rotate (sv_prefix (rv_services rv)) (ac_TenantID ac) i (strPtrOrNil (ac_UserID ac)) w)
           (\<lambda>e. if errors_Is e ErrAPIKeyNotFound then 404 else 500) (Resolver_rotateAPIKey rv p (w, l))"
    and "op = DeactivateKey i \<Longrightarrow> graphql_reports (APIKeyService_Deactivate (ac_TenantID ac) i w)
           (\<lambda>e. if errors_Is e ErrAPIKeyNotFound then 404 else 500) (Resolver_deactivateAPIKey rv p (w, l))"
    and "op = RequestExport inp \<Longrightarrow> graphql_reports
           (ExportService_Request (sv_exports (rv_services rv)) (scope_of p) inp w)
           (\<lambda>e. Status (From e)) (Resolver_requestUsageExport rv p (w, l))"
proof -
  have scope: "TenantID (scope_of p) = ac_TenantID ac" "UserID (scope_of p) = ac_UserID ac"
    using assms(2) by (simp_all add: ScopeFromContext_def)
  have ptr: "ptr s = strPtrOrNil s" for s by (simp add: ptr_def strPtrOrNil_def)
  show "op = ChangeRole i role \<Longrightarrow> graphql_reports
           (UserService_UpdateRole (sv_users (rv_services rv)) (scope_of p) i role w)
           (\<lambda>e. Status (From e)) (Resolver_updateUserRole rv p (w, l))"
    using assms(1) unfolding Resolver_updateUserRole_def Let_def
    by (simp add: graphql_args_def input_arg_def str_arg_def) (rule graphql_call_plain)
  show "op = RenameTenant n \<Longrightarrow> graphql_reports
           (TenantService_UpdateForScope (sv_tenants (rv_services rv)) (scope_of p) (TenantID (scope_of p)) \<lparr>us_Name = Some n\<rparr> w)
           (\<lambda>e. Status (From e)) (Resolver_updateTenant rv p (w, l))"
    using assms(1) unfolding Resolver_updateTenant_def Let_def
    by (simp add: graphql_args_def input_arg_def) (rule graphql_call_plain)
  show "op = GenerateKey n \<Longrightarrow> graphql_reports
           (APIKeyService_Generate (sv_prefix (rv_services rv)) (ac_TenantID ac) (strPtrOrNil (ac_UserID ac)) n w)
           (\<lambda>e. 500) (Resolver_generateAPIKey rv p (w, l))"
    using assms(1) graphql_call [where g = "\<lambda>err. Api (Wrap (Internal ''failed to generate the API key'') err)"]
    unfolding Resolver_generateAPIKey_def Let_def scope split_beta ptr
    by (simp add: graphql_args_def input_arg_def str_arg_def From_def apierr_ctors)
  show "op = RotateKey i \<Longrightarrow> graphql_reports
           (APIKeyService_Rotate (sv_prefix (rv_services rv)) (ac_TenantID ac) i (strPtrOrNil (ac_UserID ac)) w)
           (\<lambda>e. if errors_Is e ErrAPIKeyNotFound then 404 else 500) (Resolver_rotateAPIKey rv p (w, l))"
    using assms(1) graphql_call [where g = mapAPIKeyError]
    unfolding Resolver_rotateAPIKey_def Let_def scope split_beta ptr mapAPIKeyError_status
    by (simp add: graphql_args_def str_arg_def)
  show "op = DeactivateKey i \<Longrightarrow> graphql_reports (APIKeyService_Deactivate (ac_TenantID ac) i w)
           (\<lambda>e. if errors_Is e ErrAPIKeyNotFound then 404 else 500) (Resolver_deactivateAPIKey rv p (w, l))"
    using assms(1) graphql_call [where g = mapAPIKeyError]
    unfolding Resolver_deactivateAPIKey_def Let_def scope mapAPIKeyError_status
    by (simp add: graphql_args_def str_arg_def)
  show "op = RequestExport inp \<Longrightarrow> graphql_reports
           (ExportService_Request (sv_exports (rv_services rv)) (scope_of p) inp w)
           (\<lambda>e. Status (From e)) (Resolver_requestUsageExport rv p (w, l))"
    using assms(1) time_field_arg unfolding Resolver_requestUsageExport_def Let_def
    by (cases inp) (simp add: graphql_args_def input_arg_def str_arg_def, rule graphql_call_plain)
qed

section \<open>The checks in front\<close>

lemma AuthFromContext_tenant: "AuthFromContext r = Some ac \<Longrightarrow> ac_TenantID ac \<noteq> []"
  by (auto simp: AuthFromContext_def split: option.splits if_splits)

lemma scope_valid: "AuthFromContext r = Some ac \<Longrightarrow> Scope_Valid (ScopeFromContext r)"
  using AuthFromContext_tenant by (simp add: Scope_Valid_def ScopeFromContext_def)

lemma role_agree:
  assumes "AuthFromContext r = Some ac" "AuthFromContext (rp_Request p) = Some ac" "rw_Status rw = None"
    and "agree ok (H r rw w) (f p (w, l))"
  shows "agree ok (RequireRole m H r rw w) (requiresRole m f p (w, l))"
proof (cases "RoleAtLeast (ac_Role ac) m")
  case True
  with assms scope_valid [OF assms(2)] show ?thesis
    by (simp add: RequireRole_def requiresRole_def requireAuth_def Let_def ScopeFromContext_def)
next
  case False
  have "apart_from_audit (tabs (AuditService_Record i w)) (tabs (AuditService_Record j w))" for i j
    by (rule audit_grown_apart [OF AuditService_Record_grown(1) AuditService_Record_grown(1)])
  with False assms(1-3) scope_valid [OF assms(2)] show ?thesis
    by (simp add: agree_def RequireRole_def requiresRole_def requireAuth_def Let_def ScopeFromContext_def bind_op_def
        Resolver_auditDenial_def on_world_def fail_def response_Fail_def)
qed

lemma feature_agree:
  assumes "AuthFromContext r = Some ac" "AuthFromContext (rp_Request p) = Some ac" "rw_Status rw = None"
    and "\<And>w. agree ok (H r rw w) (f p (w, l))"
  shows "agree ok (RequireFeature EntitlementService_HasFeature k H r rw w) (requiresFeature k f p (w, l))"
proof -
  obtain q w1 where has: "EntitlementService_HasFeature (ac_TenantID ac) (ac_TenantPlan ac) k w = (q, w1)" by fastforce
  have "apart_from_audit (tabs (AuditService_Record i w1)) (tabs (AuditService_Record j w1))" for i j
    by (rule audit_grown_apart [OF AuditService_Record_grown(1) AuditService_Record_grown(1)])
  moreover have "apart_from_audit (tabs w1) (tabs w1)" by (simp add: apart_from_audit_def)
  ultimately show ?thesis
    using assms scope_valid [OF assms(2)] has
    by (cases q) (auto simp: agree_def RequireFeature_def requiresFeature_def requireAuth_def bind_op_def map_err_def
        on_world_def Resolver_auditDenial_def fail_def response_Fail_def From_def Let_def)
qed

section \<open>Agreement\<close>

text \<open>C20. A change asked for over REST and over GraphQL by the same caller on the same database comes to
  the same: the same checks of role and feature refuse it, the same service answers it, with the same
  status of an error, and the two leave the same rows in every table but the audit log.
\<close>

theorem transports_agree:
  assumes "rv_services rv = d_services d" "d_entitlements d = EntitlementService_HasFeature"
    and "AuthFromContext r = Some ac" "AuthFromContext (rp_Request p) = Some ac" "rw_Status rw = None"
    and "rest_asks op r" "rp_Args p = graphql_args op"
  shows "agree (rest_success op) (rest_handler d op r rw w) (snd (graphql_field rv op) p (w, l))"
proof -
  have scope: "scope_of p = ScopeFromContext r" using assms(3,4) by (simp add: ScopeFromContext_def)
  note rest = rest_service [where h = "d_services d", OF assms(6,5,3)]
    and gql = graphql_service [where rv = rv, OF assms(7,4), unfolded scope assms(1)]
  note both = reports_agree [OF rest(1) gql(1)] reports_agree [OF rest(2) gql(2)] reports_agree [OF rest(3) gql(3)]
    reports_agree [OF rest(4) gql(4)] reports_agree [OF rest(5) gql(5)] reports_agree [OF rest(6) gql(6)]
  show ?thesis
    unfolding rest_handler_def graphql_field_def rest_success_def assms(2) Let_def
    by (cases op) (simp_all add: both role_agree [OF assms(3-5)] feature_agree [OF assms(3-5)])
qed

definition sample_caller :: "Role \<Rightarrow> string \<Rightarrow> string \<Rightarrow> Request" where
  "sample_caller role m path = withAuth (sample_request m path []) (sample_ac\<lparr>ac_Role := role\<rparr>)"

theorem transports_agree_witness:
  "agree 200 (rest_handler sample_deps (ChangeRole ''u2'' RoleViewer)
        ((sample_caller RoleAdmin ''PATCH'' ''/api/v1/users/u2/role'')
           \<lparr>r_PathValue := (\<lambda>k. ''u2''), r_Body := ([JObj [(''role'', JStr RoleViewer)]], None)\<rparr>)
        sample_rw sample_world)
      (requiresRole RoleAdmin (Resolver_updateUserRole sample_resolver)
        \<lparr>rp_Request = sample_caller RoleAdmin ''POST'' ''/graphql'',
         rp_Args = [(''input'', AObj [(''userId'', AStr ''u2''), (''role'', AStr RoleViewer)])],
         rp_FieldName = ''updateUserRole'', rp_Source = GNil\<rparr> (sample_world, None))"
proof -
  let ?op = "ChangeRole ''u2'' RoleViewer"
  let ?r = "(sample_caller RoleAdmin ''PATCH'' ''/api/v1/users/u2/role'')
           \<lparr>r_PathValue := (\<lambda>k. ''u2''), r_Body := ([JObj [(''role'', JStr RoleViewer)]], None)\<rparr>"
  let ?p = "\<lparr>rp_Request = sample_caller RoleAdmin ''POST'' ''/graphql'',
         rp_Args = [(''input'', AObj [(''userId'', AStr ''u2''), (''role'', AStr RoleViewer)])],
         rp_FieldName = ''updateUserRole'', rp_Source = GNil\<rparr>"
  have deps: "rv_services sample_resolver = d_services sample_deps" "d_entitlements sample_deps = EntitlementService_HasFeature"
    by (simp_all add: sample_resolver_def sample_deps_def)
  have auth: "AuthFromContext ?r = Some (sample_ac\<lparr>ac_Role := RoleAdmin\<rparr>)"
    "AuthFromContext (rp_Request ?p) = Some (sample_ac\<lparr>ac_Role := RoleAdmin\<rparr>)" "rw_Status sample_rw = None"
    by (simp_all add: sample_caller_def AuthFromContext_def withAuth_def sample_ac_def sample_rw_def)
  have asks: "rest_asks ?op ?r"
    by code_simp
  have args: "rp_Args ?p = graphql_args ?op" by (simp add: graphql_args_def)
  from transports_agree [OF deps auth asks args] show ?thesis
    by (simp only: rest_success_def graphql_field_def shared_op.case snd_conv)
qed

text \<open>
  Two reads do not agree: the routes of the audit trail and of the list of API keys have no check of
  the role, while the fields of the same data require a developer. A viewer reads over REST what
  GraphQL refuses.
\<close>

theorem viewer_reads_differ:
  "route_of ''GET'' ''/api/v1/audit'' (AuditHandler_List (d_services d)) \<in> set (tenant_routes d)
    \<and> route_of ''GET'' ''/api/v1/apikeys'' (APIKeyHandler_List (d_services d)) \<in> set (tenant_routes d)
    \<and> rw_Status (fst (snd (AuditHandler_List sample_services (sample_caller RoleViewer ''GET'' ''/api/v1/audit'')
         sample_rw sample_world))) = Some 200
    \<and> rw_Status (fst (snd (APIKeyHandler_List sample_services (sample_caller RoleViewer ''GET'' ''/api/v1/apikeys'')
         sample_rw sample_world))) = Some 200
    \<and> (\<forall>f \<in> {Resolver_auditLogs sample_resolver, Resolver_apiKeys sample_resolver}.
         \<exists>e. fst (requiresRole RoleDeveloper f \<lparr>rp_Request = sample_caller RoleViewer ''POST'' ''/graphql'',
            rp_Args = [], rp_FieldName = ''auditLogs'', rp_Source = GNil\<rparr> (sample_world, None)) = Inl e
           \<and> Status (From e) = 403)"
proof (intro conjI)
  show "route_of ''GET'' ''/api/v1/audit'' (AuditHandler_List (d_services d)) \<in> set (tenant_routes d)"
    "route_of ''GET'' ''/api/v1/apikeys'' (APIKeyHandler_List (d_services d)) \<in> set (tenant_routes d)"
    by (simp_all add: tenant_routes_def Let_def)
  show "rw_Status (fst (snd (AuditHandler_List sample_services (sample_caller RoleViewer ''GET'' ''/api/v1/audit'')
         sample_rw sample_world))) = Some 200" by code_simp
  show "rw_Status (fst (snd (APIKeyHandler_List sample_services (sample_caller RoleViewer ''GET'' ''/api/v1/apikeys'')
         sample_rw sample_world))) = Some 200" by code_simp
  have low: "\<not> RoleAtLeast RoleViewer RoleDeveloper" by code_simp
  show "\<forall>f \<in> {Resolver_auditLogs sample_resolver, Resolver_apiKeys sample_resolver}.
         \<exists>e. fst (requiresRole RoleDeveloper f \<lparr>rp_Request = sample_caller RoleViewer ''POST'' ''/graphql'',
            rp_Args = [], rp_FieldName = ''auditLogs'', rp_Source = GNil\<rparr> (sample_world, None)) = Inl e
           \<and> Status (From e) = 403"
    using low by (simp add: requiresRole_def requireAuth_def Let_def sample_caller_def ScopeFromContext_def
        AuthFromContext_def withAuth_def sample_ac_def Scope_Valid_def bind_op_def Resolver_auditDenial_def
        on_world_def fail_def From_def apierr_ctors)
qed

end
