(* ===== verification/Config.thy ===== *)
theory Config
  imports Middleware
begin

text \<open>
  \<^verbatim>\<open>internal/config\<close>: the configuration, resolved once from the process environment and refused if
  it would not be safe. The environment is a map from names to values; the optional \<^verbatim>\<open>.env\<close> file
  (package \<^verbatim>\<open>godotenv\<close>) has already been merged into it.
\<close>

type_synonym environment = "string \<Rightarrow> string option"

definition EnvDevelopment :: string where [const_defs]: "EnvDevelopment = ''development''"
definition EnvStaging :: string where [const_defs]: "EnvStaging = ''staging''"
definition EnvProduction :: string where [const_defs]: "EnvProduction = ''production''"

definition defaultAccessSecret :: string where
  [const_defs]: "defaultAccessSecret = ''dev-access-secret-change-me''"

definition defaultRefreshSecret :: string where
  [const_defs]: "defaultRefreshSecret = ''dev-refresh-secret-change-me''"

definition minProductionSecretLength :: nat where
  [const_defs]: "minProductionSecretLength = 32"

record DatabaseConfig =
  db_Host :: string
  db_Port :: string
  db_User :: string
  db_Password :: string
  db_Name :: string
  db_SSLMode :: string
  db_MaxOpenConns :: int
  db_MaxIdleConns :: int
  db_ConnMaxLifetime :: duration
  db_ConnMaxIdleTime :: duration

definition DSN :: "DatabaseConfig \<Rightarrow> string" where
  "DSN d = ''host='' @ db_Host d @ '' port='' @ db_Port d @ '' user='' @ db_User d
     @ '' password='' @ db_Password d @ '' dbname='' @ db_Name d @ '' sslmode='' @ db_SSLMode d"

record RedisConfig =
  rd_Addr :: string
  rd_Password :: string
  rd_DB :: int
  rd_TLS :: bool

record JWTConfig =
  jw_AccessSecret :: string
  jw_RefreshSecret :: string
  jw_AccessTokenTTL :: duration
  jw_RefreshTokenTTL :: duration
  jw_Issuer :: string

definition AllowsAll :: "CORSConfig \<Rightarrow> bool" where
  "AllowsAll c \<longleftrightarrow> ''*'' \<in> set (AllowedOrigins c)"

record GraphQLConfig =
  gq_Path :: string
  gq_MaxDepth :: int
  gq_MaxComplexity :: int
  gq_MaxQueryBytes :: int
  gq_EnablePlayground :: bool
  gq_EnableIntrospection :: bool

record ExportConfig =
  ex_Backend :: string
  ex_LocalDir :: string
  ex_S3Bucket :: string
  ex_S3Prefix :: string
  ex_DownloadTTL :: duration
  ex_SigningKey :: string
  ex_RunInProcessWorker :: bool
  ex_WorkerPollInterval :: duration
  ex_WorkerBatchSize :: int
  ex_MaxRows :: int
  ex_MaxAttempts :: int
  ex_SQSQueueURL :: string

record AWSConfig =
  aw_Region :: string
  aw_AccessKeyID :: string
  aw_SecretAccessKey :: string
  aw_SessionToken :: string
  aw_S3Endpoint :: string
  aw_SecretsManagerSecretID :: string

record Config =
  cf_Env :: string
  cf_Port :: string
  cf_DB :: DatabaseConfig
  cf_Redis :: RedisConfig
  cf_JWT :: JWTConfig
  cf_CORS :: CORSConfig
  cf_GraphQL :: GraphQLConfig
  cf_Exports :: ExportConfig
  cf_AWS :: AWSConfig
  cf_APIKeyPrefix :: string
  cf_PlatformAdminToken :: string
  cf_RateLimitRequestsPerMinute :: int
  cf_MaxPageSize :: int
  cf_DefaultPageSize :: int
  cf_ExposeDevTools :: bool
  cf_Version :: string
  cf_BuildTime :: string
  cf_GitCommit :: string

section \<open>Reading the environment\<close>

definition getEnv :: "environment \<Rightarrow> string \<Rightarrow> string \<Rightarrow> string" where
  "getEnv env key fallback = (case env key of
      Some v \<Rightarrow> if v \<noteq> '''' then v else fallback
    | None \<Rightarrow> fallback)"

text \<open>The three typed readers: a missing, empty or unreadable value is the fallback.\<close>

definition getEnvParsed :: "(string \<Rightarrow> 'a option) \<Rightarrow> environment \<Rightarrow> string \<Rightarrow> 'a \<Rightarrow> 'a" where
  "getEnvParsed parse env key fallback = (case env key of
      None \<Rightarrow> fallback
    | Some v \<Rightarrow> if v = '''' then fallback
        else (case parse v of None \<Rightarrow> fallback | Some x \<Rightarrow> x))"

definition getEnvInt :: "environment \<Rightarrow> string \<Rightarrow> int \<Rightarrow> int" where
  "getEnvInt = getEnvParsed Atoi"

text \<open>\<open>strconv.ParseBool\<close>.\<close>

definition ParseBool :: "string \<Rightarrow> bool option" where
  "ParseBool s =
     (if s \<in> {''1'', ''t'', ''T'', ''true'', ''TRUE'', ''True''} then Some True
      else if s \<in> {''0'', ''f'', ''F'', ''false'', ''FALSE'', ''False''} then Some False
      else None)"

definition getEnvBool :: "environment \<Rightarrow> string \<Rightarrow> bool \<Rightarrow> bool" where
  "getEnvBool = getEnvParsed ParseBool"

text \<open>
  \<open>time.ParseDuration\<close>: numbers with a unit each, one after the other. The value of a fraction is
  exact here, where the library multiplies in floating point; the bound is that of an int64.
\<close>

definition duration_unit :: "string \<Rightarrow> int option" where
  "duration_unit u = map_of [(''ns'', 1), (''us'', 1000), ([CHR 0xC2, CHR 0xB5, CHR ''s''], 1000),
     ([CHR 0xCE, CHR 0xBC, CHR ''s''], 1000), (''ms'', 1000000), (''s'', second), (''m'', minute),
     (''h'', hour)] u"

function parse_units :: "string \<Rightarrow> int \<Rightarrow> int option" where
  "parse_units s d =
     (if s = '''' then Some d
      else
        (let whole = takeWhile is_digit s;
             s1 = dropWhile is_digit s;
             dot = (s1 \<noteq> '''' \<and> hd s1 = CHR ''.'');
             frac = (if dot then takeWhile is_digit (tl s1) else '''');
             s2 = (if dot then dropWhile is_digit (tl s1) else s1);
             u = takeWhile (\<lambda>c. c \<noteq> CHR ''.'' \<and> \<not> is_digit c) s2;
             s3 = dropWhile (\<lambda>c. c \<noteq> CHR ''.'' \<and> \<not> is_digit c) s2
         in if whole = '''' \<and> frac = '''' \<or> u = '''' then None
            else (case duration_unit u of
                None \<Rightarrow> None
              | Some unit \<Rightarrow>
                  (let d1 = d + int (digits_value whole) * unit
                            + int (digits_value frac) * unit div 10 ^ length frac
                   in if 2 ^ 63 < d1 then None else parse_units s3 d1))))"
  by pat_completeness auto
termination
proof (relation "measure (\<lambda>(s, d). length s)", goal_cases)
  case (2 s d whole s1 dot frac s2 u s3 unit d1)
  have a: "length s1 \<le> length s" unfolding 2(3) by (rule length_dropWhile_le)
  have b: "length s2 \<le> length s1"
    using length_dropWhile_le [of is_digit "tl s1"] by (auto simp: 2(6))
  have "length u + length s3 = length s2"
    unfolding 2(7,8) by (metis length_append takeWhile_dropWhile_id)
  moreover have "u \<noteq> ''''" using 2(9) by blast
  ultimately show ?case using a b by (cases u) auto
qed simp

declare parse_units.simps [simp del]

definition ParseDuration :: "string \<Rightarrow> duration option" where
  "ParseDuration s =
     (let neg = (s \<noteq> '''' \<and> hd s = CHR ''-'');
          s1 = (if s \<noteq> '''' \<and> (hd s = CHR ''-'' \<or> hd s = CHR ''+'') then tl s else s)
      in if s1 = ''0'' then Some 0
         else if s1 = '''' then None
         else (case parse_units s1 0 of
             None \<Rightarrow> None
           | Some d \<Rightarrow> if neg then Some (- d) else if 2 ^ 63 - 1 < d then None else Some d))"

definition getEnvDuration :: "environment \<Rightarrow> string \<Rightarrow> duration \<Rightarrow> duration" where
  "getEnvDuration = getEnvParsed ParseDuration"

definition getEnvList :: "environment \<Rightarrow> string \<Rightarrow> string list \<Rightarrow> string list" where
  "getEnvList env key fallback = (case env key of
      None \<Rightarrow> fallback
    | Some v \<Rightarrow>
        if TrimSpace v = '''' then fallback
        else (let out = filter (\<lambda>p. p \<noteq> '''') (map TrimSpace (Split CHR '','' v))
              in if length out = 0 then fallback else out))"

definition defaultString :: "bool \<Rightarrow> string \<Rightarrow> string \<Rightarrow> string" where
  "defaultString cond whenTrue whenFalse = (if cond then whenTrue else whenFalse)"

section \<open>Validation\<close>

definition IsProduction :: "Config \<Rightarrow> bool" where
  "IsProduction c \<longleftrightarrow> cf_Env c = EnvProduction"

definition problem :: "bool \<Rightarrow> string \<Rightarrow> string list" where
  "problem bad msg = (if bad then [msg] else [])"

text \<open>\<open>%q\<close> of printable text.\<close>

definition quoted :: "string \<Rightarrow> string" where
  "quoted s = dquote (concat (map (\<lambda>c. if c = CHR 0x22 \<or> c = CHR 0x5C then [CHR 0x5C, c] else [c]) s))"

definition general_problems :: "Config \<Rightarrow> string list" where
  "general_problems c =
     problem (cf_Env c \<notin> {EnvDevelopment, EnvStaging, EnvProduction})
       (''APP_ENV must be one of development|staging|production, got '' @ quoted (cf_Env c))
     @ problem (cf_Port c = '''') ''APP_PORT must not be empty''
     @ problem (db_Host (cf_DB c) = '''' \<or> db_Name (cf_DB c) = '''' \<or> db_User (cf_DB c) = '''')
         ''DB_HOST, DB_NAME and DB_USER are required''
     @ problem (db_MaxOpenConns (cf_DB c) < db_MaxIdleConns (cf_DB c))
         ''DB_MAX_IDLE_CONNS must not exceed DB_MAX_OPEN_CONNS''
     @ problem (rd_Addr (cf_Redis c) = '''') ''REDIS_ADDR is required''
     @ problem (cf_RateLimitRequestsPerMinute c \<le> 0) ''RATE_LIMIT_RPM must be greater than 0''
     @ problem (cf_MaxPageSize c \<le> 0) ''MAX_PAGE_SIZE must be greater than 0''
     @ problem (cf_DefaultPageSize c \<le> 0 \<or> cf_MaxPageSize c < cf_DefaultPageSize c)
         ''DEFAULT_PAGE_SIZE must be in (0, MAX_PAGE_SIZE]''
     @ problem (gq_MaxDepth (cf_GraphQL c) \<le> 0) ''GRAPHQL_MAX_DEPTH must be greater than 0''
     @ problem (gq_MaxComplexity (cf_GraphQL c) \<le> 0) ''GRAPHQL_MAX_COMPLEXITY must be greater than 0''
     @ problem (gq_MaxQueryBytes (cf_GraphQL c) \<le> 0) ''GRAPHQL_MAX_QUERY_BYTES must be greater than 0''
     @ problem (\<not> HasPrefix (gq_Path (cf_GraphQL c)) ''/'') ''GRAPHQL_PATH must start with /''
     @ problem (jw_AccessTokenTTL (cf_JWT c) \<le> 0 \<or> jw_RefreshTokenTTL (cf_JWT c) \<le> 0)
         ''JWT TTLs must be positive durations''
     @ problem (jw_RefreshTokenTTL (cf_JWT c) \<le> jw_AccessTokenTTL (cf_JWT c))
         ''JWT_ACCESS_TTL must be shorter than JWT_REFRESH_TTL''
     @ problem (jw_AccessSecret (cf_JWT c) = jw_RefreshSecret (cf_JWT c))
         (''JWT_ACCESS_SECRET and JWT_REFRESH_SECRET must differ, '' @
          ''so a refresh token can never be replayed as an access token'')
     @ problem (cf_APIKeyPrefix c = '''') ''API_KEY_PREFIX must not be empty''
     @ problem (cf_PlatformAdminToken c \<noteq> '''' \<and> length (cf_PlatformAdminToken c) < 24)
         ''PLATFORM_ADMIN_TOKEN must be at least 24 characters when set''"

definition export_problems :: "Config \<Rightarrow> string list" where
  "export_problems c =
     (let e = cf_Exports c in
      (if ex_Backend e = ''local'' then
         problem (ex_LocalDir e = '''') ''EXPORT_LOCAL_DIR is required when EXPORT_BACKEND=local''
       else if ex_Backend e = ''s3'' then
         problem (ex_S3Bucket e = '''') ''EXPORT_S3_BUCKET is required when EXPORT_BACKEND=s3''
         @ problem (aw_Region (cf_AWS c) = '''') ''AWS_REGION is required when EXPORT_BACKEND=s3''
       else [''EXPORT_BACKEND must be local|s3, got '' @ quoted (ex_Backend e)])
      @ problem (ex_MaxRows e \<le> 0) ''EXPORT_MAX_ROWS must be greater than 0''
      @ problem (ex_MaxAttempts e \<le> 0) ''EXPORT_MAX_ATTEMPTS must be greater than 0''
      @ problem (ex_DownloadTTL e \<le> 0) ''EXPORT_DOWNLOAD_TTL must be a positive duration'')"

definition production_problems :: "Config \<Rightarrow> string list" where
  "production_problems c =
     (let j = cf_JWT c; d = cf_DB c; g = cf_GraphQL c in
      problem (jw_AccessSecret j = defaultAccessSecret \<or> jw_RefreshSecret j = defaultRefreshSecret)
        ''refusing to start in production with the default JWT secrets''
      @ problem (length (jw_AccessSecret j) < minProductionSecretLength
                 \<or> length (jw_RefreshSecret j) < minProductionSecretLength)
          (''production JWT secrets must be at least '' @ Itoa (int minProductionSecretLength)
             @ '' characters'')
      @ problem (AllowsAll (cf_CORS c))
          (''refusing to start in production with wildcard CORS; '' @
           ''set CORS_ALLOWED_ORIGINS explicitly'')
      @ problem (db_SSLMode d = ''disable'')
          ''refusing to start in production with DB_SSLMODE=disable''
      @ problem (db_Password d = ''bridgecore'' \<or> db_Password d = '''')
          ''refusing to start in production with the default or empty database password''
      @ problem (gq_EnableIntrospection g)
          (''GraphQL introspection must be disabled in production '' @
           ''(set GRAPHQL_INTROSPECTION=false)'')
      @ problem (gq_EnablePlayground g)
          (''the GraphQL playground must be disabled in production '' @
           ''(set GRAPHQL_PLAYGROUND=false)''))"

definition Validate :: "Config \<Rightarrow> goerr option" where
  "Validate c =
     (let problems = general_problems c @ export_problems c
                     @ (if IsProduction c then production_problems c else [])
      in if length problems = 0 then None
         else Some (PlainErr (''config: invalid configuration:'' @ [CHR 0x0A] @ ''  - ''
                @ Join problems ([CHR 0x0A] @ ''  - ''))))"

section \<open>Loading\<close>

definition load_DB :: "environment \<Rightarrow> bool \<Rightarrow> DatabaseConfig" where
  "load_DB env isProd = \<lparr>
     db_Host = getEnv env ''DB_HOST'' ''localhost'',
     db_Port = getEnv env ''DB_PORT'' ''5432'',
     db_User = getEnv env ''DB_USER'' ''bridgecore'',
     db_Password = getEnv env ''DB_PASSWORD'' ''bridgecore'',
     db_Name = getEnv env ''DB_NAME'' ''bridgecore'',
     db_SSLMode = getEnv env ''DB_SSLMODE'' (defaultString isProd ''require'' ''disable''),
     db_MaxOpenConns = getEnvInt env ''DB_MAX_OPEN_CONNS'' 25,
     db_MaxIdleConns = getEnvInt env ''DB_MAX_IDLE_CONNS'' 10,
     db_ConnMaxLifetime = getEnvDuration env ''DB_CONN_MAX_LIFETIME'' (30 * minute),
     db_ConnMaxIdleTime = getEnvDuration env ''DB_CONN_MAX_IDLE_TIME'' (5 * minute)\<rparr>"

definition load_Redis :: "environment \<Rightarrow> RedisConfig" where
  "load_Redis env = \<lparr>
     rd_Addr = getEnv env ''REDIS_ADDR'' ''localhost:6379'',
     rd_Password = getEnv env ''REDIS_PASSWORD'' '''',
     rd_DB = getEnvInt env ''REDIS_DB'' 0,
     rd_TLS = getEnvBool env ''REDIS_TLS'' False\<rparr>"

definition load_JWT :: "environment \<Rightarrow> JWTConfig" where
  "load_JWT env = \<lparr>
     jw_AccessSecret = getEnv env ''JWT_ACCESS_SECRET'' defaultAccessSecret,
     jw_RefreshSecret = getEnv env ''JWT_REFRESH_SECRET'' defaultRefreshSecret,
     jw_AccessTokenTTL = getEnvDuration env ''JWT_ACCESS_TTL'' (15 * minute),
     jw_RefreshTokenTTL = getEnvDuration env ''JWT_REFRESH_TTL'' (7 * 24 * hour),
     jw_Issuer = getEnv env ''JWT_ISSUER'' ''bridgecore''\<rparr>"

definition load_CORS :: "environment \<Rightarrow> CORSConfig" where
  "load_CORS env = \<lparr>
     AllowedOrigins = getEnvList env ''CORS_ALLOWED_ORIGINS'' [''*''],
     AllowedMethods = getEnvList env ''CORS_ALLOWED_METHODS''
       [''GET'', ''POST'', ''PUT'', ''PATCH'', ''DELETE'', ''OPTIONS''],
     AllowedHeaders = getEnvList env ''CORS_ALLOWED_HEADERS''
       [''Content-Type'', ''Authorization'', ''X-API-Key'', ''X-Request-ID''],
     MaxAge = getEnvDuration env ''CORS_MAX_AGE'' (10 * minute)\<rparr>"

definition load_GraphQL :: "environment \<Rightarrow> bool \<Rightarrow> GraphQLConfig" where
  "load_GraphQL env isProd = \<lparr>
     gq_Path = getEnv env ''GRAPHQL_PATH'' ''/graphql'',
     gq_MaxDepth = getEnvInt env ''GRAPHQL_MAX_DEPTH'' 10,
     gq_MaxComplexity = getEnvInt env ''GRAPHQL_MAX_COMPLEXITY'' 500,
     gq_MaxQueryBytes = getEnvInt env ''GRAPHQL_MAX_QUERY_BYTES'' (16 * 1024),
     gq_EnablePlayground = getEnvBool env ''GRAPHQL_PLAYGROUND'' (\<not> isProd),
     gq_EnableIntrospection = getEnvBool env ''GRAPHQL_INTROSPECTION'' (\<not> isProd)\<rparr>"

text \<open>The signing key of the local store falls back to the access secret.\<close>

definition load_Exports :: "environment \<Rightarrow> ExportConfig" where
  "load_Exports env = \<lparr>
     ex_Backend = getEnv env ''EXPORT_BACKEND'' ''local'',
     ex_LocalDir = getEnv env ''EXPORT_LOCAL_DIR'' ''./var/exports'',
     ex_S3Bucket = getEnv env ''EXPORT_S3_BUCKET'' '''',
     ex_S3Prefix = getEnv env ''EXPORT_S3_PREFIX'' ''usage-exports'',
     ex_DownloadTTL = getEnvDuration env ''EXPORT_DOWNLOAD_TTL'' (15 * minute),
     ex_SigningKey = getEnv env ''EXPORT_SIGNING_KEY'' '''',
     ex_RunInProcessWorker = getEnvBool env ''EXPORT_IN_PROCESS_WORKER'' True,
     ex_WorkerPollInterval = getEnvDuration env ''EXPORT_WORKER_POLL_INTERVAL'' (2 * second),
     ex_WorkerBatchSize = getEnvInt env ''EXPORT_WORKER_BATCH_SIZE'' 5,
     ex_MaxRows = getEnvInt env ''EXPORT_MAX_ROWS'' 500000,
     ex_MaxAttempts = getEnvInt env ''EXPORT_MAX_ATTEMPTS'' 3,
     ex_SQSQueueURL = getEnv env ''EXPORT_SQS_QUEUE_URL'' ''''\<rparr>"

definition load_AWS :: "environment \<Rightarrow> AWSConfig" where
  "load_AWS env = \<lparr>
     aw_Region = getEnv env ''AWS_REGION'' ''ap-south-1'',
     aw_AccessKeyID = getEnv env ''AWS_ACCESS_KEY_ID'' '''',
     aw_SecretAccessKey = getEnv env ''AWS_SECRET_ACCESS_KEY'' '''',
     aw_SessionToken = getEnv env ''AWS_SESSION_TOKEN'' '''',
     aw_S3Endpoint = getEnv env ''AWS_S3_ENDPOINT'' '''',
     aw_SecretsManagerSecretID = getEnv env ''AWS_SECRETS_MANAGER_SECRET_ID'' ''''\<rparr>"

definition resolve :: "environment \<Rightarrow> Config" where
  "resolve env =
     (let e = getEnv env ''APP_ENV'' EnvDevelopment;
          isProd = (e = EnvProduction)
      in \<lparr>cf_Env = e,
          cf_Port = getEnv env ''APP_PORT'' ''8080'',
          cf_DB = load_DB env isProd,
          cf_Redis = load_Redis env,
          cf_JWT = load_JWT env,
          cf_CORS = load_CORS env,
          cf_GraphQL = load_GraphQL env isProd,
          cf_Exports = load_Exports env,
          cf_AWS = load_AWS env,
          cf_APIKeyPrefix = getEnv env ''API_KEY_PREFIX'' ''bc_live_'',
          cf_PlatformAdminToken = getEnv env ''PLATFORM_ADMIN_TOKEN'' '''',
          cf_RateLimitRequestsPerMinute = getEnvInt env ''RATE_LIMIT_RPM'' 120,
          cf_MaxPageSize = getEnvInt env ''MAX_PAGE_SIZE'' 100,
          cf_DefaultPageSize = getEnvInt env ''DEFAULT_PAGE_SIZE'' 20,
          cf_ExposeDevTools = getEnvBool env ''EXPOSE_DEV_TOOLS'' (\<not> isProd),
          cf_Version = getEnv env ''APP_VERSION'' ''0.1.0-dev'',
          cf_BuildTime = getEnv env ''APP_BUILD_TIME'' ''unknown'',
          cf_GitCommit = getEnv env ''APP_GIT_COMMIT'' ''unknown''\<rparr>)"

definition default_signing_key :: "Config \<Rightarrow> Config" where
  "default_signing_key c =
     (if ex_SigningKey (cf_Exports c) = ''''
      then c\<lparr>cf_Exports := (cf_Exports c)\<lparr>ex_SigningKey := jw_AccessSecret (cf_JWT c)\<rparr>\<rparr> else c)"

definition Load :: "environment \<Rightarrow> goerr + Config" where
  "Load env =
     (let cfg = default_signing_key (resolve env)
      in case Validate cfg of Some err \<Rightarrow> Inl err | None \<Rightarrow> Inr cfg)"

section \<open>Start-up log and secrets\<close>

definition Redacted :: "Config \<Rightarrow> (string \<times> json) list" where
  "Redacted c = [
     (''env'', JStr (cf_Env c)), (''port'', JStr (cf_Port c)), (''version'', JStr (cf_Version c)),
     (''git_commit'', JStr (cf_GitCommit c)), (''db_host'', JStr (db_Host (cf_DB c))),
     (''db_name'', JStr (db_Name (cf_DB c))), (''db_sslmode'', JStr (db_SSLMode (cf_DB c))),
     (''db_max_open_conns'', JNum (db_MaxOpenConns (cf_DB c))),
     (''redis_addr'', JStr (rd_Addr (cf_Redis c))), (''redis_tls'', JBool (rd_TLS (cf_Redis c))),
     (''cors_allowed_origins'', JArr (map JStr (AllowedOrigins (cf_CORS c)))),
     (''rate_limit_rpm'', JNum (cf_RateLimitRequestsPerMinute c)),
     (''max_page_size'', JNum (cf_MaxPageSize c)),
     (''graphql_path'', JStr (gq_Path (cf_GraphQL c))),
     (''graphql_max_depth'', JNum (gq_MaxDepth (cf_GraphQL c))),
     (''graphql_complexity'', JNum (gq_MaxComplexity (cf_GraphQL c))),
     (''graphql_playground'', JBool (gq_EnablePlayground (cf_GraphQL c))),
     (''graphql_introspect'', JBool (gq_EnableIntrospection (cf_GraphQL c))),
     (''export_backend'', JStr (ex_Backend (cf_Exports c))),
     (''export_in_process'', JBool (ex_RunInProcessWorker (cf_Exports c))),
     (''expose_dev_tools'', JBool (cf_ExposeDevTools c)),
     (''platform_api_enabled'', JBool (cf_PlatformAdminToken c \<noteq> ''''))]"

text \<open>
  \<open>os.Setenv\<close> refuses a name that is empty or holds \<open>=\<close> or a zero byte, and a value with a zero
  byte; the error is ignored.
\<close>

definition settable :: "string \<Rightarrow> string \<Rightarrow> bool" where
  "settable k v \<longleftrightarrow> k \<noteq> '''' \<and> CHR ''='' \<notin> set k \<and> CHR 0x00 \<notin> set k \<and> CHR 0x00 \<notin> set v"

definition apply_secret :: "string \<times> string \<Rightarrow> environment \<Rightarrow> environment" where
  "apply_secret kv env = (case env (fst kv) of
      Some v \<Rightarrow> env
    | None \<Rightarrow> if settable (fst kv) (snd kv) then env(fst kv \<mapsto> snd kv) else env)"

definition ApplySecrets :: "(string \<times> string) list \<Rightarrow> environment \<Rightarrow> environment" where
  "ApplySecrets secrets env = fold apply_secret secrets env"

section \<open>Lemmas\<close>

lemma problem_Nil [simp]: "problem b m = [] \<longleftrightarrow> \<not> b" "[] = problem b m \<longleftrightarrow> \<not> b"
  by (auto simp: problem_def)

lemma Load_Inr:
  "Load env = Inr c \<longleftrightarrow> c = default_signing_key (resolve env) \<and> Validate c = None"
  by (auto simp: Load_def Let_def split: option.splits)

lemma Validate_None:
  "Validate c = None \<longleftrightarrow> general_problems c = [] \<and> export_problems c = []
     \<and> (IsProduction c \<longrightarrow> production_problems c = [])"
  by (auto simp: Validate_def Let_def split: if_splits)

lemma default_signing_key_sel [simp]:
  "cf_Env (default_signing_key c) = cf_Env c" "cf_JWT (default_signing_key c) = cf_JWT c"
  "cf_CORS (default_signing_key c) = cf_CORS c"
  by (simp_all add: default_signing_key_def)

end
