(* ===== verification/ConfigProperties.thy ===== *)
theory ConfigProperties
  imports Config GraphqlHandler Sample
begin

text \<open>
  What a configuration that was loaded guarantees to the parts it is handed to: the token manager,
  the CORS middleware, the pagination and the GraphQL endpoint.
\<close>

section \<open>What main.go hands on\<close>

definition config_manager :: "Config \<Rightarrow> Manager" where
  "config_manager c = \<lparr>accessSecret = jw_AccessSecret (cf_JWT c),
     refreshSecret = jw_RefreshSecret (cf_JWT c), accessTTL = jw_AccessTokenTTL (cf_JWT c),
     refreshTTL = jw_RefreshTokenTTL (cf_JWT c), issuer = jw_Issuer (cf_JWT c)\<rparr>"

definition config_limits :: "Config \<Rightarrow> Limits" where
  "config_limits c = \<lparr>li_MaxDepth = gq_MaxDepth (cf_GraphQL c),
     li_MaxComplexity = gq_MaxComplexity (cf_GraphQL c),
     li_MaxBytes = gq_MaxQueryBytes (cf_GraphQL c), li_MaxPageSize = cf_MaxPageSize c,
     li_AllowIntrospection = gq_EnableIntrospection (cf_GraphQL c)\<rparr>"


section \<open>Trimmed lists\<close>

lemma dropWhile_idem: "dropWhile P (dropWhile P xs) = dropWhile P xs"
  by (induction xs) auto

lemma TrimSpace_idem [simp]: "TrimSpace (TrimSpace s) = TrimSpace s"
proof -
  let ?t = "dropWhile is_space s"
  have "dropWhile is_space (rev (dropWhile is_space (rev ?t))) = rev (dropWhile is_space (rev ?t))"
  proof (cases "rev (dropWhile is_space (rev ?t))")
    case (Cons c cs)
    have "\<exists>ys. ?t = rev (dropWhile is_space (rev ?t)) @ ys"
      by (metis rev_append rev_rev_ident takeWhile_dropWhile_id)
    then have "?t \<noteq> [] \<and> hd ?t = c" using Cons by (metis append_Cons list.sel(1) list.distinct(1))
    then have "\<not> is_space c" using hd_dropWhile [of is_space s] by (metis dropWhile_eq_Nil_conv)
    with Cons show ?thesis by simp
  next
    case Nil
    then show ?thesis by (simp only: dropWhile.simps)
  qed
  then show ?thesis by (simp add: TrimSpace_def dropWhile_idem)
qed

lemma getEnvList_trimmed:
  assumes "\<And>x. x \<in> set fallback \<Longrightarrow> TrimSpace x = x" "x \<in> set (getEnvList env key fallback)"
  shows "TrimSpace x = x"
  using assms by (auto simp: getEnvList_def Let_def split: option.splits if_splits)

lemma to_lower_star: "to_lower c = CHR ''*'' \<longleftrightarrow> c = CHR ''*''"
proof
  assume l: "to_lower c = CHR ''*''"
  show "c = CHR ''*''"
  proof (cases "is_upper c")
    case True
    then have "byte (to_lower c) = byte c + 32" by (simp add: to_lower_def is_upper_def)
    with l True show ?thesis by (simp add: is_upper_def)
  qed (use l in \<open>simp add: to_lower_def\<close>)
qed (simp add: to_lower_def is_upper_def)

lemma CORS_wildcard:
  assumes "\<And>x. x \<in> set (AllowedOrigins c) \<Longrightarrow> TrimSpace x = x"
  shows "''*'' \<in> set (CORS_allowed c) \<longleftrightarrow> AllowsAll c"
proof -
  have star: "''*'' = ToLower x \<longleftrightarrow> x = ''*''" for x
    by (cases x) (auto simp: ToLower_def to_lower_star eq_commute [of "CHR ''*''"])
  have "CORS_allowed c = map ToLower (AllowedOrigins c)"
    by (simp add: CORS_allowed_def assms)
  then show ?thesis by (simp add: AllowsAll_def image_iff star)
qed

section \<open>Properties\<close>

text \<open>C31. A configuration is loaded for production only if it is safe: the two signing secrets are at
  least 32 bytes long, different, and not the development defaults; no origin is given the wildcard
  by the CORS middleware; the database connection is not unencrypted and has a password of its own;
  introspection and the playground are off; and a platform token, if any, has at least 24 bytes.
\<close>

theorem production_config_safe:
  assumes "Load env = Inr c" and "IsProduction c"
  shows "32 \<le> length (accessSecret (config_manager c)) \<and> 32 \<le> length (refreshSecret (config_manager c))
    \<and> accessSecret (config_manager c) \<noteq> refreshSecret (config_manager c)
    \<and> accessSecret (config_manager c) \<noteq> defaultAccessSecret
    \<and> refreshSecret (config_manager c) \<noteq> defaultRefreshSecret
    \<and> 0 < accessTTL (config_manager c) \<and> accessTTL (config_manager c) < refreshTTL (config_manager c)
    \<and> ''*'' \<notin> set (CORS_allowed (cf_CORS c))
    \<and> db_SSLMode (cf_DB c) \<noteq> ''disable'' \<and> db_Password (cf_DB c) \<notin> {'''', ''bridgecore''}
    \<and> \<not> li_AllowIntrospection (config_limits c) \<and> \<not> gq_EnablePlayground (cf_GraphQL c)
    \<and> (cf_PlatformAdminToken c = '''' \<or> 24 \<le> length (cf_PlatformAdminToken c))"
proof -
  from assms(1) [unfolded Load_Inr Validate_None] assms(2)
  have v: "general_problems c = []" "production_problems c = []"
    and c: "c = default_signing_key (resolve env)"
    by blast+
  have "''*'' \<in> set (CORS_allowed (cf_CORS c)) \<longleftrightarrow> AllowsAll (cf_CORS c)"
  proof (rule CORS_wildcard)
    fix x
    assume "x \<in> set (AllowedOrigins (cf_CORS c))"
    then have "x \<in> set (getEnvList env ''CORS_ALLOWED_ORIGINS'' [''*''])"
      by (simp add: c resolve_def Let_def load_CORS_def)
    then show "TrimSpace x = x"
      by (rule getEnvList_trimmed [rotated]) (simp add: TrimSpace_def is_space_def)
  qed
  with v show ?thesis
    by (simp add: general_problems_def production_problems_def Let_def config_manager_def
        config_limits_def minProductionSecretLength_def not_less)
qed

definition sample_environment :: environment where
  "sample_environment = map_of [(''APP_ENV'', ''production''), (''DB_PASSWORD'', ''pw''),
     (''JWT_ACCESS_SECRET'', replicate 32 CHR ''a''), (''JWT_REFRESH_SECRET'', replicate 40 CHR ''b''),
     (''CORS_ALLOWED_ORIGINS'', ''https://a.io , https://b.io''), (''JWT_ACCESS_TTL'', ''5m30s'')]"

theorem production_config_safe_witness:
  "\<exists>c. Load sample_environment = Inr c \<and> IsProduction c
    \<and> 32 \<le> length (accessSecret (config_manager c)) \<and> ''*'' \<notin> set (CORS_allowed (cf_CORS c))"
proof -
  have "case Load sample_environment of Inl e \<Rightarrow> False
    | Inr c \<Rightarrow> IsProduction c \<and> jw_AccessTokenTTL (cf_JWT c) = 330 * second" by code_simp
  then obtain c where "Load sample_environment = Inr c" "IsProduction c"
    by (cases "Load sample_environment") auto
  with production_config_safe [OF this] show ?thesis by blast
qed



text \<open>
  Secrets from the secret manager never replace a variable that is set. A variable that is set to
  the empty string keeps the secret out as well, and is then read as the development default.
\<close>

theorem apply_secrets_keeps: "env k = Some v \<Longrightarrow> ApplySecrets secrets env k = Some v"
proof (induction secrets arbitrary: env)
  case (Cons kv secrets)
  then have "apply_secret kv env k = Some v" by (auto simp: apply_secret_def split: option.split)
  with Cons.IH show ?case by (simp add: ApplySecrets_def)
qed (simp add: ApplySecrets_def)

theorem empty_variable_shadows_secret:
  assumes "env ''JWT_ACCESS_SECRET'' = Some ''''"
  shows "getEnv (ApplySecrets secrets env) ''JWT_ACCESS_SECRET'' defaultAccessSecret = defaultAccessSecret"
  using apply_secrets_keeps [of env "''JWT_ACCESS_SECRET''" "''''" secrets, OF assms]
  by (simp add: getEnv_def)

text \<open>What is logged at start-up does not depend on any secret but on whether there is a platform token.\<close>

theorem redacted_hides_secrets:
  "Redacted (c\<lparr>cf_JWT := j, cf_AWS := a, cf_APIKeyPrefix := p\<rparr>) = Redacted c"
  "Redacted (c\<lparr>cf_DB := (cf_DB c)\<lparr>db_Password := x, db_User := u\<rparr>,
               cf_Redis := (cf_Redis c)\<lparr>rd_Password := y\<rparr>,
               cf_Exports := (cf_Exports c)\<lparr>ex_SigningKey := z\<rparr>\<rparr>) = Redacted c"
  "cf_PlatformAdminToken c \<noteq> '''' \<Longrightarrow> t \<noteq> '''' \<Longrightarrow> Redacted (c\<lparr>cf_PlatformAdminToken := t\<rparr>) = Redacted c"
  by (simp_all add: Redacted_def)

end
