(* ===== verification/Awssig.thy ===== *)
theory Awssig
  imports Crypto Apierr "HOL-Library.Char_ord" "HOL-Library.List_Lexorder"
begin

text \<open>
  \<^verbatim>\<open>pkg/awssig\<close>: AWS Signature Version 4, for requests signed in a header and for presigned URLs.
  Strings are compared byte by byte (\<open>sort.Strings\<close>). The tables of \<open>net/http\<close> and \<open>net/url\<close> that
  map a name to its values are association lists with one entry per name. A URL is what \<open>url.Parse\<close>
  makes of it: the parts the signer asks for, and what \<open>String\<close> writes before and after the query.
\<close>

definition algorithm :: string where [const_defs]: "algorithm = ''AWS4-HMAC-SHA256''"
definition terminator :: string where [const_defs]: "terminator = ''aws4_request''"
definition UnsignedPayload :: string where [const_defs]: "UnsignedPayload = ''UNSIGNED-PAYLOAD''"

definition EmptyPayloadHash :: string where
  "EmptyPayloadHash = ''e3b0c44298fc1c149afbf4c8996fb92427ae41e4649b934ca495991b7852b855''"

type_synonym Values = "(string \<times> string list) list"

record URL =
  ur_Host :: string
  ur_EscapedPath :: string
  ur_Query :: Values
  ur_before :: string
  ur_after :: string

record Credentials =
  cr_AccessKeyID :: string
  cr_SecretAccessKey :: string
  cr_SessionToken :: string

definition Credentials_Valid :: "Credentials \<Rightarrow> bool" where
  "Credentials_Valid c \<longleftrightarrow> cr_AccessKeyID c \<noteq> '''' \<and> cr_SecretAccessKey c \<noteq> ''''"

record Signer =
  sg_Region :: string
  sg_Service :: string

definition NewSigner :: "string \<Rightarrow> string \<Rightarrow> Signer" where
  "NewSigner region svc = \<lparr>sg_Region = region, sg_Service = svc\<rparr>"

section \<open>Dates\<close>

text \<open>The civil date of a day, counted from 1970, and the two layouts of \<open>time.Format\<close> in UTC.\<close>

definition civil_from_days :: "int \<Rightarrow> int \<times> int \<times> int" where
  "civil_from_days n =
     (let z = n + 719468; doe = z mod 146097;
          yoe = (doe - doe div 1460 + doe div 36524 - doe div 146096) div 365;
          doy = doe - (365 * yoe + yoe div 4 - yoe div 100);
          mp = (5 * doy + 2) div 153;
          m = (if mp < 10 then mp + 3 else mp - 9)
      in (yoe + z div 146097 * 400 + (if m \<le> 2 then 1 else 0), m, doy - (153 * mp + 2) div 5 + 1))"

definition padded :: "nat \<Rightarrow> int \<Rightarrow> string" where
  "padded k n = (let ds = Itoa n in replicate (k - length ds) CHR ''0'' @ ds)"

definition shortDateFormat :: "time \<Rightarrow> string" where
  "shortDateFormat t =
     (case civil_from_days (t div second div 86400) of (y, m, d) \<Rightarrow> padded 4 y @ padded 2 m @ padded 2 d)"

definition amzDateFormat :: "time \<Rightarrow> string" where
  "amzDateFormat t =
     (let s = t div second mod 86400
      in shortDateFormat t @ ''T'' @ padded 2 (s div 3600) @ padded 2 (s div 60 mod 60)
           @ padded 2 (s mod 60) @ ''Z'')"

section \<open>Encodings\<close>

definition unreserved :: "char \<Rightarrow> bool" where
  "unreserved c \<longleftrightarrow> is_upper c \<or> is_lower c \<or> is_digit c \<or> c \<in> {CHR ''-'', CHR ''_'', CHR ''.'', CHR ''~''}"

definition hex_upper :: "nat \<Rightarrow> char" where
  "hex_upper d = (if d < 10 then char_of (48 + d) else char_of (55 + d))"

definition uriEncode_byte :: "bool \<Rightarrow> char \<Rightarrow> string" where
  "uriEncode_byte encodeSlash c =
     (if unreserved c \<or> c = CHR ''/'' \<and> \<not> encodeSlash then [c]
      else [CHR ''%'', hex_upper (byte c div 16), hex_upper (byte c mod 16)])"

definition uriEncode :: "string \<Rightarrow> bool \<Rightarrow> string" where
  "uriEncode s encodeSlash = concat (map (uriEncode_byte encodeSlash) s)"

text \<open>\<open>url.PathUnescape\<close>: an error where a percent sign is not followed by two hexadecimal digits.\<close>

definition unhex :: "char \<Rightarrow> nat option" where
  "unhex c =
     (if is_digit c then Some (byte c - 48)
      else if 97 \<le> byte c \<and> byte c \<le> 102 then Some (byte c - 87)
      else if 65 \<le> byte c \<and> byte c \<le> 70 then Some (byte c - 55)
      else None)"

fun PathUnescape :: "string \<Rightarrow> string option" where
  "PathUnescape [] = Some []"
| "PathUnescape (c # cs) =
     (if c = CHR ''%'' then
        (case cs of
           a # b # rest \<Rightarrow>
             (case (unhex a, unhex b) of
                (Some x, Some y) \<Rightarrow> map_option (\<lambda>s. char_of (16 * x + y) # s) (PathUnescape rest)
              | _ \<Rightarrow> None)
         | _ \<Rightarrow> None)
      else map_option (\<lambda>s. c # s) (PathUnescape cs))"

definition canonicalURI :: "URL \<Rightarrow> string" where
  "canonicalURI u =
     (let path = ur_EscapedPath u in
      if path = '''' then ''/''
      else
        (let joined = Join (map (\<lambda>seg.
               uriEncode (case PathUnescape seg of None \<Rightarrow> seg | Some s \<Rightarrow> s) False)
               (Split CHR ''/'' path)) ''/''
         in if \<not> HasPrefix joined ''/'' then ''/'' @ joined else joined))"

text \<open>The parameters by name, those of one name by value, and how they are written.\<close>

definition sorted_pairs :: "Values \<Rightarrow> (string \<times> string) list" where
  "sorted_pairs q = concat (map (\<lambda>(k, vs). map (Pair k) (sort vs)) (sort_key fst q))"

definition write_pair :: "string \<times> string \<Rightarrow> string" where
  "write_pair p = uriEncode (fst p) True @ ''='' @ uriEncode (snd p) True"

definition canonicalQuery :: "Values \<Rightarrow> string" where
  "canonicalQuery q = Join (map write_pair (sorted_pairs q)) ''&''"

definition values_set :: "string \<Rightarrow> string \<Rightarrow> Values \<Rightarrow> Values" where
  "values_set k v q = (k, [v]) # filter (\<lambda>p. fst p \<noteq> k) q"

section \<open>Signatures\<close>

definition newline :: string where
  "newline = [CHR 0x0A]"

definition credentialScope :: "string \<Rightarrow> string \<Rightarrow> string \<Rightarrow> string" where
  "credentialScope shortDate region svc = Join [shortDate, region, svc, terminator] ''/''"

definition signingKey :: "string \<Rightarrow> string \<Rightarrow> string \<Rightarrow> string \<Rightarrow> nat list" where
  "signingKey secret shortDate region svc =
     (let kDate = hmac_sha256 (bytes_of (''AWS4'' @ secret)) (bytes_of shortDate);
          kRegion = hmac_sha256 kDate (bytes_of region);
          kService = hmac_sha256 kRegion (bytes_of svc)
      in hmac_sha256 kService (bytes_of terminator))"

definition hashHex :: "string \<Rightarrow> string" where
  "hashHex data = hex_EncodeToString (sha256 (bytes_of data))"

definition HashPayload :: "string \<Rightarrow> string" where
  "HashPayload body = hashHex body"

text \<open>The string to sign of a canonical request, and its signature.\<close>

definition signature :: "string \<Rightarrow> string \<Rightarrow> string \<Rightarrow> string \<Rightarrow> string \<Rightarrow> string \<Rightarrow> string" where
  "signature secret amzDate shortDate region svc canonicalRequest =
     hex_EncodeToString (hmac_sha256 (signingKey secret shortDate region svc)
       (bytes_of (Join [algorithm, amzDate, credentialScope shortDate region svc,
          hashHex canonicalRequest] newline)))"

text \<open>\<open>http.Header\<close>: canonical names with their values.\<close>

type_synonym Header = "(string \<times> string list) list"

definition signed_header :: "string \<Rightarrow> bool" where
  "signed_header lower \<longleftrightarrow> lower \<noteq> ''host''
     \<and> (lower = ''content-type'' \<or> lower = ''content-md5'' \<or> HasPrefix lower ''x-amz-'')"

definition canonicalizeHeaders :: "Header \<Rightarrow> string \<Rightarrow> string list \<times> string" where
  "canonicalizeHeaders h host =
     (let vals = (''host'', host)
            # map (\<lambda>(name, vs). (ToLower name, Join (map (\<lambda>v. Join (Fields v) '' '') vs) '',''))
                (filter (\<lambda>(name, vs). signed_header (ToLower name)) h);
          byName = sort_key fst vals
      in (map fst byName, concat (map (\<lambda>(n, v). n @ '':'' @ v @ newline) byName)))"

definition header_set :: "string \<Rightarrow> string \<Rightarrow> Header \<Rightarrow> Header" where
  "header_set k v h = (k, [v]) # filter (\<lambda>p. fst p \<noteq> k) h"

record http_request =
  hr_Method :: string
  hr_URL :: "URL option"
  hr_Host :: string
  hr_Header :: Header

definition SignRequest :: "Signer \<Rightarrow> time \<Rightarrow> http_request \<Rightarrow> Credentials \<Rightarrow> string \<Rightarrow> goerr + http_request" where
  "SignRequest s now req creds payloadHash =
     (if \<not> Credentials_Valid creds then Inl (PlainErr ''awssig: cannot sign without credentials'')
      else (case hr_URL req of
          None \<Rightarrow> Inl (PlainErr ''awssig: request has no URL'')
        | Some u \<Rightarrow>
            (let amzDate = amzDateFormat now; shortDate = shortDateFormat now;
                 host = (if hr_Host req = '''' then ur_Host u else hr_Host req);
                 h1 = header_set ''X-Amz-Content-Sha256'' payloadHash
                        (header_set ''X-Amz-Date'' amzDate (header_set ''Host'' host (hr_Header req)));
                 h2 = (if cr_SessionToken creds \<noteq> ''''
                       then header_set ''X-Amz-Security-Token'' (cr_SessionToken creds) h1 else h1)
             in case canonicalizeHeaders h2 host of (names, block) \<Rightarrow>
               (let canonicalRequest = Join [hr_Method req, canonicalURI u,
                      canonicalQuery (ur_Query u), block, Join names '';'', payloadHash] newline;
                    sig = signature (cr_SecretAccessKey creds) amzDate shortDate (sg_Region s)
                      (sg_Service s) canonicalRequest
                in Inr (req\<lparr>hr_Header := header_set ''Authorization''
                     (algorithm @ '' Credential='' @ cr_AccessKeyID creds @ ''/''
                      @ credentialScope shortDate (sg_Region s) (sg_Service s)
                      @ '', SignedHeaders='' @ Join names '';'' @ '', Signature='' @ sig) h2\<rparr>)))))"

text \<open>
  The seconds of a lifetime, cut to the range SigV4 allows. (Floating point plays no part: below a
  week the quotient of \<open>Seconds\<close> is exact to more than a nanosecond, and above it is cut.)
\<close>

definition presign_expires :: "duration \<Rightarrow> int" where
  "presign_expires ttl =
     (let n = ttl div second in if n < 1 then 1 else if 604800 < n then 604800 else n)"

text \<open>The query of a presigned URL, but for the signature, and the request that is signed.\<close>

definition presign_values :: "Signer \<Rightarrow> time \<Rightarrow> Credentials \<Rightarrow> duration \<Rightarrow> Values \<Rightarrow> Values" where
  "presign_values s now creds ttl q0 =
     (let q = values_set ''X-Amz-SignedHeaders'' ''host''
          (values_set ''X-Amz-Expires'' (Itoa (presign_expires ttl))
          (values_set ''X-Amz-Date'' (amzDateFormat now)
          (values_set ''X-Amz-Credential'' (cr_AccessKeyID creds @ ''/''
             @ credentialScope (shortDateFormat now) (sg_Region s) (sg_Service s))
          (values_set ''X-Amz-Algorithm'' algorithm q0))))
      in if cr_SessionToken creds \<noteq> '''' then values_set ''X-Amz-Security-Token'' (cr_SessionToken creds) q
         else q)"

definition presign_request :: "string \<Rightarrow> string \<Rightarrow> string \<Rightarrow> string" where
  "presign_request uri query host =
     Join [''GET'', uri, query, ''host:'' @ host @ newline, ''host'', UnsignedPayload] newline"

definition PresignGET ::
  "(string \<Rightarrow> goerr + URL) \<Rightarrow> Signer \<Rightarrow> time \<Rightarrow> string \<Rightarrow> Credentials \<Rightarrow> duration \<Rightarrow> goerr + string" where
  "PresignGET parse s now rawURL creds ttl =
     (if \<not> Credentials_Valid creds then Inl (PlainErr ''awssig: cannot presign without credentials'')
      else (case parse rawURL of
          Inl err \<Rightarrow> Inl (Errorf ''awssig: parse url'' err)
        | Inr u \<Rightarrow>
            if ur_Host u = '''' then Inl (PlainErr ''awssig: url has no host'')
            else
              (let q = presign_values s now creds ttl (ur_Query u);
                   sig = signature (cr_SecretAccessKey creds) (amzDateFormat now) (shortDateFormat now)
                     (sg_Region s) (sg_Service s)
                     (presign_request (canonicalURI u) (canonicalQuery q) (ur_Host u))
               in Inr (ur_before u @ ''?'' @ canonicalQuery (values_set ''X-Amz-Signature'' sig q)
                    @ ur_after u))))"

end
