(* ===== verification/Cloud.thy ===== *)
theory Cloud
  imports Config Awssig
begin

text \<open>
  \<^verbatim>\<open>internal/cloud\<close>: the AWS adapters. The services answer over the network: \<open>ae_network\<close> says what
  comes back for the last of the requests sent so far, and how long it took. A reply has its body as
  bytes and, where the code decodes it, the first JSON value of it. \<open>ae_parse\<close> is \<open>url.Parse\<close>,
  \<open>ae_strings\<close> reads a JSON object of strings, \<open>ae_notification\<close> writes a notification of the
  package \<^verbatim>\<open>internal/exports\<close>, which is not in the repository. The state of an adapter is its
  credential provider, with the clock and the requests sent.
\<close>

section \<open>The network\<close>

record reply =
  rp_StatusCode :: int
  rp_Status :: string
  rp_Body :: string
  rp_ContentLength :: int
  rp_JSON :: "goerr + json"

type_synonym sent = "http_request \<times> string"

record aws_env =
  ae_network :: "sent list \<Rightarrow> (goerr + reply) \<times> duration"
  ae_parse :: "string \<Rightarrow> goerr + URL"
  ae_env :: environment
  ae_strings :: "string \<Rightarrow> goerr + (string \<times> string) list"
  ae_notification :: "string \<Rightarrow> string \<Rightarrow> string"

record CredentialProvider =
  cp_static :: Credentials
  cp_cached :: Credentials
  cp_expires :: time
  cp_hasCache :: bool

record cloud =
  cl_clock :: time
  cl_sent :: "sent list"
  cl_provider :: CredentialProvider

definition Getenv :: "environment \<Rightarrow> string \<Rightarrow> string" where
  "Getenv env k = (case env k of None \<Rightarrow> '''' | Some v \<Rightarrow> v)"

definition result :: "goerr + 'a \<Rightarrow> ('s, 'a) op" where
  "result r s = (r, s)"

definition NewRequest :: "aws_env \<Rightarrow> string \<Rightarrow> string \<Rightarrow> goerr + http_request" where
  "NewRequest e meth url = (case ae_parse e url of
      Inl err \<Rightarrow> Inl err
    | Inr u \<Rightarrow> Inr \<lparr>hr_Method = meth, hr_URL = Some u, hr_Host = ur_Host u, hr_Header = []\<rparr>)"

definition client_Do :: "aws_env \<Rightarrow> http_request \<Rightarrow> string \<Rightarrow> (cloud, reply) op" where
  "client_Do e req body c =
     (let sent = cl_sent c @ [(req, body)] in
      case ae_network e sent of
        (r, d) \<Rightarrow> (r, c\<lparr>cl_sent := sent, cl_clock := cl_clock c + d\<rparr>))"

text \<open>The signature of a request, with the time of the moment.\<close>

definition signed :: "Signer \<Rightarrow> http_request \<Rightarrow> Credentials \<Rightarrow> string \<Rightarrow> (cloud, http_request) op" where
  "signed s req creds payloadHash c = (SignRequest s (cl_clock c) req creds payloadHash, c)"

definition readErrorBody :: "reply \<Rightarrow> string" where
  "readErrorBody resp = TrimSpace (take 2048 (rp_Body resp))"

definition success :: "reply \<Rightarrow> bool" where
  "success resp \<longleftrightarrow> rp_StatusCode resp div 100 = 2"

section \<open>Credentials\<close>

definition ecsCredentialsHost :: string where
  "ecsCredentialsHost = ''http://169.254.170.2''"

definition credentialRefreshWindow :: duration where
  "credentialRefreshWindow = 5 * minute"

definition NewCredentialProvider :: "string \<Rightarrow> string \<Rightarrow> string \<Rightarrow> CredentialProvider" where
  "NewCredentialProvider accessKeyID secretAccessKey sessionToken =
     \<lparr>cp_static = \<lparr>cr_AccessKeyID = accessKeyID, cr_SecretAccessKey = secretAccessKey,
                    cr_SessionToken = sessionToken\<rparr>,
      cp_cached = \<lparr>cr_AccessKeyID = '''', cr_SecretAccessKey = '''', cr_SessionToken = ''''\<rparr>,
      cp_expires = 0, cp_hasCache = False\<rparr>"

record containerCredentialsResponse =
  cc_AccessKeyID :: string
  cc_SecretAccessKey :: string
  cc_Token :: string
  cc_Expiration :: string

definition containerCredentials_fields :: "containerCredentialsResponse setters" where
  "containerCredentials_fields = [
     (''AccessKeyId'', set_string (\<lambda>s d. d\<lparr>cc_AccessKeyID := s\<rparr>)),
     (''SecretAccessKey'', set_string (\<lambda>s d. d\<lparr>cc_SecretAccessKey := s\<rparr>)),
     (''Token'', set_string (\<lambda>s d. d\<lparr>cc_Token := s\<rparr>)),
     (''Expiration'', set_string (\<lambda>s d. d\<lparr>cc_Expiration := s\<rparr>))]"

definition no_container_credentials :: containerCredentialsResponse where
  "no_container_credentials =
     \<lparr>cc_AccessKeyID = '''', cc_SecretAccessKey = '''', cc_Token = '''', cc_Expiration = ''''\<rparr>"

definition credentials_url :: "environment \<Rightarrow> goerr + string" where
  "credentials_url env =
     (if Getenv env ''AWS_CONTAINER_CREDENTIALS_RELATIVE_URI'' \<noteq> ''''
      then Inr (ecsCredentialsHost @ Getenv env ''AWS_CONTAINER_CREDENTIALS_RELATIVE_URI'')
      else if Getenv env ''AWS_CONTAINER_CREDENTIALS_FULL_URI'' \<noteq> ''''
      then Inr (Getenv env ''AWS_CONTAINER_CREDENTIALS_FULL_URI'')
      else Inl (PlainErr (''cloud: no AWS credentials available: set AWS_ACCESS_KEY_ID/''
             @ ''AWS_SECRET_ACCESS_KEY for local testing, or run on ECS with a task role'')))"

text \<open>What a reply of the endpoint is good for; a bad expiry date counts as none.\<close>

definition read_credentials :: "reply \<Rightarrow> time \<Rightarrow> goerr + (Credentials \<times> time)" where
  "read_credentials resp now =
     (if rp_StatusCode resp \<noteq> 200
      then Inl (PlainErr (''cloud: task role credential endpoint returned '' @ rp_Status resp))
      else case rp_JSON resp of
          Inl err \<Rightarrow> Inl (Errorf ''cloud: decode task role credentials'' err)
        | Inr v \<Rightarrow>
            (case decode_plain containerCredentials_fields v no_container_credentials of
               (Some err, _) \<Rightarrow> Inl (Errorf ''cloud: decode task role credentials'' err)
             | (None, b) \<Rightarrow>
                 (let creds = \<lparr>cr_AccessKeyID = cc_AccessKeyID b,
                        cr_SecretAccessKey = cc_SecretAccessKey b, cr_SessionToken = cc_Token b\<rparr>
                  in if \<not> Credentials_Valid creds
                     then Inl (PlainErr ''cloud: task role returned incomplete credentials'')
                     else Inr (creds,
                       if cc_Expiration b = '''' then now + 15 * minute
                       else case parse_RFC3339 (cc_Expiration b) of
                           None \<Rightarrow> now + 15 * minute
                         | Some t \<Rightarrow> t))))"

definition credentials_request :: "aws_env \<Rightarrow> goerr + http_request" where
  "credentials_request e = (case credentials_url (ae_env e) of
      Inl err \<Rightarrow> Inl err
    | Inr url \<Rightarrow> (case NewRequest e ''GET'' url of
          Inl err \<Rightarrow> Inl err
        | Inr req \<Rightarrow>
            (let token = Getenv (ae_env e) ''AWS_CONTAINER_AUTHORIZATION_TOKEN'' in
             Inr (if token \<noteq> ''''
                  then req\<lparr>hr_Header := header_set ''Authorization'' token (hr_Header req)\<rparr> else req))))"

definition fetchContainerCredentials :: "aws_env \<Rightarrow> (cloud, Credentials \<times> time) op" where
  "fetchContainerCredentials e =
     bind_op (result (credentials_request e)) (\<lambda>req.
     bind_op (map_err (Errorf ''cloud: fetch task role credentials'') (client_Do e req ''''))
       (\<lambda>resp c. (read_credentials resp (cl_clock c), c)))"

definition cache_fresh :: "CredentialProvider \<Rightarrow> time \<Rightarrow> bool" where
  "cache_fresh p now \<longleftrightarrow> cp_hasCache p \<and> now < cp_expires p - credentialRefreshWindow"

definition store_credentials :: "Credentials \<times> time \<Rightarrow> cloud \<Rightarrow> cloud" where
  "store_credentials ct c = c\<lparr>cl_provider := (cl_provider c)
     \<lparr>cp_cached := fst ct, cp_expires := snd ct, cp_hasCache := True\<rparr>\<rparr>"

definition Retrieve :: "aws_env \<Rightarrow> (cloud, Credentials) op" where
  "Retrieve e c =
     (let p = cl_provider c in
      if Credentials_Valid (cp_static p) then (Inr (cp_static p), c)
      else if cache_fresh p (cl_clock c) then (Inr (cp_cached p), c)
      else bind_op (fetchContainerCredentials e) (\<lambda>ct c. (Inr (fst ct), store_credentials ct c)) c)"

section \<open>Regions\<close>

definition looksLikeRegion :: "string \<Rightarrow> bool" where
  "looksLikeRegion s =
     (let segments = Split CHR ''-'' s; final = last segments in
      3 \<le> length segments \<and> length final = 1 \<and> list_all is_digit final
      \<and> list_all (\<lambda>seg. seg \<noteq> '''' \<and> list_all is_lower seg) (butlast segments))"

definition regionFromHost :: "string \<Rightarrow> string \<Rightarrow> string" where
  "regionFromHost host fallback =
     (let h = ToLower host in
      if \<not> HasSuffix h ''.amazonaws.com'' then fallback
      else case find looksLikeRegion (rev (Split CHR ''.'' (TrimSuffix h ''.amazonaws.com''))) of
          None \<Rightarrow> fallback
        | Some r \<Rightarrow> r)"

section \<open>Amazon S3\<close>

record S3Store =
  s3_bucket :: string
  s3_region :: string
  s3_endpoint :: string
  s3_signer :: Signer

definition NewS3Store :: "string \<Rightarrow> string \<Rightarrow> string \<Rightarrow> S3Store" where
  "NewS3Store bucket region endpoint = \<lparr>s3_bucket = bucket, s3_region = region,
     s3_endpoint = TrimSuffix endpoint ''/'', s3_signer = NewSigner region ''s3''\<rparr>"

definition S3Store_Backend :: string where
  "S3Store_Backend = ''s3''"

definition escapeKeySegment :: "string \<Rightarrow> string" where
  "escapeKeySegment s = concat (map (\<lambda>c.
     if is_upper c \<or> is_lower c \<or> is_digit c \<or> c = CHR ''-'' \<or> c = CHR ''_'' \<or> c = CHR ''.'' \<or> c = CHR ''~''
     then [c] else [CHR ''%'', hex_upper (byte c div 16), hex_upper (byte c mod 16)]) s)"

definition escapeKeyPath :: "string \<Rightarrow> string" where
  "escapeKeyPath key = Join (map escapeKeySegment (Split CHR ''/'' (TrimPrefix key ''/''))) ''/''"

definition objectURL :: "S3Store \<Rightarrow> string \<Rightarrow> string" where
  "objectURL s key =
     (let escaped = escapeKeyPath key in
      if s3_endpoint s \<noteq> '''' then s3_endpoint s @ ''/'' @ s3_bucket s @ ''/'' @ escaped
      else ''https://'' @ s3_bucket s @ ''.s3.'' @ s3_region s @ ''.amazonaws.com/'' @ escaped)"

text \<open>A reader: none at all, or what seeking to the start says if it can seek, and what reading gives.\<close>

record Reader =
  io_Seek :: "goerr option option"
  io_ReadAll :: "goerr + string"

definition materialize :: "Reader option \<Rightarrow> goerr + (string \<times> int)" where
  "materialize body = (case body of
      None \<Rightarrow> Inr ('''', 0)
    | Some r \<Rightarrow>
        (case io_Seek r of
           Some (Some err) \<Rightarrow> Inl err
         | _ \<Rightarrow> (case io_ReadAll r of Inl err \<Rightarrow> Inl err | Inr data \<Rightarrow> Inr (data, int (length data)))))"

definition S3Store_Put ::
  "aws_env \<Rightarrow> S3Store \<Rightarrow> string \<Rightarrow> string \<Rightarrow> Reader option \<Rightarrow> (cloud, int) op" where
  "S3Store_Put e s key contentType body =
     bind_op (result (materialize body)) (\<lambda>(payload, size).
     bind_op (Retrieve e) (\<lambda>creds.
     bind_op (result (NewRequest e ''PUT'' (objectURL s key))) (\<lambda>req.
     let h = (if contentType \<noteq> '''' then header_set ''Content-Type'' contentType (hr_Header req)
              else hr_Header req);
         req1 = req\<lparr>hr_Header := header_set ''X-Amz-Server-Side-Encryption'' ''AES256'' h\<rparr>
     in bind_op (signed (s3_signer s) req1 creds (HashPayload payload)) (\<lambda>req2.
        bind_op (map_err (Errorf (''cloud: s3 put '' @ quoted key)) (client_Do e req2 payload)) (\<lambda>resp.
        if \<not> success resp
        then fail (PlainErr (''cloud: s3 put '' @ quoted key @ '' returned '' @ rp_Status resp
               @ '': '' @ readErrorBody resp))
        else ret size)))))"

definition S3Store_Open :: "aws_env \<Rightarrow> S3Store \<Rightarrow> string \<Rightarrow> (cloud, string \<times> int) op" where
  "S3Store_Open e s key =
     bind_op (Retrieve e) (\<lambda>creds.
     bind_op (result (NewRequest e ''GET'' (objectURL s key))) (\<lambda>req.
     bind_op (signed (s3_signer s) req creds EmptyPayloadHash) (\<lambda>req1.
     bind_op (map_err (Errorf (''cloud: s3 get '' @ quoted key)) (client_Do e req1 '''')) (\<lambda>resp.
     if rp_StatusCode resp = 404 then fail (Sentinel exports_ErrObjectNotFound)
     else if \<not> success resp
     then fail (PlainErr (''cloud: s3 get '' @ quoted key @ '' returned '' @ rp_Status resp))
     else ret (rp_Body resp, rp_ContentLength resp)))))"

definition S3Store_PresignGet :: "aws_env \<Rightarrow> S3Store \<Rightarrow> string \<Rightarrow> duration \<Rightarrow> (cloud, string) op" where
  "S3Store_PresignGet e s key ttl =
     bind_op (Retrieve e) (\<lambda>creds c.
       (PresignGET (ae_parse e) (s3_signer s) (cl_clock c) (objectURL s key) creds ttl, c))"

section \<open>Amazon SQS\<close>

definition sqsAPIVersion :: string where
  "sqsAPIVersion = ''2012-11-05''"

record SQSNotifier =
  sq_queueURL :: string
  sq_signer :: Signer

definition NewSQSNotifier :: "aws_env \<Rightarrow> string \<Rightarrow> string \<Rightarrow> goerr + SQSNotifier" where
  "NewSQSNotifier e queueURL fallbackRegion =
     (let invalid = PlainErr (''cloud: invalid SQS queue URL '' @ quoted queueURL) in
      case ae_parse e queueURL of
        Inl _ \<Rightarrow> Inl invalid
      | Inr u \<Rightarrow>
          if ur_Host u = '''' then Inl invalid
          else (let region = regionFromHost (ur_Host u) fallbackRegion in
            if region = ''''
            then Inl (PlainErr (''cloud: could not determine the region for queue '' @ quoted queueURL))
            else Inr \<lparr>sq_queueURL = queueURL, sq_signer = NewSigner region ''sqs''\<rparr>))"

definition SQSNotifier_Backend :: string where
  "SQSNotifier_Backend = ''sqs''"

text \<open>\<open>url.QueryEscape\<close>, and \<open>Encode\<close> of the form's three fields, sorted by name.\<close>

definition QueryEscape :: "string \<Rightarrow> string" where
  "QueryEscape s = concat (map (\<lambda>c. if c = CHR '' '' then ''+'' else uriEncode_byte True c) s)"

definition form_Encode :: "Values \<Rightarrow> string" where
  "form_Encode q = Join (concat (map (\<lambda>(k, vs). map (\<lambda>v. QueryEscape k @ ''='' @ QueryEscape v) vs)
     (sort_key fst q))) ''&''"

definition sqs_form :: "string \<Rightarrow> Values" where
  "sqs_form body = [(''Action'', [''SendMessage'']), (''Version'', [sqsAPIVersion]), (''MessageBody'', [body])]"

definition SQSNotifier_Publish :: "aws_env \<Rightarrow> SQSNotifier \<Rightarrow> string \<Rightarrow> string \<Rightarrow> (cloud, unit) op" where
  "SQSNotifier_Publish e n jobID tenantID =
     (let encoded = form_Encode (sqs_form (ae_notification e jobID tenantID)) in
      bind_op (Retrieve e) (\<lambda>creds.
      bind_op (result (NewRequest e ''POST'' (sq_queueURL n))) (\<lambda>req.
      let req1 = req\<lparr>hr_Header := header_set ''Content-Type''
            ''application/x-www-form-urlencoded; charset=utf-8'' (hr_Header req)\<rparr>
      in bind_op (signed (sq_signer n) req1 creds (HashPayload encoded)) (\<lambda>req2.
         bind_op (map_err (Errorf ''cloud: sqs send message'') (client_Do e req2 encoded)) (\<lambda>resp.
         if \<not> success resp
         then fail (PlainErr (''cloud: sqs send message returned '' @ rp_Status resp @ '': ''
                @ readErrorBody resp))
         else ret ())))))"

section \<open>AWS Secrets Manager\<close>

record SecretsManagerLoader =
  sm_region :: string
  sm_signer :: Signer

definition NewSecretsManagerLoader :: "string \<Rightarrow> SecretsManagerLoader" where
  "NewSecretsManagerLoader region = \<lparr>sm_region = region, sm_signer = NewSigner region ''secretsmanager''\<rparr>"

text \<open>
  A string in JSON, as \<open>encoding/json\<close> writes it: quotes, backslashes, control characters and the
  three characters that mean something in HTML are escaped, other bytes (UTF-8) are left alone.
\<close>

definition json_char :: "char \<Rightarrow> string" where
  "json_char c =
     (let n = byte c; hex = (\<lambda>d. hex_digit d) in
      if n = 34 \<or> n = 92 then [CHR 0x5C, c]
      else if n = 8 then CHR 0x5C # ''b'' else if n = 12 then CHR 0x5C # ''f''
      else if n = 10 then CHR 0x5C # ''n'' else if n = 13 then CHR 0x5C # ''r''
      else if n = 9 then CHR 0x5C # ''t''
      else if n < 32 \<or> n \<in> {38, 60, 62} then CHR 0x5C # ''u00'' @ [hex (n div 16), hex (n mod 16)]
      else [c])"

definition json_quote :: "string \<Rightarrow> string" where
  "json_quote s = dquote (concat (map json_char s))"

record getSecretValueResponse =
  gs_Name :: string
  gs_SecretString :: string

definition getSecretValue_fields :: "getSecretValueResponse setters" where
  "getSecretValue_fields = [
     (''Name'', set_string (\<lambda>s d. d\<lparr>gs_Name := s\<rparr>)),
     (''SecretString'', set_string (\<lambda>s d. d\<lparr>gs_SecretString := s\<rparr>))]"

definition read_secrets :: "aws_env \<Rightarrow> string \<Rightarrow> reply \<Rightarrow> goerr + (string \<times> string) list" where
  "read_secrets e secretID resp =
     (if rp_StatusCode resp = 400 \<or> rp_StatusCode resp = 404
      then Inl (PlainErr (''cloud: secret '' @ quoted secretID @ '' could not be read: '' @ readErrorBody resp))
      else if \<not> success resp
      then Inl (PlainErr (''cloud: get secret value returned '' @ rp_Status resp))
      else case rp_JSON resp of
          Inl err \<Rightarrow> Inl (Errorf ''cloud: decode secret value'' err)
        | Inr v \<Rightarrow>
            (case decode_plain getSecretValue_fields v \<lparr>gs_Name = '''', gs_SecretString = ''''\<rparr> of
               (Some err, _) \<Rightarrow> Inl (Errorf ''cloud: decode secret value'' err)
             | (None, b) \<Rightarrow>
                 if gs_SecretString b = ''''
                 then Inl (PlainErr (''cloud: secret '' @ quoted secretID @ '' has no string value''))
                 else (case ae_strings e (gs_SecretString b) of
                     Inl err \<Rightarrow> Inl (Errorf (''cloud: secret '' @ quoted secretID
                         @ '' must be a flat JSON object of KEY: value pairs'') err)
                   | Inr kvs \<Rightarrow> Inr kvs)))"

definition LoadSecrets :: "aws_env \<Rightarrow> SecretsManagerLoader \<Rightarrow> string \<Rightarrow> (cloud, (string \<times> string) list) op" where
  "LoadSecrets e l secretID =
     (let payload = ''{'' @ json_quote ''SecretId'' @ '':'' @ json_quote secretID @ ''}'' in
      bind_op (Retrieve e) (\<lambda>creds.
      bind_op (result (NewRequest e ''POST''
          (''https://secretsmanager.'' @ sm_region l @ ''.amazonaws.com/''))) (\<lambda>req.
      let req1 = req\<lparr>hr_Header := header_set ''X-Amz-Target'' ''secretsmanager.GetSecretValue''
            (header_set ''Content-Type'' ''application/x-amz-json-1.1'' (hr_Header req))\<rparr>
      in bind_op (signed (sm_signer l) req1 creds (HashPayload payload)) (\<lambda>req2.
         bind_op (map_err (Errorf ''cloud: get secret value'') (client_Do e req2 payload)) (\<lambda>resp.
         result (read_secrets e secretID resp))))))"

end
