(* ===== verification/CloudProperties.thy ===== *)
theory CloudProperties
  imports Cloud AwssigProperties
begin

text \<open>
  What makes the AWS adapters correct: the credentials they sign with are usable and not about to
  expire, they send nothing but signed requests, and an object is addressed by the path that the
  signature covers.
\<close>

section \<open>Credentials\<close>

definition provider_ok :: "CredentialProvider \<Rightarrow> bool" where
  "provider_ok p \<longleftrightarrow> (cp_hasCache p \<longrightarrow> Credentials_Valid (cp_cached p))"

lemma NewCredentialProvider_ok: "provider_ok (NewCredentialProvider a b t)"
  by (simp add: provider_ok_def NewCredentialProvider_def)

lemma result_eq [simp]: "result r s = (r', s') \<longleftrightarrow> r' = r \<and> s' = s"
  by (auto simp: result_def)

lemma client_Do_sends:
  "client_Do e req body c = (r, c') \<Longrightarrow>
     cl_sent c' = cl_sent c @ [(req, body)] \<and> cl_provider c' = cl_provider c"
  by (auto simp: client_Do_def Let_def split: prod.splits)

lemma read_credentials_valid:
  "read_credentials resp now = Inr (creds, t) \<Longrightarrow> Credentials_Valid creds"
  by (auto simp: read_credentials_def Let_def split: if_splits sum.splits prod.splits option.splits)

text \<open>At most one request for credentials, as the environment says it is to be made.\<close>

definition credential_calls :: "aws_env \<Rightarrow> sent list \<Rightarrow> bool" where
  "credential_calls e calls \<longleftrightarrow>
     calls = [] \<or> (\<exists>req. credentials_request e = Inr req \<and> calls = [(req, '''')])"

lemma fetch_sends:
  assumes "fetchContainerCredentials e c = (r, c')"
  shows "\<exists>calls. cl_sent c' = cl_sent c @ calls \<and> credential_calls e calls \<and> (\<not> isl r \<longrightarrow> calls \<noteq> [])"
    and "cl_provider c' = cl_provider c"
    and "r = Inr (creds, t) \<Longrightarrow> Credentials_Valid creds"
proof -
  have *: "(\<exists>calls. cl_sent c' = cl_sent c @ calls \<and> credential_calls e calls \<and> (\<not> isl r \<longrightarrow> calls \<noteq> []))
      \<and> cl_provider c' = cl_provider c \<and> (r = Inr (creds, t) \<longrightarrow> Credentials_Valid creds)" for creds t
  proof (cases "credentials_request e")
    case (Inl err)
    with assms show ?thesis
      by (auto simp: fetchContainerCredentials_def bind_op_def result_def credential_calls_def)
  next
    case (Inr req)
    obtain x c1 where do: "client_Do e req '''' c = (x, c1)" by fastforce
    from assms have "c' = c1" "r = Inr (creds, t) \<longrightarrow> (\<exists>resp. read_credentials resp (cl_clock c1) = Inr (creds, t))"
      by (auto simp: fetchContainerCredentials_def bind_op_def result_def map_err_def Inr do split: sum.splits)
    with client_Do_sends [OF do] Inr read_credentials_valid show ?thesis
      by (auto simp: credential_calls_def)
  qed
  then show "\<exists>calls. cl_sent c' = cl_sent c @ calls \<and> credential_calls e calls \<and> (\<not> isl r \<longrightarrow> calls \<noteq> [])"
    "cl_provider c' = cl_provider c" "r = Inr (creds, t) \<Longrightarrow> Credentials_Valid creds" by blast+
qed

lemma Retrieve_cases:
  assumes "Retrieve e c = (r, c')"
  obtains (static) "Credentials_Valid (cp_static (cl_provider c))" "r = Inr (cp_static (cl_provider c))" "c' = c"
  | (cached) "\<not> Credentials_Valid (cp_static (cl_provider c))" "cache_fresh (cl_provider c) (cl_clock c)"
      "r = Inr (cp_cached (cl_provider c))" "c' = c"
  | (failed) err where "\<not> cache_fresh (cl_provider c) (cl_clock c)"
      "fetchContainerCredentials e c = (Inl err, c')" "r = Inl err"
  | (fetched) creds t c1 where "\<not> Credentials_Valid (cp_static (cl_provider c))"
      "\<not> cache_fresh (cl_provider c) (cl_clock c)"
      "fetchContainerCredentials e c = (Inr (creds, t), c1)" "r = Inr creds" "c' = store_credentials (creds, t) c1"
proof (cases "Credentials_Valid (cp_static (cl_provider c))")
  case True
  show ?thesis by (rule static) (use assms True in \<open>auto simp: Retrieve_def\<close>)
next
  case no_static: False
  show ?thesis
  proof (cases "cache_fresh (cl_provider c) (cl_clock c)")
    case True
    show ?thesis by (rule cached) (use assms no_static True in \<open>auto simp: Retrieve_def\<close>)
  next
    case False
    obtain x c1 where fetch: "fetchContainerCredentials e c = (x, c1)" by fastforce
    with assms no_static False
    have run: "(case x of Inl err \<Rightarrow> (Inl err, c1) | Inr ct \<Rightarrow> (Inr (fst ct), store_credentials ct c1)) = (r, c')"
      by (simp add: Retrieve_def bind_op_def)
    show ?thesis
    proof (cases x)
      case (Inl err)
      with run fetch show ?thesis by (intro failed [OF False]) auto
    next
      case (Inr ct)
      with run fetch show ?thesis by (intro fetched [OF no_static False, of "fst ct" "snd ct"]) auto
    qed
  qed
qed

lemma Retrieve_sends:
  assumes "Retrieve e c = (r, c')"
  shows "\<exists>calls. cl_sent c' = cl_sent c @ calls \<and> credential_calls e calls"
  using assms
proof (cases rule: Retrieve_cases)
  case (failed err)
  with fetch_sends(1) show ?thesis by blast
next
  case (fetched creds t c1)
  with fetch_sends(1) [OF fetched(3)] show ?thesis by (auto simp: store_credentials_def)
qed (auto simp: credential_calls_def)

lemma Retrieve_provider:
  assumes "Retrieve e c = (r, c')" "provider_ok (cl_provider c)"
  shows "provider_ok (cl_provider c') \<and> (\<forall>creds. r = Inr creds \<longrightarrow> Credentials_Valid creds)"
  using assms(1)
proof (cases rule: Retrieve_cases)
  case cached
  with assms(2) show ?thesis by (auto simp: provider_ok_def cache_fresh_def)
next
  case (failed err)
  with fetch_sends(2) [OF failed(2)] assms(2) show ?thesis by simp
next
  case (fetched cr t c1)
  from fetch_sends(3) [OF fetched(3) refl] fetched show ?thesis
    by (simp add: provider_ok_def store_credentials_def)
qed (use assms(2) in simp_all)

text \<open>C34. The credentials a provider hands out can sign, in every order of calls: the fixed pair; or the
  cached ones, as long as they are good for five minutes more, and then no request is made; or those
  the endpoint has just given, which are cached from then on. A failure leaves the cache as it was.
\<close>

theorem credentials_rotate:
  assumes "Retrieve e c = (r, c')" "provider_ok (cl_provider c)"
  shows "provider_ok (cl_provider c')
    \<and> (\<exists>calls. cl_sent c' = cl_sent c @ calls \<and> credential_calls e calls)
    \<and> (case r of
         Inl err \<Rightarrow> cl_provider c' = cl_provider c
       | Inr creds \<Rightarrow> Credentials_Valid creds
           \<and> (cl_sent c' = cl_sent c \<longrightarrow> creds = cp_static (cl_provider c)
                \<or> creds = cp_cached (cl_provider c) \<and> cl_clock c + 5 * minute < cp_expires (cl_provider c))
           \<and> (cl_sent c' \<noteq> cl_sent c \<longrightarrow> \<not> cache_fresh (cl_provider c) (cl_clock c)
                \<and> cp_hasCache (cl_provider c') \<and> cp_cached (cl_provider c') = creds))"
  using assms(1)
proof (cases rule: Retrieve_cases)
  case cached
  with Retrieve_provider [OF assms] Retrieve_sends [OF assms(1)] show ?thesis
    by (auto simp: cache_fresh_def credentialRefreshWindow_def)
next
  case (failed err)
  with Retrieve_provider [OF assms] Retrieve_sends [OF assms(1)] fetch_sends(2) [OF failed(2)]
  show ?thesis by simp
next
  case (fetched creds t c1)
  from fetch_sends(1) [OF fetched(3)] fetched(5) have "cl_sent c' \<noteq> cl_sent c"
    by (auto simp: store_credentials_def)
  with fetched Retrieve_provider [OF assms] Retrieve_sends [OF assms(1)] show ?thesis
    by (simp add: store_credentials_def)
qed (use Retrieve_provider [OF assms] Retrieve_sends [OF assms(1)] in simp_all)

definition sample_reply :: "int \<Rightarrow> json \<Rightarrow> reply" where
  "sample_reply code v = \<lparr>rp_StatusCode = code, rp_Status = Itoa code, rp_Body = '''', rp_ContentLength = 0,
     rp_JSON = Inr v\<rparr>"

definition sample_url :: "string \<Rightarrow> goerr + URL" where
  "sample_url raw = Inr \<lparr>ur_Host = ''aws'', ur_EscapedPath = ''/'', ur_Query = [], ur_before = raw, ur_after = ''''\<rparr>"

text \<open>An ECS task whose endpoint hands out a key, and services that accept every request.\<close>

definition sample_aws :: aws_env where
  "sample_aws = \<lparr>
     ae_network = (\<lambda>sent. (Inr (sample_reply 200 (JObj [(''AccessKeyId'', JStr ''AKID''),
        (''SecretAccessKey'', JStr ''secret''), (''Token'', JStr ''token''),
        (''Expiration'', JStr ''2030-01-01T00:00:00Z'')])), second)),
     ae_parse = sample_url,
     ae_env = [''AWS_CONTAINER_CREDENTIALS_RELATIVE_URI'' \<mapsto> ''/v2/creds''],
     ae_strings = (\<lambda>_. Inr [(''JWT_ACCESS_SECRET'', ''s'')]),
     ae_notification = (\<lambda>j t. ''{}'')\<rparr>"

definition sample_cloud :: cloud where
  "sample_cloud = \<lparr>cl_clock = 1700000000 * second, cl_sent = [],
     cl_provider = NewCredentialProvider '''' '''' ''''\<rparr>"

theorem credentials_rotate_witness:
  "\<exists>creds c'. Retrieve sample_aws sample_cloud = (Inr creds, c') \<and> Credentials_Valid creds
     \<and> cp_cached (cl_provider c') = creds \<and> cp_hasCache (cl_provider c') \<and> length (cl_sent c') = 1"
proof -
  have "length (cl_sent (snd (Retrieve sample_aws sample_cloud))) = 1"
    "\<not> isl (fst (Retrieve sample_aws sample_cloud))" by code_simp+
  then obtain creds c' where run: "Retrieve sample_aws sample_cloud = (Inr creds, c')"
    and sent: "length (cl_sent c') = 1"
    by (cases "Retrieve sample_aws sample_cloud"; cases "fst (Retrieve sample_aws sample_cloud)") auto
  have "provider_ok (cl_provider sample_cloud)" by (simp add: sample_cloud_def NewCredentialProvider_ok)
  from credentials_rotate [OF run this] run sent show ?thesis by (auto simp: sample_cloud_def)
qed

section \<open>What the adapters send\<close>

definition signed_call :: "Signer \<Rightarrow> sent \<Rightarrow> bool" where
  "signed_call s x \<longleftrightarrow> (\<exists>now req creds h. Credentials_Valid creds
     \<and> SignRequest s now req creds h = Inr (fst x)
     \<and> (h = HashPayload (snd x) \<or> h = EmptyPayloadHash \<and> snd x = ''''))"

definition signed_calls :: "Signer \<Rightarrow> sent list \<Rightarrow> bool" where
  "signed_calls s calls \<longleftrightarrow> calls = [] \<or> (\<exists>x. calls = [x] \<and> signed_call s x)"

text \<open>An operation that asks for credentials at most once, and then sends at most one signed request.\<close>

definition one_call :: "aws_env \<Rightarrow> Signer \<Rightarrow> (cloud, 'a) op \<Rightarrow> bool" where
  "one_call e s m \<longleftrightarrow> (\<forall>c r c'. m c = (r, c') \<longrightarrow> (\<exists>fetch calls.
     cl_sent c' = cl_sent c @ fetch @ calls \<and> credential_calls e fetch \<and> signed_calls s calls
     \<and> (\<not> isl r \<longrightarrow> length calls = 1)))"

definition no_call :: "(cloud, 'a) op \<Rightarrow> bool" where
  "no_call m \<longleftrightarrow> (\<forall>c. snd (m c) = c)"

lemma no_call_rules:
  "no_call (ret x)" "no_call (fail err)" "no_call (result r)"
  "no_call m1 \<Longrightarrow> no_call m2 \<Longrightarrow> no_call (if b then m1 else m2)"
  by (simp_all add: no_call_def ret_def fail_def result_def)

lemma SignRequest_valid: "SignRequest s now req creds h = Inr req' \<Longrightarrow> Credentials_Valid creds"
  by (auto simp: SignRequest_def split: if_splits)

text \<open>The common end of the four operations: sign, send, judge the reply.\<close>

definition send_signed ::
  "aws_env \<Rightarrow> Signer \<Rightarrow> http_request \<Rightarrow> Credentials \<Rightarrow> string \<Rightarrow> string \<Rightarrow> (goerr \<Rightarrow> goerr) \<Rightarrow>
   (reply \<Rightarrow> (cloud, 'a) op) \<Rightarrow> (cloud, 'a) op" where
  "send_signed e s req creds h body g k =
     bind_op (signed s req creds h) (\<lambda>req'. bind_op (map_err g (client_Do e req' body)) k)"

lemma send_signed_sends:
  assumes "send_signed e s req creds h body g k c = (r, c')" "\<And>resp. no_call (k resp)"
    and "h = HashPayload body \<or> h = EmptyPayloadHash \<and> body = ''''"
  shows "\<exists>calls. cl_sent c' = cl_sent c @ calls \<and> signed_calls s calls \<and> (\<not> isl r \<longrightarrow> length calls = 1)"
proof (cases "SignRequest s (cl_clock c) req creds h")
  case (Inl err)
  with assms(1) show ?thesis
    by (auto simp: send_signed_def bind_op_def signed_def signed_calls_def)
next
  case (Inr req')
  obtain x c1 where do: "client_Do e req' body c = (x, c1)" by fastforce
  have "snd (k resp c1) = c1" for resp using assms(2) by (simp add: no_call_def)
  with assms(1) Inr do have "c' = c1"
    by (auto simp: send_signed_def bind_op_def signed_def map_err_def split: sum.splits dest!: arg_cong [of _ _ snd])
  moreover have "signed_call s (req', body)"
    unfolding signed_call_def using Inr assms(3) SignRequest_valid by fastforce
  ultimately show ?thesis using client_Do_sends [OF do] by (auto simp: signed_calls_def)
qed

lemma one_call_authorized:
  assumes "\<And>creds req resp. no_call (k creds req resp)"
    and "\<And>creds req. h creds req = HashPayload (body creds req) \<or> h creds req = EmptyPayloadHash \<and> body creds req = ''''"
  shows "one_call e s (bind_op (Retrieve e) (\<lambda>creds. bind_op (result rq) (\<lambda>req.
    send_signed e s (f req) creds (h creds req) (body creds req) g (k creds req))))"
  unfolding one_call_def
proof (intro allI impI)
  fix c r c'
  assume run: "bind_op (Retrieve e) (\<lambda>creds. bind_op (result rq) (\<lambda>req.
    send_signed e s (f req) creds (h creds req) (body creds req) g (k creds req))) c = (r, c')"
  obtain x c1 where ret: "Retrieve e c = (x, c1)" by fastforce
  then obtain fetch where fetch: "cl_sent c1 = cl_sent c @ fetch" "credential_calls e fetch"
    using Retrieve_sends by blast
  show "\<exists>fetch calls. cl_sent c' = cl_sent c @ fetch @ calls \<and> credential_calls e fetch
    \<and> signed_calls s calls \<and> (\<not> isl r \<longrightarrow> length calls = 1)"
  proof (cases "\<exists>creds req. x = Inr creds \<and> rq = Inr req")
    case True
    then obtain creds req where "x = Inr creds" "rq = Inr req" by blast
    with run ret have "send_signed e s (f req) creds (h creds req) (body creds req) g (k creds req) c1 = (r, c')"
      by (simp add: bind_op_def result_def)
    from send_signed_sends [OF this assms] fetch show ?thesis by fastforce
  next
    case False
    with run ret have "c' = c1" "isl r"
      by (auto simp: bind_op_def result_def split: sum.splits)
    with fetch show ?thesis by (auto simp: signed_calls_def)
  qed
qed

lemma one_call_result: "(\<And>x. one_call e s (f x)) \<Longrightarrow> one_call e s (bind_op (result r) f)"
  unfolding one_call_def
  by (cases r) (auto simp: bind_op_def result_def credential_calls_def signed_calls_def)

text \<open>C35. Uploading, downloading, publishing and reading a secret each send at most one request for
  credentials and then at most one request to the service, exactly one when they succeed; that one
  is signed with usable credentials over the hash of the body it is sent with. Making a download
  link sends nothing to the service.
\<close>

theorem cloud_calls_signed:
  "one_call e (s3_signer s) (S3Store_Put e s key contentType body)
    \<and> one_call e (s3_signer s) (S3Store_Open e s key)
    \<and> one_call e (sq_signer n) (SQSNotifier_Publish e n jobID tenantID)
    \<and> one_call e (sm_signer l) (LoadSecrets e l secretID)
    \<and> (\<exists>calls. cl_sent (snd (S3Store_PresignGet e s key ttl c)) = cl_sent c @ calls \<and> credential_calls e calls)"
proof (intro conjI)
  show "one_call e (s3_signer s) (S3Store_Put e s key contentType body)"
    unfolding S3Store_Put_def Let_def split_beta send_signed_def [symmetric]
    by (intro one_call_result one_call_authorized no_call_rules) simp
  show "one_call e (s3_signer s) (S3Store_Open e s key)"
    unfolding S3Store_Open_def send_signed_def [symmetric]
    by (intro one_call_authorized no_call_rules) simp
  show "one_call e (sq_signer n) (SQSNotifier_Publish e n jobID tenantID)"
    unfolding SQSNotifier_Publish_def Let_def send_signed_def [symmetric]
    by (intro one_call_authorized no_call_rules) simp
  show "one_call e (sm_signer l) (LoadSecrets e l secretID)"
    unfolding LoadSecrets_def Let_def send_signed_def [symmetric]
    by (intro one_call_authorized no_call_rules) simp
  obtain r c1 where ret: "Retrieve e c = (r, c1)" by fastforce
  then have "snd (S3Store_PresignGet e s key ttl c) = c1"
    by (cases r) (simp_all add: S3Store_PresignGet_def bind_op_def)
  with Retrieve_sends [OF ret]
  show "\<exists>calls. cl_sent (snd (S3Store_PresignGet e s key ttl c)) = cl_sent c @ calls \<and> credential_calls e calls"
    by simp
qed

section \<open>Object paths\<close>

lemma escapeKeySegment_uriEncode: "escapeKeySegment s = uriEncode s True"
  by (simp add: escapeKeySegment_def uriEncode_def uriEncode_byte_def [abs_def] unreserved_def)

lemma uriEncode_slash: "CHR ''/'' \<notin> set s \<Longrightarrow> uriEncode s b = uriEncode s True"
  by (induction s) (auto simp: uriEncode_byte_def)

lemma escaped_segments:
  "Split CHR ''/'' (escapeKeyPath key) = map escapeKeySegment (Split CHR ''/'' (TrimPrefix key ''/''))"
proof -
  have "\<forall>w \<in> set (map escapeKeySegment (Split CHR ''/'' (TrimPrefix key ''/''))). CHR ''/'' \<notin> set w"
    using uriEncode_chars by (fastforce simp: escapeKeySegment_uriEncode)
  then show ?thesis by (simp add: escapeKeyPath_def Split_Join)
qed

text \<open>C36. An object's path is signed exactly as it is sent: the path the store writes for a key is the
  canonical path the signer makes of it, and decoding it gives the key back, so that two keys that
  differ in more than a leading slash have different paths.
\<close>

theorem object_path_signed_as_sent:
  assumes "ur_EscapedPath u = ''/'' @ escapeKeyPath key"
  shows "canonicalURI u = ur_EscapedPath u
    \<and> PathUnescape (escapeKeyPath key) = Some (TrimPrefix key ''/'')"
proof -
  let ?segs = "Split CHR ''/'' (TrimPrefix key ''/'')"
  have free: "uriEncode seg False = escapeKeySegment seg" if "seg \<in> set ?segs" for seg
    using Split_no_sep [OF that] by (simp add: escapeKeySegment_uriEncode uriEncode_slash [of seg False])
  have "map (\<lambda>seg. uriEncode (case PathUnescape seg of None \<Rightarrow> seg | Some s \<Rightarrow> s) False)
      (map escapeKeySegment ?segs) = map escapeKeySegment ?segs"
    by (simp add: escapeKeySegment_uriEncode PathUnescape_uriEncode free)
  then have path: "canonicalURI u = ur_EscapedPath u"
    by (simp add: canonicalURI_def assms escaped_segments Join_Cons del: map_map flip: escapeKeyPath_def)
  have "PathUnescape (Join (map escapeKeySegment ws) ''/'') = Some (Join ws ''/'')" for ws
  proof (induction ws "''/''" rule: Join.induct)
    case (3 w v ws)
    have "PathUnescape (uriEncode w True @ s) = map_option ((@) w) (PathUnescape s)" for s
      by (induction w) (simp_all add: PathUnescape_byte option.map_comp comp_def option.map_ident)
    with 3 show ?case by (simp add: escapeKeySegment_uriEncode)
  qed (simp_all add: escapeKeySegment_uriEncode PathUnescape_uriEncode)
  with path show ?thesis by (simp add: escapeKeyPath_def Join_Split)
qed

theorem object_path_signed_as_sent_witness:
  "canonicalURI \<lparr>ur_Host = ''h'', ur_EscapedPath = ''/'' @ escapeKeyPath ''t 1/a+b.csv'', ur_Query = [],
      ur_before = '''', ur_after = ''''\<rparr> = ''/t%201/a%2Bb.csv''
    \<and> PathUnescape (escapeKeyPath ''t 1/a+b.csv'') = Some ''t 1/a+b.csv''"
proof -
  let ?u = "\<lparr>ur_Host = ''h'', ur_EscapedPath = ''/'' @ escapeKeyPath ''t 1/a+b.csv'', ur_Query = [],
      ur_before = '''', ur_after = ''''\<rparr>"
  have "''/'' @ escapeKeyPath ''t 1/a+b.csv'' = ''/t%201/a%2Bb.csv''"
    "TrimPrefix ''t 1/a+b.csv'' ''/'' = ''t 1/a+b.csv''" by code_simp+
  with object_path_signed_as_sent [of ?u "''t 1/a+b.csv''"] show ?thesis by simp
qed

end
