(* ===== verification/Migrate.thy ===== *)
theory Migrate
  imports Apierr "HOL-Library.Char_ord" "HOL-Library.List_Lexorder"
begin

text \<open>
  \<^verbatim>\<open>internal/database/migrate.go\<close>: the migrations at start-up. What a migration's SQL does to the
  schema is PostgreSQL's, the parameter \<open>run\<close>. The database answers each statement from its script:
  nothing, or an error and, for a commit, whether the transaction went through all the same. The
  migration files are the embedded directory: names, with the contents or nothing for a directory.
\<close>

record 's migration_db =
  md_versions :: "string list option"
  md_schema :: 's
  md_script :: "(goerr \<times> bool) option list"

type_synonym entries = "(string \<times> string option) list"

definition db_call :: "'s migration_db \<Rightarrow> (goerr \<times> bool) option \<times> 's migration_db" where
  "db_call d = (case md_script d of [] \<Rightarrow> (None, d) | e # s \<Rightarrow> (e, d\<lparr>md_script := s\<rparr>))"

definition statement :: "('s migration_db, 'a) op \<Rightarrow> ('s migration_db, 'a) op" where
  "statement f d = (case db_call d of
      (Some (err, done_), d1) \<Rightarrow> (Inl err, d1)
    | (None, d1) \<Rightarrow> f d1)"

definition create_tracking :: "('s migration_db, unit) op" where
  "create_tracking = statement (\<lambda>d. (Inr (),
     d\<lparr>md_versions := Some (case md_versions d of None \<Rightarrow> [] | Some vs \<Rightarrow> vs)\<rparr>))"

definition missing_table :: goerr where
  "missing_table = PqErr ''42P01'' ''relation schema_migrations does not exist''"

definition version_exists :: "string \<Rightarrow> ('s migration_db, bool) op" where
  "version_exists version = statement (\<lambda>d. (case md_versions d of
      None \<Rightarrow> Inl missing_table | Some vs \<Rightarrow> Inr (version \<in> set vs), d))"

definition insert_version :: "string \<Rightarrow> ('s migration_db, unit) op" where
  "insert_version version = statement (\<lambda>d. (case md_versions d of
      None \<Rightarrow> (Inl missing_table, d)
    | Some vs \<Rightarrow>
        if version \<in> set vs
        then (Inl (PqErr ''23505'' ''duplicate key value violates unique constraint''), d)
        else (Inr (), d\<lparr>md_versions := Some (vs @ [version])\<rparr>)))"

definition run_contents :: "(string \<Rightarrow> 's \<Rightarrow> goerr + 's) \<Rightarrow> string \<Rightarrow> ('s migration_db, unit) op" where
  "run_contents run contents = statement (\<lambda>d. (case run contents (md_schema d) of
      Inl err \<Rightarrow> (Inl err, d)
    | Inr s \<Rightarrow> (Inr (), d\<lparr>md_schema := s\<rparr>)))"

text \<open>A rollback, and a transaction that is lost, leave the state in which it began.\<close>

definition rolled_back :: "'s migration_db \<Rightarrow> 's migration_db \<Rightarrow> 's migration_db" where
  "rolled_back d d' = d\<lparr>md_script := md_script d'\<rparr>"

definition migration_body ::
  "(string \<Rightarrow> 's \<Rightarrow> goerr + 's) \<Rightarrow> string \<Rightarrow> string \<Rightarrow> string \<Rightarrow> ('s migration_db, unit) op" where
  "migration_body run name contents version =
     bind_op (map_err (Errorf (''migrate: apply '' @ name)) (run_contents run contents)) (\<lambda>_.
       map_err (Errorf (''migrate: record '' @ name)) (insert_version version))"

definition in_transaction :: "string \<Rightarrow> ('s migration_db, unit) op \<Rightarrow> ('s migration_db, unit) op" where
  "in_transaction name body d = (case body d of
      (Inl err, d1) \<Rightarrow> (Inl err, rolled_back d d1)
    | (Inr _, d1) \<Rightarrow>
        (case db_call d1 of
           (None, d2) \<Rightarrow> (Inr (), d2)
         | (Some (err, went_through), d2) \<Rightarrow>
             (Inl (Errorf (''migrate: commit '' @ name) err), if went_through then d2 else rolled_back d d2)))"

definition apply_migration ::
  "(string \<Rightarrow> 's \<Rightarrow> goerr + 's) \<Rightarrow> string \<Rightarrow> string \<Rightarrow> string \<Rightarrow> ('s migration_db, unit) op" where
  "apply_migration run name contents version =
     bind_op (map_err (Errorf (''migrate: begin tx for '' @ name)) (statement (ret ()))) (\<lambda>_.
       in_transaction name (migration_body run name contents version))"

definition migration_names :: "entries \<Rightarrow> string list" where
  "migration_names entries =
     sort (map fst (filter (\<lambda>(n, c). c \<noteq> None \<and> HasSuffix n ''.up.sql'') entries))"

definition contents_of :: "entries \<Rightarrow> string \<Rightarrow> string" where
  "contents_of entries name = (case map_of entries name of Some (Some c) \<Rightarrow> c | _ \<Rightarrow> '''')"

definition version_of :: "string \<Rightarrow> string" where
  "version_of name = TrimSuffix name ''.up.sql''"

definition migrate_file ::
  "(string \<Rightarrow> 's \<Rightarrow> goerr + 's) \<Rightarrow> entries \<Rightarrow> string \<Rightarrow> ('s migration_db, unit) op" where
  "migrate_file run entries name =
     (let version = version_of name in
      bind_op (map_err (Errorf (''migrate: check version '' @ version)) (version_exists version)) (\<lambda>exists.
      if exists then ret ()
      else apply_migration run name (contents_of entries name) version))"

fun migrate_all ::
  "(string \<Rightarrow> 's \<Rightarrow> goerr + 's) \<Rightarrow> entries \<Rightarrow> string list \<Rightarrow> ('s migration_db, unit) op" where
  "migrate_all run entries [] = ret ()"
| "migrate_all run entries (name # names) =
     bind_op (migrate_file run entries name) (\<lambda>_. migrate_all run entries names)"

definition Migrate :: "(string \<Rightarrow> 's \<Rightarrow> goerr + 's) \<Rightarrow> entries \<Rightarrow> ('s migration_db, unit) op" where
  "Migrate run entries =
     bind_op (map_err (Errorf ''migrate: create tracking table'') create_tracking) (\<lambda>_.
       migrate_all run entries (migration_names entries))"

section \<open>Versions\<close>

lemma HasSuffix_TrimSuffix: "HasSuffix n s \<Longrightarrow> TrimSuffix n s @ s = n"
proof -
  assume h: "HasSuffix n s"
  then obtain t where "rev n = rev s @ t" by (auto simp: HasSuffix_def HasPrefix_iff)
  then have "n = rev t @ s" by (metis rev_append rev_rev_ident)
  then show ?thesis using h by (simp add: TrimSuffix_def)
qed

lemma distinct_versions:
  assumes "distinct (map fst entries)"
  shows "distinct (map version_of (migration_names entries))"
proof -
  have "distinct (migration_names entries)"
    using assms by (simp add: migration_names_def distinct_map_filter)
  moreover have "inj_on version_of (set (migration_names entries))"
  proof (rule inj_onI)
    fix x y
    assume "x \<in> set (migration_names entries)" "y \<in> set (migration_names entries)"
      and v: "version_of x = version_of y"
    then have "HasSuffix x ''.up.sql''" "HasSuffix y ''.up.sql''" by (auto simp: migration_names_def)
    then have "version_of x @ ''.up.sql'' = x" "version_of y @ ''.up.sql'' = y"
      unfolding version_of_def by (auto intro: HasSuffix_TrimSuffix)
    with v show "x = y" by metis
  qed
  ultimately show ?thesis by (simp add: distinct_map)
qed

section \<open>The migrations one after the other\<close>

text \<open>What the first migrations make of a schema, and the state in which they have been applied.\<close>

fun run_all :: "(string \<Rightarrow> 's \<Rightarrow> goerr + 's) \<Rightarrow> entries \<Rightarrow> string list \<Rightarrow> 's \<Rightarrow> goerr + 's" where
  "run_all run entries [] s = Inr s"
| "run_all run entries (n # ns) s =
     (case run (contents_of entries n) s of Inl err \<Rightarrow> Inl err | Inr s' \<Rightarrow> run_all run entries ns s')"

lemma run_all_snoc:
  "run_all run entries ns s = Inr s' \<Longrightarrow>
     run_all run entries (ns @ [n]) s = run (contents_of entries n) s'"
  by (induction ns arbitrary: s) (auto split: sum.splits)

definition applied ::
  "(string \<Rightarrow> 's \<Rightarrow> goerr + 's) \<Rightarrow> entries \<Rightarrow> 's \<Rightarrow> nat \<Rightarrow> 's migration_db \<Rightarrow> bool" where
  "applied run entries s0 k d \<longleftrightarrow>
     k \<le> length (migration_names entries)
     \<and> md_versions d = Some (map version_of (take k (migration_names entries)))
     \<and> run_all run entries (take k (migration_names entries)) s0 = Inr (md_schema d)"

lemma applied_script [simp]: "applied run entries s0 k (d\<lparr>md_script := s\<rparr>) = applied run entries s0 k d"
  by (simp add: applied_def)

lemma applied_rolled_back [simp]: "applied run entries s0 k (rolled_back d d') = applied run entries s0 k d"
  by (simp add: rolled_back_def)

lemma db_call_cases:
  assumes "db_call d = (e, d1)"
  shows "\<exists>s. d1 = d\<lparr>md_script := s\<rparr>"
  using assms by (cases "md_script d") (auto simp: db_call_def intro: exI [of _ "md_script d"])

lemma applied_db_call: "db_call d = (e, d1) \<Longrightarrow> applied run entries s0 k d1 = applied run entries s0 k d"
  by (auto dest: db_call_cases)

lemma statement_cases:
  assumes "statement f d = (r, d')"
  obtains (failed) err s where "r = Inl err" "d' = d\<lparr>md_script := s\<rparr>"
  | (ran) s where "f (d\<lparr>md_script := s\<rparr>) = (r, d')"
  using assms by (auto simp: statement_def split: prod.splits option.splits dest!: db_call_cases)

lemma create_tracking_cases:
  assumes "create_tracking d = (r, d')"
  shows "md_schema d' = md_schema d"
    and "md_versions d' = md_versions d \<or> md_versions d = None \<and> md_versions d' = Some []"
    and "r = Inr () \<Longrightarrow> md_versions d' \<noteq> None"
  using assms by (auto simp: create_tracking_def elim!: statement_cases split: option.splits)

lemma version_exists_cases:
  assumes "version_exists v d = (r, d')" "md_versions d = Some vs"
  shows "\<exists>s. d' = d\<lparr>md_script := s\<rparr>" and "r = Inr b \<Longrightarrow> b = (v \<in> set vs)"
  using assms by (auto simp: version_exists_def elim!: statement_cases)

lemma migration_body_Inr:
  assumes "migration_body run name contents v d = (Inr u, d')" "md_versions d = Some vs"
  shows "\<exists>sch s. run contents (md_schema d) = Inr sch
    \<and> d' = d\<lparr>md_versions := Some (vs @ [v]), md_schema := sch, md_script := s\<rparr>"
proof -
  from assms(1) obtain d1 where run: "run_contents run contents d = (Inr (), d1)"
    and ins: "insert_version v d1 = (Inr (), d')" by (auto simp: migration_body_def)
  from run obtain s sch where "run contents (md_schema d) = Inr sch" "d1 = d\<lparr>md_script := s, md_schema := sch\<rparr>"
    unfolding run_contents_def by (rule statement_cases) (auto split: sum.splits)
  moreover from ins assms(2) calculation(2) obtain s' where "d' = d1\<lparr>md_script := s', md_versions := Some (vs @ [v])\<rparr>"
    unfolding insert_version_def by (elim statement_cases) (auto split: if_splits)
  ultimately have "d' = d\<lparr>md_versions := Some (vs @ [v]), md_schema := sch, md_script := s'\<rparr>" by simp
  with \<open>run contents (md_schema d) = Inr sch\<close> show ?thesis by blast
qed

text \<open>One migration: applied as a whole, or not at all; an error says nothing about which.\<close>

lemma in_transaction_cases:
  assumes "in_transaction name body d = (r, d')"
  obtains (nothing) s where "r \<noteq> Inr ()" "d' = d\<lparr>md_script := s\<rparr>"
  | (all) d1 s where "body d = (Inr (), d1)" "d' = d1\<lparr>md_script := s\<rparr>"
proof -
  obtain x d1 where body: "body d = (x, d1)" by fastforce
  show thesis
  proof (cases x)
    case (Inl err)
    with assms body have "r \<noteq> Inr ()" "d' = d\<lparr>md_script := md_script d1\<rparr>"
      by (auto simp: in_transaction_def rolled_back_def)
    then show thesis by (rule nothing)
  next
    case (Inr u)
    obtain e d2 where commit: "db_call d1 = (e, d2)" by fastforce
    then obtain s where d2: "d2 = d1\<lparr>md_script := s\<rparr>" using db_call_cases by blast
    show thesis
    proof (cases "e = None \<or> snd (the e)")
      case True
      with assms body Inr commit have "d' = d2"
        by (auto simp: in_transaction_def split: option.splits prod.splits)
      with body Inr d2 show thesis by (intro all [of d1 s]) auto
    next
      case False
      with assms body Inr commit have "r \<noteq> Inr ()" "d' = d\<lparr>md_script := md_script d2\<rparr>"
        by (auto simp: in_transaction_def rolled_back_def)
      then show thesis by (rule nothing)
    qed
  qed
qed

lemma apply_migration_cases:
  assumes "apply_migration run name contents v d = (r, d')" "md_versions d = Some vs"
  shows "(\<exists>s. d' = d\<lparr>md_script := s\<rparr>) \<and> r \<noteq> Inr ()
    \<or> (\<exists>sch s. run contents (md_schema d) = Inr sch
        \<and> d' = d\<lparr>md_versions := Some (vs @ [v]), md_schema := sch, md_script := s\<rparr>)"
proof -
  obtain x d1 where tx: "statement (ret ()) d = (x, d1)" by fastforce
  then obtain s1 where d1: "d1 = d\<lparr>md_script := s1\<rparr>" by (rule statement_cases) auto
  show ?thesis
  proof (cases x)
    case (Inl err)
    with assms(1) tx d1 show ?thesis by (auto simp: apply_migration_def bind_op_def map_err_def)
  next
    case (Inr u)
    with assms(1) tx have "in_transaction name (migration_body run name contents v) d1 = (r, d')"
      by (simp add: apply_migration_def bind_op_def [of "map_err _ (statement (ret ()))"]
          map_err_def [of _ "statement (ret ())"])
    then show ?thesis
    proof (cases rule: in_transaction_cases)
      case (nothing s)
      with d1 show ?thesis by auto
    next
      case (all d2 s)
      from migration_body_Inr [OF all(1)] assms(2) d1 all(2) show ?thesis by auto
    qed
  qed
qed

lemma applied_Suc:
  assumes "applied run entries s0 k d" "k < length (migration_names entries)"
    and "run (contents_of entries (migration_names entries ! k)) (md_schema d) = Inr sch"
    and "d' = d\<lparr>md_versions := Some (map version_of (take k (migration_names entries))
      @ [version_of (migration_names entries ! k)]), md_schema := sch, md_script := s\<rparr>"
  shows "applied run entries s0 (Suc k) d'"
proof -
  from assms(1) have "run_all run entries (take k (migration_names entries)) s0 = Inr (md_schema d)"
    by (simp add: applied_def)
  from run_all_snoc [OF this, of "migration_names entries ! k"] assms(2,3)
  have "run_all run entries (take (Suc k) (migration_names entries)) s0 = Inr sch"
    by (simp add: take_Suc_conv_app_nth)
  with assms(2,4) show ?thesis by (simp add: applied_def take_Suc_conv_app_nth)
qed

lemma migrate_all_applied:
  assumes "distinct (map version_of (migration_names entries))"
    and "migrate_all run entries names d = (r, d')" "migration_names entries = before @ names"
    and "applied run entries s0 k d" "length before \<le> k"
  shows "\<exists>k' \<ge> k. applied run entries s0 k' d' \<and> (r = Inr () \<longrightarrow> k' = length (migration_names entries))"
  using assms(2-)
proof (induction names arbitrary: before d k)
  case Nil
  then have "k = length (migration_names entries)" by (simp add: applied_def)
  with Nil show ?case by auto
next
  case (Cons name names)
  let ?ms = "migration_names entries"
  let ?v = "version_of name"
  have len: "length before < length ?ms" and name: "?ms ! length before = name"
    using Cons.prems(2) by simp_all
  have vs: "md_versions d = Some (map version_of (take k ?ms))" using Cons.prems(3) by (simp add: applied_def)
  have known: "?v \<in> set (map version_of (take k ?ms)) \<longleftrightarrow> length before < k"
  proof
    assume "?v \<in> set (map version_of (take k ?ms))"
    then obtain i where i: "i < k" "i < length ?ms" "version_of (?ms ! i) = ?v"
      by (auto simp: in_set_conv_nth)
    with assms(1) len name have "i = length before"
      by (metis length_map nth_eq_iff_index_eq nth_map)
    with i show "length before < k" by simp
  next
    assume "length before < k"
    then show "?v \<in> set (map version_of (take k ?ms))" using len name
      by (force simp: in_set_conv_nth intro!: image_eqI [of _ _ name] exI [of _ "length before"])
  qed
  obtain x d1 where one: "migrate_file run entries name d = (x, d1)" by fastforce
  obtain y d2 where ex: "version_exists ?v d = (y, d2)" by fastforce
  from version_exists_cases(1) [OF ex vs] obtain s where d2: "d2 = d\<lparr>md_script := s\<rparr>" by blast
  have step: "\<exists>k1 \<ge> k. applied run entries s0 k1 d1 \<and> (x = Inr () \<longrightarrow> length before < k1)"
  proof (cases y)
    case (Inl err)
    with one ex d2 Cons.prems(3) show ?thesis
      by (auto simp: migrate_file_def Let_def bind_op_def map_err_def)
  next
    case (Inr b)
    with version_exists_cases(2) [OF ex vs] known have b: "b \<longleftrightarrow> length before < k" by blast
    show ?thesis
    proof (cases b)
      case True
      with one ex Inr d2 Cons.prems(3) b show ?thesis
        by (auto simp: migrate_file_def Let_def bind_op_def map_err_def)
    next
      case False
      with b Cons.prems(4) have k: "k = length before" by simp
      from one ex Inr False
      have app: "apply_migration run name (contents_of entries name) ?v d2 = (x, d1)"
        by (simp add: migrate_file_def Let_def bind_op_def map_err_def)
      have "md_versions d2 = Some (map version_of (take k ?ms))" using vs d2 by simp
      from apply_migration_cases [OF app this] show ?thesis
      proof (elim disjE)
        assume "\<exists>sch s. run (contents_of entries name) (md_schema d2) = Inr sch
          \<and> d1 = d2\<lparr>md_versions := Some (map version_of (take k ?ms) @ [?v]), md_schema := sch, md_script := s\<rparr>"
        then obtain sch s' where "run (contents_of entries name) (md_schema d) = Inr sch"
          "d1 = d\<lparr>md_versions := Some (map version_of (take k ?ms) @ [?v]), md_schema := sch, md_script := s'\<rparr>"
          using d2 by auto
        with applied_Suc [OF Cons.prems(3)] len name k have "applied run entries s0 (Suc k) d1" by metis
        with k show ?thesis by (intro exI [of _ "Suc k"]) simp
      qed (use Cons.prems(3) d2 in auto)
    qed
  qed
  then obtain k1 where k1: "k1 \<ge> k" "applied run entries s0 k1 d1" "x = Inr () \<Longrightarrow> length before < k1"
    by blast
  show ?case
  proof (cases x)
    case (Inl err)
    with Cons.prems(1) one k1 show ?thesis by (auto simp: bind_op_def)
  next
    case (Inr u)
    with Cons.prems(1) one have rest: "migrate_all run entries names d1 = (r, d')" by (simp add: bind_op_def)
    have "migration_names entries = (before @ [name]) @ names" using Cons.prems(2) by simp
    from Cons.IH [OF rest this k1(2)] k1(1,3) Inr show ?thesis by (auto intro: order_trans)
  qed
qed

section \<open>Properties\<close>

text \<open>The state as it is found: no tracking table yet, or some of the migrations applied.\<close>

definition migrated ::
  "(string \<Rightarrow> 's \<Rightarrow> goerr + 's) \<Rightarrow> entries \<Rightarrow> 's \<Rightarrow> 's migration_db \<Rightarrow> bool" where
  "migrated run entries s0 d \<longleftrightarrow>
     md_versions d = None \<and> md_schema d = s0 \<or> (\<exists>k. applied run entries s0 k d)"

lemma Migrate_applied:
  assumes "distinct (map fst entries)" "migrated run entries s0 d" "Migrate run entries d = (r, d')"
  shows "migrated run entries s0 d'
    \<and> (r = Inr () \<longrightarrow> applied run entries s0 (length (migration_names entries)) d')"
proof -
  obtain x d1 where create: "create_tracking d = (x, d1)" by fastforce
  note c = create_tracking_cases [OF create]
  have zero: "applied run entries s0 0 d1" if "md_versions d1 = Some []" "md_versions d = None"
    using that c(1) assms(2) by (auto simp: applied_def migrated_def)
  have keep: "applied run entries s0 k d1" if "applied run entries s0 k d" for k
    using that c by (auto simp: applied_def)
  have d1: "migrated run entries s0 d1" "x = Inr () \<Longrightarrow> \<exists>k. applied run entries s0 k d1"
    using assms(2) c zero keep by (auto simp: migrated_def)
  show ?thesis
  proof (cases x)
    case (Inl err)
    with assms(3) create d1 show ?thesis by (auto simp: Migrate_def bind_op_def map_err_def)
  next
    case (Inr u)
    with assms(3) create have all: "migrate_all run entries (migration_names entries) d1 = (r, d')"
      by (simp add: Migrate_def bind_op_def map_err_def)
    from d1(2) Inr obtain k where "applied run entries s0 k d1" by auto
    from migrate_all_applied [OF distinct_versions [OF assms(1)] all _ this, of "[]"]
    show ?thesis by (auto simp: migrated_def)
  qed
qed

text \<open>C37. However often Migrate runs and wherever it is cut short by an error, the schema is the one that
  the first so many migrations make in the order of their names, each run exactly once, and the
  tracking table lists just these; when Migrate succeeds all of them have been applied.
\<close>

theorem migrations_once_in_order:
  assumes "distinct (map fst entries)" "migrated run entries s0 d" "Migrate run entries d = (r, d')"
  shows "migrated run entries s0 d'
    \<and> (r = Inr () \<longrightarrow> applied run entries s0 (length (migration_names entries)) d')"
  by (rule Migrate_applied [OF assms])

definition sample_entries :: entries where
  "sample_entries = [(''0002_b.up.sql'', Some ''B''), (''0001_a.up.sql'', Some ''A''),
     (''0001_a.down.sql'', Some ''X''), (''old'', None)]"

definition sample_db :: "string migration_db" where
  "sample_db = \<lparr>md_versions = None, md_schema = '''', md_script = []\<rparr>"

theorem migrations_once_in_order_witness:
  "\<exists>d'. Migrate (\<lambda>sql s. Inr (s @ sql)) sample_entries sample_db = (Inr (), d')
    \<and> applied (\<lambda>sql s. Inr (s @ sql)) sample_entries '''' 2 d' \<and> md_schema d' = ''AB''"
proof -
  let ?run = "\<lambda>sql s. Inr (s @ sql) :: goerr + string"
  have eval: "fst (Migrate ?run sample_entries sample_db) = Inr ()"
    "md_schema (snd (Migrate ?run sample_entries sample_db)) = ''AB''"
    "length (migration_names sample_entries) = 2" "distinct (map fst sample_entries)" by code_simp+
  obtain d' where run: "Migrate ?run sample_entries sample_db = (Inr (), d')"
    using eval(1) by (metis prod.collapse)
  have "migrated ?run sample_entries '''' sample_db" by (simp add: migrated_def sample_db_def)
  from migrations_once_in_order [OF eval(4) this run] run eval show ?thesis by auto
qed

end
