(* ===== verification/Logger.thy ===== *)
theory Logger
  imports Apierr
begin

text \<open>
  \<^verbatim>\<open>internal/logger\<close>: how a process builds its logger. The two base configurations of the library zap
  and what its \<open>Build\<close> says to a configuration are parameters; an encoder is known by its name.
\<close>

record zap_Config =
  zc_TimeKey :: string
  zc_EncodeTime :: string
  zc_EncodeLevel :: string
  zc_OutputPaths :: "string list"
  zc_ErrorOutputPaths :: "string list"

record zap =
  NewProductionConfig :: zap_Config
  NewDevelopmentConfig :: zap_Config
  zap_Build :: "zap_Config \<Rightarrow> goerr option"

record Logger =
  lg_Config :: zap_Config
  lg_Fields :: "(string \<times> string) list"

definition logger_config :: "zap \<Rightarrow> string \<Rightarrow> zap_Config" where
  "logger_config z env =
     (let cfg = (if env = ''production''
            then (NewProductionConfig z)\<lparr>zc_TimeKey := ''timestamp'', zc_EncodeTime := ''ISO8601TimeEncoder''\<rparr>
            else (NewDevelopmentConfig z)\<lparr>zc_EncodeLevel := ''CapitalColorLevelEncoder''\<rparr>)
      in cfg\<lparr>zc_OutputPaths := [''stdout''], zc_ErrorOutputPaths := [''stderr'']\<rparr>)"

definition logger_New :: "zap \<Rightarrow> string \<Rightarrow> goerr + Logger" where
  "logger_New z env = (case zap_Build z (logger_config z env) of
      Some err \<Rightarrow> Inl err
    | None \<Rightarrow> Inr \<lparr>lg_Config = logger_config z env, lg_Fields = [(''service'', ''bridgecore-api'')]\<rparr>)"

text \<open>A logger that is built writes to the two standard streams and names the service.\<close>

lemma logger_New_streams:
  assumes "logger_New z env = Inr l"
  shows "zc_OutputPaths (lg_Config l) = [''stdout'']" "zc_ErrorOutputPaths (lg_Config l) = [''stderr'']"
    "lg_Fields l = [(''service'', ''bridgecore-api'')]"
  using assms by (auto simp: logger_New_def logger_config_def Let_def split: option.splits)

end
