(* ===== verification/Startup.thy ===== *)
theory Startup
  imports ConfigProperties CloudProperties Migrate GraphqlIsolation Logger
begin

text \<open>
  How a process of BridgeCore starts: \<^verbatim>\<open>cmd/api/bootstrap.go\<close>, \<^verbatim>\<open>cmd/api/main.go\<close>,
  \<^verbatim>\<open>cmd/worker/main.go\<close> and the connections of \<^verbatim>\<open>internal/database/database.go\<close>. Secrets are
  fetched, the configuration is loaded from the environment as it is then, the database is connected
  and migrated, and the server is put together. The libraries, the clients of PostgreSQL and Redis,
  and package \<^verbatim>\<open>internal/exports\<close> are parameters. A process that gives up is \<open>Fatal\<close>.
\<close>

section \<open>Secrets\<close>

record boot =
  bt_env :: environment
  bt_cloud :: cloud
  bt_log :: "string list"

definition boot_log :: "string \<Rightarrow> boot \<Rightarrow> boot" where
  "boot_log msg b = b\<lparr>bt_log := bt_log b @ [msg]\<rparr>"

definition environment_credentials :: "environment \<Rightarrow> CredentialProvider" where
  "environment_credentials env = NewCredentialProvider (Getenv env ''AWS_ACCESS_KEY_ID'')
     (Getenv env ''AWS_SECRET_ACCESS_KEY'') (Getenv env ''AWS_SESSION_TOKEN'')"

definition with_provider :: "CredentialProvider \<Rightarrow> boot \<Rightarrow> boot" where
  "with_provider p b = b\<lparr>bt_cloud := (bt_cloud b)\<lparr>cl_provider := p\<rparr>\<rparr>"

definition fetch_secrets ::
  "aws_env \<Rightarrow> string \<Rightarrow> string \<Rightarrow> boot \<Rightarrow> (goerr + (string \<times> string) list) \<times> boot" where
  "fetch_secrets e region secretID b =
     (case LoadSecrets (e\<lparr>ae_env := bt_env b\<rparr>) (NewSecretsManagerLoader region) secretID (bt_cloud b) of
        (r, c) \<Rightarrow> (r, b\<lparr>bt_cloud := c\<rparr>))"

definition apply_to :: "(string \<times> string) list \<Rightarrow> boot \<Rightarrow> boot" where
  "apply_to secrets b = b\<lparr>bt_env := ApplySecrets secrets (bt_env b)\<rparr>"


definition load_worker_secrets :: "aws_env \<Rightarrow> boot \<Rightarrow> boot" where
  "load_worker_secrets e b =
     (let secretID = Getenv (bt_env b) ''AWS_SECRETS_MANAGER_SECRET_ID'';
          region = Getenv (bt_env b) ''AWS_REGION'' in
      if secretID = '''' then b
      else case fetch_secrets e region secretID (with_provider (environment_credentials (bt_env b)) b) of
          (Inr secrets, b1) \<Rightarrow> apply_to secrets b1
        | (Inl err, b1) \<Rightarrow> boot_log ''failed to load worker secrets'' b1)"

section \<open>Connections\<close>

record pool =
  po_DSN :: string
  po_MaxOpenConns :: int
  po_MaxIdleConns :: int
  po_ConnMaxLifetime :: duration
  po_ConnMaxIdleTime :: duration

text \<open>What opening and pinging PostgreSQL say.\<close>

type_synonym postgres = "(string \<Rightarrow> goerr option) \<times> (pool \<Rightarrow> goerr option)"

definition NewPostgres :: "postgres \<Rightarrow> DatabaseConfig \<Rightarrow> goerr + pool" where
  "NewPostgres pg cfg = (case fst pg (DSN cfg) of
      Some err \<Rightarrow> Inl (Errorf ''database: open postgres'' err)
    | None \<Rightarrow>
        (let db = \<lparr>po_DSN = DSN cfg, po_MaxOpenConns = db_MaxOpenConns cfg,
               po_MaxIdleConns = db_MaxIdleConns cfg, po_ConnMaxLifetime = db_ConnMaxLifetime cfg,
               po_ConnMaxIdleTime = db_ConnMaxIdleTime cfg\<rparr>
         in case snd pg db of
              Some err \<Rightarrow> Inl (Errorf ''database: ping postgres'' err)
            | None \<Rightarrow> Inr db))"

text \<open>The attempts, counted from one, with the seconds that are slept between them.\<close>

fun connect_from :: "nat \<Rightarrow> nat \<Rightarrow> (nat \<Rightarrow> goerr + pool) \<Rightarrow> goerr option \<Rightarrow> (goerr option + pool) \<times> nat" where
  "connect_from 0 attempt new lastErr = (Inl lastErr, 0)"
| "connect_from (Suc n) attempt new lastErr =
     (case new attempt of
        Inr db \<Rightarrow> (Inr db, 0)
      | Inl err \<Rightarrow> (case connect_from n (Suc attempt) new (Some err) of
            (r, slept) \<Rightarrow> (r, attempt + slept)))"

definition connectWithRetry :: "(nat \<Rightarrow> postgres) \<Rightarrow> Config \<Rightarrow> (goerr option + pool) \<times> nat" where
  "connectWithRetry pg cfg = connect_from 10 1 (\<lambda>attempt. NewPostgres (pg attempt) (cf_DB cfg)) None"

record redis_options =
  rdo_Addr :: string
  rdo_Password :: string
  rdo_DB :: int
  rdo_DialTimeout :: duration
  rdo_ReadTimeout :: duration
  rdo_WriteTimeout :: duration
  rdo_PoolSize :: int
  rdo_MinIdleConns :: int
  rdo_TLS :: bool


section \<open>The export pipeline\<close>

datatype store_choice = LocalBackend string string string | S3Backend S3Store CredentialProvider

definition config_credentials :: "Config \<Rightarrow> CredentialProvider" where
  "config_credentials cfg = NewCredentialProvider (aw_AccessKeyID (cf_AWS cfg))
     (aw_SecretAccessKey (cf_AWS cfg)) (aw_SessionToken (cf_AWS cfg))"

definition s3_backend :: "Config \<Rightarrow> store_choice" where
  "s3_backend cfg = S3Backend (NewS3Store (ex_S3Bucket (cf_Exports cfg)) (aw_Region (cf_AWS cfg))
     (aw_S3Endpoint (cf_AWS cfg))) (config_credentials cfg)"

text \<open>\<open>NewLocalStore\<close> of the missing package makes its directory, and may fail.\<close>

type_synonym local_store = "string \<Rightarrow> string \<Rightarrow> string \<Rightarrow> goerr option"

definition new_local :: "local_store \<Rightarrow> Config \<Rightarrow> string \<Rightarrow> goerr + store_choice" where
  "new_local mk cfg downloadPath =
     (let ex = cf_Exports cfg in
      case mk (ex_LocalDir ex) downloadPath (ex_SigningKey ex) of
        Some err \<Rightarrow> Inl err
      | None \<Rightarrow> Inr (LocalBackend (ex_LocalDir ex) downloadPath (ex_SigningKey ex)))"

definition objectStoreFor :: "local_store \<Rightarrow> Config \<Rightarrow> string \<Rightarrow> goerr + store_choice" where
  "objectStoreFor mk cfg downloadPath =
     (if ex_Backend (cf_Exports cfg) = ''local'' then new_local mk cfg downloadPath
      else if ex_Backend (cf_Exports cfg) = ''s3'' then Inr (s3_backend cfg)
      else Inl (PlainErr (''unsupported EXPORT_BACKEND '' @ quoted (ex_Backend (cf_Exports cfg)))))"

definition objectStoreForWorker :: "local_store \<Rightarrow> Config \<Rightarrow> goerr + store_choice" where
  "objectStoreForWorker mk cfg =
     (if ex_Backend (cf_Exports cfg) = ''s3'' then Inr (s3_backend cfg)
      else new_local mk cfg ''/api/v1/usage/exports/download'')"


record WorkerConfig =
  wc_PollInterval :: duration
  wc_BatchSize :: int
  wc_MaxRows :: int
  wc_MaxAttempts :: int
  wc_ObjectPrefix :: string
  wc_VisibilityTimeout :: duration

definition workerConfigFrom :: "Config \<Rightarrow> WorkerConfig" where
  "workerConfigFrom cfg = \<lparr>wc_PollInterval = ex_WorkerPollInterval (cf_Exports cfg),
     wc_BatchSize = ex_WorkerBatchSize (cf_Exports cfg), wc_MaxRows = ex_MaxRows (cf_Exports cfg),
     wc_MaxAttempts = ex_MaxAttempts (cf_Exports cfg), wc_ObjectPrefix = ex_S3Prefix (cf_Exports cfg),
     wc_VisibilityTimeout = 10 * minute\<rparr>"

definition worker_main_config :: "Config \<Rightarrow> WorkerConfig" where
  "worker_main_config cfg = \<lparr>wc_PollInterval = ex_WorkerPollInterval (cf_Exports cfg),
     wc_BatchSize = ex_WorkerBatchSize (cf_Exports cfg), wc_MaxRows = ex_MaxRows (cf_Exports cfg),
     wc_MaxAttempts = ex_MaxAttempts (cf_Exports cfg), wc_ObjectPrefix = ex_S3Prefix (cf_Exports cfg),
     wc_VisibilityTimeout = 10 * minute\<rparr>"

section \<open>The server\<close>














datatype 'd startup = Panic goerr | Fatal string goerr | Ready Config 'd

text \<open>The machine the process starts on.\<close>

record 's machine =
  mc_zap :: zap
  mc_aws :: aws_env
  mc_postgres :: "nat \<Rightarrow> postgres"
  mc_redis :: "redis_options \<Rightarrow> goerr option"
  mc_run :: "string \<Rightarrow> 's \<Rightarrow> goerr + 's"
  mc_migrations :: entries
  mc_local :: local_store
  mc_now :: time


text \<open>A process that cannot build a logger panics.\<close>

definition with_logger :: "zap \<Rightarrow> string \<Rightarrow> 'd startup \<Rightarrow> 'd startup" where
  "with_logger z env s = (case logger_New z env of Inl err \<Rightarrow> Panic err | Inr l \<Rightarrow> s)"


definition worker_main :: "'s machine \<Rightarrow> boot \<Rightarrow> (store_choice \<times> WorkerConfig) startup" where
  "worker_main mc b = with_logger (mc_zap mc) EnvDevelopment
     (case Load (bt_env (load_worker_secrets (mc_aws mc) b)) of
        Inl err \<Rightarrow> Fatal ''invalid configuration'' err
      | Inr cfg \<Rightarrow> with_logger (mc_zap mc) (cf_Env cfg)
          (case NewPostgres (mc_postgres mc 1) (cf_DB cfg) of
             Inl err \<Rightarrow> Fatal ''failed to connect to postgres'' err
           | Inr db \<Rightarrow>
               (case objectStoreForWorker (mc_local mc) cfg of
                  Inl err \<Rightarrow> Fatal ''failed to configure the export object store'' err
                | Inr st \<Rightarrow> Ready cfg (st, worker_main_config cfg))))"

section \<open>Properties\<close>






text \<open>The worker reads and writes the objects the API signs links for: with a configuration that loads,
  both processes choose the same store, with the same bucket, directory and signing key, and the
  same limits for a job; only the local store's directory can stand in the way.
\<close>

theorem worker_agrees_with_api:
  assumes "Load env = Inr cfg"
  shows "objectStoreForWorker mk cfg = objectStoreFor mk cfg exportDownloadPath
    \<and> worker_main_config cfg = workerConfigFrom cfg
    \<and> (\<forall>err. objectStoreFor mk cfg exportDownloadPath = Inl err \<longrightarrow>
         (\<exists>dir path key. mk dir path key = Some err))"
proof -
  from assms have "export_problems cfg = []" unfolding Load_Inr Validate_None by blast
  then have "ex_Backend (cf_Exports cfg) = ''local'' \<or> ex_Backend (cf_Exports cfg) = ''s3''"
    by (auto simp: export_problems_def Let_def split: if_splits)
  then show ?thesis
    by (auto simp: objectStoreFor_def objectStoreForWorker_def exportDownloadPath_def worker_main_config_def
        workerConfigFrom_def new_local_def Let_def split: option.splits)
qed

lemma connect_from_exact:
  "connect_from n a new lastErr = (r, slept) \<Longrightarrow>
     (case r of
        Inr db \<Rightarrow> \<exists>k<n. new (a + k) = Inr db \<and> (\<forall>j<k. isl (new (a + j))) \<and> slept = (\<Sum>j<k. a + j)
      | Inl e \<Rightarrow> (\<forall>j<n. isl (new (a + j))) \<and> slept = (\<Sum>j<n. a + j)
          \<and> (n = 0 \<longrightarrow> e = lastErr) \<and> (0 < n \<longrightarrow> new (a + n - 1) = Inl (the e) \<and> e \<noteq> None))"
proof (induction n arbitrary: a lastErr slept)
  case 0
  then show ?case by auto
next
  case (Suc n)
  show ?case
  proof (cases "new a")
    case (Inr db)
    with Suc.prems show ?thesis by (auto intro!: exI [of _ 0])
  next
    case (Inl err)
    with Suc.prems obtain s1 where rest: "connect_from n (Suc a) new (Some err) = (r, s1)" and s: "slept = a + s1"
      by (auto split: prod.splits)
    have shift: "(\<Sum>j<Suc m. a + j) = a + (\<Sum>j<m. Suc a + j)" for m
      by (simp add: sum.lessThan_Suc_shift del: sum.lessThan_Suc)
    have isl: "isl (new (a + j))" if "\<forall>j<m. isl (new (Suc a + j))" "j < Suc m" for m j
      using that Inl by (cases j) auto
    show ?thesis
    proof (cases r)
      case db: (Inr db)
      with Suc.IH [OF rest] obtain k where "k < n" "new (Suc a + k) = Inr db" "\<forall>j<k. isl (new (Suc a + j))"
        "s1 = (\<Sum>j<k. Suc a + j)" by auto
      with s db isl [of k] shift [of k] show ?thesis by (auto intro!: exI [of _ "Suc k"])
    next
      case e: (Inl e)
      with Suc.IH [OF rest] have ih: "\<forall>j<n. isl (new (Suc a + j))" "s1 = (\<Sum>j<n. Suc a + j)"
        "n = 0 \<longrightarrow> e = Some err" "0 < n \<longrightarrow> new (Suc a + n - 1) = Inl (the e) \<and> e \<noteq> None" by auto
      with s e isl [OF ih(1)] shift [of n] Inl show ?thesis by (cases n) auto
    qed
  qed
qed

text \<open>
  The database is tried at most ten times, until it first answers; the waits add up, the one after
  the last attempt included, and the error that is reported is the last one.
\<close>

theorem connect_retry_exact:
  assumes "connectWithRetry pg cfg = (r, slept)"
  shows "case r of
      Inr db \<Rightarrow> \<exists>k<10. NewPostgres (pg (1 + k)) (cf_DB cfg) = Inr db
        \<and> (\<forall>j<k. isl (NewPostgres (pg (1 + j)) (cf_DB cfg))) \<and> slept = (\<Sum>j<k. 1 + j)
    | Inl e \<Rightarrow> (\<forall>j<10. isl (NewPostgres (pg (1 + j)) (cf_DB cfg))) \<and> slept = 55
        \<and> NewPostgres (pg 10) (cf_DB cfg) = Inl (the e)"
  using connect_from_exact [OF assms [unfolded connectWithRetry_def]]
  by (auto simp: lessThan_nat_numeral lessThan_Suc split: sum.splits)

theorem worker_agrees_with_api_witness:
  "\<exists>cfg. Load sample_environment = Inr cfg
    \<and> objectStoreForWorker (\<lambda>d p k. None) cfg = objectStoreFor (\<lambda>d p k. None) cfg exportDownloadPath"
proof -
  have "\<not> isl (Load sample_environment)" by code_simp
  then obtain c where c: "Load sample_environment = Inr c" by (cases "Load sample_environment") auto
  from worker_agrees_with_api [OF c] c show ?thesis by blast
qed






end
