(* ===== verification/Lambda.thy ===== *)
theory Lambda
  imports Startup
begin

text \<open>
  \<^verbatim>\<open>cmd/lambda-export/main.go\<close>: the export worker as a Lambda function, over the runtime's HTTP
  interface. The worker's \<open>RunOnce\<close> and the notification it is woken by belong to the missing package
  \<^verbatim>\<open>internal/exports\<close>: the parameters \<open>run\<close> and \<open>decode\<close>. The runtime answers the n-th request for
  an invocation with \<open>get n\<close>; whether a report to it arrives makes no difference to the code.
\<close>

section \<open>One batch\<close>

record sqs_record =
  sr_MessageID :: string
  sr_Body :: string

record sqsEvent =
  ev_Records :: "sqs_record list"

record 'w lambda =
  lm_worker :: 'w
  lm_log :: "(string \<times> details) list"

definition lambda_log :: "string \<Rightarrow> details \<Rightarrow> 'w lambda \<Rightarrow> 'w lambda" where
  "lambda_log msg attrs st = st\<lparr>lm_log := lm_log st @ [(msg, attrs)]\<rparr>"

definition run_worker :: "('w, int) op \<Rightarrow> ('w lambda, int) op" where
  "run_worker run st = (case run (lm_worker st) of (r, w) \<Rightarrow> (r, st\<lparr>lm_worker := w\<rparr>))"

text \<open>A message: nothing, or its identifier as a failure.\<close>

definition handle_record ::
  "(string \<Rightarrow> goerr + string \<times> string) \<Rightarrow> ('w, int) op \<Rightarrow> sqs_record \<Rightarrow> 'w lambda \<Rightarrow> string list \<times> 'w lambda" where
  "handle_record decode run rec st =
     (case decode (sr_Body rec) of
        Inl err \<Rightarrow>
          ([], lambda_log ''discarding an unparsable queue message''
             [(''message_id'', DStr (sr_MessageID rec)), (''error'', DStr (Error_string err))] st)
      | Inr (jobID, tenantID) \<Rightarrow>
          (let st1 = lambda_log ''export notification received''
                 [(''export_job_id'', DStr jobID), (''tenant_id'', DStr tenantID)] st
           in case run_worker run st1 of
                (Inl err, st2) \<Rightarrow>
                  ([sr_MessageID rec], lambda_log ''export processing failed''
                     [(''export_job_id'', DStr jobID), (''error'', DStr (Error_string err))] st2)
              | (Inr processed, st2) \<Rightarrow>
                  ([], lambda_log ''export batch complete''
                     [(''export_job_id'', DStr jobID), (''jobs_processed'', DInt processed)] st2)))"

fun handle_records ::
  "(string \<Rightarrow> goerr + string \<times> string) \<Rightarrow> ('w, int) op \<Rightarrow> sqs_record list \<Rightarrow> 'w lambda \<Rightarrow> string list \<times> 'w lambda" where
  "handle_records decode run [] st = ([], st)"
| "handle_records decode run (rec # recs) st =
     (case handle_record decode run rec st of (fs, st1) \<Rightarrow>
        (case handle_records decode run recs st1 of (gs, st2) \<Rightarrow> (fs @ gs, st2)))"

text \<open>The error of \<open>handle\<close> is nil on every path.\<close>

definition handle :: "(string \<Rightarrow> goerr + string \<times> string) \<Rightarrow> ('w, int) op \<Rightarrow> sqsEvent \<Rightarrow> ('w lambda, string list) op" where
  "handle decode run ev st = (case handle_records decode run (ev_Records ev) st of
     (failures, st1) \<Rightarrow> (Inr failures, st1))"


section \<open>The runtime loop\<close>













definition runtime_base :: "string \<Rightarrow> string" where
  "runtime_base runtimeAPI = ''http://'' @ runtimeAPI @ ''/2018-06-01/runtime''"

section \<open>Start-up\<close>

definition load_application_secrets :: "aws_env \<Rightarrow> string \<Rightarrow> boot \<Rightarrow> boot" where
  "load_application_secrets e region b =
     (let i = Getenv (bt_env b) ''AWS_SECRETS_MANAGER_SECRET_ID'' in
      if i = '''' then b
      else case fetch_secrets e region i b of
          (Inr secrets, b1) \<Rightarrow> apply_to secrets b1
        | (Inl err, b1) \<Rightarrow> boot_log ''failed to load the application secret bundle'' b1)"

definition load_database_secret :: "aws_env \<Rightarrow> string \<Rightarrow> boot \<Rightarrow> boot" where
  "load_database_secret e region b =
     (let i = Getenv (bt_env b) ''RDS_SECRET_ID'' in
      if i = '''' then b
      else case fetch_secrets e region i b of
          (Inr secrets, b1) \<Rightarrow>
            (case map_of secrets ''password'' of
               Some password \<Rightarrow> apply_to [(''DB_PASSWORD'', password)] b1
             | None \<Rightarrow> b1)
        | (Inl err, b1) \<Rightarrow> boot_log ''failed to load the database credential'' b1)"

definition loadLambdaSecrets :: "aws_env \<Rightarrow> boot \<Rightarrow> boot" where
  "loadLambdaSecrets e b =
     (let region = Getenv (bt_env b) ''AWS_REGION'' in
      if region = '''' then b
      else load_database_secret e region
        (load_application_secrets e region (with_provider (environment_credentials (bt_env b)) b)))"

definition lambda_worker_config :: "Config \<Rightarrow> WorkerConfig" where
  "lambda_worker_config cfg = \<lparr>wc_PollInterval = 0, wc_BatchSize = 1, wc_MaxRows = ex_MaxRows (cf_Exports cfg),
     wc_MaxAttempts = ex_MaxAttempts (cf_Exports cfg), wc_ObjectPrefix = ex_S3Prefix (cf_Exports cfg),
     wc_VisibilityTimeout = 10 * minute\<rparr>"

definition lambdaObjectStore :: "Config \<Rightarrow> goerr + store_choice" where
  "lambdaObjectStore cfg = Inr (s3_backend cfg)"

definition lambda_main :: "'s machine \<Rightarrow> boot \<Rightarrow> (store_choice \<times> WorkerConfig \<times> string) startup" where
  "lambda_main mc b = with_logger (mc_zap mc) EnvProduction
     (let b1 = loadLambdaSecrets (mc_aws mc) b in
      case Load (bt_env b1) of
        Inl err \<Rightarrow> Fatal ''invalid configuration'' err
      | Inr cfg \<Rightarrow>
          (case NewPostgres (mc_postgres mc 1) (cf_DB cfg) of
             Inl err \<Rightarrow> Fatal ''failed to connect to postgres'' err
           | Inr db \<Rightarrow>
               (case lambdaObjectStore cfg of
                  Inl err \<Rightarrow> Fatal ''failed to configure the export object store'' err
                | Inr st \<Rightarrow>
                    (let runtimeAPI = Getenv (bt_env b1) ''AWS_LAMBDA_RUNTIME_API'' in
                     if runtimeAPI = ''''
                     then Fatal ''AWS_LAMBDA_RUNTIME_API is not set; this binary only runs inside Lambda'' (PlainErr '''')
                     else Ready cfg (st, lambda_worker_config cfg, runtime_base runtimeAPI)))))"

section \<open>What the function does, in short\<close>






lemma lambda_log_worker [simp]: "lm_worker (lambda_log msg attrs st) = lm_worker st"
  by (simp add: lambda_log_def)




text \<open>
  A message that cannot be read is not among the failures, so the queue takes it as done: it is
  deleted, and does not reach the dead-letter queue as the comment says.
\<close>

theorem unreadable_message_lost:
  "decode (sr_Body rec) = Inl err \<Longrightarrow>
     fst (handle decode run \<lparr>ev_Records = [rec]\<rparr> st) = Inr []
     \<and> lm_worker (snd (handle decode run \<lparr>ev_Records = [rec]\<rparr> st)) = lm_worker st"
  by (simp add: handle_def handle_record_def)

end
