(* ===== verification/Seed.thy ===== *)
theory Seed
  imports Sample
begin

text \<open>
  \<^verbatim>\<open>cmd/seed/main.go\<close>: the demonstration data, from the point where the database is connected and
  migrated. \<open>log.Fatalf\<close> ends the program with an error; what is printed is left out.
\<close>

record seedTenant =
  sdt_name :: string
  sdt_slug :: string
  sdt_plan :: Plan

record seedUser =
  sdu_email :: string
  sdu_password :: string
  sdu_firstName :: string
  sdu_lastName :: string
  sdu_role :: Role

definition seed_feature :: "string \<Rightarrow> string \<Rightarrow> string \<Rightarrow> Feature" where
  "seed_feature key name descr = \<lparr>f_ID = '''', f_Key = key, f_Name = name, f_Description = descr,
     f_CreatedAt = 0, f_UpdatedAt = 0\<rparr>"

definition catalog :: "Feature list" where
  "catalog = [
     seed_feature ''usage.basic_dashboard'' ''Basic Usage Dashboard'' ''View basic request volume charts'',
     seed_feature ''usage.export'' ''Usage Export'' ''Export raw usage logs as CSV'',
     seed_feature ''apikeys.multiple'' ''Multiple API Keys'' ''Issue more than one active API key per tenant'',
     seed_feature ''audit.retention_30d'' ''30-Day Audit Retention'' ''Audit logs retained for 30 days'',
     seed_feature ''audit.retention_90d'' ''90-Day Audit Retention'' ''Audit logs retained for 90 days'',
     seed_feature ''audit.export'' ''Audit Export'' ''Export the audit trail for compliance reporting'',
     seed_feature ''sso.saml'' ''SAML SSO'' ''Single sign-on via SAML 2.0'',
     seed_feature ''support.priority'' ''Priority Support'' ''Priority-queue customer support'']"

definition tenantSeeds :: "seedTenant list" where
  "tenantSeeds = [
     \<lparr>sdt_name = ''Freebird Labs'', sdt_slug = ''freebird-labs'', sdt_plan = PlanFree\<rparr>,
     \<lparr>sdt_name = ''Proline Systems'', sdt_slug = ''proline-systems'', sdt_plan = PlanPro\<rparr>,
     \<lparr>sdt_name = ''Enterprigo Holdings'', sdt_slug = ''enterprigo-holdings'', sdt_plan = PlanEnterprise\<rparr>]"

definition userSeeds :: "seedUser list" where
  "userSeeds = [
     \<lparr>sdu_email = ''admin@bridgecore.dev'', sdu_password = ''AdminPass123!'', sdu_firstName = ''Ada'',
      sdu_lastName = ''Admin'', sdu_role = RoleAdmin\<rparr>,
     \<lparr>sdu_email = ''developer@bridgecore.dev'', sdu_password = ''DevPass123!'', sdu_firstName = ''Dev'',
      sdu_lastName = ''Eloper'', sdu_role = RoleDeveloper\<rparr>,
     \<lparr>sdu_email = ''viewer@bridgecore.dev'', sdu_password = ''ViewerPass123!'', sdu_firstName = ''Vic'',
      sdu_lastName = ''Viewer'', sdu_role = RoleViewer\<rparr>]"

fun seed_catalog :: "Feature list \<Rightarrow> (world, unit) op" where
  "seed_catalog [] = ret ()"
| "seed_catalog (f # fs) =
     bind_op (map_err (Errorf (''seed: failed to create feature '' @ f_Key f))
       (EntitlementRepository_CreateFeature f)) (\<lambda>_. seed_catalog fs)"

text \<open>Any error of the lookup counts as a tenant, or user, that does not exist yet.\<close>

definition seed_tenant :: "seedTenant \<Rightarrow> (world, Tenant) op" where
  "seed_tenant ts w = (case TenantRepository_GetBySlug (sdt_slug ts) w of
      (Inr existing, w1) \<Rightarrow> (Inr existing, w1)
    | (Inl _, w1) \<Rightarrow>
        map_err (Errorf (''seed: failed to create tenant '' @ sdt_slug ts))
          (TenantRepository_Create \<lparr>t_ID = '''', t_Name = sdt_name ts, t_Slug = sdt_slug ts,
             t_Plan = sdt_plan ts, t_IsActive = True, t_CreatedAt = 0, t_UpdatedAt = 0,
             t_DeletedAt = None\<rparr>) w1)"

fun seed_tenants :: "seedTenant list \<Rightarrow> (world, (string \<times> Tenant) list) op" where
  "seed_tenants [] = ret []"
| "seed_tenants (ts # rest) =
     bind_op (seed_tenant ts) (\<lambda>t.
     bind_op (seed_tenants rest) (\<lambda>bySlug. ret ((sdt_slug ts, t) # bySlug)))"

definition seed_user :: "bcrypt_lib \<Rightarrow> string \<Rightarrow> seedUser \<Rightarrow> (world, unit) op" where
  "seed_user lib tenantID us w = (case UserRepository_GetByEmail (sdu_email us) w of
      (Inr _, w1) \<Rightarrow> (Inr (), w1)
    | (Inl _, w1) \<Rightarrow>
        bind_op (map_err (Errorf (''seed: failed to hash password for '' @ sdu_email us))
          (HashPassword lib (sdu_password us))) (\<lambda>hash.
        bind_op (map_err (Errorf (''seed: failed to create user '' @ sdu_email us))
          (UserRepository_Create \<lparr>u_ID = '''', u_TenantID = tenantID, u_Email = sdu_email us,
             u_PasswordHash = hash, u_FirstName = sdu_firstName us, u_LastName = sdu_lastName us,
             u_Role = sdu_role us, u_IsActive = True, u_LastLoginAt = None, u_CreatedAt = 0,
             u_UpdatedAt = 0, u_DeletedAt = None\<rparr>)) (\<lambda>_. ret ())) w1)"

fun seed_users :: "bcrypt_lib \<Rightarrow> string \<Rightarrow> seedUser list \<Rightarrow> (world, unit) op" where
  "seed_users lib tenantID [] = ret ()"
| "seed_users lib tenantID (us # rest) =
     bind_op (seed_user lib tenantID us) (\<lambda>_. seed_users lib tenantID rest)"

text \<open>The tenant of the users is there by then: the map holds every slug of the list.\<close>

definition seed_main :: "bcrypt_lib \<Rightarrow> (world, unit) op" where
  "seed_main lib =
     bind_op (seed_catalog catalog) (\<lambda>_.
     bind_op (seed_tenants tenantSeeds) (\<lambda>bySlug.
       case map_of bySlug ''proline-systems'' of
         None \<Rightarrow> fail (PlainErr ''invalid memory address or nil pointer dereference'')
       | Some proTenant \<Rightarrow> seed_users lib (t_ID proTenant) userSeeds))"

section \<open>What is there after a run\<close>

definition catalogued :: "tables \<Rightarrow> Feature \<Rightarrow> bool" where
  "catalogued a f \<longleftrightarrow> (\<exists>r \<in> set (features a). f_Key r = f_Key f)
     \<and> (\<forall>r \<in> set (features a). f_Key r = f_Key f \<longrightarrow> f_Name r = f_Name f \<and> f_Description r = f_Description f)"

definition has_tenant :: "tables \<Rightarrow> string \<Rightarrow> bool" where
  "has_tenant a slug \<longleftrightarrow> (\<exists>t \<in> set (tenants a). t_live t \<and> t_Slug t = slug)"

definition has_user :: "tables \<Rightarrow> string \<Rightarrow> bool" where
  "has_user a email \<longleftrightarrow> (\<exists>u \<in> set (users a). u_live u \<and> u_Email u = email)"

text \<open>The upsert: rows of the key get the new name and description, or there is a new row.\<close>

lemma CreateFeature_Inr:
  assumes "EntitlementRepository_CreateFeature f w = (Inr x, w')"
  obtains (updated) now where "f_Key f \<in> f_Key ` set (features w)"
      "tabs w' = (tabs w)\<lparr>features := update_rows (\<lambda>r. f_Key r = f_Key f)
        (\<lambda>r. r\<lparr>f_Name := f_Name f, f_Description := f_Description f, f_UpdatedAt := now\<rparr>) (features w)\<rparr>"
  | (inserted) i now where "f_Key f \<notin> f_Key ` set (features w)"
      "tabs w' = (tabs w)\<lparr>features := features w @ [f\<lparr>f_ID := i, f_CreatedAt := now, f_UpdatedAt := now\<rparr>]\<rparr>"
proof -
  from assms obtain w1 where w1: "tabs w1 = tabs w"
    and stmt: "(if 100 < length (f_Key f) \<or> 255 < length (f_Name f) then (Inl varchar_error, w1)
       else case filter (\<lambda>r. f_Key r = f_Key f) (features w1) of
           r # _ \<Rightarrow>
             (Inr (f\<lparr>f_ID := f_ID r, f_CreatedAt := f_CreatedAt r, f_UpdatedAt := clock w1\<rparr>),
              w1\<lparr>features := update_rows (\<lambda>r. f_Key r = f_Key f)
                  (\<lambda>r. r\<lparr>f_Name := f_Name f, f_Description := f_Description f,
                         f_UpdatedAt := clock w1\<rparr>) (features w1)\<rparr>)
         | [] \<Rightarrow>
             (let row = f\<lparr>f_ID := fresh_id w1, f_CreatedAt := clock w1, f_UpdatedAt := clock w1\<rparr>
              in (Inr row, w1\<lparr>features := features w1 @ [row], next_id := Suc (next_id w1)\<rparr>))) = (Inr x, w')"
    unfolding EntitlementRepository_CreateFeature_def by (rule exec_Inr)
  have feats: "features w1 = features w" by (rule tabs_eqD(3) [OF w1])
  show thesis
  proof (cases "filter (\<lambda>r. f_Key r = f_Key f) (features w1)")
    case Nil
    then have "f_Key f \<notin> f_Key ` set (features w)" by (force simp: feats filter_empty_conv)
    with Nil stmt w1 feats show thesis by (auto simp: Let_def split: if_splits intro: inserted)
  next
    case (Cons r rs)
    then have "r \<in> set (filter (\<lambda>r. f_Key r = f_Key f) (features w1))" by (simp only: list.set_intros)
    then have "r \<in> set (features w)" "f_Key f = f_Key r" by (simp_all add: feats)
    then have "f_Key f \<in> f_Key ` set (features w)" by (rule rev_image_eqI)
    with Cons stmt w1 feats show thesis by (auto split: if_splits intro: updated)
  qed
qed

definition renamed :: "Feature \<Rightarrow> time \<Rightarrow> Feature \<Rightarrow> Feature" where
  "renamed f now r = (if f_Key r = f_Key f
     then r\<lparr>f_Name := f_Name f, f_Description := f_Description f, f_UpdatedAt := now\<rparr> else r)"

lemma renamed_sel [simp]:
  "f_Key (renamed f now r) = f_Key r"
  "f_Name (renamed f now r) = (if f_Key r = f_Key f then f_Name f else f_Name r)"
  "f_Description (renamed f now r) = (if f_Key r = f_Key f then f_Description f else f_Description r)"
  by (simp_all add: renamed_def)

lemma update_rows_renamed:
  "update_rows (\<lambda>r. f_Key r = f_Key f)
     (\<lambda>r. r\<lparr>f_Name := f_Name f, f_Description := f_Description f, f_UpdatedAt := now\<rparr>) rows = map (renamed f now) rows"
  by (simp add: update_rows_def renamed_def [abs_def])

lemma catalogued_renamed:
  assumes "f_Key f \<in> f_Key ` set (features a)"
  shows "catalogued (a\<lparr>features := map (renamed f now) (features a)\<rparr>) g =
    (if f_Key g = f_Key f then f_Name f = f_Name g \<and> f_Description f = f_Description g else catalogued a g)"
proof (cases "f_Key g = f_Key f")
  case True
  with assms show ?thesis by (auto simp: catalogued_def)
next
  case False
  then have "(\<forall>r \<in> set (features a). f_Key r = f_Key g \<longrightarrow> P (f_Key r = f_Key f) r)
      = (\<forall>r \<in> set (features a). f_Key r = f_Key g \<longrightarrow> P False r)" for P by metis
  with False show ?thesis by (simp add: catalogued_def)
qed

lemma CreateFeature_catalogued:
  assumes "EntitlementRepository_CreateFeature f w = (Inr x, w')"
  shows "catalogued (tabs w') f" and "f_Key g \<noteq> f_Key f \<Longrightarrow> catalogued (tabs w') g = catalogued (tabs w) g"
    and "\<exists>fs. tabs w' = (tabs w)\<lparr>features := fs\<rparr>"
proof -
  have "catalogued (tabs w') f \<and> (f_Key g \<noteq> f_Key f \<longrightarrow> catalogued (tabs w') g = catalogued (tabs w) g)
    \<and> (\<exists>fs. tabs w' = (tabs w)\<lparr>features := fs\<rparr>)" for g
    using assms
  proof (cases rule: CreateFeature_Inr)
    case (updated now)
    then have tabs: "tabs w' = (tabs w)\<lparr>features := map (renamed f now) (features (tabs w))\<rparr>"
      by (simp add: update_rows_renamed)
    have "f_Key f \<in> f_Key ` set (features (tabs w))" using updated(1) by simp
    note renamed = catalogued_renamed [OF this, of now]
    show ?thesis unfolding tabs renamed by auto
  next
    case (inserted i now)
    then have "\<forall>r \<in> set (features w). f_Key r \<noteq> f_Key f" by (metis image_eqI)
    then show ?thesis unfolding inserted(2) by (auto simp: catalogued_def)
  qed
  then show "catalogued (tabs w') f" "f_Key g \<noteq> f_Key f \<Longrightarrow> catalogued (tabs w') g = catalogued (tabs w) g"
    "\<exists>fs. tabs w' = (tabs w)\<lparr>features := fs\<rparr>" by blast+
qed

lemma seed_catalog_Inr:
  assumes "seed_catalog fs w = (Inr u, w')" "distinct (map f_Key fs)"
  shows "(\<forall>f \<in> set fs. catalogued (tabs w') f)
    \<and> (\<forall>g. f_Key g \<notin> f_Key ` set fs \<longrightarrow> catalogued (tabs w') g = catalogued (tabs w) g)
    \<and> (\<exists>x. tabs w' = (tabs w)\<lparr>features := x\<rparr>)"
  using assms
proof (induction fs arbitrary: w)
  case Nil
  then show ?case by (auto intro: exI [of _ "features w"])
next
  case (Cons f fs)
  then obtain x w1 where one: "EntitlementRepository_CreateFeature f w = (Inr x, w1)"
    and rest: "seed_catalog fs w1 = (Inr u, w')" by auto
  from CreateFeature_catalogued(3) [OF one] obtain x1 where x1: "tabs w1 = (tabs w)\<lparr>features := x1\<rparr>" by blast
  from Cons.IH [OF rest] Cons.prems(2) obtain x2 where x2: "tabs w' = (tabs w1)\<lparr>features := x2\<rparr>"
    and ih: "\<forall>f \<in> set fs. catalogued (tabs w') f"
      "\<forall>g. f_Key g \<notin> f_Key ` set fs \<longrightarrow> catalogued (tabs w') g = catalogued (tabs w1) g" by auto
  show ?case
    using ih Cons.prems(2) CreateFeature_catalogued(1,2) [OF one] x1 x2 by auto
qed

lemma seed_tenant_Inr:
  assumes "seed_tenant ts w = (Inr t, w')"
  shows "has_tenant (tabs w') (sdt_slug ts)" and "\<exists>x. tabs w' = (tabs w)\<lparr>tenants := tenants w @ x\<rparr>"
proof -
  have "has_tenant (tabs w') (sdt_slug ts) \<and> (\<exists>x. tabs w' = (tabs w)\<lparr>tenants := tenants w @ x\<rparr>)"
  proof (cases "TenantRepository_GetBySlug (sdt_slug ts) w")
    case (Pair r w1)
    have tabs: "tabs w1 = tabs w" by (rule read_onlyD(1) [OF read_only_tenant_repo(2) Pair])
    show ?thesis
    proof (cases r)
      case (Inr t')
      with assms Pair tabs TenantRepository_GetBySlug_Inr [of "sdt_slug ts" w t' w1] show ?thesis
        by (auto simp: seed_tenant_def has_tenant_def intro: exI [of _ "[]"])
    next
      case (Inl err)
      with assms Pair obtain nt where create: "TenantRepository_Create nt w1 = (Inr t, w')"
        and slug: "t_Slug nt = sdt_slug ts" by (auto simp: seed_tenant_def)
      from writesD(1) [OF TenantRepository_Create_writes create] tabs slug show ?thesis
        by (auto simp: tenant_inserted_def has_tenant_def t_live_def intro: exI [of _ "[t]"])
    qed
  qed
  then show "has_tenant (tabs w') (sdt_slug ts)" "\<exists>x. tabs w' = (tabs w)\<lparr>tenants := tenants w @ x\<rparr>" by blast+
qed

lemma seed_tenants_Inr:
  assumes "seed_tenants tss w = (Inr m, w')"
  shows "(\<forall>ts \<in> set tss. has_tenant (tabs w') (sdt_slug ts))
    \<and> (\<exists>x. tabs w' = (tabs w)\<lparr>tenants := tenants w @ x\<rparr>)"
  using assms
proof (induction tss arbitrary: w m)
  case Nil
  then show ?case by (auto intro: exI [of _ "[]"])
next
  case (Cons ts tss)
  then obtain t w1 m1 where one: "seed_tenant ts w = (Inr t, w1)" and rest: "seed_tenants tss w1 = (Inr m1, w')"
    by auto
  from seed_tenant_Inr [OF one] obtain x where x: "tabs w1 = (tabs w)\<lparr>tenants := tenants w @ x\<rparr>"
    and has: "has_tenant (tabs w1) (sdt_slug ts)" by blast
  from Cons.IH [OF rest] obtain y where y: "tabs w' = (tabs w1)\<lparr>tenants := tenants w1 @ y\<rparr>"
    and ih: "\<forall>ts \<in> set tss. has_tenant (tabs w') (sdt_slug ts)" by blast
  have "tenants w1 = tenants w @ x" by (rule tabs_updD(1) [OF x])
  with x y has ih show ?case by (auto simp: has_tenant_def intro: exI [of _ "x @ y"])
qed

lemma seed_user_Inr:
  assumes "seed_user lib tid us w = (Inr v, w')"
  shows "has_user (tabs w') (sdu_email us)" and "\<exists>x. tabs w' = (tabs w)\<lparr>users := users w @ x\<rparr>"
proof -
  have "has_user (tabs w') (sdu_email us) \<and> (\<exists>x. tabs w' = (tabs w)\<lparr>users := users w @ x\<rparr>)"
  proof (cases "UserRepository_GetByEmail (sdu_email us) w")
    case (Pair r w1)
    have tabs: "tabs w1 = tabs w" by (rule read_onlyD(1) [OF read_only_user_repo(2) Pair])
    show ?thesis
    proof (cases r)
      case (Inr u)
      with assms Pair tabs UserRepository_GetByEmail_Inr [of "sdu_email us" w u w1] show ?thesis
        by (auto simp: seed_user_def has_user_def intro: exI [of _ "[]"])
    next
      case (Inl err)
      with assms Pair obtain h w2 nu u' where hash: "HashPassword lib (sdu_password us) w1 = (Inr h, w2)"
        and create: "UserRepository_Create nu w2 = (Inr u', w')" and email: "u_Email nu = sdu_email us"
        by (auto simp: seed_user_def)
      have "tabs w2 = tabs w" using HashPassword_keeps [OF hash] tabs by simp
      with writesD(1) [OF UserRepository_Create_writes create] email
      obtain row where "tabs w' = (tabs w)\<lparr>users := users w @ [row]\<rparr>" "u_live row" "u_Email row = sdu_email us"
        by (auto simp: user_inserted_def)
      note row = this
      have "has_user (tabs w') (sdu_email us)" unfolding has_user_def row(1) using row(2,3) by simp
      with row(1) show ?thesis by blast
    qed
  qed
  then show "has_user (tabs w') (sdu_email us)" "\<exists>x. tabs w' = (tabs w)\<lparr>users := users w @ x\<rparr>" by blast+
qed

lemma seed_users_Inr:
  assumes "seed_users lib tid uss w = (Inr v, w')"
  shows "(\<forall>us \<in> set uss. has_user (tabs w') (sdu_email us)) \<and> (\<exists>x. tabs w' = (tabs w)\<lparr>users := users w @ x\<rparr>)"
  using assms
proof (induction uss arbitrary: w)
  case Nil
  then show ?case by (auto intro: exI [of _ "[]"])
next
  case (Cons us uss)
  then obtain x w1 where one: "seed_user lib tid us w = (Inr x, w1)" and rest: "seed_users lib tid uss w1 = (Inr v, w')"
    by auto
  from seed_user_Inr [OF one] obtain x where x: "tabs w1 = (tabs w)\<lparr>users := users w @ x\<rparr>"
    and has: "has_user (tabs w1) (sdu_email us)" by blast
  from Cons.IH [OF rest] obtain y where y: "tabs w' = (tabs w1)\<lparr>users := users w1 @ y\<rparr>"
    and ih: "\<forall>us \<in> set uss. has_user (tabs w') (sdu_email us)" by blast
  have "users w1 = users w @ x" by (rule tabs_updD(2) [OF x])
  with x y has ih show ?case by (auto simp: has_user_def intro: exI [of _ "x @ y"])
qed

definition seeded :: "tables \<Rightarrow> bool" where
  "seeded a \<longleftrightarrow> (\<forall>f \<in> set catalog. catalogued a f) \<and> (\<forall>ts \<in> set tenantSeeds. has_tenant a (sdt_slug ts))
     \<and> (\<forall>us \<in> set userSeeds. has_user a (sdu_email us))"

section \<open>A second run\<close>

definition undated :: "Feature \<Rightarrow> Feature" where
  "undated f = f\<lparr>f_UpdatedAt := 0\<rparr>"

lemma CreateFeature_again:
  assumes "script w = []" "catalogued (tabs w) f" "length (f_Key f) \<le> 100" "length (f_Name f) \<le> 255"
  obtains x fs where "EntitlementRepository_CreateFeature f w = (Inr x, w\<lparr>features := fs\<rparr>)"
    "map undated fs = map undated (features w)" "\<And>g. catalogued ((tabs w)\<lparr>features := fs\<rparr>) g = catalogued (tabs w) g"
proof -
  let ?fs = "map (renamed f (clock w)) (features w)"
  obtain r rs where row: "filter (\<lambda>r. f_Key r = f_Key f) (features w) = r # rs"
    using assms(2) by (cases "filter (\<lambda>r. f_Key r = f_Key f) (features w)")
      (auto simp: catalogued_def filter_empty_conv)
  have same: "f_Name q = f_Name f \<and> f_Description q = f_Description f" if "q \<in> set (features w)" "f_Key q = f_Key f" for q
    using assms(2) that by (auto simp: catalogued_def)
  have "undated (renamed f (clock w) q) = undated q" if "q \<in> set (features w)" for q
    using same [OF that] by (cases q) (auto simp: undated_def renamed_def)
  then have "map undated ?fs = map undated (features w)" by simp
  moreover have "catalogued ((tabs w)\<lparr>features := ?fs\<rparr>) g = catalogued (tabs w) g" for g
  proof -
    have "f_Key f \<in> f_Key ` set (features (tabs w))"
      using assms(2) unfolding catalogued_def by (metis image_eqI)
    from catalogued_renamed [OF this, of "clock w" g] same assms(2) show ?thesis
      by (auto simp: catalogued_def)
  qed
  moreover have "\<exists>x. EntitlementRepository_CreateFeature f w = (Inr x, w\<lparr>features := ?fs\<rparr>)"
    using assms(1,3,4) by (simp add: EntitlementRepository_CreateFeature_def row update_rows_renamed)
  ultimately show thesis using that by blast
qed

lemma seed_catalog_again:
  assumes "script w = []" "\<forall>f \<in> set fs. catalogued (tabs w) f \<and> length (f_Key f) \<le> 100 \<and> length (f_Name f) \<le> 255"
  shows "\<exists>x. seed_catalog fs w = (Inr (), w\<lparr>features := x\<rparr>) \<and> map undated x = map undated (features w)"
  using assms
proof (induction fs arbitrary: w)
  case Nil
  then show ?case by (auto intro: exI [of _ "features w"])
next
  case (Cons f fs)
  then obtain x y where one: "EntitlementRepository_CreateFeature f w = (Inr x, w\<lparr>features := y\<rparr>)"
    and y: "map undated y = map undated (features w)"
    and keep: "\<And>g. catalogued ((tabs w)\<lparr>features := y\<rparr>) g = catalogued (tabs w) g"
    by (metis CreateFeature_again list.set_intros(1))
  have "\<exists>z. seed_catalog fs (w\<lparr>features := y\<rparr>) = (Inr (), w\<lparr>features := y\<rparr>\<lparr>features := z\<rparr>)
      \<and> map undated z = map undated (features (w\<lparr>features := y\<rparr>))"
    using Cons.prems keep by (intro Cons.IH) auto
  with one y show ?case by auto
qed

lemma seed_tenants_again:
  assumes "script w = []" "\<forall>ts \<in> set tss. has_tenant (tabs w) (sdt_slug ts)"
  shows "\<exists>m. seed_tenants tss w = (Inr m, w) \<and> map fst m = map sdt_slug tss"
  using assms(2)
proof (induction tss)
  case (Cons ts tss)
  then obtain m where m: "seed_tenants tss w = (Inr m, w)" "map fst m = map sdt_slug tss" by auto
  have "filter (\<lambda>t. t_Slug t = sdt_slug ts \<and> t_live t) (tenants w) \<noteq> []"
    using Cons.prems by (auto simp: has_tenant_def filter_empty_conv)
  then obtain t rest where "filter (\<lambda>t. t_Slug t = sdt_slug ts \<and> t_live t) (tenants w) = t # rest"
    by (auto simp: neq_Nil_conv)
  then have "seed_tenant ts w = (Inr t, w)"
    by (simp add: seed_tenant_def TenantRepository_GetBySlug_def map_err_def assms(1) query_row_def)
  with m show ?case by auto
qed auto

lemma seed_users_again:
  assumes "script w = []" "\<forall>us \<in> set uss. has_user (tabs w) (sdu_email us)"
  shows "seed_users lib tid uss w = (Inr (), w)"
  using assms(2)
proof (induction uss)
  case (Cons us uss)
  have "filter (\<lambda>u. u_Email u = sdu_email us \<and> u_live u) (users w) \<noteq> []"
    using Cons.prems by (auto simp: has_user_def filter_empty_conv)
  then obtain u rest where "filter (\<lambda>u. u_Email u = sdu_email us \<and> u_live u) (users w) = u # rest"
    by (auto simp: neq_Nil_conv)
  then have "seed_user lib tid us w = (Inr (), w)"
    by (simp add: seed_user_def UserRepository_GetByEmail_def map_err_def assms(1) query_row_def)
  with Cons show ?case by simp
qed simp

text \<open>C40. A run of the seed that ends well leaves the whole catalog, a live tenant for every slug and a live
  user for every address; another run, with the database at hand, ends well too and changes nothing
  but the update times of the catalog.
\<close>

theorem seed_idempotent:
  assumes "seed_main lib w = (Inr (), w')"
  shows "seeded (tabs w')
    \<and> (script w' = [] \<longrightarrow> (\<exists>fs. seed_main lib w' = (Inr (), w'\<lparr>features := fs\<rparr>)
         \<and> map undated fs = map undated (features w')))"
proof -
  from assms obtain w1 w2 m t where run: "seed_catalog catalog w = (Inr (), w1)"
    "seed_tenants tenantSeeds w1 = (Inr m, w2)" "seed_users lib t userSeeds w2 = (Inr (), w')"
    by (auto simp: seed_main_def split: option.splits)
  have "distinct (map f_Key catalog)" by code_simp
  note cat = seed_catalog_Inr [OF run(1) this] and ten = seed_tenants_Inr [OF run(2)]
    and use = seed_users_Inr [OF run(3)]
  from ten use obtain x y where x: "tabs w2 = (tabs w1)\<lparr>tenants := tenants w1 @ x\<rparr>"
    and y: "tabs w' = (tabs w2)\<lparr>users := users w2 @ y\<rparr>" by blast
  have "catalogued (tabs w') f" if "f \<in> set catalog" for f
    using cat that unfolding y x by (simp add: catalogued_def)
  moreover have "has_tenant (tabs w') (sdt_slug ts)" if "ts \<in> set tenantSeeds" for ts
    using ten that unfolding y by (simp add: has_tenant_def)
  ultimately have seeded: "seeded (tabs w')" using use by (simp add: seeded_def)
  moreover have "\<exists>fs. seed_main lib w' = (Inr (), w'\<lparr>features := fs\<rparr>)
      \<and> map undated fs = map undated (features w')" if quiet: "script w' = []"
  proof -
    have "\<forall>f \<in> set catalog. length (f_Key f) \<le> 100 \<and> length (f_Name f) \<le> 255" by code_simp
    with seeded have "\<forall>f \<in> set catalog. catalogued (tabs w') f \<and> length (f_Key f) \<le> 100 \<and> length (f_Name f) \<le> 255"
      by (simp add: seeded_def)
    from seed_catalog_again [OF quiet this] obtain fs where
      fs: "seed_catalog catalog w' = (Inr (), w'\<lparr>features := fs\<rparr>)" "map undated fs = map undated (features w')"
      by blast
    have "\<forall>ts \<in> set tenantSeeds. has_tenant (tabs (w'\<lparr>features := fs\<rparr>)) (sdt_slug ts)"
      using seeded by (simp add: seeded_def has_tenant_def)
    with seed_tenants_again [of "w'\<lparr>features := fs\<rparr>"] quiet obtain m' where
      m: "seed_tenants tenantSeeds (w'\<lparr>features := fs\<rparr>) = (Inr m', w'\<lparr>features := fs\<rparr>)"
        "map fst m' = map sdt_slug tenantSeeds" by auto
    have "''proline-systems'' \<in> set (map fst m')" unfolding m(2) by code_simp
    then obtain p where p: "map_of m' ''proline-systems'' = Some p" by (metis map_of_eq_None_iff not_None_eq set_map)
    have "\<forall>us \<in> set userSeeds. has_user (tabs (w'\<lparr>features := fs\<rparr>)) (sdu_email us)"
      using seeded by (simp add: seeded_def has_user_def)
    with seed_users_again [of "w'\<lparr>features := fs\<rparr>"] quiet
    have "seed_users lib (t_ID p) userSeeds (w'\<lparr>features := fs\<rparr>) = (Inr (), w'\<lparr>features := fs\<rparr>)" by simp
    with fs m(1) p have "seed_main lib w' = (Inr (), w'\<lparr>features := fs\<rparr>)"
      by (simp add: seed_main_def bind_op_def)
    with fs(2) show ?thesis by blast
  qed
  ultimately show ?thesis by blast
qed

lemma sample_seed_runs:
  "fst (seed_main sample_bcrypt sample_world) = Inr ()"
  "script (snd (seed_main sample_bcrypt sample_world)) = []"
  by code_simp+

theorem seed_idempotent_witness:
  "\<exists>w' fs. seed_main sample_bcrypt sample_world = (Inr (), w') \<and> seeded (tabs w')
     \<and> seed_main sample_bcrypt w' = (Inr (), w'\<lparr>features := fs\<rparr>)"
proof -
  obtain w' where run: "seed_main sample_bcrypt sample_world = (Inr (), w')" "script w' = []"
    using sample_seed_runs by (cases "seed_main sample_bcrypt sample_world") auto
  from seed_idempotent [OF run(1)] run show ?thesis by blast
qed

text \<open>
  The promise to be safe to run again ends with the deletion of a seeded tenant: it no longer counts
  as existing, but its slug is still taken.
\<close>

theorem seed_after_delete_fails:
  assumes "script w = []" "t \<in> set (tenants w)" "t_Slug t = sdt_slug ts" "\<not> has_tenant (tabs w) (sdt_slug ts)"
    and "length (sdt_name ts) \<le> 255" "length (sdt_slug ts) \<le> 255" "Plan_Valid (sdt_plan ts)"
    and "length (sdt_plan ts) \<le> 50"
  shows "seed_tenant ts w = (Inl (Errorf (''seed: failed to create tenant '' @ sdt_slug ts)
    (Sentinel repository_ErrConflict)), w)"
proof -
  have "filter (\<lambda>t. t_Slug t = sdt_slug ts \<and> t_live t) (tenants w) = []"
    using assms(4) by (auto simp: has_tenant_def filter_empty_conv)
  moreover have "sdt_slug ts \<in> t_Slug ` set (tenants w)" using assms(2,3) by force
  ultimately show ?thesis
    using assms(1,5-) by (simp add: seed_tenant_def TenantRepository_GetBySlug_def TenantRepository_Create_def
        insert_tenant_def map_err_def query_row_def Let_def isUniqueViolation_def unique_error_def)
qed

end
