(* ===== verification/Spec2Isabelle.thy ===== *)
theory Spec2Isabelle
  imports AccessProperties SessionProperties RecordProperties GraphTypes Transports Lambda Seed
begin

text \<open>
  BridgeCore is a multi-tenant API gateway and control plane in Go: tenants sign up, their users
  and API keys call a REST and a GraphQL API, the calls are authenticated, rate limited and metered,
  usage is exported by a queue of jobs, and a platform operator manages all tenants with a separate
  token. This development models the program as it is written and proves what makes it correct.

  The theories, bottom up, and the code they follow (paths under \<^verbatim>\<open>src/\<close>):

  \<^item> \<open>Prelude\<close>: strings of bytes and the functions of Go's \<^verbatim>\<open>strings\<close> and \<^verbatim>\<open>strconv\<close> the program
    calls, 64-bit wrap-around, and the collections of rules. Times and durations are nanoseconds.
  \<^item> \<open>Apierr\<close>, \<open>Models\<close>, \<open>Tenancy\<close>: \<^verbatim>\<open>pkg/apierr\<close>, \<^verbatim>\<open>internal/models\<close>, \<^verbatim>\<open>internal/tenancy\<close>. A fallible
    call is an operation: from a state to an error or a value, and a state. The errors are values
    that can be wrapped, and \<open>errors_Is\<close> and \<open>errors_As_Error\<close> follow the chain as Go does.
  \<^item> \<open>Database\<close>: the tables, Redis, the clock and the log as one record, and the SQL primitives. The
    environment's script decides of every call whether it fails, and how much time it takes.
  \<^item> \<open>Tenant_Repository\<close>, \<open>User_Repository\<close>, \<open>Token_Repository\<close>, \<open>Entitlement_Repository\<close>,
    \<open>Activity_Repository\<close>, \<open>Export_Repository\<close>: one operation for each method of
    \<^verbatim>\<open>internal/repository\<close>, with the constraints of the schema.
  \<^item> \<open>Crypto\<close>, \<open>Utils\<close>: SHA-256, HMAC and the encodings (standard library), \<^verbatim>\<open>pkg/utils\<close> and
    \<^verbatim>\<open>pkg/jwt\<close>.
  \<^item> \<open>AuthService\<close>, \<open>TenantService\<close>, \<open>UserService\<close>, \<open>APIKeyService\<close>, \<open>EntitlementService\<close>,
    \<open>ExportService\<close>, \<open>ActivityService\<close>: \<^verbatim>\<open>internal/service\<close>. Where a service takes an interface, the
    model takes a record of operations; a locale states what its proofs need of the provider, and
    an interpretation proves it of the repository.
  \<^item> \<open>Http\<close>, \<open>Middleware\<close>, \<open>Handlers\<close>, \<open>ResourceHandlers\<close>, \<open>Routes\<close>: \<^verbatim>\<open>pkg/response\<close>,
    \<^verbatim>\<open>internal/middleware\<close>, \<^verbatim>\<open>internal/handler\<close> and \<^verbatim>\<open>cmd/api/routes.go\<close>. A handler takes a request,
    what has been written and the world, and gives a panic or none, what is written then, and the
    world. A JSON body is given as its decoded fields, or as a syntax error.
  \<^item> \<open>Isolation\<close>, \<open>RouteIsolation\<close>, \<open>HandlerIsolation\<close>, \<open>ChainIsolation\<close>: an operation is confined to
    a tenant when it leaves what belongs to the others as it was. The rules follow the structure
    of operations, then of the services and handlers, then of the middleware chain.
  \<^item> \<open>ExportQueue\<close>: the life of the export jobs as a step relation, and its invariant.
  \<^item> \<open>Complexity\<close>, \<open>QueryCost\<close>: the scanner of \<^verbatim>\<open>graph/complexity.go\<close>, which bounds a document before
    it is parsed, and the cost of a selection tree that it computes.
  \<^item> \<open>GraphModel\<close>, \<open>Dataloader\<close>, \<open>Resolver\<close>, \<open>GraphqlHandler\<close>: \<^verbatim>\<open>graph/model\<close>, \<^verbatim>\<open>graph/dataloader.go\<close>,
    \<^verbatim>\<open>graph/resolver.go\<close> with \<^verbatim>\<open>graph/directives.go\<close>, and \<^verbatim>\<open>graph/handler.go\<close>. A resolver is an operation
    on the world and the loader of its request. \<open>GraphqlIsolation\<close> carries the rules of isolation over
    to resolvers, and to an executor that does nothing but call them.
  \<^item> \<open>GraphSchema\<close>, \<open>GraphTypes\<close>: the types of \<^verbatim>\<open>graph/schema.go\<close> and \<^verbatim>\<open>NewSchema\<close>, the values of the
    views, and the typing of every resolver.
  \<^item> \<open>Transports\<close>: the changes both APIs offer, and that they come to the same.
  \<^item> \<open>Config\<close>, \<open>ConfigProperties\<close>: \<^verbatim>\<open>internal/config\<close>, from the process environment as a map.
  \<^item> \<open>Awssig\<close>, \<open>AwssigProperties\<close>: \<^verbatim>\<open>pkg/awssig\<close>, on the SHA-256 of \<open>Crypto\<close>, against a verifier that
    follows the published rules of Signature Version 4.
  \<^item> \<open>Cloud\<close>, \<open>CloudProperties\<close>: \<^verbatim>\<open>internal/cloud\<close>. A state counts the requests that are sent; the
    answers are the environment's.
  \<^item> \<open>Migrate\<close>: \<^verbatim>\<open>internal/database/migrate.go\<close> over any schema and any effect of the SQL files.
  \<^item> \<open>Logger\<close>, \<open>Startup\<close>, \<open>Lambda\<close>, \<open>Seed\<close>: \<^verbatim>\<open>internal/logger\<close>, \<^verbatim>\<open>cmd/api/main.go\<close> and
    \<^verbatim>\<open>bootstrap.go\<close>, \<^verbatim>\<open>cmd/worker\<close> with the connections of \<^verbatim>\<open>internal/database/database.go\<close>,
    \<^verbatim>\<open>cmd/lambda-export\<close> and \<^verbatim>\<open>cmd/seed\<close>.
  \<^item> \<open>Sample\<close>: a small world, and instances of the libraries, on which the theorems are applied.
  \<^item> \<open>AccessProperties\<close>, \<open>SessionProperties\<close>, \<open>RecordProperties\<close>, \<open>GraphqlProperties\<close> and this theory: the
    properties of the two APIs. Who may do what and in which tenant; accounts, sessions, tokens and
    keys; exports, usage, limits and responses; GraphQL; and what spans components. The properties of
    the components around them stand in the theories named above.

  Parameters. bcrypt, the JWT library, the object store, the notifier and the worker (package
  \<^verbatim>\<open>internal/exports\<close> is not in the repository) are records of functions; \<open>jwt_library\<close> states the
  documented behaviour of the JWT library that token theorems rest on, and \<open>sample_jwt\<close> is an
  instance of it. The executor of the library graphql-go is a function from a request to a program of
  resolver calls, so that theorems hold whatever it calls, in whatever order. PostgreSQL's reading
  and generation of identifiers are components of the world; the network, \<^verbatim>\<open>url.Parse\<close> and the
  effect of a migration's SQL are functions.

  Bounds. Integers are mathematical except where the code's width shows: the offset of a page is
  wrapped to 64 bits, and SHA-256 computes on 32-bit words. The loops of the scanner and of the
  retries are recursions that end; the Lambda loop, which does not, is taken after any number of
  rounds. No definition runs on fuel.

  Not modelled: HTTP parsing and header limits, log output beyond messages and fields, the behaviour
  of connection pools and timeouts, signals and the drain at shutdown, which belong to net/http and to the
  worker; and package \<^verbatim>\<open>internal/exports\<close>, whose source is absent.
  The transaction isolation of PostgreSQL is that of single statements; requests that overlap are
  modelled by interleaving the statements where a theorem says so.
\<close>

section \<open>Slugs\<close>

text \<open>What a valid slug is, without the pattern: no hyphen at either end, and none twice.\<close>

definition good_slug :: "string \<Rightarrow> bool" where
  "good_slug s \<longleftrightarrow> 3 \<le> length s \<and> length s \<le> 63 \<and> list_all (\<lambda>c. slug_char c \<or> c = CHR ''-'') s
     \<and> hd s \<noteq> CHR ''-'' \<and> last s \<noteq> CHR ''-'' \<and> (\<forall>a b. s \<noteq> a @ ''--'' @ b)"

lemma slug_runs:
  assumes "list_all (list_all slug_char) (Split CHR ''-'' s)" "list_all (\<lambda>r. r \<noteq> []) (tl (Split CHR ''-'' s))"
  shows "list_all (\<lambda>c. slug_char c \<or> c = CHR ''-'') s \<and> (s \<noteq> [] \<longrightarrow> last s \<noteq> CHR ''-'')
    \<and> (\<forall>a b. s \<noteq> a @ ''--'' @ b)"
  using assms
proof (induction s)
  case (Cons c s)
  obtain r rs where s: "Split CHR ''-'' s = r # rs"
    by (cases "Split CHR ''-'' s") auto
  have ih: "list_all (\<lambda>c. slug_char c \<or> c = CHR ''-'') s \<and> (s \<noteq> [] \<longrightarrow> last s \<noteq> CHR ''-'')
    \<and> (\<forall>a b. s \<noteq> a @ ''--'' @ b)"
    using Cons s by (intro Cons.IH) (auto split: if_splits)
  have hd: "s \<noteq> [] \<and> hd s \<noteq> CHR ''-''" if "c = CHR ''-''"
    using Cons.prems(2) that s by (cases s) (auto split: if_splits)
  have "\<forall>a b. c # s \<noteq> a @ ''--'' @ b"
  proof (intro allI notI)
    fix a b
    assume "c # s = a @ ''--'' @ b"
    then show False using ih hd by (cases a) auto
  qed
  moreover have "slug_char c \<or> c = CHR ''-''" using Cons.prems(1) s by (auto split: if_splits)
  ultimately show ?case using ih hd by auto
qed simp

lemma validateSlug_good:
  assumes "validateSlug s = None"
  shows "good_slug s"
proof -
  from assms have m: "slugPattern_match s" and n: "3 \<le> length s" "length s \<le> 63"
    by (auto simp: validateSlug_def minSlugLength_def maxSlugLength_def split: if_splits)
  obtain r rs where runs: "Split CHR ''-'' s = r # rs" by (cases "Split CHR ''-'' s") auto
  with m have all: "list_all (list_all slug_char) (Split CHR ''-'' s)"
    "list_all (\<lambda>r. r \<noteq> []) (Split CHR ''-'' s)"
    by (auto simp: slugPattern_match_def list_all_iff)
  then have "list_all (\<lambda>r. r \<noteq> []) (tl (Split CHR ''-'' s))" using runs by simp
  note R = slug_runs [OF all(1) this]
  from n obtain c cs where s: "s = c # cs" by (cases s) auto
  with all(2) have "hd s \<noteq> CHR ''-''" by auto
  with R n s show ?thesis by (simp add: good_slug_def)
qed

text \<open>C24. Every tenant the platform operator creates has a good slug, a name that is neither empty nor
  too long, a known plan, and is active; a request that breaks one of these rules creates nothing.
\<close>

theorem created_tenant_good:
  assumes "TenantService_Create tenant_repo inp w = (r, w')"
  shows "case r of
      Inl e \<Rightarrow> tenants w' = tenants w
    | Inr t \<Rightarrow> good_slug (t_Slug t) \<and> t_Name t \<noteq> '''' \<and> length (t_Name t) \<le> 255
        \<and> Plan_Valid (t_Plan t) \<and> t_IsActive t \<and> tenants w' = tenants w @ [t]
        \<and> t_Slug t \<notin> set (map t_Slug (tenants w))"
proof (cases r)
  case (Inl e)
  with assms show ?thesis
    by (auto simp: TenantService_Create_def Let_def split: if_splits
        dest: writes_fail_keeps [OF TenantRepository_Create_writes])
next
  case (Inr t)
  from assms [unfolded Inr] obtain nt where
    c: "TenantRepository_Create nt w = (Inr t, w')"
    and v: "validateSlug (t_Slug nt) = None" "validateTenantName (t_Name nt) = None"
      "Plan_Valid (t_Plan nt)" "t_IsActive nt"
    by (auto simp: TenantService_Create_def Let_def split: if_splits)
  from writesD(1) [OF TenantRepository_Create_writes c]
  have ins: "tenant_inserted nt (tabs w) t (tabs w')" by simp
  then have "tenants w' = tenants w @ [t]" by (auto simp: tenant_inserted_def dest: tabs_updD(1))
  with ins v validateSlug_good [OF v(1)] show ?thesis
    unfolding Inr
    by (auto simp: tenant_inserted_def validateTenantName_def maxTenantNameLength_def split: if_splits)
qed

theorem created_tenant_good_witness:
  "good_slug ''new-co'' \<and> (\<exists>t w'. TenantService_Create tenant_repo
     \<lparr>ct_Name = ''New'', ct_Slug = '' New-Co '', ct_Plan = ''''\<rparr> sample_world = (Inr t, w')
       \<and> tenants w' = tenants sample_world @ [t])"
proof -
  let ?inp = "\<lparr>ct_Name = ''New'', ct_Slug = '' New-Co '', ct_Plan = ''''\<rparr>"
  have "case fst (TenantService_Create tenant_repo ?inp sample_world) of
      Inl e \<Rightarrow> False | Inr t \<Rightarrow> t_Slug t = ''new-co''" by code_simp
  then obtain t w' where run: "TenantService_Create tenant_repo ?inp sample_world = (Inr t, w')"
    and slug: "t_Slug t = ''new-co''"
    by (cases "TenantService_Create tenant_repo ?inp sample_world";
        cases "fst (TenantService_Create tenant_repo ?inp sample_world)") auto
  from created_tenant_good [OF run] run slug show ?thesis by auto
qed

text \<open>
  A signup is held to less: the slug made from the name is only required not to be empty, so
  that a name of hyphens gives a slug the operator's own validation refuses.
\<close>

theorem signup_slug_unchecked:
  "slugify '' - '' = ''-'' \<and> validateSlug (slugify '' - '') \<noteq> None
    \<and> slugify ''a  b'' = ''a--b'' \<and> validateSlug (slugify ''a  b'') \<noteq> None"
  by code_simp

section \<open>The whole server\<close>

definition anonymous :: "deps \<Rightarrow> Request \<Rightarrow> bool" where
  "anonymous d r \<longleftrightarrow> r_Header r ''X-API-Key'' = ''''
     \<and> \<not> HasPrefix (r_Header r ''Authorization'') ''Bearer ''
     \<and> (d_platformToken d = '''' \<or> r_Header r ''X-Platform-Token'' \<noteq> d_platformToken d)"

lemma anonymous_ctx [simp]:
  "anonymous d (r\<lparr>r_PathValue := v\<rparr>) = anonymous d r" "anonymous d (WithRequestID r i) = anonymous d r"
  "r_Path (WithRequestID r i) = r_Path r"
  by (simp_all add: anonymous_def WithRequestID_def)

lemma anonymous_route:
  assumes "anonymous d r" "ro \<in> set (registerRoutes d)" "ro \<notin> set (public_routes d)"
    and "ro_Handler ro r rw w = (p, rw', w')"
  shows "p = None \<and> audit_grown (tabs w) (tabs w')"
  using assms(2)
proof (cases rule: registerRoutes_cases)
  case (tenant inner)
  with assms(1,4) show ?thesis
    by (auto simp: authenticated_def Auth_def Auth_resolve_def resolve_bearer_def anonymous_def)
next
  case (platform inner)
  with assms(1,4) AuditService_Record_grown(1) show ?thesis
    by (auto simp: platform_def RequirePlatformToken_def anonymous_def)
qed (use assms(3) in simp)

lemma anonymous_mux:
  assumes "anonymous d r" "\<forall>ro \<in> set (public_routes d). \<not> pattern_match ro (r_Path r)"
    and "ServeMux (registerRoutes d) r rw w = (p, rw', w')"
  shows "p = None \<and> audit_grown (tabs w) (tabs w')"
proof (cases "find_route (registerRoutes d) (r_Method r) (r_Path r)")
  case None
  with assms(3) show ?thesis by (auto simp: ServeMux_def split: if_splits)
next
  case (Some ro)
  then have ro: "ro \<in> set (registerRoutes d)" by (rule find_route_mem)
  from Some have "pattern_match ro (r_Path r)" by (auto simp: find_route_def dest!: find_Some_mem)
  with assms(2) have "ro \<notin> set (public_routes d)" by blast
  have "anonymous d (r\<lparr>r_PathValue := v\<rparr>)" for v using assms(1) by simp
  from anonymous_route [OF this ro \<open>ro \<notin> _\<close>] assms(3) Some show ?thesis
    by (simp add: ServeMux_def)
qed

text \<open>C4. Without a credential only the public routes do anything: a request to the server with no API
  key, no bearer token and no valid platform token, for a path of none of the public routes, never
  reaches a handler. It is answered without a panic, and no row of any table changes; at most the
  audit log grows.
\<close>

theorem anonymous_changes_nothing:
  assumes "anonymous d r" and "\<forall>ro \<in> set (public_routes d). \<not> pattern_match ro (r_Path r)"
    and "server d r rw w = (p, rw', w')"
  shows "p = None \<and> audit_grown (tabs w) (tabs w')"
proof -
  have mux: "q = None \<and> audit_grown (tabs v) (tabs v')"
    if "ServeMux (registerRoutes d) (WithRequestID r i) rv v = (q, rv', v')" for i rv v q rv' v'
    by (rule anonymous_mux [OF _ _ that]) (use assms(1,2) in simp_all)
  have log: "q = None \<and> audit_grown (tabs v) (tabs v')"
    if "Logging (ServeMux (registerRoutes d)) (WithRequestID r i) rv v = (q, rv', v')" for i rv v q rv' v'
    using that by (auto simp: Logging_def split: prod.splits option.splits dest: mux)
  have cors: "q = None \<and> audit_grown (tabs v) (tabs v')"
    if "CORS (d_cors d) (Logging (ServeMux (registerRoutes d))) (WithRequestID r i) rv v = (q, rv', v')"
    for i rv v q rv' v'
    using that by (auto simp: CORS_def Let_def split: if_splits dest: log)
  have rec: "q = None \<and> audit_grown (tabs v) (tabs v')"
    if "Recovery (SecurityHeaders (CORS (d_cors d) (Logging (ServeMux (registerRoutes d)))))
      (WithRequestID r i) rv v = (q, rv', v')" for i rv v q rv' v'
    using that by (auto simp: Recovery_def SecurityHeaders_def split: prod.splits option.splits
        dest: cors)
  from assms(3) show ?thesis
    by (auto simp: server_def globalChain_def RequestID_def Let_def split: if_splits dest!: rec)
qed

theorem anonymous_changes_nothing_witness:
  "audit_grown (tabs sample_world) (tabs (snd (snd (server sample_deps
     (sample_request ''GET'' ''/api/v1/users'' []) sample_rw sample_world))))"
proof -
  let ?r = "sample_request ''GET'' ''/api/v1/users'' []"
  obtain p rw' w' where run: "server sample_deps ?r sample_rw sample_world = (p, rw', w')"
    by (cases "server sample_deps ?r sample_rw sample_world")
  have "anonymous sample_deps ?r" by (simp add: anonymous_def sample_request_def sample_deps_def)
  moreover have "\<forall>ro \<in> set (public_routes sample_deps). \<not> pattern_match ro (r_Path ?r)"
    by (simp add: public_routes_def Let_def pattern_match_def route_of_def sample_request_def
        exportDownloadPath_def)
  ultimately show ?thesis using anonymous_changes_nothing [OF _ _ run] run by simp
qed

end
